(* ===== verification/Nexa_Prelude.thy ===== *)
theory Nexa_Prelude
  imports Main "HOL-Library.Word" "HOL-Library.AList" "HOL-Library.Sublist"
begin

text \<open>
  Shared ground of the development: machine integers at their Rust widths, the error type of
  the crate (\<open>NexaError\<close>, known here through the variants that the sources construct or
  match), results as sums, hash maps as association lists with unique keys, checked slices,
  big-endian integers, and the lemma collections the component theories extend.
\<close>

section \<open>Lemma collections\<close>

named_theorems hm_simps \<open>look-up equations of the hash map operations\<close>
named_theorems wf_intros \<open>preservation of the well-formedness predicates\<close>

section \<open>Machine integers\<close>

type_synonym u8 = "8 word"
type_synonym u16 = "16 word"
type_synonym u32 = "32 word"
type_synonym u64 = "64 word"
type_synonym u128 = "128 word"

text \<open>\<open>u16::from_be_bytes\<close>, \<open>u16::to_be_bytes\<close> and \<open>u32::to_be_bytes\<close>.\<close>

definition u16_from_be :: "u8 \<Rightarrow> u8 \<Rightarrow> u16" where
  "u16_from_be a b = word_of_nat (unat a * 256 + unat b)"

definition u16_to_be :: "u16 \<Rightarrow> u8 list" where
  "u16_to_be w = [word_of_nat (unat w div 256), word_of_nat (unat w mod 256)]"

definition u32_to_be :: "u32 \<Rightarrow> u8 list" where
  "u32_to_be w =
     [word_of_nat (unat w div 16777216), word_of_nat (unat w div 65536 mod 256),
      word_of_nat (unat w div 256 mod 256), word_of_nat (unat w mod 256)]"

lemma length_u16_to_be [simp]: "length (u16_to_be w) = 2"
  by (simp add: u16_to_be_def)

lemma length_u32_to_be [simp]: "length (u32_to_be w) = 4"
  by (simp add: u32_to_be_def)

lemma unat_byte [simp]: "n < 256 \<Longrightarrow> unat (word_of_nat n :: u8) = n"
  by (simp add: unat_of_nat)

lemma unat_u16_lt: "unat (w :: u16) < 65536"
  using unsigned_less [of w] by simp

lemma unat_u8_lt: "unat (w :: u8) < 256"
  using unsigned_less [of w] by simp

lemma u16_be_roundtrip: "u16_to_be w = [a, b] \<Longrightarrow> u16_from_be a b = w"
proof -
  assume "u16_to_be w = [a, b]"
  then have "unat a = unat w div 256" and "unat b = unat w mod 256"
    using unat_u16_lt [of w] by (auto simp: u16_to_be_def)
  then show ?thesis by (simp add: u16_from_be_def)
qed

lemma u16_to_be_cases: obtains a b where "u16_to_be w = [a, b]"
  by (simp add: u16_to_be_def)

section \<open>Results and errors\<close>

text \<open>
  The variants of \<open>nexa_core::error::NexaError\<close> that the sources build or match, each with
  its message. \<open>NexaOther\<close> stands for any further variant of the enum: the sources never
  construct one, but an external component may return it.
\<close>

datatype nexa_error =
    Runtime string
  | InvalidSpec string
  | ProjectNotFound string
  | ProjectNotEmpty string
  | DeploymentNotFound string
  | PodNotFound string
  | NodeNotFound string
  | RouteAlreadyExists string
  | Network string
  | Secret string
  | Proxy string
  | Certificate_err string
  | ImagePull string
  | Serialization string
  | NexaOther string

type_synonym 'a res = "nexa_error + 'a"

abbreviation Ok :: "'a \<Rightarrow> 'e + 'a" where
  "Ok x \<equiv> Inr x"

abbreviation Err :: "'e \<Rightarrow> 'e + 'a" where
  "Err e \<equiv> Inl e"

text \<open>The \<open>?\<close> operator, and \<open>map_err\<close>, on results.\<close>

definition res_bind :: "'e + 'a \<Rightarrow> ('a \<Rightarrow> 'e + 'b) \<Rightarrow> 'e + 'b" where
  "res_bind r f = (case r of Inl e \<Rightarrow> Inl e | Inr x \<Rightarrow> f x)"

definition map_err :: "('e \<Rightarrow> 'f) \<Rightarrow> 'e + 'a \<Rightarrow> 'f + 'a" where
  "map_err f r = (case r of Inl e \<Rightarrow> Inl (f e) | Inr x \<Rightarrow> Inr x)"

definition is_ok :: "'e + 'a \<Rightarrow> bool" where
  "is_ok r = (case r of Inl _ \<Rightarrow> False | Inr _ \<Rightarrow> True)"

definition ok_or :: "'e \<Rightarrow> 'a option \<Rightarrow> 'e + 'a" where
  "ok_or e x = (case x of None \<Rightarrow> Inl e | Some v \<Rightarrow> Inr v)"

lemma res_bind_simps [simp]:
  "res_bind (Inl e) f = Inl e"
  "res_bind (Inr x) f = f x"
  by (simp_all add: res_bind_def)

lemma map_err_simps [simp]:
  "map_err g (Inl e) = Inl (g e)"
  "map_err g (Inr x) = Inr x"
  by (simp_all add: map_err_def)

lemma is_ok_simps [simp]: "\<not> is_ok (Inl e)" "is_ok (Inr x)"
  by (simp_all add: is_ok_def)

lemma ok_or_simps [simp]: "ok_or e None = Inl e" "ok_or e (Some v) = Inr v"
  by (simp_all add: ok_or_def)

lemma res_bind_eq_Inr:
  "res_bind r f = Inr y \<longleftrightarrow> (\<exists>x. r = Inr x \<and> f x = Inr y)"
  by (cases r) auto

lemma is_ok_iff: "is_ok r \<longleftrightarrow> (\<exists>x. r = Inr x)"
  by (cases r) auto

text \<open>\<open>iter().map(f).collect::<Result<Vec<_>>>()\<close>: the first error wins.\<close>

fun collect_res :: "('e + 'a) list \<Rightarrow> 'e + 'a list" where
  "collect_res [] = Inr []"
| "collect_res (r # rs) =
     (case r of Inl e \<Rightarrow> Inl e
      | Inr x \<Rightarrow> (case collect_res rs of Inl e \<Rightarrow> Inl e | Inr xs \<Rightarrow> Inr (x # xs)))"

lemma collect_res_Inr: "collect_res (map (\<lambda>x. Inr (f x)) xs) = Inr (map f xs)"
  by (induction xs) auto

lemma collect_res_list_all2:
  "collect_res (map f xs) = Inr ys \<longleftrightarrow> list_all2 (\<lambda>x y. f x = Inr y) xs ys"
proof (induction xs arbitrary: ys)
  case (Cons x xs)
  show ?case
    by (cases "f x"; cases "collect_res (map f xs)")
       (auto simp: list_all2_Cons1 Cons.IH [symmetric])
qed auto

lemma list_all2_map_eq:
  "list_all2 P xs ys \<Longrightarrow> (\<And>x y. x \<in> set xs \<Longrightarrow> P x y \<Longrightarrow> f x = g y) \<Longrightarrow> map g ys = map f xs"
  by (induction rule: list_all2_induct) auto

lemma list_all2_set2: "list_all2 P xs ys \<Longrightarrow> y \<in> set ys \<Longrightarrow> \<exists>x\<in>set xs. P x y"
  by (induction rule: list_all2_induct) auto

lemma find_append:
  "find P (xs @ ys) = (case find P xs of None \<Rightarrow> find P ys | Some x \<Rightarrow> Some x)"
  by (induction xs) auto

text \<open>\<open>unwrap_or_default\<close> on vectors and strings.\<close>

definition or_default :: "'a list option \<Rightarrow> 'a list" where
  "or_default x = (case x of None \<Rightarrow> [] | Some v \<Rightarrow> v)"

lemma or_default_simps [simp]: "or_default None = []" "or_default (Some v) = v"
  by (simp_all add: or_default_def)

section \<open>Hash maps\<close>

text \<open>
  A \<open>HashMap\<close> is an association list with unique keys. Its iteration order is not
  specified by the language; the model keeps insertion order, and the properties about
  iterated maps are stated on the set of entries.
\<close>

type_synonym ('k, 'v) hashmap = "('k \<times> 'v) list"

definition hm_get :: "('k, 'v) hashmap \<Rightarrow> 'k \<Rightarrow> 'v option" where
  "hm_get m k = map_of m k"

definition hm_insert :: "'k \<Rightarrow> 'v \<Rightarrow> ('k, 'v) hashmap \<Rightarrow> ('k, 'v) hashmap" where
  "hm_insert k v m = AList.update k v m"

definition hm_remove :: "'k \<Rightarrow> ('k, 'v) hashmap \<Rightarrow> ('k, 'v) hashmap" where
  "hm_remove k m = AList.delete k m"

definition hm_values :: "('k, 'v) hashmap \<Rightarrow> 'v list" where
  "hm_values m = map snd m"

definition hm_wf :: "('k, 'v) hashmap \<Rightarrow> bool" where
  "hm_wf m \<longleftrightarrow> distinct (map fst m)"

lemma hm_get_Nil [simp]: "hm_get [] k = None"
  by (simp add: hm_get_def)

lemma hm_get_insert [simp, hm_simps]:
  "hm_get (hm_insert k v m) k' = (if k' = k then Some v else hm_get m k')"
  by (simp add: hm_get_def hm_insert_def update_conv')

lemma hm_get_remove [simp, hm_simps]:
  "hm_get (hm_remove k m) k' = (if k' = k then None else hm_get m k')"
  by (simp add: hm_get_def hm_remove_def delete_conv')

lemma hm_wf_Nil [simp, wf_intros]: "hm_wf []"
  by (simp add: hm_wf_def)

lemma hm_wf_insert [simp, wf_intros]: "hm_wf m \<Longrightarrow> hm_wf (hm_insert k v m)"
  by (simp add: hm_wf_def hm_insert_def distinct_update)

lemma hm_wf_remove [simp, wf_intros]: "hm_wf m \<Longrightarrow> hm_wf (hm_remove k m)"
  by (simp add: hm_wf_def hm_remove_def distinct_delete)

lemma hm_get_set: "hm_wf m \<Longrightarrow> hm_get m k = Some v \<longleftrightarrow> (k, v) \<in> set m"
  by (simp add: hm_get_def hm_wf_def)

lemma set_hm_values: "hm_wf m \<Longrightarrow> v \<in> set (hm_values m) \<longleftrightarrow> (\<exists>k. hm_get m k = Some v)"
  by (force simp: hm_values_def hm_get_set)

lemma set_hm_insert:
  "hm_wf m \<Longrightarrow> set (hm_insert k v m) = insert (k, v) {e \<in> set m. fst e \<noteq> k}"
proof -
  assume wf: "hm_wf m"
  have "e \<in> set (hm_insert k v m) \<longleftrightarrow> e \<in> insert (k, v) {e \<in> set m. fst e \<noteq> k}" for e
  proof (cases e)
    case (Pair a b)
    then show ?thesis
      using wf hm_get_set [of "hm_insert k v m" a b] hm_get_set [of m a b]
      by (auto split: if_splits)
  qed
  then show ?thesis by blast
qed

lemma set_hm_remove: "set (hm_remove k m) = {e \<in> set m. fst e \<noteq> k}"
  by (auto simp: hm_remove_def AList.delete_eq)

lemma hm_remove_Nil_iff: "hm_remove k m = [] \<longleftrightarrow> (\<forall>e\<in>set m. fst e = k)"
  by (auto simp: hm_remove_def AList.delete_eq filter_empty_conv)

lemma hm_empty_iff: "m = [] \<longleftrightarrow> (\<forall>k. hm_get m k = None)"
  by (cases m) (auto simp: hm_get_def)

section \<open>Panics and slices\<close>

text \<open>A computation that may panic: \<open>Panic\<close>, or a returned value.\<close>

datatype 'a outcome = Panic | Ret 'a

text \<open>\<open>&xs[i..j]\<close>: \<open>None\<close> is the panic of an out-of-range slice.\<close>

definition slice_range :: "'a list \<Rightarrow> nat \<Rightarrow> nat \<Rightarrow> 'a list option" where
  "slice_range xs i j = (if i \<le> j \<and> j \<le> length xs then Some (take (j - i) (drop i xs)) else None)"

lemma slice_range_Some: "i \<le> j \<Longrightarrow> j \<le> length xs \<Longrightarrow> slice_range xs i j = Some (take (j - i) (drop i xs))"
  by (simp add: slice_range_def)

end
