(* ===== verification/Rust_Str.thy ===== *)
theory Rust_Str
  imports Nexa_Prelude
begin

text \<open>
  The part of Rust's string library that the sources use, on \<open>string\<close>s read as UTF-8
  bytes (so \<open>length\<close> is \<open>str::len\<close>): splitting, trimming, joining, decimal printing and
  parsing, the UTF-8 check of \<open>str::from_utf8\<close>, and the round-trip facts the components need.
\<close>

section \<open>Prefixes, suffixes, containment\<close>

abbreviation starts_with :: "string \<Rightarrow> string \<Rightarrow> bool" where
  "starts_with s p \<equiv> prefix p s"

abbreviation ends_with :: "string \<Rightarrow> string \<Rightarrow> bool" where
  "ends_with s p \<equiv> suffix p s"

fun contains_str :: "string \<Rightarrow> string \<Rightarrow> bool" where
  "contains_str [] p = (p = [])"
| "contains_str (c # s) p = (prefix p (c # s) \<or> contains_str s p)"

lemma contains_str_iff: "contains_str s p \<longleftrightarrow> (\<exists>a b. s = a @ p @ b)"
proof (induction s)
  case Nil
  then show ?case by auto
next
  case (Cons c s)
  show ?case
  proof
    assume "contains_str (c # s) p"
    then consider "prefix p (c # s)" | "contains_str s p" by auto
    then show "\<exists>a b. c # s = a @ p @ b"
    proof cases
      case 1
      then show ?thesis by (metis append_Nil prefix_def)
    next
      case 2
      then obtain a b where "s = a @ p @ b" using Cons.IH by blast
      then have "c # s = (c # a) @ p @ b" by simp
      then show ?thesis by blast
    qed
  next
    assume "\<exists>a b. c # s = a @ p @ b"
    then obtain a b where eq: "c # s = a @ p @ b" by blast
    show "contains_str (c # s) p"
    proof (cases a)
      case Nil
      then have "prefix p (c # s)" using eq by (simp add: prefix_def)
      then show ?thesis by simp
    next
      case (Cons x a')
      then have "s = a' @ p @ b" using eq by simp
      then show ?thesis using Cons.IH by auto
    qed
  qed
qed

section \<open>Splitting and joining\<close>

text \<open>\<open>split_once\<close>, \<open>rsplit_once\<close>, \<open>split\<close> and \<open>splitn\<close> on one ASCII character.\<close>

fun split_once :: "char \<Rightarrow> string \<Rightarrow> (string \<times> string) option" where
  "split_once c [] = None"
| "split_once c (x # xs) =
     (if x = c then Some ([], xs)
      else (case split_once c xs of None \<Rightarrow> None | Some (a, b) \<Rightarrow> Some (x # a, b)))"

fun rsplit_once :: "char \<Rightarrow> string \<Rightarrow> (string \<times> string) option" where
  "rsplit_once c [] = None"
| "rsplit_once c (x # xs) =
     (case rsplit_once c xs of
        Some (a, b) \<Rightarrow> Some (x # a, b)
      | None \<Rightarrow> (if x = c then Some ([], xs) else None))"

fun split_on :: "char \<Rightarrow> string \<Rightarrow> string list" where
  "split_on c [] = [[]]"
| "split_on c (x # xs) =
     (if x = c then [] # split_on c xs
      else (case split_on c xs of [] \<Rightarrow> [[x]] | y # ys \<Rightarrow> (x # y) # ys))"

fun splitn :: "nat \<Rightarrow> char \<Rightarrow> string \<Rightarrow> string list" where
  "splitn 0 c s = []"
| "splitn (Suc n) c s =
     (if n = 0 then [s]
      else (case split_once c s of None \<Rightarrow> [s] | Some (a, b) \<Rightarrow> a # splitn n c b))"

fun join :: "string \<Rightarrow> string list \<Rightarrow> string" where
  "join sep [] = []"
| "join sep [x] = x"
| "join sep (x # y # ys) = x @ sep @ join sep (y # ys)"

lemma split_once_None [simp]: "split_once c s = None \<longleftrightarrow> c \<notin> set s"
  by (induction s) (auto split: option.splits)

lemma split_once_append [simp]: "c \<notin> set a \<Longrightarrow> split_once c (a @ c # b) = Some (a, b)"
  by (induction a) auto

lemma split_once_SomeD: "split_once c s = Some (a, b) \<Longrightarrow> s = a @ c # b \<and> c \<notin> set a"
  by (induction s arbitrary: a) (auto split: if_splits option.splits)

lemma rsplit_once_None [simp]: "rsplit_once c s = None \<longleftrightarrow> c \<notin> set s"
  by (induction s) (auto split: option.splits)

lemma rsplit_once_append [simp]: "c \<notin> set b \<Longrightarrow> rsplit_once c (a @ c # b) = Some (a, b)"
proof (induction a)
  case Nil
  then have "rsplit_once c b = None" by simp
  then show ?case by (simp del: rsplit_once_None)
qed simp

lemma rsplit_once_SomeD: "rsplit_once c s = Some (a, b) \<Longrightarrow> s = a @ c # b \<and> c \<notin> set b"
  by (induction s arbitrary: a) (auto split: if_splits option.splits)

lemma split_on_not_Nil [simp]: "split_on c s \<noteq> []"
  by (induction s) (auto split: list.splits)

lemma split_on_no_sep [simp]: "c \<notin> set s \<Longrightarrow> split_on c s = [s]"
  by (induction s) auto

lemma split_on_append [simp]: "c \<notin> set a \<Longrightarrow> split_on c (a @ c # b) = a # split_on c b"
  by (induction a) auto

lemma hd_split_on_prefix: "\<exists>b. s = hd (split_on c s) @ b \<and> (b = [] \<or> hd b = c)"
proof (induction s)
  case (Cons x xs)
  then obtain b where "xs = hd (split_on c xs) @ b" "b = [] \<or> hd b = c" by blast
  then show ?case
    by (cases "split_on c xs") (auto intro: exI [of _ b] exI [of _ "x # xs"])
qed simp

lemma join_append_sep:
  "ys \<noteq> [] \<Longrightarrow> join sep (x # ys) = x @ sep @ join sep ys"
  by (cases ys) auto

section \<open>Trimming\<close>

definition trim_end_matches :: "char \<Rightarrow> string \<Rightarrow> string" where
  "trim_end_matches c s = rev (dropWhile ((=) c) (rev s))"

definition trim_start_matches :: "char \<Rightarrow> string \<Rightarrow> string" where
  "trim_start_matches c s = dropWhile ((=) c) s"

lemma trim_end_matches_id [simp]: "s = [] \<or> last s \<noteq> c \<Longrightarrow> trim_end_matches c s = s"
  by (cases s rule: rev_cases) (auto simp: trim_end_matches_def)

lemma trim_end_matches_snoc [simp]: "trim_end_matches c (s @ [c]) = trim_end_matches c s"
  by (simp add: trim_end_matches_def)

section \<open>Decimal numbers\<close>

definition digit_char :: "nat \<Rightarrow> char" where
  "digit_char d = char_of (48 + d)"

definition is_digit :: "char \<Rightarrow> bool" where
  "is_digit c \<longleftrightarrow> 48 \<le> (of_char c :: nat) \<and> (of_char c :: nat) \<le> 57"

definition digit_val :: "char \<Rightarrow> nat" where
  "digit_val c = of_char c - 48"

text \<open>\<open>Display\<close> of an unsigned integer.\<close>

fun show_nat :: "nat \<Rightarrow> string" where
  "show_nat n = (if n < 10 then [digit_char n] else show_nat (n div 10) @ [digit_char (n mod 10)])"

declare show_nat.simps [simp del]

text \<open>\<open>Display\<close> of a signed integer.\<close>

definition show_int :: "int \<Rightarrow> string" where
  "show_int i = (if i < 0 then CHR ''-'' # show_nat (nat (- i)) else show_nat (nat i))"

definition digits_value :: "string \<Rightarrow> nat" where
  "digits_value s = foldl (\<lambda>acc c. acc * 10 + digit_val c) 0 s"

text \<open>
  \<open>parse::<uN>()\<close>: an optional plus sign, then at least one decimal digit, and no
  overflow of the type's maximum. \<open>parse::<iN>()\<close> also takes a minus sign.
\<close>

definition parse_uint :: "nat \<Rightarrow> string \<Rightarrow> nat option" where
  "parse_uint mx s =
     (let ds = (case s of c # cs \<Rightarrow> if c = CHR ''+'' then cs else s | [] \<Rightarrow> s)
      in if ds \<noteq> [] \<and> list_all is_digit ds \<and> digits_value ds \<le> mx
         then Some (digits_value ds) else None)"

definition parse_int :: "int \<Rightarrow> int \<Rightarrow> string \<Rightarrow> int option" where
  "parse_int lo hi s =
     (let (neg, ds) = (case s of
            c # cs \<Rightarrow> if c = CHR ''-'' then (True, cs) else if c = CHR ''+'' then (False, cs) else (False, s)
          | [] \<Rightarrow> (False, s));
          v = (if neg then - int (digits_value ds) else int (digits_value ds))
      in if ds \<noteq> [] \<and> list_all is_digit ds \<and> lo \<le> v \<and> v \<le> hi then Some v else None)"

lemma of_char_digit [simp]: "d < 10 \<Longrightarrow> (of_char (digit_char d) :: nat) = 48 + d"
  by (simp add: digit_char_def)

lemma is_digit_digit_char [simp]: "d < 10 \<Longrightarrow> is_digit (digit_char d)"
  by (simp add: is_digit_def)

lemma digit_val_digit_char [simp]: "d < 10 \<Longrightarrow> digit_val (digit_char d) = d"
  by (simp add: digit_val_def)

lemma show_nat_not_Nil [simp]: "show_nat n \<noteq> []"
  by (subst show_nat.simps) simp

lemma show_nat_digits: "list_all is_digit (show_nat n)"
proof (induction n rule: show_nat.induct)
  case (1 n)
  then show ?case by (subst show_nat.simps) simp
qed

lemma digits_value_snoc [simp]: "digits_value (s @ [c]) = digits_value s * 10 + digit_val c"
  by (simp add: digits_value_def)

lemma digits_value_show_nat [simp]: "digits_value (show_nat n) = n"
proof (induction n rule: show_nat.induct)
  case (1 n)
  show ?case
  proof (cases "n < 10")
    case True
    then show ?thesis by (simp add: show_nat.simps [of n] digits_value_def)
  next
    case False
    then show ?thesis using 1 by (simp add: show_nat.simps [of n])
  qed
qed

lemma show_nat_inject [simp]: "show_nat m = show_nat n \<longleftrightarrow> m = n"
  by (metis digits_value_show_nat)

lemma is_digit_in_show_nat: "c \<in> set (show_nat n) \<Longrightarrow> is_digit c"
  using show_nat_digits [of n] by (simp add: list_all_iff)

lemma show_nat_no [simp]: "\<not> is_digit c \<Longrightarrow> c \<notin> set (show_nat n)"
  using is_digit_in_show_nat by blast

lemma not_digit_chars [simp]:
  "\<not> is_digit (CHR ''.'')" "\<not> is_digit (CHR ''-'')" "\<not> is_digit (CHR ''+'')"
  "\<not> is_digit (CHR ''/'')" "\<not> is_digit (CHR '':'')"
  by (simp_all add: is_digit_def)

lemma show_nat_sign:
  obtains c cs where "show_nat n = c # cs" "c \<noteq> CHR ''+''" "c \<noteq> CHR ''-''"
proof -
  obtain c cs where s: "show_nat n = c # cs" by (cases "show_nat n") simp_all
  then have "is_digit c" using is_digit_in_show_nat [of c n] by simp
  then show ?thesis using that [OF s] not_digit_chars(2,3) by blast
qed

lemma parse_uint_show_nat [simp]: "parse_uint mx (show_nat n) = (if n \<le> mx then Some n else None)"
  by (rule show_nat_sign [of n]) (use show_nat_digits [of n] digits_value_show_nat [of n] in \<open>simp add: parse_uint_def\<close>)

lemma parse_int_show_int [simp]: "parse_int lo hi (show_int i) = (if lo \<le> i \<and> i \<le> hi then Some i else None)"
proof (cases "i < 0")
  case True
  then show ?thesis using show_nat_digits [of "nat (- i)"] by (simp add: show_int_def parse_int_def)
next
  case False
  show ?thesis
    by (rule show_nat_sign [of "nat i"])
      (use False show_nat_digits [of "nat i"] digits_value_show_nat [of "nat i"] in \<open>simp add: show_int_def parse_int_def\<close>)
qed

section \<open>ASCII case and UTF-8\<close>

definition ascii_lower :: "char \<Rightarrow> char" where
  "ascii_lower c =
     (if 65 \<le> (of_char c :: nat) \<and> (of_char c :: nat) \<le> 90 then char_of ((of_char c :: nat) + 32) else c)"

definition is_ascii :: "string \<Rightarrow> bool" where
  "is_ascii s \<longleftrightarrow> list_all (\<lambda>c. (of_char c :: nat) < 128) s"

definition byte_str :: "u8 list \<Rightarrow> string" where
  "byte_str bs = map (\<lambda>b. char_of (unat b)) bs"

definition str_bytes :: "string \<Rightarrow> u8 list" where
  "str_bytes s = map (\<lambda>c. word_of_nat (of_char c)) s"

lemma of_char_lt: "(of_char c :: nat) < 256"
  by (metis of_char_of nat_of_char_less_256)

text \<open>\<open>str::from_utf8\<close>: the well-formed byte sequences of the Unicode standard.\<close>

definition in_rng :: "nat \<Rightarrow> nat \<Rightarrow> u8 \<Rightarrow> bool" where
  "in_rng lo hi b \<longleftrightarrow> lo \<le> unat b \<and> unat b \<le> hi"

fun utf8_valid :: "u8 list \<Rightarrow> bool" where
  "utf8_valid [] = True"
| "utf8_valid (a # bs) =
     (if unat a < 128 then utf8_valid bs
      else if in_rng 194 223 a then
        (case bs of b # r \<Rightarrow> in_rng 128 191 b \<and> utf8_valid r | _ \<Rightarrow> False)
      else if in_rng 224 239 a then
        (case bs of b # c # r \<Rightarrow>
            in_rng (if unat a = 224 then 160 else 128) (if unat a = 237 then 159 else 191) b
            \<and> in_rng 128 191 c \<and> utf8_valid r
         | _ \<Rightarrow> False)
      else if in_rng 240 244 a then
        (case bs of b # c # d # r \<Rightarrow>
            in_rng (if unat a = 240 then 144 else 128) (if unat a = 244 then 143 else 191) b
            \<and> in_rng 128 191 c \<and> in_rng 128 191 d \<and> utf8_valid r
         | _ \<Rightarrow> False)
      else False)"

lemma utf8_valid_ascii: "list_all (\<lambda>b. unat b < 128) bs \<Longrightarrow> utf8_valid bs"
  by (induction bs) auto

text \<open>A valid text is a sequence of well-formed characters of one to four bytes, the bytes behind the
  first of each not ASCII.\<close>

definition utf8_unit :: "u8 list \<Rightarrow> bool" where
  "utf8_unit u \<longleftrightarrow> (\<exists>a t. u = a # t \<and> list_all (\<lambda>b. 128 \<le> unat b) t \<and> (\<forall>r. utf8_valid (u @ r) = utf8_valid r))"

lemma utf8_first_unit:
  assumes "utf8_valid (a # bs)"
  obtains u r where "a # bs = u @ r" "utf8_unit u" "utf8_valid r"
proof (cases "unat a < 128")
  case True
  then have "utf8_unit [a]" by (simp add: utf8_unit_def)
  then show ?thesis using that [of "[a]" bs] assms True by simp
next
  case False
  show ?thesis
  proof (cases "in_rng 194 223 a")
    case two: True
    obtain b r where bs: "bs = b # r" "in_rng 128 191 b" "utf8_valid r"
      using assms False two by (cases bs) auto
    then have "utf8_unit [a, b]" using False two by (simp add: utf8_unit_def in_rng_def)
    then show ?thesis using that [of "[a, b]" r] bs by simp
  next
    case not_two: False
    show ?thesis
    proof (cases "in_rng 224 239 a")
      case three: True
      let ?P = "\<lambda>b. in_rng (if unat a = 224 then 160 else 128) (if unat a = 237 then 159 else 191) b"
      have eq: "utf8_valid (a # b # c # r) = (?P b \<and> in_rng 128 191 c \<and> utf8_valid r)" for b c r
        using False not_two three by simp
      obtain b c r where bs: "bs = b # c # r"
        using assms False not_two three by (cases bs; cases "tl bs") auto
      have P: "?P b" "in_rng 128 191 c" "utf8_valid r" using assms unfolding bs eq by blast+
      have "128 \<le> unat b" "128 \<le> unat c" using P(1,2) by (auto simp: in_rng_def split: if_splits)
      then have "utf8_unit [a, b, c]" unfolding utf8_unit_def using P eq by auto
      then show ?thesis using that [of "[a, b, c]" r] bs P by simp
    next
      case not_three: False
      let ?P = "\<lambda>b. in_rng (if unat a = 240 then 144 else 128) (if unat a = 244 then 143 else 191) b"
      have four: "in_rng 240 244 a" using assms False not_two not_three by (auto split: if_splits)
      have eq: "utf8_valid (a # b # c # d # r) = (?P b \<and> in_rng 128 191 c \<and> in_rng 128 191 d \<and> utf8_valid r)" for b c d r
        using False not_two not_three four by simp
      obtain b c d r where bs: "bs = b # c # d # r"
        using assms False not_two not_three four by (cases bs; cases "tl bs"; cases "tl (tl bs)") auto
      have P: "?P b" "in_rng 128 191 c" "in_rng 128 191 d" "utf8_valid r" using assms unfolding bs eq by blast+
      have "128 \<le> unat b" "128 \<le> unat c" "128 \<le> unat d" using P(1-3) by (auto simp: in_rng_def split: if_splits)
      then have "utf8_unit [a, b, c, d]" unfolding utf8_unit_def using P eq by auto
      then show ?thesis using that [of "[a, b, c, d]" r] bs P by simp
    qed
  qed
qed

text \<open>So valid texts may be joined, and cut in front of and behind an ASCII character.\<close>

lemma utf8_valid_append: "utf8_valid a \<Longrightarrow> utf8_valid (a @ b) = utf8_valid b"
proof (induction "length a" arbitrary: a rule: less_induct)
  case less
  show ?case
  proof (cases a)
    case (Cons c bs)
    obtain u r where u: "c # bs = u @ r" "utf8_unit u" "utf8_valid r"
      using utf8_first_unit [of c bs] less.prems Cons by auto
    have "u \<noteq> []" "\<And>r. utf8_valid (u @ r) = utf8_valid r" using u(2) by (auto simp: utf8_unit_def)
    moreover have "length r < length a" using arg_cong [OF u(1), of length] \<open>u \<noteq> []\<close> Cons by (cases u) auto
    ultimately show ?thesis using less.hyps [of r] u(1,3) Cons by simp
  qed simp
qed

lemma utf8_valid_cut: "utf8_valid (a @ x # b) \<Longrightarrow> unat x < 128 \<Longrightarrow> utf8_valid a \<and> utf8_valid b"
proof (induction "length a" arbitrary: a rule: less_induct)
  case less
  show ?case
  proof (cases a)
    case Nil
    then show ?thesis using less.prems by simp
  next
    case (Cons c bs)
    obtain u r where u: "c # bs @ x # b = u @ r" "utf8_unit u" "utf8_valid r"
      using utf8_first_unit [of c "bs @ x # b"] less.prems(1) Cons by auto
    obtain t where t: "u = c # t" "list_all (\<lambda>b. 128 \<le> unat b) t" and ext: "\<And>r. utf8_valid (u @ r) = utf8_valid r"
      using u(1,2) by (auto simp: utf8_unit_def)
    have split: "bs @ x # b = t @ r" using u(1) t(1) by simp
    have "length t \<le> length bs"
    proof (rule ccontr)
      assume "\<not> length t \<le> length bs"
      then have "(t @ r) ! length bs \<in> set t" by (simp add: nth_append)
      then have "x \<in> set t" unfolding split [symmetric] by simp
      then show False using t(2) less.prems(2) by (auto simp: list_all_iff)
    qed
    then have "t = take (length t) bs" using arg_cong [OF split, of "take (length t)"] by simp
    then obtain bs' where bs': "bs = t @ bs'" by (metis append_take_drop_id)
    then have r: "bs' @ x # b = r" using split by simp
    have "length bs' < length a" using Cons bs' by simp
    then have "utf8_valid bs' \<and> utf8_valid b" using less.hyps [of bs'] less.prems(2) u(3) r by simp
    then show ?thesis using ext [of bs'] Cons bs' t(1) by simp
  qed
qed

lemma byte_str_bytes [simp]: "byte_str (str_bytes s) = s"
  using of_char_lt by (induction s) (auto simp: byte_str_def str_bytes_def)

lemma length_str_bytes [simp]: "length (str_bytes s) = length s"
  by (simp add: str_bytes_def)

lemma utf8_valid_str_bytes: "is_ascii s \<Longrightarrow> utf8_valid (str_bytes s)"
  by (rule utf8_valid_ascii) (auto simp: is_ascii_def str_bytes_def list_all_iff)

section \<open>Lines and white space\<close>

text \<open>\<open>str::lines\<close> (and \<open>AsyncBufReadExt::lines\<close>): pieces between line feeds, a line that ends with a
  line feed without one trailing carriage return; no empty piece after a final line feed.\<close>

definition strip_cr :: "string \<Rightarrow> string" where
  "strip_cr l = (if l \<noteq> [] \<and> last l = CHR 0x0D then butlast l else l)"

definition lines :: "string \<Rightarrow> string list" where
  "lines s =
     (let parts = split_on (CHR 0x0A) s
      in map strip_cr (butlast parts) @ (if last parts = [] then [] else [last parts]))"

definition unlines :: "string list \<Rightarrow> string" where
  "unlines ls = concat (map (\<lambda>l. l @ [CHR 0x0A]) ls)"

lemma unlines_simps [simp]:
  "unlines [] = []" "unlines (l # ls) = l @ CHR 0x0A # unlines ls" "unlines (ls @ ms) = unlines ls @ unlines ms"
  by (simp_all add: unlines_def)

lemma strip_cr_id: "CHR 0x0D \<notin> set l \<Longrightarrow> strip_cr l = l"
  by (metis last_in_set strip_cr_def)

lemma lines_Nil [simp]: "lines [] = []"
  by (simp add: lines_def)

lemma lines_Cons: "CHR 0x0A \<notin> set l \<Longrightarrow> lines (l @ CHR 0x0A # s) = strip_cr l # lines s"
  by (simp add: lines_def Let_def)

lemma lines_unlines:
  "list_all (\<lambda>l. CHR 0x0A \<notin> set l \<and> CHR 0x0D \<notin> set l) ls \<Longrightarrow> lines (unlines ls @ s) = ls @ lines s"
  by (induction ls) (simp_all add: lines_Cons strip_cr_id)

text \<open>The code points with the Unicode property \<open>White_Space\<close>, in UTF-8, and \<open>str::trim\<close>.\<close>

definition ws_patterns :: "string list" where
  "ws_patterns =
     [[CHR 0x20], [CHR 0x09], [CHR 0x0A], [CHR 0x0B], [CHR 0x0C], [CHR 0x0D],
      [CHR 0xC2, CHR 0x85], [CHR 0xC2, CHR 0xA0], [CHR 0xE1, CHR 0x9A, CHR 0x80],
      [CHR 0xE2, CHR 0x80, CHR 0x80], [CHR 0xE2, CHR 0x80, CHR 0x81], [CHR 0xE2, CHR 0x80, CHR 0x82],
      [CHR 0xE2, CHR 0x80, CHR 0x83], [CHR 0xE2, CHR 0x80, CHR 0x84], [CHR 0xE2, CHR 0x80, CHR 0x85],
      [CHR 0xE2, CHR 0x80, CHR 0x86], [CHR 0xE2, CHR 0x80, CHR 0x87], [CHR 0xE2, CHR 0x80, CHR 0x88],
      [CHR 0xE2, CHR 0x80, CHR 0x89], [CHR 0xE2, CHR 0x80, CHR 0x8A], [CHR 0xE2, CHR 0x80, CHR 0xA8],
      [CHR 0xE2, CHR 0x80, CHR 0xA9], [CHR 0xE2, CHR 0x80, CHR 0xAF], [CHR 0xE2, CHR 0x81, CHR 0x9F],
      [CHR 0xE3, CHR 0x80, CHR 0x80]]"

definition strip_pattern :: "string list \<Rightarrow> string \<Rightarrow> string option" where
  "strip_pattern pats s =
     (case find (\<lambda>p. prefix p s) pats of None \<Rightarrow> None | Some p \<Rightarrow> Some (drop (length p) s))"

text \<open>Each round removes one white space character, so \<open>length s\<close> rounds are enough.\<close>

fun strip_rounds :: "nat \<Rightarrow> string list \<Rightarrow> string \<Rightarrow> string" where
  "strip_rounds 0 pats s = s"
| "strip_rounds (Suc n) pats s = (case strip_pattern pats s of None \<Rightarrow> s | Some r \<Rightarrow> strip_rounds n pats r)"

definition trim_start :: "string \<Rightarrow> string" where
  "trim_start s = strip_rounds (length s) ws_patterns s"

definition trim_end :: "string \<Rightarrow> string" where
  "trim_end s = rev (strip_rounds (length s) (map rev ws_patterns) (rev s))"

definition trim :: "string \<Rightarrow> string" where
  "trim s = trim_end (trim_start s)"

text \<open>On text that begins (ends) with a printable ASCII character nothing is removed.\<close>

definition printable :: "char \<Rightarrow> bool" where
  "printable c \<longleftrightarrow> (of_char c :: nat) > 32 \<and> (of_char c :: nat) < 127"

lemma ws_patterns_not_printable:
  "list_all (\<lambda>p. p \<noteq> [] \<and> \<not> printable (hd p)) ws_patterns"
  "list_all (\<lambda>p. p \<noteq> [] \<and> \<not> printable (hd p)) (map rev ws_patterns)"
  by code_simp+

lemma strip_pattern_hd:
  "list_all (\<lambda>p. p \<noteq> [] \<and> \<not> printable (hd p)) pats \<Longrightarrow> printable c \<Longrightarrow> strip_pattern pats (c # s) = None"
  by (induction pats) (auto simp: strip_pattern_def prefix_def neq_Nil_conv)

lemmas strip_pattern_printable = strip_pattern_hd [OF ws_patterns_not_printable(1)]
  and strip_pattern_rev_printable = strip_pattern_hd [OF ws_patterns_not_printable(2)]

lemma strip_rounds_None: "strip_pattern pats s = None \<Longrightarrow> strip_rounds n pats s = s"
  by (cases n) simp_all

lemma trim_start_printable [simp]: "printable c \<Longrightarrow> trim_start (c # s) = c # s"
  by (simp add: trim_start_def strip_pattern_printable del: strip_rounds.simps add: strip_rounds_None)

lemma trim_start_space [simp]: "trim_start (CHR 0x20 # s) = trim_start s"
  by (simp add: trim_start_def strip_pattern_def ws_patterns_def)

lemma trim_end_printable [simp]: "printable c \<Longrightarrow> trim_end (s @ [c]) = s @ [c]"
  by (simp add: trim_end_def strip_pattern_rev_printable del: strip_rounds.simps add: strip_rounds_None)

lemma trim_end_newline [simp]: "trim_end (s @ [CHR 0x0A]) = trim_end s"
  by (simp add: trim_end_def strip_pattern_def ws_patterns_def)

lemma trim_Nil [simp]: "trim_start [] = []" "trim_end [] = []" "trim [] = []"
  by (simp_all add: trim_start_def trim_end_def trim_def)

lemma trim_printable: "printable (hd s) \<Longrightarrow> printable (last s) \<Longrightarrow> s \<noteq> [] \<Longrightarrow> trim s = s"
  by (metis append_butlast_last_id list.collapse trim_def trim_end_printable trim_start_printable)

text \<open>Trimming never removes a printable last character.\<close>

lemma ws_patterns_all_not_printable: "list_all (list_all (\<lambda>c. \<not> printable c)) ws_patterns"
  by code_simp

lemma strip_pattern_Some:
  "strip_pattern pats s = Some r \<Longrightarrow> \<exists>p\<in>set pats. s = p @ r"
  by (auto simp: strip_pattern_def prefix_def find_Some_iff split: option.splits)

lemma strip_rounds_last:
  assumes "s \<noteq> []" "printable (last s)"
  shows "strip_rounds n ws_patterns s \<noteq> [] \<and> last (strip_rounds n ws_patterns s) = last s"
  using assms
proof (induction n arbitrary: s)
  case (Suc n)
  show ?case
  proof (cases "strip_pattern ws_patterns s")
    case (Some r)
    then obtain p where p: "p \<in> set ws_patterns" "s = p @ r" using strip_pattern_Some by blast
    have "\<not> printable c" if "c \<in> set p" for c
      using ws_patterns_all_not_printable p(1) that by (auto simp: list_all_iff)
    then have "r \<noteq> []" using Suc.prems p(2) last_in_set [of p] by (cases "r = []") auto
    then show ?thesis using Suc p(2) Some by simp
  qed (use Suc.prems in simp)
qed simp

lemma trim_last:
  assumes "s \<noteq> []" "printable (last s)"
  shows "trim s \<noteq> [] \<and> last (trim s) = last s"
proof -
  have *: "trim_start s \<noteq> []" "last (trim_start s) = last s"
    using strip_rounds_last [OF assms, of "length s"] by (simp_all add: trim_start_def)
  then have "trim s = butlast (trim_start s) @ [last s]"
    unfolding trim_def by (metis append_butlast_last_id assms(2) trim_end_printable)
  then show ?thesis by simp
qed

end
