(* ===== verification/Domain.thy ===== *)
theory Domain
  imports Rust_Str
begin

text \<open>
  The domain values of nexa-core as the sources see them: each record has exactly the fields of
  the struct literals in the sources, and each enum the variants the sources name, with one
  constructor for any variant they do not name. A \<open>Uuid\<close> is its 128 bits, a \<open>DateTime<Utc>\<close>
  a number of nanoseconds, an \<open>f64\<close> its bit pattern (the daemon only passes these on).
\<close>

type_synonym uuid = u128
type_synonym instant = int
type_synonym f64 = u64

datatype project_status = Active | Suspended | ProjectStatusOther nat
datatype deployment_status = DepPending | DepRunning | DeploymentStatusOther nat
datatype pod_status = PodPending | PodRunning | PodStatusOther nat
datatype node_role = Master | Worker | NodeRoleOther nat
datatype node_status = Ready | NotReady | Draining | NodeStatusOther nat

record project =
  proj_name :: string
  proj_status :: project_status
  proj_created_at :: instant

text \<open>
  A volume is known through the three accessors the sources call. The parts of a deployment
  spec that the sources never look at (secrets, network, healthcheck, restart policy,
  resources) are kept as one opaque string.
\<close>

record volume_spec =
  source_name :: string
  mount_point :: string
  is_read_only :: bool

record deployment_spec =
  spec_project :: string
  spec_deployment_name :: string
  spec_replicas :: u32
  spec_image :: string
  spec_ports :: "u16 list"
  spec_env :: "(string, string) hashmap"
  spec_volumes :: "volume_spec list"
  spec_opaque :: string

record deployment =
  dep_id :: uuid
  dep_spec :: deployment_spec
  dep_status :: deployment_status
  dep_created_at :: instant
  dep_updated_at :: instant

record pod =
  pod_id :: uuid
  pod_deployment_id :: uuid
  pod_project :: string
  pod_deployment_name :: string
  pod_replica_index :: u32
  pod_node_id :: "uuid option"
  pod_container_id :: "string option"
  pod_container_ip :: "string option"
  pod_stat :: pod_status
  pod_image :: string
  pod_restart_count :: u32
  pod_created_at :: instant

record node_resources =
  cpu_cores :: f64
  memory_bytes :: u64
  cpu_available :: f64
  memory_available :: u64
  running_pods :: u32

record node =
  node_id :: uuid
  node_name :: string
  node_address :: string
  node_role :: node_role
  node_stat :: node_status
  node_resources :: node_resources
  last_heartbeat :: instant
  joined_at :: instant

text \<open>The operations on \<open>f64\<close> that the sources use.\<close>

record float_ops =
  fl_of_nat :: "nat \<Rightarrow> f64"
  fl_sum :: "f64 list \<Rightarrow> f64"
  fl_sub :: "f64 \<Rightarrow> f64 \<Rightarrow> f64"
  fl_mul :: "f64 \<Rightarrow> f64 \<Rightarrow> f64"
  fl_div :: "f64 \<Rightarrow> f64 \<Rightarrow> f64"
  fl_max :: "f64 \<Rightarrow> f64 \<Rightarrow> f64"
  fl_round :: "f64 \<Rightarrow> f64"
  fl_pos :: "f64 \<Rightarrow> bool"
  fl_zero :: f64

text \<open>Seconds as nanoseconds.\<close>

definition secs :: "int \<Rightarrow> instant" where
  "secs n = n * 1000000000"

section \<open>The state store port\<close>

text \<open>
  An \<open>Arc<dyn StateStore>\<close> is the dictionary of the port's operations the daemon's own
  components call, over the state of the implementation behind it.
\<close>

record 's state_store =
  ss_list_nodes :: "'s \<Rightarrow> node list res"
  ss_get_node :: "uuid \<Rightarrow> 's \<Rightarrow> node option res"
  ss_get_node_by_name :: "string \<Rightarrow> 's \<Rightarrow> node option res"
  ss_insert_node :: "node \<Rightarrow> 's \<Rightarrow> unit res \<times> 's"
  ss_update_node :: "node \<Rightarrow> 's \<Rightarrow> unit res \<times> 's"
  ss_delete_node :: "uuid \<Rightarrow> 's \<Rightarrow> unit res \<times> 's"
  ss_list_pods :: "string option \<Rightarrow> 's \<Rightarrow> pod list res"
  ss_get_cluster_config :: "string \<Rightarrow> 's \<Rightarrow> string option res"
  ss_set_cluster_config :: "string \<Rightarrow> string \<Rightarrow> 's \<Rightarrow> unit res \<times> 's"

text \<open>
  The contract the cluster components rely on, for the part of the state that \<open>inv\<close> and
  \<open>storable\<close> describe: a fetched node has the id or name asked for, a written node is read
  back, other nodes keep their values, names stay unique, failed writes change nothing, and
  node and configuration writes leave the rest alone.
\<close>

locale state_store_contract =
  fixes D :: "'s state_store" and inv :: "'s \<Rightarrow> bool" and storable :: "node \<Rightarrow> bool"
  assumes get_node_id: "inv s \<Longrightarrow> ss_get_node D i s = Ok (Some n) \<Longrightarrow> node_id n = i"
    and get_by_name: "inv s \<Longrightarrow> ss_get_node_by_name D nm s = Ok (Some n) \<Longrightarrow>
      node_name n = nm \<and> ss_get_node D (node_id n) s = Ok (Some n)"
    and by_name_complete: "inv s \<Longrightarrow> ss_get_node D i s = Ok (Some n) \<Longrightarrow>
      ss_get_node_by_name D (node_name n) s = Ok (Some n)"
    and insert_ok: "inv s \<Longrightarrow> storable n \<Longrightarrow> ss_insert_node D n s = (Ok (), s') \<Longrightarrow>
      inv s' \<and> ss_get_node D i s' = (if i = node_id n then Ok (Some n) else ss_get_node D i s)"
    and update_ok: "inv s \<Longrightarrow> storable n \<Longrightarrow> ss_get_node D (node_id n) s = Ok (Some old) \<Longrightarrow>
      ss_update_node D n s = (Ok (), s') \<Longrightarrow>
      inv s' \<and> ss_get_node D i s' =
        (if i = node_id n then Ok (Some (n\<lparr>joined_at := joined_at old\<rparr>)) else ss_get_node D i s)"
    and delete_ok: "inv s \<Longrightarrow> ss_delete_node D j s = (Ok (), s') \<Longrightarrow>
      inv s' \<and> ss_get_node D i s' = (if i = j then Ok None else ss_get_node D i s)"
    and insert_err: "ss_insert_node D n s = (Err e, s') \<Longrightarrow> s' = s"
    and update_err: "ss_update_node D n s = (Err e, s') \<Longrightarrow> s' = s"
    and update_pods: "ss_list_pods D p (snd (ss_update_node D n s)) = ss_list_pods D p s"
    and update_config: "ss_get_cluster_config D k (snd (ss_update_node D n s)) = ss_get_cluster_config D k s"
    and config_set: "ss_set_cluster_config D k v s = (Ok (), s') \<Longrightarrow>
      ss_get_cluster_config D k' s' = (if k' = k then Ok (Some v) else ss_get_cluster_config D k' s)"
    and config_nodes: "ss_get_node D i (snd (ss_set_cluster_config D k v s)) = ss_get_node D i s"
    and config_inv: "inv s \<Longrightarrow> inv (snd (ss_set_cluster_config D k v s))"
    and list_nodes_get: "inv s \<Longrightarrow> ss_list_nodes D s = Ok ns \<Longrightarrow> n \<in> set ns \<Longrightarrow>
      ss_get_node D (node_id n) s = Ok (Some n)"
    and list_nodes_distinct: "inv s \<Longrightarrow> ss_list_nodes D s = Ok ns \<Longrightarrow> distinct (map node_id ns)"

text \<open>
  A store without engine faults: updates of a node under its own name succeed, and so do
  inserts under a fresh id and name.
\<close>

locale reliable_store = state_store_contract +
  assumes update_defined: "inv s \<Longrightarrow> storable n \<Longrightarrow> ss_get_node D (node_id n) s = Ok (Some old) \<Longrightarrow>
      node_name n = node_name old \<Longrightarrow> \<exists>s'. ss_update_node D n s = (Ok (), s')"
    and insert_defined: "inv s \<Longrightarrow> storable n \<Longrightarrow> ss_get_node D (node_id n) s = Ok None \<Longrightarrow>
      ss_get_node_by_name D (node_name n) s = Ok None \<Longrightarrow> \<exists>s'. ss_insert_node D n s = (Ok (), s')"
    and storable_stat: "storable (n\<lparr>node_stat := st\<rparr>) = storable n"
begin

lemma update_stat:
  assumes "inv s" "storable n" "ss_get_node D (node_id n) s = Ok (Some n)"
  obtains s' where "ss_update_node D (n\<lparr>node_stat := st\<rparr>) s = (Ok (), s')" "inv s'"
    "\<And>i. ss_get_node D i s' = (if i = node_id n then Ok (Some (n\<lparr>node_stat := st\<rparr>)) else ss_get_node D i s)"
    "\<And>p. ss_list_pods D p s' = ss_list_pods D p s"
proof -
  have st: "storable (n\<lparr>node_stat := st\<rparr>)" using assms(2) by (simp add: storable_stat)
  obtain s' where u: "ss_update_node D (n\<lparr>node_stat := st\<rparr>) s = (Ok (), s')"
    using update_defined [OF assms(1) st, of n] assms(3) by auto
  have g: "ss_get_node D (node_id (n\<lparr>node_stat := st\<rparr>)) s = Ok (Some n)" using assms(3) by simp
  show ?thesis
  proof (rule that [OF u])
    show "inv s'" using update_ok [OF assms(1) st g u] by simp
    show "ss_get_node D i s' = (if i = node_id n then Ok (Some (n\<lparr>node_stat := st\<rparr>)) else ss_get_node D i s)" for i
      using update_ok [OF assms(1) st g u, of i] by simp
    show "ss_list_pods D p s' = ss_list_pods D p s" for p
      using update_pods [of p "n\<lparr>node_stat := st\<rparr>" s] u by simp
  qed
qed

end

end
