(* ===== verification/Runtime_Port.thy ===== *)
theory Runtime_Port
  imports Domain
begin

text \<open>
  What the cluster components use of other crates: the container runtime port
  (\<open>nexa_core::ports::runtime\<close>) as a dictionary of operations over an abstract engine state,
  with the configuration types the sources fill in, and the helpers of \<open>nexa_core\<close>,
  \<open>uuid\<close>, \<open>serde_json\<close>, \<open>sha2\<close> and \<open>hex\<close> as one record of parameters. Byte
  vectors are strings of bytes.
\<close>

section \<open>Container configuration\<close>

record port_binding =
  container_port :: u16
  host_port :: "u16 option"

record volume_binding =
  vb_source :: string
  vb_target :: string
  vb_read_only :: bool

record container_config =
  cc_name :: string
  cc_image :: string
  cc_command :: "string list"
  cc_env :: "(string, string) hashmap"
  cc_ports :: "port_binding list"
  cc_volumes :: "volume_binding list"
  cc_labels :: "(string, string) hashmap"
  cc_network :: "string option"
  cc_dns :: "string list"
  cc_dns_search :: "string list"

datatype container_state = Running | Created | Exited | Paused | Restarting | Removing | Dead | UnknownState

record container_info =
  ci_id :: string
  ci_name :: string
  ci_image :: string
  ci_state :: container_state

datatype runtime_event = ContainerDied string int | ContainerStarted string | ContainerOom string

text \<open>The operations of the port that the transports call, over an engine state \<open>'r\<close>.\<close>

record 'r runtime =
  rt_pull_image :: "string \<Rightarrow> 'r \<Rightarrow> unit res \<times> 'r"
  rt_create_container :: "container_config \<Rightarrow> 'r \<Rightarrow> string res \<times> 'r"
  rt_start_container :: "string \<Rightarrow> 'r \<Rightarrow> unit res \<times> 'r"
  rt_stop_container :: "string \<Rightarrow> u64 \<Rightarrow> 'r \<Rightarrow> unit res \<times> 'r"
  rt_remove_container :: "string \<Rightarrow> bool \<Rightarrow> 'r \<Rightarrow> unit res \<times> 'r"
  rt_container_exists :: "string \<Rightarrow> 'r \<Rightarrow> bool res \<times> 'r"
  rt_create_network :: "string \<Rightarrow> 'r \<Rightarrow> string res \<times> 'r"

section \<open>Helpers of other crates\<close>

record core =
  container_name :: "pod \<Rightarrow> string"
  err_text :: "nexa_error \<Rightarrow> string"
  uuid_text :: "uuid \<Rightarrow> string"
  parse_uuid :: "string \<Rightarrow> string + uuid"
  new_node :: "string \<Rightarrow> string \<Rightarrow> node_role \<Rightarrow> node_resources \<Rightarrow> node"
  zero_resources :: node_resources
  pod_to_json :: "pod \<Rightarrow> string + string"
  pod_from_json :: "string \<Rightarrow> string + pod"
  spec_to_json :: "deployment_spec \<Rightarrow> string + string"
  spec_from_json :: "string \<Rightarrow> string + deployment_spec"
  sha256 :: "string \<Rightarrow> string"
  hex_encode :: "string \<Rightarrow> string"
  hex_decode :: "string \<Rightarrow> string + string"

text \<open>
  The documented behaviour the properties use: hexadecimal text is twice as long as the bytes
  and decodes to them, printed ids parse back, serialised values parse back, and
  \<open>Node::new\<close> keeps its arguments.
\<close>

definition hex_ok :: "core \<Rightarrow> bool" where
  "hex_ok co \<longleftrightarrow> (\<forall>b. hex_decode co (hex_encode co b) = Ok b) \<and> (\<forall>b. length (hex_encode co b) = 2 * length b)"

definition json_ok :: "core \<Rightarrow> bool" where
  "json_ok co \<longleftrightarrow> (\<forall>p j. pod_to_json co p = Ok j \<longrightarrow> pod_from_json co j = Ok p)
     \<and> (\<forall>d j. spec_to_json co d = Ok j \<longrightarrow> spec_from_json co j = Ok d)"

definition new_node_ok :: "core \<Rightarrow> bool" where
  "new_node_ok co \<longleftrightarrow> (\<forall>nm ad ro rs. node_name (new_node co nm ad ro rs) = nm
     \<and> node_address (new_node co nm ad ro rs) = ad \<and> node_role (new_node co nm ad ro rs) = ro
     \<and> node_resources (new_node co nm ad ro rs) = rs)"

definition uuid_text_ok :: "core \<Rightarrow> bool" where
  "uuid_text_ok co \<longleftrightarrow> (\<forall>u. parse_uuid co (uuid_text co u) = Ok u)"

lemma hex_encode_inject: "hex_ok co \<Longrightarrow> hex_encode co a = hex_encode co b \<longleftrightarrow> a = b"
  by (metis hex_ok_def sum.inject(2))

section \<open>A pod's container\<close>

text \<open>
  The container that \<open>LocalTransport::assign_pod\<close> builds from a pod and its spec. The statements
  of \<open>ClusterServer::assign_pod\<close> are translated on their own in \<open>Cluster_Server\<close>.
\<close>

definition pod_ports :: "deployment_spec \<Rightarrow> port_binding list" where
  "pod_ports spec =
     map (\<lambda>p. \<lparr>container_port = p, host_port = (if spec_replicas spec = 1 then Some p else None)\<rparr>)
       (spec_ports spec)"

definition pod_labels :: "core \<Rightarrow> pod \<Rightarrow> deployment_spec \<Rightarrow> (string, string) hashmap" where
  "pod_labels co pod spec =
     hm_insert ''nexa.pod-id'' (uuid_text co (pod_id pod))
       (hm_insert ''nexa.deployment'' (spec_deployment_name spec)
         (hm_insert ''nexa.project'' (spec_project spec)
           (hm_insert ''managed-by'' ''nexanet'' [])))"

definition pod_volumes :: "deployment_spec \<Rightarrow> volume_binding list" where
  "pod_volumes spec =
     map (\<lambda>v. \<lparr>vb_source = source_name v, vb_target = mount_point v, vb_read_only = is_read_only v\<rparr>)
       (spec_volumes spec)"

definition network_name :: "deployment_spec \<Rightarrow> string" where
  "network_name spec = ''nexa-'' @ spec_project spec"

definition pod_config :: "core \<Rightarrow> pod \<Rightarrow> deployment_spec \<Rightarrow> container_config" where
  "pod_config co pod spec =
     \<lparr>cc_name = container_name co pod, cc_image = spec_image spec, cc_command = [],
      cc_env = spec_env spec, cc_ports = pod_ports spec, cc_volumes = pod_volumes spec,
      cc_labels = pod_labels co pod spec, cc_network = Some (network_name spec),
      cc_dns = [], cc_dns_search = []\<rparr>"

text \<open>The result of a probe read with \<open>unwrap_or(false)\<close>.\<close>

definition unwrap_or_false :: "bool res \<Rightarrow> bool" where
  "unwrap_or_false r = (case r of Inl _ \<Rightarrow> False | Inr b \<Rightarrow> b)"

lemma unwrap_or_false_simps [simp]: "unwrap_or_false (Inl e) = False" "unwrap_or_false (Inr b) = b"
  by (simp_all add: unwrap_or_false_def)

text \<open>
  The two preparation steps: an old container of that name is stopped
  and removed, errors ignored; the project network is created when it is not there.
\<close>

definition drop_old_container :: "'r runtime \<Rightarrow> string \<Rightarrow> 'r \<Rightarrow> 'r" where
  "drop_old_container RT name r =
     (let r1 = snd (rt_stop_container RT name 5 r) in snd (rt_remove_container RT name True r1))"

definition ensure_pod_network :: "'r runtime \<Rightarrow> string \<Rightarrow> 'r \<Rightarrow> 'r" where
  "ensure_pod_network RT net r =
     (case rt_container_exists RT net r of (ex, r1) \<Rightarrow>
        if \<not> unwrap_or_false ex then snd (rt_create_network RT net r1) else r1)"

end
