(* ===== verification/Cluster_Token.thy ===== *)
theory Cluster_Token
  imports Runtime_Port
begin

text \<open>
  Join tokens (\<open>src/cluster/token.rs\<close>). The random source is the argument \<open>bytes\<close> of
  \<open>generate_token\<close>; SHA-256 and the hexadecimal codec are parameters.
\<close>

definition token_prefix :: string where
  "token_prefix = ''nxa_''"

definition token_random_bytes :: nat where
  "token_random_bytes = 32"

definition generate_token :: "core \<Rightarrow> string \<Rightarrow> string" where
  "generate_token co bytes = token_prefix @ hex_encode co bytes"

definition hash_token :: "core \<Rightarrow> string \<Rightarrow> string" where
  "hash_token co token = hex_encode co (sha256 co token)"

definition verify_token :: "core \<Rightarrow> string \<Rightarrow> string \<Rightarrow> bool" where
  "verify_token co token stored_hash \<longleftrightarrow> hash_token co token = stored_hash"

definition validate_token_format :: "core \<Rightarrow> string \<Rightarrow> unit res" where
  "validate_token_format co token =
     (if \<not> starts_with token token_prefix then
        Err (Runtime (''token must start with '' @ [CHR 39] @ ''nxa_'' @ [CHR 39]))
      else let hex_part = drop (length token_prefix) token in
        if length hex_part \<noteq> token_random_bytes * 2 then
          Err (Runtime (''token hex part must be '' @ show_nat (token_random_bytes * 2)
                 @ '' characters, got '' @ show_nat (length hex_part)))
        else (case hex_decode co hex_part of
                Inl _ \<Rightarrow> Err (Runtime ''token contains invalid hex'')
              | Inr _ \<Rightarrow> Ok ()))"

lemma verify_hash_iff:
  "hex_ok co \<Longrightarrow> verify_token co t (hash_token co t') \<longleftrightarrow> sha256 co t = sha256 co t'"
  by (simp add: verify_token_def hash_token_def hex_encode_inject)

lemma validate_token_format_Ok:
  "validate_token_format co token = Ok () \<longleftrightarrow>
     (\<exists>h b. token = token_prefix @ h \<and> length h = 64 \<and> hex_decode co h = Ok b)"
  by (auto simp: validate_token_format_def token_random_bytes_def Let_def prefix_def split: sum.splits)

end
