(* ===== verification/Sqlite_Store.thy ===== *)
theory Sqlite_Store
  imports Domain "HOL-Library.Char_ord" "HOL-Library.List_Lexorder"
begin

text \<open>
  The SQLite state store (\<open>src/src/adapters/state/sqlite.rs\<close> over the schema of
  \<open>src/migrations\<close>): every statement with the constraints it can violate, the row
  conversions with their casts, and the operations of the \<open>StateStore\<close> port. The engine and
  the third-party encodings are parameters, gathered in a \<open>codec\<close>; a statement may also fail
  with an engine fault, the argument \<open>flt\<close> of each operation.
\<close>

section \<open>Parameters\<close>

datatype sql_error = UniqueViolation | ForeignKeyViolation | NotNullViolation | EngineFault string

text \<open>
  Printing and parsing of ids, timestamps and statuses, JSON of a spec, the message of a
  database error, the accessors of a deployment, and what a \<open>REAL\<close> column keeps of a float
  (\<open>None\<close> for a value stored as \<open>NULL\<close>).
\<close>

record codec =
  uuid_str :: "uuid \<Rightarrow> string"
  uuid_parse :: "string \<Rightarrow> string + uuid"
  ts_str :: "instant \<Rightarrow> string"
  ts_parse :: "string \<Rightarrow> string + instant"
  pstat_str :: "project_status \<Rightarrow> string"
  pstat_parse :: "string \<Rightarrow> string + project_status"
  dstat_str :: "deployment_status \<Rightarrow> string"
  dstat_parse :: "string \<Rightarrow> string + deployment_status"
  podstat_str :: "pod_status \<Rightarrow> string"
  podstat_parse :: "string \<Rightarrow> string + pod_status"
  role_str :: "node_role \<Rightarrow> string"
  role_parse :: "string \<Rightarrow> string + node_role"
  nstat_str :: "node_status \<Rightarrow> string"
  nstat_parse :: "string \<Rightarrow> string + node_status"
  spec_json :: "deployment_spec \<Rightarrow> string + string"
  spec_parse :: "string \<Rightarrow> string + deployment_spec"
  dep_project :: "deployment \<Rightarrow> string"
  dep_name :: "deployment \<Rightarrow> string"
  real_col :: "f64 \<Rightarrow> f64 option"
  sql_text :: "sql_error \<Rightarrow> string"

text \<open>The documented laws of these parameters: each parser reads what its printer wrote.\<close>

definition codec_ok :: "codec \<Rightarrow> bool" where
  "codec_ok cd \<longleftrightarrow>
     (\<forall>u. uuid_parse cd (uuid_str cd u) = Ok u) \<and> (\<forall>t. ts_parse cd (ts_str cd t) = Ok t)
   \<and> (\<forall>x. pstat_parse cd (pstat_str cd x) = Ok x) \<and> (\<forall>x. dstat_parse cd (dstat_str cd x) = Ok x)
   \<and> (\<forall>x. podstat_parse cd (podstat_str cd x) = Ok x) \<and> (\<forall>x. role_parse cd (role_str cd x) = Ok x)
   \<and> (\<forall>x. nstat_parse cd (nstat_str cd x) = Ok x)
   \<and> (\<forall>s j. spec_json cd s = Ok j \<longrightarrow> spec_parse cd j = Ok s)
   \<and> (\<forall>d. dep_project cd d = spec_project (dep_spec d) \<and> dep_name cd d = spec_deployment_name (dep_spec d))"

section \<open>Tables\<close>

record project_row =
  pr_name :: string
  pr_status :: string
  pr_created_at :: string

record deployment_row =
  dr_id :: string
  dr_project :: string
  dr_name :: string
  dr_spec_json :: string
  dr_status :: string
  dr_created_at :: string
  dr_updated_at :: string

record pod_row =
  pw_id :: string
  pw_deployment_id :: string
  pw_project :: string
  pw_deployment_name :: string
  pw_replica_index :: int
  pw_node_id :: "string option"
  pw_container_id :: "string option"
  pw_container_ip :: "string option"
  pw_status :: string
  pw_image :: string
  pw_restart_count :: int
  pw_created_at :: string

record node_row =
  nr_id :: string
  nr_name :: string
  nr_address :: string
  nr_role :: string
  nr_status :: string
  nr_cpu_cores :: f64
  nr_memory_bytes :: int
  nr_cpu_available :: f64
  nr_memory_available :: int
  nr_running_pods :: int
  nr_last_heartbeat :: string
  nr_joined_at :: string

text \<open>The database: rows in rowid order. The tables no statement of the daemon writes are left out.\<close>

record db =
  t_projects :: "project_row list"
  t_deployments :: "deployment_row list"
  t_pods :: "pod_row list"
  t_nodes :: "node_row list"
  t_config :: "(string, string) hashmap"

definition db_empty :: db where
  "db_empty = \<lparr>t_projects = [], t_deployments = [], t_pods = [], t_nodes = [], t_config = []\<rparr>"

definition update_rows :: "('r \<Rightarrow> 'k) \<Rightarrow> 'k \<Rightarrow> ('r \<Rightarrow> 'r) \<Rightarrow> 'r list \<Rightarrow> 'r list" where
  "update_rows key k f rows = map (\<lambda>r. if key r = k then f r else r) rows"

definition has_key :: "('r \<Rightarrow> 'k) \<Rightarrow> 'k \<Rightarrow> 'r list \<Rightarrow> bool" where
  "has_key key k rows \<longleftrightarrow> list_ex (\<lambda>r. key r = k) rows"

section \<open>Row conversions\<close>

definition label_err :: "string \<Rightarrow> string + 'a \<Rightarrow> 'a res" where
  "label_err msg r = map_err (\<lambda>e. Runtime (msg @ '': '' @ e)) r"

definition row_to_project :: "codec \<Rightarrow> project_row \<Rightarrow> project res" where
  "row_to_project cd r =
     res_bind (label_err ''invalid project status'' (pstat_parse cd (pr_status r))) (\<lambda>status.
     res_bind (label_err ''invalid created_at'' (ts_parse cd (pr_created_at r))) (\<lambda>created.
     Ok \<lparr>proj_name = pr_name r, proj_status = status, proj_created_at = created\<rparr>))"

definition row_to_deployment :: "codec \<Rightarrow> deployment_row \<Rightarrow> deployment res" where
  "row_to_deployment cd r =
     res_bind (label_err ''invalid deployment id'' (uuid_parse cd (dr_id r))) (\<lambda>ident.
     res_bind (map_err Serialization (spec_parse cd (dr_spec_json r))) (\<lambda>spec.
     res_bind (label_err ''invalid deployment status'' (dstat_parse cd (dr_status r))) (\<lambda>status.
     res_bind (label_err ''invalid created_at'' (ts_parse cd (dr_created_at r))) (\<lambda>created.
     res_bind (label_err ''invalid updated_at'' (ts_parse cd (dr_updated_at r))) (\<lambda>updated.
     Ok \<lparr>dep_id = ident, dep_spec = spec, dep_status = status,
         dep_created_at = created, dep_updated_at = updated\<rparr>)))))"

definition row_to_node :: "codec \<Rightarrow> node_row \<Rightarrow> node res" where
  "row_to_node cd r =
     res_bind (label_err ''invalid node id'' (uuid_parse cd (nr_id r))) (\<lambda>ident.
     res_bind (label_err ''invalid node role'' (role_parse cd (nr_role r))) (\<lambda>role.
     res_bind (label_err ''invalid node status'' (nstat_parse cd (nr_status r))) (\<lambda>status.
     res_bind (label_err ''invalid last_heartbeat'' (ts_parse cd (nr_last_heartbeat r))) (\<lambda>hb.
     res_bind (label_err ''invalid joined_at'' (ts_parse cd (nr_joined_at r))) (\<lambda>joined.
     Ok \<lparr>node_id = ident, node_name = nr_name r, node_address = nr_address r, node_role = role,
         node_stat = status,
         node_resources = \<lparr>cpu_cores = nr_cpu_cores r, memory_bytes = word_of_int (nr_memory_bytes r),
           cpu_available = nr_cpu_available r, memory_available = word_of_int (nr_memory_available r),
           running_pods = word_of_int (nr_running_pods r)\<rparr>,
         last_heartbeat = hb, joined_at = joined\<rparr>)))))"

definition transpose_node_id :: "codec \<Rightarrow> string option \<Rightarrow> uuid option res" where
  "transpose_node_id cd x =
     (case x of None \<Rightarrow> Ok None
      | Some s \<Rightarrow> res_bind (label_err ''invalid node_id'' (uuid_parse cd s)) (\<lambda>u. Ok (Some u)))"

definition row_to_pod :: "codec \<Rightarrow> pod_row \<Rightarrow> pod res" where
  "row_to_pod cd r =
     res_bind (label_err ''invalid pod id'' (uuid_parse cd (pw_id r))) (\<lambda>ident.
     res_bind (label_err ''invalid deployment_id'' (uuid_parse cd (pw_deployment_id r))) (\<lambda>dep.
     res_bind (label_err ''invalid pod status'' (podstat_parse cd (pw_status r))) (\<lambda>status.
     res_bind (label_err ''invalid created_at'' (ts_parse cd (pw_created_at r))) (\<lambda>created.
     res_bind (transpose_node_id cd (pw_node_id r)) (\<lambda>nid.
     Ok \<lparr>pod_id = ident, pod_deployment_id = dep, pod_project = pw_project r,
         pod_deployment_name = pw_deployment_name r,
         pod_replica_index = word_of_int (pw_replica_index r), pod_node_id = nid,
         pod_container_id = pw_container_id r, pod_container_ip = pw_container_ip r,
         pod_stat = status, pod_image = pw_image r,
         pod_restart_count = word_of_int (pw_restart_count r), pod_created_at = created\<rparr>)))))"

text \<open>The bound parameters of the statements, as rows.\<close>

definition project_to_row :: "codec \<Rightarrow> project \<Rightarrow> project_row" where
  "project_to_row cd p = \<lparr>pr_name = proj_name p, pr_status = pstat_str cd (proj_status p),
     pr_created_at = ts_str cd (proj_created_at p)\<rparr>"

definition deployment_to_row :: "codec \<Rightarrow> string \<Rightarrow> deployment \<Rightarrow> deployment_row" where
  "deployment_to_row cd json d =
     \<lparr>dr_id = uuid_str cd (dep_id d), dr_project = dep_project cd d, dr_name = dep_name cd d,
      dr_spec_json = json, dr_status = dstat_str cd (dep_status d),
      dr_created_at = ts_str cd (dep_created_at d), dr_updated_at = ts_str cd (dep_updated_at d)\<rparr>"

definition pod_to_row :: "codec \<Rightarrow> pod \<Rightarrow> pod_row" where
  "pod_to_row cd p =
     \<lparr>pw_id = uuid_str cd (pod_id p), pw_deployment_id = uuid_str cd (pod_deployment_id p),
      pw_project = pod_project p, pw_deployment_name = pod_deployment_name p,
      pw_replica_index = uint (pod_replica_index p),
      pw_node_id = map_option (uuid_str cd) (pod_node_id p),
      pw_container_id = pod_container_id p, pw_container_ip = pod_container_ip p,
      pw_status = podstat_str cd (pod_stat p), pw_image = pod_image p,
      pw_restart_count = uint (pod_restart_count p), pw_created_at = ts_str cd (pod_created_at p)\<rparr>"

text \<open>\<open>None\<close> when a float would be stored as \<open>NULL\<close> in a \<open>NOT NULL\<close> column.\<close>

definition node_to_row :: "codec \<Rightarrow> node \<Rightarrow> node_row option" where
  "node_to_row cd n =
     (case (real_col cd (cpu_cores (node_resources n)), real_col cd (cpu_available (node_resources n))) of
        (Some cores, Some avail) \<Rightarrow>
          Some \<lparr>nr_id = uuid_str cd (node_id n), nr_name = node_name n, nr_address = node_address n,
            nr_role = role_str cd (node_role n), nr_status = nstat_str cd (node_stat n),
            nr_cpu_cores = cores, nr_memory_bytes = sint (memory_bytes (node_resources n)),
            nr_cpu_available = avail, nr_memory_available = sint (memory_available (node_resources n)),
            nr_running_pods = sint (running_pods (node_resources n)),
            nr_last_heartbeat = ts_str cd (last_heartbeat n), nr_joined_at = ts_str cd (joined_at n)\<rparr>
      | _ \<Rightarrow> None)"

section \<open>Operations\<close>

text \<open>\<open>map_err(|e| NexaError::Runtime(e.to_string()))\<close>, with the state of a failed statement.\<close>

definition runtime_err :: "codec \<Rightarrow> sql_error \<Rightarrow> nexa_error" where
  "runtime_err cd e = Runtime (sql_text cd e)"

definition exec_sql :: "codec \<Rightarrow> db \<Rightarrow> sql_error + db \<Rightarrow> unit res \<times> db" where
  "exec_sql cd s r = (case r of Inl e \<Rightarrow> (Err (runtime_err cd e), s) | Inr s' \<Rightarrow> (Ok (), s'))"

definition fetch :: "codec \<Rightarrow> string option \<Rightarrow> 'a res \<Rightarrow> 'a res" where
  "fetch cd flt r = (case flt of Some e \<Rightarrow> Err (runtime_err cd (EngineFault e)) | None \<Rightarrow> r)"

definition opt_row :: "('r \<Rightarrow> 'a res) \<Rightarrow> 'r option \<Rightarrow> 'a option res" where
  "opt_row conv x = (case x of None \<Rightarrow> Ok None | Some r \<Rightarrow> res_bind (conv r) (\<lambda>v. Ok (Some v)))"

subsection \<open>Projects\<close>

definition sql_insert_project :: "string option \<Rightarrow> project_row \<Rightarrow> db \<Rightarrow> sql_error + db" where
  "sql_insert_project flt r s =
     (case flt of Some e \<Rightarrow> Inl (EngineFault e)
      | None \<Rightarrow> if has_key pr_name (pr_name r) (t_projects s) then Inl UniqueViolation
                else Inr (s\<lparr>t_projects := t_projects s @ [r]\<rparr>))"

definition insert_project :: "codec \<Rightarrow> string option \<Rightarrow> project \<Rightarrow> db \<Rightarrow> unit res \<times> db" where
  "insert_project cd flt p s =
     (case sql_insert_project flt (project_to_row cd p) s of
        Inr s' \<Rightarrow> (Ok (), s')
      | Inl UniqueViolation \<Rightarrow>
          (Err (InvalidSpec (''project '' @ [CHR 39] @ proj_name p @ [CHR 39] @ '' already exists'')), s)
      | Inl e \<Rightarrow> (Err (runtime_err cd e), s))"

definition get_project :: "codec \<Rightarrow> string option \<Rightarrow> string \<Rightarrow> db \<Rightarrow> project option res" where
  "get_project cd flt name s =
     fetch cd flt (opt_row (row_to_project cd) (find (\<lambda>r. pr_name r = name) (t_projects s)))"

definition list_projects :: "codec \<Rightarrow> string option \<Rightarrow> db \<Rightarrow> project list res" where
  "list_projects cd flt s =
     fetch cd flt (collect_res (map (row_to_project cd) (sort_key pr_name (t_projects s))))"

definition update_project_status ::
  "codec \<Rightarrow> string option \<Rightarrow> string \<Rightarrow> project_status \<Rightarrow> db \<Rightarrow> unit res \<times> db" where
  "update_project_status cd flt name status s =
     (case flt of Some e \<Rightarrow> (Err (runtime_err cd (EngineFault e)), s)
      | None \<Rightarrow>
          if \<not> has_key pr_name name (t_projects s) then (Err (ProjectNotFound name), s)
          else (Ok (), s\<lparr>t_projects :=
                 update_rows pr_name name (\<lambda>r. r\<lparr>pr_status := pstat_str cd status\<rparr>) (t_projects s)\<rparr>))"

text \<open>\<open>ON DELETE CASCADE\<close>: a deleted project takes its deployments, and these their pods.\<close>

definition cascade_deployments :: "(deployment_row \<Rightarrow> bool) \<Rightarrow> db \<Rightarrow> db" where
  "cascade_deployments dead s =
     (let gone = map dr_id (filter dead (t_deployments s))
      in s\<lparr>t_deployments := filter (\<lambda>d. \<not> dead d) (t_deployments s),
           t_pods := filter (\<lambda>p. \<not> List.member gone (pw_deployment_id p)) (t_pods s)\<rparr>)"

definition delete_project :: "codec \<Rightarrow> string option \<Rightarrow> string \<Rightarrow> db \<Rightarrow> unit res \<times> db" where
  "delete_project cd flt name s =
     exec_sql cd s (case flt of Some e \<Rightarrow> Inl (EngineFault e)
       | None \<Rightarrow> Inr (cascade_deployments (\<lambda>d. has_key pr_name name (t_projects s) \<and> dr_project d = name)
                        (s\<lparr>t_projects := filter (\<lambda>r. pr_name r \<noteq> name) (t_projects s)\<rparr>)))"

subsection \<open>Deployments\<close>

definition sql_insert_deployment :: "string option \<Rightarrow> deployment_row \<Rightarrow> db \<Rightarrow> sql_error + db" where
  "sql_insert_deployment flt r s =
     (case flt of Some e \<Rightarrow> Inl (EngineFault e)
      | None \<Rightarrow>
          if has_key dr_id (dr_id r) (t_deployments s)
            \<or> has_key (\<lambda>d. (dr_project d, dr_name d)) (dr_project r, dr_name r) (t_deployments s)
          then Inl UniqueViolation
          else if \<not> has_key pr_name (dr_project r) (t_projects s) then Inl ForeignKeyViolation
          else Inr (s\<lparr>t_deployments := t_deployments s @ [r]\<rparr>))"

definition insert_deployment :: "codec \<Rightarrow> string option \<Rightarrow> deployment \<Rightarrow> db \<Rightarrow> unit res \<times> db" where
  "insert_deployment cd flt d s =
     (case spec_json cd (dep_spec d) of
        Inl e \<Rightarrow> (Err (Serialization e), s)
      | Inr json \<Rightarrow> exec_sql cd s (sql_insert_deployment flt (deployment_to_row cd json d) s))"

definition get_deployment ::
  "codec \<Rightarrow> string option \<Rightarrow> string \<Rightarrow> string \<Rightarrow> db \<Rightarrow> deployment option res" where
  "get_deployment cd flt project name s =
     fetch cd flt (opt_row (row_to_deployment cd)
       (find (\<lambda>r. dr_project r = project \<and> dr_name r = name) (t_deployments s)))"

definition list_deployments ::
  "codec \<Rightarrow> string option \<Rightarrow> string option \<Rightarrow> db \<Rightarrow> deployment list res" where
  "list_deployments cd flt project s =
     fetch cd flt (collect_res (map (row_to_deployment cd)
       (sort_key dr_created_at
          (case project of Some p \<Rightarrow> filter (\<lambda>r. dr_project r = p) (t_deployments s)
           | None \<Rightarrow> t_deployments s))))"

definition update_deployment :: "codec \<Rightarrow> string option \<Rightarrow> deployment \<Rightarrow> db \<Rightarrow> unit res \<times> db" where
  "update_deployment cd flt d s =
     (case spec_json cd (dep_spec d) of
        Inl e \<Rightarrow> (Err (Serialization e), s)
      | Inr json \<Rightarrow>
          (case flt of Some e \<Rightarrow> (Err (runtime_err cd (EngineFault e)), s)
           | None \<Rightarrow>
               if \<not> has_key dr_id (uuid_str cd (dep_id d)) (t_deployments s)
               then (Err (DeploymentNotFound (uuid_str cd (dep_id d))), s)
               else (Ok (), s\<lparr>t_deployments :=
                      update_rows dr_id (uuid_str cd (dep_id d))
                        (\<lambda>r. r\<lparr>dr_spec_json := json, dr_status := dstat_str cd (dep_status d),
                                dr_updated_at := ts_str cd (dep_updated_at d)\<rparr>) (t_deployments s)\<rparr>)))"

definition delete_deployment :: "codec \<Rightarrow> string option \<Rightarrow> uuid \<Rightarrow> db \<Rightarrow> unit res \<times> db" where
  "delete_deployment cd flt ident s =
     exec_sql cd s (case flt of Some e \<Rightarrow> Inl (EngineFault e)
       | None \<Rightarrow> Inr (cascade_deployments (\<lambda>d. dr_id d = uuid_str cd ident) s))"

subsection \<open>Pods\<close>

definition sql_insert_pod :: "string option \<Rightarrow> pod_row \<Rightarrow> db \<Rightarrow> sql_error + db" where
  "sql_insert_pod flt r s =
     (case flt of Some e \<Rightarrow> Inl (EngineFault e)
      | None \<Rightarrow>
          if has_key pw_id (pw_id r) (t_pods s) then Inl UniqueViolation
          else if \<not> has_key dr_id (pw_deployment_id r) (t_deployments s) then Inl ForeignKeyViolation
          else Inr (s\<lparr>t_pods := t_pods s @ [r]\<rparr>))"

definition insert_pod :: "codec \<Rightarrow> string option \<Rightarrow> pod \<Rightarrow> db \<Rightarrow> unit res \<times> db" where
  "insert_pod cd flt p s = exec_sql cd s (sql_insert_pod flt (pod_to_row cd p) s)"

definition list_pods :: "codec \<Rightarrow> string option \<Rightarrow> string option \<Rightarrow> db \<Rightarrow> pod list res" where
  "list_pods cd flt project s =
     fetch cd flt (collect_res (map (row_to_pod cd)
       (sort_key pw_created_at
          (case project of Some p \<Rightarrow> filter (\<lambda>r. pw_project r = p) (t_pods s) | None \<Rightarrow> t_pods s))))"

definition update_pod :: "codec \<Rightarrow> string option \<Rightarrow> pod \<Rightarrow> db \<Rightarrow> unit res \<times> db" where
  "update_pod cd flt p s =
     (case flt of Some e \<Rightarrow> (Err (runtime_err cd (EngineFault e)), s)
      | None \<Rightarrow>
          if \<not> has_key pw_id (uuid_str cd (pod_id p)) (t_pods s)
          then (Err (PodNotFound (uuid_str cd (pod_id p))), s)
          else (Ok (), s\<lparr>t_pods :=
                 update_rows pw_id (uuid_str cd (pod_id p))
                   (\<lambda>r. r\<lparr>pw_node_id := map_option (uuid_str cd) (pod_node_id p),
                           pw_container_id := pod_container_id p, pw_container_ip := pod_container_ip p,
                           pw_status := podstat_str cd (pod_stat p),
                           pw_restart_count := uint (pod_restart_count p)\<rparr>) (t_pods s)\<rparr>))"

definition delete_pod :: "codec \<Rightarrow> string option \<Rightarrow> uuid \<Rightarrow> db \<Rightarrow> unit res \<times> db" where
  "delete_pod cd flt ident s =
     exec_sql cd s (case flt of Some e \<Rightarrow> Inl (EngineFault e)
       | None \<Rightarrow> Inr (s\<lparr>t_pods := filter (\<lambda>r. pw_id r \<noteq> uuid_str cd ident) (t_pods s)\<rparr>))"

definition pods_by_deployment :: "codec \<Rightarrow> string option \<Rightarrow> uuid \<Rightarrow> db \<Rightarrow> pod list res" where
  "pods_by_deployment cd flt ident s =
     fetch cd flt (collect_res (map (row_to_pod cd)
       (sort_key pw_replica_index (filter (\<lambda>r. pw_deployment_id r = uuid_str cd ident) (t_pods s)))))"


subsection \<open>Nodes\<close>

definition sql_insert_node :: "string option \<Rightarrow> node_row option \<Rightarrow> db \<Rightarrow> sql_error + db" where
  "sql_insert_node flt row s =
     (case flt of Some e \<Rightarrow> Inl (EngineFault e)
      | None \<Rightarrow>
          (case row of
             None \<Rightarrow> Inl NotNullViolation
           | Some r \<Rightarrow>
               if has_key nr_id (nr_id r) (t_nodes s) \<or> has_key nr_name (nr_name r) (t_nodes s)
               then Inl UniqueViolation
               else Inr (s\<lparr>t_nodes := t_nodes s @ [r]\<rparr>)))"

definition insert_node :: "codec \<Rightarrow> string option \<Rightarrow> node \<Rightarrow> db \<Rightarrow> unit res \<times> db" where
  "insert_node cd flt n s =
     (case sql_insert_node flt (node_to_row cd n) s of
        Inr s' \<Rightarrow> (Ok (), s')
      | Inl UniqueViolation \<Rightarrow>
          (Err (InvalidSpec (''node '' @ [CHR 39] @ node_name n @ [CHR 39] @ '' already exists'')), s)
      | Inl e \<Rightarrow> (Err (runtime_err cd e), s))"

definition get_node :: "codec \<Rightarrow> string option \<Rightarrow> uuid \<Rightarrow> db \<Rightarrow> node option res" where
  "get_node cd flt ident s =
     fetch cd flt (opt_row (row_to_node cd) (find (\<lambda>r. nr_id r = uuid_str cd ident) (t_nodes s)))"

definition get_node_by_name :: "codec \<Rightarrow> string option \<Rightarrow> string \<Rightarrow> db \<Rightarrow> node option res" where
  "get_node_by_name cd flt name s =
     fetch cd flt (opt_row (row_to_node cd) (find (\<lambda>r. nr_name r = name) (t_nodes s)))"

definition list_nodes :: "codec \<Rightarrow> string option \<Rightarrow> db \<Rightarrow> node list res" where
  "list_nodes cd flt s =
     fetch cd flt (collect_res (map (row_to_node cd) (sort_key nr_name (t_nodes s))))"

definition sql_update_node :: "string option \<Rightarrow> string \<Rightarrow> node_row option \<Rightarrow> db \<Rightarrow> sql_error + (nat \<times> db)" where
  "sql_update_node flt key row s =
     (case flt of Some e \<Rightarrow> Inl (EngineFault e)
      | None \<Rightarrow>
          if \<not> has_key nr_id key (t_nodes s) then Inr (0, s)
          else (case row of
             None \<Rightarrow> Inl NotNullViolation
           | Some r \<Rightarrow>
               if list_ex (\<lambda>o'. nr_id o' \<noteq> key \<and> nr_name o' = nr_name r) (t_nodes s)
               then Inl UniqueViolation
               else Inr (length (filter (\<lambda>o'. nr_id o' = key) (t_nodes s)),
                 s\<lparr>t_nodes := update_rows nr_id key
                    (\<lambda>o'. r\<lparr>nr_id := nr_id o', nr_joined_at := nr_joined_at o'\<rparr>) (t_nodes s)\<rparr>)))"

definition update_node :: "codec \<Rightarrow> string option \<Rightarrow> node \<Rightarrow> db \<Rightarrow> unit res \<times> db" where
  "update_node cd flt n s =
     (case sql_update_node flt (uuid_str cd (node_id n)) (node_to_row cd n) s of
        Inl e \<Rightarrow> (Err (runtime_err cd e), s)
      | Inr (rows_affected, s') \<Rightarrow>
          if rows_affected = 0 then (Err (NodeNotFound (uuid_str cd (node_id n))), s') else (Ok (), s'))"

definition delete_node :: "codec \<Rightarrow> string option \<Rightarrow> uuid \<Rightarrow> db \<Rightarrow> unit res \<times> db" where
  "delete_node cd flt ident s =
     exec_sql cd s (case flt of Some e \<Rightarrow> Inl (EngineFault e)
       | None \<Rightarrow> Inr (s\<lparr>t_nodes := filter (\<lambda>r. nr_id r \<noteq> uuid_str cd ident) (t_nodes s)\<rparr>))"

subsection \<open>Cluster configuration\<close>

definition get_cluster_config :: "codec \<Rightarrow> string option \<Rightarrow> string \<Rightarrow> db \<Rightarrow> string option res" where
  "get_cluster_config cd flt key s = fetch cd flt (Ok (hm_get (t_config s) key))"

definition set_cluster_config ::
  "codec \<Rightarrow> string option \<Rightarrow> string \<Rightarrow> string \<Rightarrow> db \<Rightarrow> unit res \<times> db" where
  "set_cluster_config cd flt key val s =
     exec_sql cd s (case flt of Some e \<Rightarrow> Inl (EngineFault e)
       | None \<Rightarrow> Inr (s\<lparr>t_config := hm_insert key val (t_config s)\<rparr>))"

text \<open>The \<open>impl StateStore for SqliteStore\<close>, as the dictionary of the port.\<close>

text \<open>\<open>SqliteStore::connect\<close>: the pool, the two pragmas (an error each, if any) and the migrations, in
  this order.\<close>

record sqlite_open =
  so_pool :: "string \<Rightarrow> string + db"
  so_wal_err :: "string option"
  so_fk_err :: "string option"
  so_migrate :: "db \<Rightarrow> string + db"

definition sqlite_connect :: "sqlite_open \<Rightarrow> string \<Rightarrow> string + db" where
  "sqlite_connect sq_open url =
     (case so_pool sq_open url of
        Inl e \<Rightarrow> Err e
      | Inr s \<Rightarrow>
          (case so_wal_err sq_open of
             Some e \<Rightarrow> Err e
           | None \<Rightarrow> (case so_fk_err sq_open of Some e \<Rightarrow> Err e | None \<Rightarrow> so_migrate sq_open s)))"

definition sqlite_store :: "codec \<Rightarrow> string option \<Rightarrow> db state_store" where
  "sqlite_store cd flt =
     \<lparr>ss_list_nodes = list_nodes cd flt, ss_get_node = get_node cd flt,
      ss_get_node_by_name = get_node_by_name cd flt, ss_insert_node = insert_node cd flt,
      ss_update_node = update_node cd flt, ss_delete_node = delete_node cd flt,
      ss_list_pods = list_pods cd flt, ss_get_cluster_config = get_cluster_config cd flt,
      ss_set_cluster_config = set_cluster_config cd flt\<rparr>"

section \<open>Row lists\<close>

lemma has_key_iff: "has_key key k rows \<longleftrightarrow> k \<in> key ` set rows"
  by (auto simp: has_key_def list_ex_iff)

lemma find_key_None: "find (\<lambda>r. key r = k) rows = None \<longleftrightarrow> \<not> has_key key k rows"
  by (auto simp: find_None_iff has_key_iff)

lemma find_key_Some:
  "distinct (map key rows) \<Longrightarrow> find (\<lambda>r. key r = k) rows = Some r \<longleftrightarrow> r \<in> set rows \<and> key r = k"
  by (induction rows) (auto simp: rev_image_eqI)

lemma find_update_rows:
  "(\<And>r. key (f r) = key r) \<Longrightarrow> find (\<lambda>r. key r = k') (update_rows key k f rows) =
     (if k' = k then map_option f (find (\<lambda>r. key r = k) rows) else find (\<lambda>r. key r = k') rows)"
  by (induction rows) (auto simp: update_rows_def)

lemma find_filter_key:
  "find (\<lambda>r. key r = k') (filter (\<lambda>r. key r \<noteq> k) rows) =
     (if k' = k then None else find (\<lambda>r. key r = k') rows)"
  by (induction rows) auto

lemma map_update_rows:
  "(\<And>r. g (f r) = g r) \<Longrightarrow> map g (update_rows key k f rows) = map g rows"
  by (simp add: update_rows_def)

lemma map_update_rows_eq:
  "(\<And>r. key r = k \<Longrightarrow> g (f r) = v) \<Longrightarrow>
     map g (update_rows key k f rows) = map (\<lambda>r. if key r = k then v else g r) rows"
  by (simp add: update_rows_def)

section \<open>The schema invariant\<close>

text \<open>
  Primary keys and unique indexes, and the two foreign keys: what the schema promises and what
  every operation keeps.
\<close>

definition db_wf :: "db \<Rightarrow> bool" where
  "db_wf s \<longleftrightarrow>
     distinct (map pr_name (t_projects s))
   \<and> distinct (map dr_id (t_deployments s))
   \<and> distinct (map (\<lambda>d. (dr_project d, dr_name d)) (t_deployments s))
   \<and> dr_project ` set (t_deployments s) \<subseteq> pr_name ` set (t_projects s)
   \<and> distinct (map pw_id (t_pods s))
   \<and> pw_deployment_id ` set (t_pods s) \<subseteq> dr_id ` set (t_deployments s)
   \<and> distinct (map nr_id (t_nodes s)) \<and> distinct (map nr_name (t_nodes s))
   \<and> hm_wf (t_config s)"

datatype store_op =
    InsertProject project
  | UpdateProjectStatus string project_status
  | DeleteProject string
  | InsertDeployment deployment
  | UpdateDeployment deployment
  | DeleteDeployment uuid
  | InsertPod pod
  | UpdatePod pod
  | DeletePod uuid
  | InsertNode node
  | UpdateNode node
  | DeleteNode uuid
  | SetClusterConfig string string

fun store_step :: "codec \<Rightarrow> string option \<Rightarrow> store_op \<Rightarrow> db \<Rightarrow> unit res \<times> db" where
  "store_step cd flt (InsertProject p) s = insert_project cd flt p s"
| "store_step cd flt (UpdateProjectStatus n st) s = update_project_status cd flt n st s"
| "store_step cd flt (DeleteProject n) s = delete_project cd flt n s"
| "store_step cd flt (InsertDeployment d) s = insert_deployment cd flt d s"
| "store_step cd flt (UpdateDeployment d) s = update_deployment cd flt d s"
| "store_step cd flt (DeleteDeployment i) s = delete_deployment cd flt i s"
| "store_step cd flt (InsertPod p) s = insert_pod cd flt p s"
| "store_step cd flt (UpdatePod p) s = update_pod cd flt p s"
| "store_step cd flt (DeletePod i) s = delete_pod cd flt i s"
| "store_step cd flt (InsertNode n) s = insert_node cd flt n s"
| "store_step cd flt (UpdateNode n) s = update_node cd flt n s"
| "store_step cd flt (DeleteNode i) s = delete_node cd flt i s"
| "store_step cd flt (SetClusterConfig k v) s = set_cluster_config cd flt k v s"

text \<open>A history: each operation comes with the engine fault it meets, if any.\<close>

fun store_run :: "codec \<Rightarrow> (string option \<times> store_op) list \<Rightarrow> db \<Rightarrow> db" where
  "store_run cd [] s = s"
| "store_run cd ((flt, oper) # ops) s = store_run cd ops (snd (store_step cd flt oper s))"

lemmas exec_simps = exec_sql_def sql_insert_project_def sql_insert_deployment_def sql_insert_pod_def
  sql_insert_node_def sql_update_node_def

lemma db_wf_insert_project: "db_wf s \<Longrightarrow> db_wf (snd (insert_project cd flt p s))"
  by (auto simp: insert_project_def exec_simps db_wf_def has_key_iff
           split: option.splits sum.splits sql_error.splits if_splits)

lemma db_wf_update_project_status: "db_wf s \<Longrightarrow> db_wf (snd (update_project_status cd flt n st s))"
proof -
  assume wf: "db_wf s"
  let ?rows = "update_rows pr_name n (\<lambda>r. r\<lparr>pr_status := pstat_str cd st\<rparr>) (t_projects s)"
  have names: "map pr_name ?rows = map pr_name (t_projects s)" by (rule map_update_rows) simp
  then have "pr_name ` set ?rows = pr_name ` set (t_projects s)" by (metis list.set_map)
  then show ?thesis using wf names
    by (simp add: update_project_status_def db_wf_def split: option.splits)
qed

lemma cascade_fields [simp]:
  "t_projects (cascade_deployments P s) = t_projects s"
  "t_nodes (cascade_deployments P s) = t_nodes s"
  "t_config (cascade_deployments P s) = t_config s"
  "t_deployments (cascade_deployments P s) = filter (\<lambda>d. \<not> P d) (t_deployments s)"
  by (simp_all add: cascade_deployments_def Let_def)

lemma cascade_pods:
  "t_pods (cascade_deployments P s) =
     filter (\<lambda>p. pw_deployment_id p \<notin> dr_id ` {d \<in> set (t_deployments s). P d}) (t_pods s)"
  by (simp add: cascade_deployments_def Let_def)

lemma db_wf_delete_project: "db_wf s \<Longrightarrow> db_wf (snd (delete_project cd flt n s))"
  by (auto simp: delete_project_def exec_sql_def db_wf_def cascade_pods has_key_iff
           distinct_map_filter split: option.splits) (force+)

lemma db_wf_insert_deployment: "db_wf s \<Longrightarrow> db_wf (snd (insert_deployment cd flt d s))"
  by (auto simp: insert_deployment_def exec_simps db_wf_def has_key_iff
           split: option.splits sum.splits if_splits)

lemma db_wf_update_deployment: "db_wf s \<Longrightarrow> db_wf (snd (update_deployment cd flt d s))"
proof (cases "spec_json cd (dep_spec d)")
  case (Inr json)
  assume wf: "db_wf s"
  let ?f = "\<lambda>r. r\<lparr>dr_spec_json := json, dr_status := dstat_str cd (dep_status d),
    dr_updated_at := ts_str cd (dep_updated_at d)\<rparr>"
  let ?rows = "update_rows dr_id (uuid_str cd (dep_id d)) ?f (t_deployments s)"
  have same: "map dr_id ?rows = map dr_id (t_deployments s)"
    "map dr_project ?rows = map dr_project (t_deployments s)"
    "map (\<lambda>d. (dr_project d, dr_name d)) ?rows = map (\<lambda>d. (dr_project d, dr_name d)) (t_deployments s)"
    by (rule map_update_rows; simp)+
  then have "dr_id ` set ?rows = dr_id ` set (t_deployments s)"
    "dr_project ` set ?rows = dr_project ` set (t_deployments s)" by (metis list.set_map)+
  then show ?thesis using wf same Inr
    by (simp add: update_deployment_def db_wf_def split: option.splits)
qed (simp add: update_deployment_def)

lemma db_wf_delete_deployment: "db_wf s \<Longrightarrow> db_wf (snd (delete_deployment cd flt i s))"
  by (auto simp: delete_deployment_def exec_sql_def db_wf_def cascade_pods
           distinct_map_filter split: option.splits) (force+)

lemma db_wf_insert_pod: "db_wf s \<Longrightarrow> db_wf (snd (insert_pod cd flt p s))"
  by (auto simp: insert_pod_def exec_simps db_wf_def has_key_iff split: option.splits if_splits)

lemma db_wf_update_pod: "db_wf s \<Longrightarrow> db_wf (snd (update_pod cd flt p s))"
proof -
  assume wf: "db_wf s"
  let ?f = "\<lambda>r. r\<lparr>pw_node_id := map_option (uuid_str cd) (pod_node_id p),
    pw_container_id := pod_container_id p, pw_container_ip := pod_container_ip p,
    pw_status := podstat_str cd (pod_stat p), pw_restart_count := uint (pod_restart_count p)\<rparr>"
  let ?rows = "update_rows pw_id (uuid_str cd (pod_id p)) ?f (t_pods s)"
  have same: "map pw_id ?rows = map pw_id (t_pods s)"
    "map pw_deployment_id ?rows = map pw_deployment_id (t_pods s)"
    by (rule map_update_rows; simp)+
  then have "pw_deployment_id ` set ?rows = pw_deployment_id ` set (t_pods s)" by (metis list.set_map)
  then show ?thesis using wf same by (simp add: update_pod_def db_wf_def split: option.splits)
qed

lemma db_wf_delete_pod: "db_wf s \<Longrightarrow> db_wf (snd (delete_pod cd flt i s))"
  by (auto simp: delete_pod_def exec_sql_def db_wf_def distinct_map_filter split: option.splits)

lemma db_wf_insert_node: "db_wf s \<Longrightarrow> db_wf (snd (insert_node cd flt n s))"
  by (auto simp: insert_node_def exec_simps db_wf_def has_key_iff
           split: option.splits sum.splits sql_error.splits if_splits)

lemma distinct_rename:
  assumes "distinct (map key rows)" "distinct (map g rows)" "\<And>r. r \<in> set rows \<Longrightarrow> key r \<noteq> k \<Longrightarrow> g r \<noteq> v"
  shows "distinct (map (\<lambda>r. if key r = k then v else g r) rows)"
  using assms by (induction rows) (auto simp: rev_image_eqI split: if_splits)

lemma db_wf_update_node: "db_wf s \<Longrightarrow> db_wf (snd (update_node cd flt n s))"
proof (cases "node_to_row cd n")
  case (Some r)
  assume wf: "db_wf s"
  let ?key = "uuid_str cd (node_id n)"
  let ?f = "\<lambda>o'. r\<lparr>nr_id := nr_id o', nr_joined_at := nr_joined_at o'\<rparr>"
  let ?rows = "update_rows nr_id ?key ?f (t_nodes s)"
  have ids: "map nr_id ?rows = map nr_id (t_nodes s)" by (rule map_update_rows) simp
  have "map nr_name ?rows = map (\<lambda>o'. if nr_id o' = ?key then nr_name r else nr_name o') (t_nodes s)"
    by (rule map_update_rows_eq) simp
  then have "\<not> list_ex (\<lambda>o'. nr_id o' \<noteq> ?key \<and> nr_name o' = nr_name r) (t_nodes s) \<Longrightarrow>
      distinct (map nr_name ?rows)"
    using wf by (auto simp: db_wf_def list_ex_iff intro!: distinct_rename)
  then show ?thesis using wf ids Some
    by (auto simp: update_node_def sql_update_node_def db_wf_def split: option.splits)
qed (auto simp: update_node_def sql_update_node_def split: option.splits)

lemma db_wf_delete_node: "db_wf s \<Longrightarrow> db_wf (snd (delete_node cd flt i s))"
  by (auto simp: delete_node_def exec_sql_def db_wf_def distinct_map_filter split: option.splits)

lemma db_wf_set_cluster_config: "db_wf s \<Longrightarrow> db_wf (snd (set_cluster_config cd flt k v s))"
  by (auto simp: set_cluster_config_def exec_sql_def db_wf_def split: option.splits)

lemmas db_wf_ops = db_wf_insert_project db_wf_update_project_status db_wf_delete_project
  db_wf_insert_deployment db_wf_update_deployment db_wf_delete_deployment db_wf_insert_pod
  db_wf_update_pod db_wf_delete_pod db_wf_insert_node db_wf_update_node db_wf_delete_node
  db_wf_set_cluster_config

lemma db_wf_step: "db_wf s \<Longrightarrow> db_wf (snd (store_step cd flt oper s))"
  by (cases oper) (simp_all add: db_wf_ops)

lemma db_wf_empty: "db_wf db_empty"
  by (simp add: db_wf_def db_empty_def)

lemma db_wf_run: "db_wf s \<Longrightarrow> db_wf (store_run cd ops s)"
proof (induction ops arbitrary: s)
  case (Cons a ops)
  then show ?case by (cases a) (simp add: db_wf_step)
qed simp


section \<open>Reading back what was written\<close>

definition storable :: "codec \<Rightarrow> node \<Rightarrow> bool" where
  "storable cd n \<longleftrightarrow> real_col cd (cpu_cores (node_resources n)) = Some (cpu_cores (node_resources n))
     \<and> real_col cd (cpu_available (node_resources n)) = Some (cpu_available (node_resources n))"

lemma codec_okD:
  assumes "codec_ok cd"
  shows "uuid_parse cd (uuid_str cd u) = Ok u" "ts_parse cd (ts_str cd t) = Ok t"
    "pstat_parse cd (pstat_str cd ps) = Ok ps" "dstat_parse cd (dstat_str cd ds) = Ok ds"
    "podstat_parse cd (podstat_str cd qs) = Ok qs" "role_parse cd (role_str cd r) = Ok r"
    "nstat_parse cd (nstat_str cd ns) = Ok ns"
    "spec_json cd sp = Ok j \<Longrightarrow> spec_parse cd j = Ok sp"
    "dep_project cd d = spec_project (dep_spec d)" "dep_name cd d = spec_deployment_name (dep_spec d)"
  using assms by (simp_all add: codec_ok_def)

lemma uuid_str_inject: "codec_ok cd \<Longrightarrow> uuid_str cd u = uuid_str cd v \<longleftrightarrow> u = v"
  by (metis codec_okD(1) sum.inject(2))

lemma project_row_roundtrip: "codec_ok cd \<Longrightarrow> row_to_project cd (project_to_row cd p) = Ok p"
  by (simp add: row_to_project_def project_to_row_def label_err_def codec_okD)

lemma deployment_row_roundtrip:
  "codec_ok cd \<Longrightarrow> spec_json cd (dep_spec d) = Ok j \<Longrightarrow>
     row_to_deployment cd (deployment_to_row cd j d) = Ok d"
  by (simp add: row_to_deployment_def deployment_to_row_def label_err_def codec_okD)

lemma node_to_row_storable:
  assumes "storable cd n"
  obtains r where "node_to_row cd n = Some r" "nr_id r = uuid_str cd (node_id n)" "nr_name r = node_name n"
  using assms by (simp add: node_to_row_def storable_def)

lemma node_row_roundtrip:
  "codec_ok cd \<Longrightarrow> storable cd n \<Longrightarrow> node_to_row cd n = Some r \<Longrightarrow>
     row_to_node cd (r\<lparr>nr_joined_at := ts_str cd t\<rparr>) = Ok (n\<lparr>joined_at := t\<rparr>)"
  by (auto simp: row_to_node_def node_to_row_def storable_def label_err_def codec_okD)

lemma pod_row_roundtrip: "codec_ok cd \<Longrightarrow> row_to_pod cd (pod_to_row cd p) = Ok p"
  by (cases "pod_node_id p")
     (simp_all add: row_to_pod_def pod_to_row_def label_err_def codec_okD transpose_node_id_def)

text \<open>Ids in the node table are printed ids: the invariant behind the contract.\<close>

definition sqlite_inv :: "codec \<Rightarrow> db \<Rightarrow> bool" where
  "sqlite_inv cd s \<longleftrightarrow> codec_ok cd \<and> db_wf s \<and> (\<forall>r\<in>set (t_nodes s). \<exists>u. nr_id r = uuid_str cd u)"

lemma row_to_node_fields:
  "row_to_node cd r = Ok n \<Longrightarrow> uuid_parse cd (nr_id r) = Ok (node_id n) \<and> node_name n = nr_name r
     \<and> ts_parse cd (nr_joined_at r) = Ok (joined_at n)"
  by (auto simp: row_to_node_def label_err_def map_err_def res_bind_eq_Inr split: sum.splits)

lemma row_id_node_id:
  "sqlite_inv cd s \<Longrightarrow> r \<in> set (t_nodes s) \<Longrightarrow> row_to_node cd r = Ok n \<Longrightarrow> nr_id r = uuid_str cd (node_id n)"
  using row_to_node_fields [of cd r n] by (auto simp: sqlite_inv_def codec_okD)

lemma fetch_Ok [simp]: "fetch cd flt r = Ok x \<longleftrightarrow> flt = None \<and> r = Ok x"
  by (cases flt) (auto simp: fetch_def)

lemma opt_row_Some: "opt_row conv x = Ok (Some v) \<longleftrightarrow> (\<exists>r. x = Some r \<and> conv r = Ok v)"
  by (cases x) (auto simp: opt_row_def res_bind_eq_Inr)

lemma get_node_Some:
  "sqlite_inv cd s \<Longrightarrow> get_node cd flt i s = Ok (Some n) \<longleftrightarrow>
     flt = None \<and> (\<exists>r\<in>set (t_nodes s). nr_id r = uuid_str cd i \<and> row_to_node cd r = Ok n)"
  by (auto simp: get_node_def opt_row_Some sqlite_inv_def db_wf_def find_key_Some)

lemma get_node_by_name_Some:
  "sqlite_inv cd s \<Longrightarrow> get_node_by_name cd flt nm s = Ok (Some n) \<longleftrightarrow>
     flt = None \<and> (\<exists>r\<in>set (t_nodes s). nr_name r = nm \<and> row_to_node cd r = Ok n)"
  by (auto simp: get_node_by_name_def opt_row_Some sqlite_inv_def db_wf_def find_key_Some)

lemma sqlite_get_node_id: "sqlite_inv cd s \<Longrightarrow> get_node cd flt i s = Ok (Some n) \<Longrightarrow> node_id n = i"
  by (auto simp: get_node_Some dest: row_id_node_id) (metis row_id_node_id sqlite_inv_def uuid_str_inject)

lemma sqlite_get_by_name:
  "sqlite_inv cd s \<Longrightarrow> get_node_by_name cd flt nm s = Ok (Some n) \<Longrightarrow>
     node_name n = nm \<and> get_node cd flt (node_id n) s = Ok (Some n)"
  by (auto simp: get_node_Some get_node_by_name_Some dest: row_id_node_id row_to_node_fields)

lemma sqlite_by_name_complete:
  "sqlite_inv cd s \<Longrightarrow> get_node cd flt i s = Ok (Some n) \<Longrightarrow>
     get_node_by_name cd flt (node_name n) s = Ok (Some n)"
  by (auto simp: get_node_Some get_node_by_name_Some) (metis row_to_node_fields)

lemma sqlite_inv_nodes_subset:
  "sqlite_inv cd s \<Longrightarrow> db_wf s' \<Longrightarrow> nr_id ` set (t_nodes s') \<subseteq> nr_id ` set (t_nodes s) \<Longrightarrow> sqlite_inv cd s'"
proof -
  assume inv: "sqlite_inv cd s" and wf: "db_wf s'" and sub: "nr_id ` set (t_nodes s') \<subseteq> nr_id ` set (t_nodes s)"
  have "\<exists>u. nr_id r = uuid_str cd u" if "r \<in> set (t_nodes s')" for r
  proof -
    have "nr_id r \<in> nr_id ` set (t_nodes s)" using that sub by blast
    then show ?thesis using inv unfolding sqlite_inv_def by auto
  qed
  then show ?thesis using inv wf by (simp add: sqlite_inv_def)
qed

lemma sqlite_insert_ok:
  assumes "sqlite_inv cd s" "storable cd n" "insert_node cd flt n s = (Ok (), s')"
  shows "sqlite_inv cd s' \<and> get_node cd flt i s' = (if i = node_id n then Ok (Some n) else get_node cd flt i s)"
proof -
  obtain r where r: "node_to_row cd n = Some r" "nr_id r = uuid_str cd (node_id n)" "nr_name r = node_name n"
    using assms(2) by (rule node_to_row_storable)
  have cd: "codec_ok cd" using assms(1) by (simp add: sqlite_inv_def)
  have conv: "row_to_node cd r = Ok n"
    using node_row_roundtrip [OF cd assms(2) r(1), of "joined_at n"] r(1)
    by (auto simp: node_to_row_def split: option.splits)
  have s': "s' = s\<lparr>t_nodes := t_nodes s @ [r]\<rparr>" and flt: "flt = None"
    and fresh: "\<not> has_key nr_id (uuid_str cd (node_id n)) (t_nodes s)"
    using assms(3) r
    by (auto simp: insert_node_def sql_insert_node_def split: option.splits sum.splits sql_error.splits if_splits)
  have "db_wf s'" using db_wf_insert_node [of s cd flt n] assms(1,3) by (simp add: sqlite_inv_def)
  then have "sqlite_inv cd s'" using assms(1) r(2) by (auto simp: sqlite_inv_def s')
  moreover have "find (\<lambda>x. nr_id x = uuid_str cd (node_id n)) (t_nodes s) = None"
    using fresh by (simp add: find_key_None)
  ultimately show ?thesis
    using conv r(2) flt uuid_str_inject [OF cd, of "node_id n" i]
    by (auto simp: s' get_node_def find_append opt_row_def fetch_def split: option.splits)
qed

lemma sqlite_update_ok:
  assumes "sqlite_inv cd s" "storable cd n" "get_node cd flt (node_id n) s = Ok (Some old)"
    and "update_node cd flt n s = (Ok (), s')"
  shows "sqlite_inv cd s' \<and> get_node cd flt i s' =
    (if i = node_id n then Ok (Some (n\<lparr>joined_at := joined_at old\<rparr>)) else get_node cd flt i s)"
proof -
  let ?key = "uuid_str cd (node_id n)"
  obtain r where r: "node_to_row cd n = Some r" "nr_id r = ?key" "nr_name r = node_name n"
    using assms(2) by (rule node_to_row_storable)
  have cd: "codec_ok cd" using assms(1) by (simp add: sqlite_inv_def)
  let ?f = "\<lambda>o'. r\<lparr>nr_id := nr_id o', nr_joined_at := nr_joined_at o'\<rparr>"
  have s': "s' = s\<lparr>t_nodes := update_rows nr_id ?key ?f (t_nodes s)\<rparr>" and flt: "flt = None"
    using assms(4) r
    by (auto simp: update_node_def sql_update_node_def has_key_def list_ex_iff filter_empty_conv
             split: option.splits if_splits)
  have "db_wf s'" using db_wf_update_node [of s cd flt n] assms(1,4) by (simp add: sqlite_inv_def)
  moreover have "map nr_id (t_nodes s') = map nr_id (t_nodes s)"
    by (simp add: s' map_update_rows)
  then have "nr_id ` set (t_nodes s') = nr_id ` set (t_nodes s)" by (metis list.set_map)
  ultimately have inv: "sqlite_inv cd s'" using sqlite_inv_nodes_subset [OF assms(1)] by simp
  obtain q where q: "find (\<lambda>x. nr_id x = ?key) (t_nodes s) = Some q" "row_to_node cd q = Ok old"
    using assms(3) by (auto simp: get_node_def opt_row_Some)
  have qid: "nr_id q = ?key" using q(1) by (auto simp: find_Some_iff)
  have "row_to_node cd (?f q) = Ok (n\<lparr>joined_at := joined_at old\<rparr>)"
  proof -
    have "row_to_node cd (r\<lparr>nr_joined_at := ts_str cd (joined_at old)\<rparr>) = Ok (n\<lparr>joined_at := joined_at old\<rparr>)"
      by (rule node_row_roundtrip [OF cd assms(2) r(1)])
    moreover have "row_to_node cd (r\<lparr>nr_joined_at := ts_str cd (joined_at old)\<rparr>) = row_to_node cd (?f q)"
      using row_to_node_fields [OF q(2)] qid r(2) by (simp add: row_to_node_def codec_okD [OF cd])
    ultimately show ?thesis by simp
  qed
  then show ?thesis
    using inv q flt uuid_str_inject [OF cd, of i "node_id n"]
    by (auto simp: s' get_node_def find_update_rows opt_row_def fetch_def)
qed

lemma sqlite_delete_ok:
  assumes "sqlite_inv cd s" "delete_node cd flt j s = (Ok (), s')"
  shows "sqlite_inv cd s' \<and> get_node cd flt i s' = (if i = j then Ok None else get_node cd flt i s)"
proof -
  have s': "s' = s\<lparr>t_nodes := filter (\<lambda>r. nr_id r \<noteq> uuid_str cd j) (t_nodes s)\<rparr>" and flt: "flt = None"
    using assms(2) by (auto simp: delete_node_def exec_sql_def split: option.splits)
  have "db_wf s'" using db_wf_delete_node [of s cd flt j] assms by (simp add: sqlite_inv_def)
  then have "sqlite_inv cd s'" by (rule sqlite_inv_nodes_subset [OF assms(1)]) (auto simp: s')
  then show ?thesis
    using assms(1) flt uuid_str_inject [of cd i j]
    by (auto simp: s' get_node_def find_filter_key sqlite_inv_def opt_row_def fetch_def)
qed

lemma sqlite_list_nodes_rows:
  assumes "sqlite_inv cd s" "list_nodes cd flt s = Ok ns"
  shows "map (\<lambda>n. uuid_str cd (node_id n)) ns = map nr_id (sort_key nr_name (t_nodes s))"
    and "n \<in> set ns \<Longrightarrow> \<exists>r\<in>set (t_nodes s). row_to_node cd r = Ok n"
proof -
  have l: "list_all2 (\<lambda>r n. row_to_node cd r = Ok n) (sort_key nr_name (t_nodes s)) ns"
    using assms(2) by (simp add: list_nodes_def collect_res_list_all2)
  then show "map (\<lambda>n. uuid_str cd (node_id n)) ns = map nr_id (sort_key nr_name (t_nodes s))"
    by (rule list_all2_map_eq) (simp add: row_id_node_id [OF assms(1)])
  show "n \<in> set ns \<Longrightarrow> \<exists>r\<in>set (t_nodes s). row_to_node cd r = Ok n"
    using l [THEN list_all2_set2] by simp
qed


lemma sqlite_list_nodes_get:
  "sqlite_inv cd s \<Longrightarrow> list_nodes cd flt s = Ok ns \<Longrightarrow> n \<in> set ns \<Longrightarrow>
     get_node cd flt (node_id n) s = Ok (Some n)"
  using sqlite_list_nodes_rows(2) [of cd s flt ns n] row_id_node_id [of cd s _ n]
  by (auto simp: get_node_Some list_nodes_def)

lemma sqlite_list_nodes_distinct:
  assumes "sqlite_inv cd s" "list_nodes cd flt s = Ok ns"
  shows "distinct (map node_id ns)"
proof -
  have "distinct (map nr_id (sort_key nr_name (t_nodes s)))"
    using assms(1) by (simp add: sqlite_inv_def db_wf_def distinct_map)
  then have "distinct (map (uuid_str cd) (map node_id ns))"
    using sqlite_list_nodes_rows(1) [OF assms] by (simp add: comp_def)
  then show ?thesis using distinct_map [of "uuid_str cd" "map node_id ns"] by blast
qed

lemmas sqlite_store_ops = sqlite_store_def state_store.simps

interpretation sq: state_store_contract "sqlite_store cd flt" "sqlite_inv cd" "storable cd" for cd flt
proof (unfold_locales, unfold sqlite_store_ops)
  fix s i n s' old j e k v k' ns p
  show "sqlite_inv cd s \<Longrightarrow> get_node cd flt i s = Ok (Some n) \<Longrightarrow> node_id n = i"
    by (rule sqlite_get_node_id)
  show "sqlite_inv cd s \<Longrightarrow> get_node_by_name cd flt k s = Ok (Some n) \<Longrightarrow>
      node_name n = k \<and> get_node cd flt (node_id n) s = Ok (Some n)"
    by (rule sqlite_get_by_name)
  show "sqlite_inv cd s \<Longrightarrow> get_node cd flt i s = Ok (Some n) \<Longrightarrow>
      get_node_by_name cd flt (node_name n) s = Ok (Some n)"
    by (rule sqlite_by_name_complete)
  show "sqlite_inv cd s \<Longrightarrow> storable cd n \<Longrightarrow> insert_node cd flt n s = (Ok (), s') \<Longrightarrow> sqlite_inv cd s' \<and>
      get_node cd flt i s' = (if i = node_id n then Ok (Some n) else get_node cd flt i s)"
    by (rule sqlite_insert_ok)
  show "sqlite_inv cd s \<Longrightarrow> storable cd n \<Longrightarrow> get_node cd flt (node_id n) s = Ok (Some old) \<Longrightarrow>
      update_node cd flt n s = (Ok (), s') \<Longrightarrow> sqlite_inv cd s' \<and> get_node cd flt i s' =
      (if i = node_id n then Ok (Some (n\<lparr>joined_at := joined_at old\<rparr>)) else get_node cd flt i s)"
    by (rule sqlite_update_ok)
  show "sqlite_inv cd s \<Longrightarrow> delete_node cd flt j s = (Ok (), s') \<Longrightarrow> sqlite_inv cd s' \<and>
      get_node cd flt i s' = (if i = j then Ok None else get_node cd flt i s)"
    by (rule sqlite_delete_ok)
  show "insert_node cd flt n s = (Err e, s') \<Longrightarrow> s' = s"
    by (auto simp: insert_node_def split: sum.splits sql_error.splits)
  show "update_node cd flt n s = (Err e, s') \<Longrightarrow> s' = s"
    by (auto simp: update_node_def sql_update_node_def has_key_def list_ex_iff filter_empty_conv
             split: option.splits if_splits)
  show "list_pods cd flt p (snd (update_node cd flt n s)) = list_pods cd flt p s"
    by (auto simp: list_pods_def update_node_def sql_update_node_def split: option.splits)
  show "get_cluster_config cd flt k (snd (update_node cd flt n s)) = get_cluster_config cd flt k s"
    by (auto simp: get_cluster_config_def update_node_def sql_update_node_def split: option.splits)
  show "set_cluster_config cd flt k v s = (Ok (), s') \<Longrightarrow>
      get_cluster_config cd flt k' s' = (if k' = k then Ok (Some v) else get_cluster_config cd flt k' s)"
    by (auto simp: get_cluster_config_def set_cluster_config_def exec_sql_def fetch_def split: option.splits)
  show "get_node cd flt i (snd (set_cluster_config cd flt k v s)) = get_node cd flt i s"
    by (auto simp: get_node_def set_cluster_config_def exec_sql_def split: option.splits)
  show "sqlite_inv cd s \<Longrightarrow> sqlite_inv cd (snd (set_cluster_config cd flt k v s))"
    using db_wf_set_cluster_config [of s cd flt k v]
    by (auto simp: sqlite_inv_def set_cluster_config_def exec_sql_def split: option.splits)
  show "sqlite_inv cd s \<Longrightarrow> list_nodes cd flt s = Ok ns \<Longrightarrow> n \<in> set ns \<Longrightarrow>
      get_node cd flt (node_id n) s = Ok (Some n)"
    by (rule sqlite_list_nodes_get)
  show "sqlite_inv cd s \<Longrightarrow> list_nodes cd flt s = Ok ns \<Longrightarrow> distinct (map node_id ns)"
    by (rule sqlite_list_nodes_distinct)
qed

lemma sqlite_update_defined:
  assumes "sqlite_inv cd s" "storable cd n" "get_node cd None (node_id n) s = Ok (Some old)"
    "node_name n = node_name old"
  shows "\<exists>s'. update_node cd None n s = (Ok (), s')"
proof -
  obtain row where row: "node_to_row cd n = Some row" "nr_name row = node_name n"
    using node_to_row_storable [OF assms(2)] by metis
  obtain r where r: "r \<in> set (t_nodes s)" "nr_id r = uuid_str cd (node_id n)" "nr_name r = node_name n"
    using assms(3,4) row_to_node_fields by (auto simp: get_node_Some [OF assms(1)])
  have inj: "inj_on nr_name (set (t_nodes s))"
    using assms(1) by (simp add: sqlite_inv_def db_wf_def distinct_map)
  have "\<not> (nr_id q \<noteq> uuid_str cd (node_id n) \<and> nr_name q = nr_name row)" if "q \<in> set (t_nodes s)" for q
    using inj_onD [OF inj _ that r(1)] r row by auto
  then have free: "\<not> list_ex (\<lambda>q. nr_id q \<noteq> uuid_str cd (node_id n) \<and> nr_name q = nr_name row) (t_nodes s)"
    by (auto simp: list_ex_iff)
  have "filter (\<lambda>q. nr_id q = uuid_str cd (node_id n)) (t_nodes s) \<noteq> []"
    using r by (auto simp: filter_empty_conv)
  moreover have "has_key nr_id (uuid_str cd (node_id n)) (t_nodes s)"
    using r by (auto simp: has_key_def list_ex_iff)
  ultimately show ?thesis using free by (simp add: update_node_def sql_update_node_def row)
qed

lemma sqlite_insert_defined:
  assumes "storable cd n" "get_node cd None (node_id n) s = Ok None"
    "get_node_by_name cd None (node_name n) s = Ok None"
  shows "\<exists>s'. insert_node cd None n s = (Ok (), s')"
proof -
  obtain row where row: "node_to_row cd n = Some row" "nr_id row = uuid_str cd (node_id n)"
      "nr_name row = node_name n"
    using node_to_row_storable [OF assms(1)] by metis
  have "find (\<lambda>r. nr_id r = nr_id row) (t_nodes s) = None"
    "find (\<lambda>r. nr_name r = nr_name row) (t_nodes s) = None"
    using assms(2,3) row
    by (auto simp: get_node_def get_node_by_name_def opt_row_def res_bind_eq_Inr split: option.splits)
  then have "\<not> has_key nr_id (nr_id row) (t_nodes s)" "\<not> has_key nr_name (nr_name row) (t_nodes s)"
    by (auto simp: has_key_def list_ex_iff find_None_iff)
  then show ?thesis by (simp add: insert_node_def sql_insert_node_def row(1))
qed

interpretation sqr: reliable_store "sqlite_store cd None" "sqlite_inv cd" "storable cd" for cd
proof (unfold_locales, unfold sqlite_store_ops)
  fix s n old st
  show "sqlite_inv cd s \<Longrightarrow> storable cd n \<Longrightarrow> get_node cd None (node_id n) s = Ok (Some old) \<Longrightarrow>
      node_name n = node_name old \<Longrightarrow> \<exists>s'. update_node cd None n s = (Ok (), s')"
    by (rule sqlite_update_defined)
  show "sqlite_inv cd s \<Longrightarrow> storable cd n \<Longrightarrow> get_node cd None (node_id n) s = Ok None \<Longrightarrow>
      get_node_by_name cd None (node_name n) s = Ok None \<Longrightarrow> \<exists>s'. insert_node cd None n s = (Ok (), s')"
    by (rule sqlite_insert_defined)
  show "storable cd (n\<lparr>node_stat := st\<rparr>) = storable cd n" by (simp add: storable_def)
qed

section \<open>Properties\<close>

text \<open>C13: the schema invariant holds in every reachable database. After any history of the
  thirteen writing operations on an empty database, whatever engine faults they meet, primary
  keys and unique columns have no duplicates, every deployment belongs to an existing project and
  every pod to an existing deployment.\<close>

theorem sqlite_history_wf: "db_wf (store_run cd ops db_empty)"
  by (rule db_wf_run) (rule db_wf_empty)

text \<open>C22: a writing operation that reports an error (a constraint violation, a row that is
  not there, a serialization or engine failure) has not changed the database.\<close>

theorem failed_write_changes_nothing:
  assumes "fst (store_step cd flt oper s) = Err e"
  shows "snd (store_step cd flt oper s) = s"
proof (cases oper)
  case (UpdateNode n)
  then show ?thesis using assms sq.update_err [where cd = cd and flt = flt and n = n and s = s]
    by (simp add: sqlite_store_def) (metis prod.collapse)
next
  case (InsertNode n)
  then show ?thesis using assms sq.insert_err [where cd = cd and flt = flt and n = n and s = s]
    by (simp add: sqlite_store_def) (metis prod.collapse)
qed (use assms in \<open>auto simp: insert_project_def update_project_status_def delete_project_def
       insert_deployment_def update_deployment_def delete_deployment_def insert_pod_def update_pod_def
       delete_pod_def delete_node_def set_cluster_config_def exec_sql_def
       split: option.splits sum.splits sql_error.splits if_splits\<close>)

text \<open>C21: deleting a project removes it together with all its deployments and all pods of
  these deployments, and nothing else: other projects, deployments and pods, the nodes and the
  cluster configuration stay.\<close>

theorem delete_project_cascades:
  assumes "db_wf s" "delete_project cd flt n s = (Ok (), s')"
  shows "get_project cd flt n s' = Ok None
    \<and> list_deployments cd flt (Some n) s' = Ok []
    \<and> t_projects s' = filter (\<lambda>r. pr_name r \<noteq> n) (t_projects s)
    \<and> t_deployments s' = filter (\<lambda>d. dr_project d \<noteq> n) (t_deployments s)
    \<and> t_pods s' = filter (\<lambda>p. pw_deployment_id p \<notin>
          dr_id ` {d \<in> set (t_deployments s). dr_project d = n}) (t_pods s)
    \<and> t_nodes s' = t_nodes s \<and> t_config s' = t_config s"
proof -
  have fk: "d \<in> set (t_deployments s) \<Longrightarrow> has_key pr_name (dr_project d) (t_projects s)" for d
    using assms(1) by (auto simp: db_wf_def has_key_iff)
  have flt: "flt = None" and s': "s' = cascade_deployments
      (\<lambda>d. has_key pr_name n (t_projects s) \<and> dr_project d = n)
      (s\<lparr>t_projects := filter (\<lambda>r. pr_name r \<noteq> n) (t_projects s)\<rparr>)"
    using assms(2) by (auto simp: delete_project_def exec_sql_def split: option.splits)
  have deps: "t_deployments s' = filter (\<lambda>d. dr_project d \<noteq> n) (t_deployments s)"
    unfolding s' cascade_fields by (auto intro: filter_cong dest: fk)
  have pods: "t_pods s' = filter (\<lambda>p. pw_deployment_id p \<notin>
      dr_id ` {d \<in> set (t_deployments s). dr_project d = n}) (t_pods s)"
    unfolding s' cascade_pods by (auto intro!: filter_cong dest: fk)
  show ?thesis
    using deps pods flt
    by (simp add: s' get_project_def list_deployments_def fetch_def opt_row_def find_filter_key)
qed

text \<open>C23: nodes are read back as written. After a successful insert of a node whose floats the
  engine keeps, both look-ups (by id and by name) return exactly that node, through the
  signed integer columns that hold its unsigned counters, and every other id reads as before.\<close>

theorem inserted_node_read_back:
  assumes "sqlite_inv cd s" "storable cd n" "insert_node cd flt n s = (Ok (), s')"
  shows "get_node cd flt (node_id n) s' = Ok (Some n)
    \<and> get_node_by_name cd flt (node_name n) s' = Ok (Some n)
    \<and> (i = node_id n \<or> get_node cd flt i s' = get_node cd flt i s)"
proof -
  have ins: "ss_insert_node (sqlite_store cd flt) n s = (Ok (), s')"
    using assms(3) by (simp add: sqlite_store_def)
  note law = sq.insert_ok [OF assms(1,2) ins]
  have "get_node cd flt (node_id n) s' = Ok (Some n)" and inv: "sqlite_inv cd s'"
    using law [of "node_id n"] by (simp_all add: sqlite_store_def)
  moreover from this have "get_node_by_name cd flt (node_name n) s' = Ok (Some n)"
    using sq.by_name_complete [OF inv, of flt "node_id n" n] by (simp add: sqlite_store_def)
  moreover have "i = node_id n \<or> get_node cd flt i s' = get_node cd flt i s"
    using law [of i] by (auto simp: sqlite_store_def)
  ultimately show ?thesis by blast
qed

text \<open>Deployments are read back as written: a successful insert is followed by a
  \<open>get_deployment\<close> under the spec's project and name that returns the same deployment.\<close>

theorem inserted_deployment_read_back:
  assumes "codec_ok cd" "insert_deployment cd flt d s = (Ok (), s')"
  shows "get_deployment cd flt (spec_project (dep_spec d)) (spec_deployment_name (dep_spec d)) s' = Ok (Some d)"
proof -
  from assms(2) obtain j where j: "spec_json cd (dep_spec d) = Ok j"
    by (auto simp: insert_deployment_def split: sum.splits)
  let ?r = "deployment_to_row cd j d"
  have flt: "flt = None" and s': "s' = s\<lparr>t_deployments := t_deployments s @ [?r]\<rparr>"
    and fresh: "\<not> has_key (\<lambda>d. (dr_project d, dr_name d)) (dr_project ?r, dr_name ?r) (t_deployments s)"
    using assms(2) j
    by (auto simp: insert_deployment_def exec_sql_def sql_insert_deployment_def
             split: option.splits if_splits)
  have "find (\<lambda>r. dr_project r = dr_project ?r \<and> dr_name r = dr_name ?r) (t_deployments s) = None"
    using fresh by (auto simp: find_None_iff has_key_def list_ex_iff)
  moreover have "dr_project ?r = spec_project (dep_spec d)" "dr_name ?r = spec_deployment_name (dep_spec d)"
    by (simp_all add: deployment_to_row_def codec_okD [OF assms(1)])
  ultimately show ?thesis
    using deployment_row_roundtrip [OF assms(1) j]
    by (simp add: get_deployment_def flt s' fetch_def find_append opt_row_def)
qed

text \<open>A node name cannot be taken twice. Inserting a node whose name or id is already in
  the table is refused with \<open>InvalidSpec\<close> naming the node, and nothing is stored.\<close>

theorem duplicate_node_refused:
  assumes "get_node_by_name cd None (node_name n) s = Ok (Some old)" "storable cd n"
  shows "insert_node cd None n s =
    (Err (InvalidSpec (''node '' @ [CHR 39] @ node_name n @ [CHR 39] @ '' already exists'')), s)"
proof -
  obtain r where r: "node_to_row cd n = Some r" "nr_name r = node_name n"
    using assms(2) by (rule node_to_row_storable)
  have "has_key nr_name (node_name n) (t_nodes s)"
    using assms(1) find_key_None [of nr_name "node_name n" "t_nodes s"]
    by (auto simp: get_node_by_name_def fetch_def opt_row_Some)
  then show ?thesis using r by (simp add: insert_node_def sql_insert_node_def)
qed

section \<open>Witnesses\<close>

text \<open>A concrete codec: decimal ids and timestamps, numbered statuses, one JSON text.\<close>

definition sample_spec :: deployment_spec where
  "sample_spec = \<lparr>spec_project = ''shop'', spec_deployment_name = ''api'', spec_replicas = 1,
     spec_image = ''nginx'', spec_ports = [80], spec_env = [], spec_volumes = [], spec_opaque = []\<rparr>"

definition parse_dec :: "string \<Rightarrow> int" where
  "parse_dec s = (case s of c # cs \<Rightarrow> if c = CHR ''-'' then - int (digits_value cs) else int (digits_value s)
    | [] \<Rightarrow> 0)"

lemma parse_dec_show_int: "parse_dec (show_int i) = i"
proof (cases "i < 0")
  case False
  show ?thesis
    by (rule show_nat_sign [of "nat i"])
      (use False digits_value_show_nat [of "nat i"] in \<open>simp add: show_int_def parse_dec_def\<close>)
qed (simp add: show_int_def parse_dec_def)

definition sample_codec :: codec where
  "sample_codec =
     \<lparr>uuid_str = (\<lambda>u. show_nat (unat u)), uuid_parse = (\<lambda>s. Ok (word_of_nat (digits_value s))),
      ts_str = show_int, ts_parse = (\<lambda>s. Ok (parse_dec s)),
      pstat_str = (\<lambda>x. show_nat (case x of Active \<Rightarrow> 0 | Suspended \<Rightarrow> 1 | ProjectStatusOther n \<Rightarrow> n + 2)),
      pstat_parse = (\<lambda>s. Ok (let n = digits_value s in
        if n = 0 then Active else if n = 1 then Suspended else ProjectStatusOther (n - 2))),
      dstat_str = (\<lambda>x. show_nat (case x of DepPending \<Rightarrow> 0 | DepRunning \<Rightarrow> 1 | DeploymentStatusOther n \<Rightarrow> n + 2)),
      dstat_parse = (\<lambda>s. Ok (let n = digits_value s in
        if n = 0 then DepPending else if n = 1 then DepRunning else DeploymentStatusOther (n - 2))),
      podstat_str = (\<lambda>x. show_nat (case x of PodPending \<Rightarrow> 0 | PodRunning \<Rightarrow> 1 | PodStatusOther n \<Rightarrow> n + 2)),
      podstat_parse = (\<lambda>s. Ok (let n = digits_value s in
        if n = 0 then PodPending else if n = 1 then PodRunning else PodStatusOther (n - 2))),
      role_str = (\<lambda>x. show_nat (case x of Master \<Rightarrow> 0 | Worker \<Rightarrow> 1 | NodeRoleOther n \<Rightarrow> n + 2)),
      role_parse = (\<lambda>s. Ok (let n = digits_value s in
        if n = 0 then Master else if n = 1 then Worker else NodeRoleOther (n - 2))),
      nstat_str = (\<lambda>x. show_nat (case x of Ready \<Rightarrow> 0 | NotReady \<Rightarrow> 1 | Draining \<Rightarrow> 2 | NodeStatusOther n \<Rightarrow> n + 3)),
      nstat_parse = (\<lambda>s. Ok (let n = digits_value s in
        if n = 0 then Ready else if n = 1 then NotReady else if n = 2 then Draining else NodeStatusOther (n - 3))),
      spec_json = (\<lambda>s. if s = sample_spec then Ok ''{}'' else Err ''unsupported''),
      spec_parse = (\<lambda>_. Ok sample_spec),
      dep_project = (\<lambda>d. spec_project (dep_spec d)), dep_name = (\<lambda>d. spec_deployment_name (dep_spec d)),
      real_col = Some, sql_text = (\<lambda>_. ''database error'')\<rparr>"

lemma sample_codec_ok: "codec_ok sample_codec"
  unfolding codec_ok_def sample_codec_def
  by (simp add: parse_dec_show_int Let_def split: project_status.splits deployment_status.splits
      pod_status.splits node_role.splits node_status.splits)

definition sample_node :: node where
  "sample_node = \<lparr>node_id = 7, node_name = ''w1'', node_address = ''10.0.0.2:6444'', node_role = Worker,
     node_stat = Ready, node_resources = \<lparr>cpu_cores = 4, memory_bytes = 18446744073709551615,
       cpu_available = 3, memory_available = 5, running_pods = 4294967295\<rparr>,
     last_heartbeat = 0, joined_at = 0\<rparr>"

definition sample_deployment :: deployment where
  "sample_deployment = \<lparr>dep_id = 3, dep_spec = sample_spec, dep_status = DepPending,
     dep_created_at = 0, dep_updated_at = 0\<rparr>"

definition sample_project :: project where
  "sample_project = \<lparr>proj_name = ''shop'', proj_status = Active, proj_created_at = 0\<rparr>"

lemma sample_inv_empty: "sqlite_inv sample_codec db_empty"
  by (simp add: sqlite_inv_def sample_codec_ok db_wf_empty) (simp add: db_empty_def)

lemma sample_storable: "storable sample_codec n"
  by (simp add: storable_def sample_codec_def)

definition sample_db :: db where
  "sample_db = snd (insert_node sample_codec None sample_node db_empty)"

lemma sample_db_insert: "insert_node sample_codec None sample_node db_empty = (Ok (), sample_db)"
  by (simp add: sample_db_def insert_node_def sql_insert_node_def node_to_row_def sample_codec_def
      has_key_def db_empty_def)

theorem failed_write_changes_nothing_witness:
  "snd (store_step sample_codec (Some ''disk full'') (DeleteNode 7) sample_db) = sample_db"
  by (rule failed_write_changes_nothing [where e = "Runtime ''database error''"])
     (simp add: delete_node_def exec_sql_def runtime_err_def sample_codec_def)

theorem delete_project_cascades_witness:
  "get_project sample_codec None ''shop'' (snd (delete_project sample_codec None ''shop'' db_empty)) = Ok None"
  using delete_project_cascades [OF db_wf_empty,
      of sample_codec None "''shop''" "snd (delete_project sample_codec None ''shop'' db_empty)"]
  by (simp add: delete_project_def exec_sql_def)

theorem inserted_node_read_back_witness:
  "get_node sample_codec None (node_id sample_node) sample_db = Ok (Some sample_node)
    \<and> get_node_by_name sample_codec None (node_name sample_node) sample_db = Ok (Some sample_node)
    \<and> (8 = node_id sample_node \<or> get_node sample_codec None 8 sample_db = get_node sample_codec None 8 db_empty)"
  by (rule inserted_node_read_back [OF sample_inv_empty sample_storable sample_db_insert])

definition sample_project_db :: db where
  "sample_project_db = snd (insert_project sample_codec None sample_project db_empty)"

end
