(* ===== verification/Cluster_Server.thy ===== *)
theory Cluster_Server
  imports Cluster_Token Sqlite_Store
begin

text \<open>
  The cluster gRPC service (\<open>src/cluster/server.rs\<close>), the heartbeat monitor
  (\<open>src/cluster/heartbeat.rs\<close>) and the worker's registration (\<open>src/cluster/worker.rs\<close>).
  The state store is the dictionary \<open>D\<close> of the port; the client lemmas are proved once in the
  contracts of \<open>Domain\<close> and used on the SQLite store.
\<close>

section \<open>Messages\<close>

datatype grpc_status = InvalidArgument string | Internal string | StatusOther string

type_synonym 'a rpc = "grpc_status + 'a"

record register_request =
  rq_node_name :: string
  rq_node_address :: string
  rq_token :: string
  rq_resources :: "node_resources option"

record register_response =
  rs_node_id :: string
  rs_accepted :: bool
  rs_message :: string

record heartbeat_ping =
  hp_node_id :: string
  hp_status :: string
  hp_resources :: "node_resources option"

record assign_pod_request =
  ap_node_id :: string
  ap_pod_id :: string
  ap_pod_data :: string
  ap_deployment_spec :: string

record assign_pod_response =
  as_success :: bool
  as_message :: string
  as_container_id :: string

text \<open>\<open>ResourceInfo\<close> of the protocol has the fields of \<open>NodeResources\<close>; the sources copy
  them one by one in both directions.\<close>

definition copy_resources :: "node_resources \<Rightarrow> node_resources" where
  "copy_resources r =
     \<lparr>cpu_cores = cpu_cores r, memory_bytes = memory_bytes r, cpu_available = cpu_available r,
      memory_available = memory_available r, running_pods = running_pods r\<rparr>"

lemma copy_resources_id [simp]: "copy_resources r = r"
  by (simp add: copy_resources_def)

section \<open>Registration\<close>

definition rejected :: "string \<Rightarrow> register_response" where
  "rejected msg = \<lparr>rs_node_id = [], rs_accepted = False, rs_message = msg\<rparr>"

text \<open>The node a request asks for: a worker with the sent resources, or none.\<close>

definition registered_node :: "core \<Rightarrow> register_request \<Rightarrow> node" where
  "registered_node co req =
     (let resources = (case rq_resources req of Some r \<Rightarrow> copy_resources r | None \<Rightarrow> zero_resources co)
      in new_node co (rq_node_name req) (rq_node_address req) Worker resources)"

definition server_register ::
  "core \<Rightarrow> 's state_store \<Rightarrow> string \<Rightarrow> register_request \<Rightarrow> 's \<Rightarrow> register_response rpc \<times> 's" where
  "server_register co D token_hash req s =
     (if hex_encode co (sha256 co (rq_token req)) \<noteq> token_hash
      then (Ok (rejected ''invalid join token''), s)
      else (case ss_get_node_by_name D (rq_node_name req) s of
          Inr (Some _) \<Rightarrow>
            (Ok (rejected (''node '' @ [CHR 39] @ rq_node_name req @ [CHR 39] @ '' already registered'')), s)
        | _ \<Rightarrow>
            (let node = registered_node co req
             in (case ss_insert_node D node s of
                   (Inl _, s') \<Rightarrow> (Err (Internal ''failed to register node''), s')
                 | (Inr _, s') \<Rightarrow>
                     (Ok \<lparr>rs_node_id = uuid_text co (node_id node), rs_accepted = True,
                          rs_message = ''registered''\<rparr>, s')))))"

section \<open>Heartbeats\<close>

definition ping_status :: "string \<Rightarrow> node_status" where
  "ping_status st = (if st = ''ready'' then Ready else if st = ''draining'' then Draining else NotReady)"

definition ping_node :: "instant \<Rightarrow> heartbeat_ping \<Rightarrow> node \<Rightarrow> node" where
  "ping_node now ping n =
     (let n1 = n\<lparr>last_heartbeat := now, node_stat := ping_status (hp_status ping)\<rparr>
      in (case hp_resources ping of None \<Rightarrow> n1 | Some r \<Rightarrow> n1\<lparr>node_resources := copy_resources r\<rparr>))"

text \<open>One message of the stream: the flag tells whether a pong is sent.\<close>

definition handle_ping :: "core \<Rightarrow> 's state_store \<Rightarrow> instant \<Rightarrow> heartbeat_ping \<Rightarrow> 's \<Rightarrow> bool \<times> 's" where
  "handle_ping co D now ping s =
     (case parse_uuid co (hp_node_id ping) of
        Inl _ \<Rightarrow> (False, s)
      | Inr ident \<Rightarrow>
          (True, (case ss_get_node D ident s of
                    Inr (Some node) \<Rightarrow> snd (ss_update_node D (ping_node now ping node) s)
                  | _ \<Rightarrow> s)))"

text \<open>
  The task of \<open>heartbeat\<close>: messages are handled in order, each at its own time, until the
  stream ends or the receiver of the pongs is gone (\<open>open_for\<close> pongs can still be sent). The
  result is the number of pongs sent and the final store.
\<close>

fun heartbeat_stream ::
  "core \<Rightarrow> 's state_store \<Rightarrow> nat \<Rightarrow> (instant \<times> heartbeat_ping) list \<Rightarrow> 's \<Rightarrow> nat \<times> 's" where
  "heartbeat_stream co D open_for [] s = (0, s)"
| "heartbeat_stream co D open_for ((now, ping) # rest) s =
     (case handle_ping co D now ping s of
        (False, s1) \<Rightarrow> heartbeat_stream co D open_for rest s1
      | (True, s1) \<Rightarrow>
          (case open_for of
             0 \<Rightarrow> (0, s1)
           | Suc k \<Rightarrow> (case heartbeat_stream co D k rest s1 of (n, s2) \<Rightarrow> (Suc n, s2))))"

section \<open>Pods on a worker\<close>

text \<open>
  \<open>assign_pod\<close>, over a runtime dictionary \<open>RT\<close> and its engine state: the worker's own copy of the
  statements of \<open>LocalTransport::assign_pod\<close>, from the container's configuration to the
  removal of an old container and the creation of the network.
\<close>

definition server_pod_ports :: "deployment_spec \<Rightarrow> port_binding list" where
  "server_pod_ports spec =
     map (\<lambda>p. \<lparr>container_port = p, host_port = (if spec_replicas spec = 1 then Some p else None)\<rparr>) (spec_ports spec)"

definition server_pod_labels :: "core \<Rightarrow> pod \<Rightarrow> deployment_spec \<Rightarrow> (string, string) hashmap" where
  "server_pod_labels co pod spec =
     (let labels0 = [];
          labels1 = hm_insert ''managed-by'' ''nexanet'' labels0;
          labels2 = hm_insert ''nexa.project'' (spec_project spec) labels1;
          labels3 = hm_insert ''nexa.deployment'' (spec_deployment_name spec) labels2
      in hm_insert ''nexa.pod-id'' (uuid_text co (pod_id pod)) labels3)"

definition server_pod_volumes :: "deployment_spec \<Rightarrow> volume_binding list" where
  "server_pod_volumes spec =
     map (\<lambda>v. \<lparr>vb_source = source_name v, vb_target = mount_point v, vb_read_only = is_read_only v\<rparr>) (spec_volumes spec)"

definition server_network_name :: "deployment_spec \<Rightarrow> string" where
  "server_network_name spec = ''nexa-'' @ spec_project spec"

definition server_pod_config :: "core \<Rightarrow> pod \<Rightarrow> deployment_spec \<Rightarrow> container_config" where
  "server_pod_config co pod spec =
     \<lparr>cc_name = container_name co pod, cc_image = spec_image spec, cc_command = [],
      cc_env = spec_env spec, cc_ports = server_pod_ports spec, cc_volumes = server_pod_volumes spec,
      cc_labels = server_pod_labels co pod spec, cc_network = Some (server_network_name spec),
      cc_dns = [], cc_dns_search = []\<rparr>"

definition server_drop_container :: "'r runtime \<Rightarrow> string \<Rightarrow> 'r \<Rightarrow> 'r" where
  "server_drop_container RT name r =
     (case rt_stop_container RT name 5 r of (_, r1) \<Rightarrow> (case rt_remove_container RT name True r1 of (_, r2) \<Rightarrow> r2))"

definition server_ensure_network :: "'r runtime \<Rightarrow> string \<Rightarrow> 'r \<Rightarrow> 'r" where
  "server_ensure_network RT net r =
     (case rt_container_exists RT net r of
        (Inr True, r1) \<Rightarrow> r1
      | (_, r1) \<Rightarrow> (case rt_create_network RT net r1 of (_, r2) \<Rightarrow> r2))"

text \<open>The two copies agree, statement by statement.\<close>

lemma server_copy [simp]:
  "server_pod_config = pod_config" "server_network_name = network_name"
  "server_drop_container = drop_old_container" "server_ensure_network = ensure_pod_network"
proof -
  show net: "server_network_name = network_name" by (simp add: fun_eq_iff server_network_name_def network_name_def)
  show "server_pod_config = pod_config"
    by (simp add: fun_eq_iff server_pod_config_def pod_config_def server_pod_ports_def pod_ports_def
        server_pod_labels_def pod_labels_def server_pod_volumes_def pod_volumes_def net)
  show "server_drop_container = drop_old_container"
    by (simp add: fun_eq_iff server_drop_container_def drop_old_container_def split_beta)
  show "server_ensure_network = ensure_pod_network"
    by (auto simp: fun_eq_iff server_ensure_network_def ensure_pod_network_def split: prod.split sum.split bool.split)
qed

definition server_start_pod ::
  "core \<Rightarrow> 'r runtime \<Rightarrow> container_config \<Rightarrow> 'r \<Rightarrow> assign_pod_response \<times> 'r" where
  "server_start_pod co RT config r =
     (case rt_create_container RT config r of
        (Inl e, r1) \<Rightarrow>
          (\<lparr>as_success = False, as_message = ''create failed: '' @ err_text co e, as_container_id = []\<rparr>, r1)
      | (Inr cid, r1) \<Rightarrow>
          (case rt_start_container RT cid r1 of
             (Inl e, r2) \<Rightarrow>
               (\<lparr>as_success = False, as_message = ''start failed: '' @ err_text co e, as_container_id = []\<rparr>, r2)
           | (Inr _, r2) \<Rightarrow>
               (\<lparr>as_success = True, as_message = ''running'', as_container_id = cid\<rparr>, r2)))"

definition server_assign_pod ::
  "core \<Rightarrow> 'r runtime \<Rightarrow> assign_pod_request \<Rightarrow> 'r \<Rightarrow> assign_pod_response rpc \<times> 'r" where
  "server_assign_pod co RT req r =
     (case pod_from_json co (ap_pod_data req) of
        Inl e \<Rightarrow> (Err (InvalidArgument (''bad pod data: '' @ e)), r)
      | Inr pod \<Rightarrow>
          (case spec_from_json co (ap_deployment_spec req) of
             Inl e \<Rightarrow> (Err (InvalidArgument (''bad spec: '' @ e)), r)
           | Inr spec \<Rightarrow>
               (let name = container_name co pod;
                    r1 = snd (rt_pull_image RT (spec_image spec) r);
                    r3 = (case rt_container_exists RT name r1 of (ex, r2) \<Rightarrow>
                            if unwrap_or_false ex then server_drop_container RT name r2 else r2);
                    r4 = server_ensure_network RT (server_network_name spec) r3
                in (case server_start_pod co RT (server_pod_config co pod spec) r4 of
                      (resp, r5) \<Rightarrow> (Ok resp, r5)))))"

lemmas server_assign_pod_unfold = server_assign_pod_def [unfolded server_copy]

text \<open>\<open>stop_pod\<close> and \<open>remove_pod\<close> only log and answer; \<open>report_status\<close> checks the node id
  and logs; \<open>stream_logs\<close> answers with an empty stream.\<close>

definition server_stop_pod :: "string \<Rightarrow> string \<Rightarrow> 'r \<Rightarrow> (bool \<times> string) rpc \<times> 'r" where
  "server_stop_pod node_ident pod_ident r = (Ok (True, ''stopped''), r)"

definition server_remove_pod :: "string \<Rightarrow> string \<Rightarrow> 'r \<Rightarrow> (bool \<times> string) rpc \<times> 'r" where
  "server_remove_pod node_ident pod_ident r = (Ok (True, ''removed''), r)"

definition server_report_status :: "core \<Rightarrow> string \<Rightarrow> (string \<times> string) list \<Rightarrow> unit rpc" where
  "server_report_status co node_ident pod_statuses =
     (case parse_uuid co node_ident of Inl _ \<Rightarrow> Err (InvalidArgument ''bad node_id'') | Inr _ \<Rightarrow> Ok ())"

definition server_stream_logs :: "string \<Rightarrow> string \<Rightarrow> u64 \<Rightarrow> string list rpc" where
  "server_stream_logs node_ident pod_ident tail = Ok []"

section \<open>The heartbeat monitor\<close>

definition not_ready_threshold :: instant where
  "not_ready_threshold = secs 30"

definition dead_threshold :: instant where
  "dead_threshold = secs 60"

text \<open>\<open>signed_duration_since(..).to_std().unwrap_or(ZERO)\<close>.\<close>

definition elapsed_since :: "instant \<Rightarrow> instant \<Rightarrow> instant" where
  "elapsed_since now t = (if now - t < 0 then 0 else now - t)"

text \<open>
  The loop of \<open>check_nodes\<close> over the listed nodes. Calls of the reschedule callback are
  collected in order; an error of \<open>list_pods\<close> ends the pass, with what was done so far.
\<close>

type_synonym reschedule_log = "(uuid \<times> pod list) list"

fun check_nodes_loop ::
  "'s state_store \<Rightarrow> instant \<Rightarrow> node list \<Rightarrow> 's \<Rightarrow> unit res \<times> 's \<times> reschedule_log" where
  "check_nodes_loop D now [] s = (Ok (), s, [])"
| "check_nodes_loop D now (n # ns) s =
     (if node_role n = Master then check_nodes_loop D now ns s
      else let elapsed = elapsed_since now (last_heartbeat n) in
        if elapsed \<ge> dead_threshold then
          (let s1 = (if node_stat n \<noteq> NotReady
                     then snd (ss_update_node D (n\<lparr>node_stat := NotReady\<rparr>) s) else s)
           in (case ss_list_pods D None s1 of
                 Inl e \<Rightarrow> (Err e, s1, [])
               | Inr all_pods \<Rightarrow>
                   (let node_pods = filter (\<lambda>p. pod_node_id p = Some (node_id n)) all_pods
                    in (case check_nodes_loop D now ns s1 of
                          (r, s2, log) \<Rightarrow>
                            (r, s2, (if node_pods \<noteq> [] then [(node_id n, node_pods)] else []) @ log)))))
        else if elapsed \<ge> not_ready_threshold \<and> node_stat n \<noteq> NotReady then
          check_nodes_loop D now ns (snd (ss_update_node D (n\<lparr>node_stat := NotReady\<rparr>) s))
        else check_nodes_loop D now ns s)"

definition check_nodes :: "'s state_store \<Rightarrow> instant \<Rightarrow> 's \<Rightarrow> unit res \<times> 's \<times> reschedule_log" where
  "check_nodes D now s =
     (case ss_list_nodes D s of Inl e \<Rightarrow> (Err e, s, []) | Inr nodes \<Rightarrow> check_nodes_loop D now nodes s)"

text \<open>\<open>MONITOR_INTERVAL\<close>, and \<open>run_monitor\<close>: a pass per tick, errors logged only.\<close>

definition monitor_interval :: instant where
  "monitor_interval = secs 10"

fun run_monitor :: "'s state_store \<Rightarrow> instant list \<Rightarrow> 's \<Rightarrow> 's \<times> reschedule_log" where
  "run_monitor D [] s = (s, [])"
| "run_monitor D (now # ticks) s =
     (case check_nodes D now s of
        (_, s1, log) \<Rightarrow> (case run_monitor D ticks s1 of (s2, log') \<Rightarrow> (s2, log @ log')))"

section \<open>The worker\<close>

text \<open>What \<open>sysinfo\<close> reports, the processor usages in percent.\<close>

record sys_readings =
  sr_cpu_usages :: "f64 list"
  sr_total_memory :: u64
  sr_available_memory :: u64

definition collect_resources :: "float_ops \<Rightarrow> sys_readings \<Rightarrow> node_resources" where
  "collect_resources fl sys =
     (let cores = fl_of_nat fl (length (sr_cpu_usages sys));
          cpu_used = fl_sum fl (map (\<lambda>u. fl_div fl u (fl_of_nat fl 100)) (sr_cpu_usages sys))
      in \<lparr>cpu_cores = cores, memory_bytes = sr_total_memory sys,
          cpu_available = fl_max fl (fl_sub fl cores cpu_used) (fl_zero fl),
          memory_available = sr_available_memory sys, running_pods = 0\<rparr>)"

text \<open>The ping of \<open>run_heartbeat_sender\<close>, from the resources \<open>collect_resources\<close> found.\<close>

definition worker_ping :: "core \<Rightarrow> uuid \<Rightarrow> node_resources \<Rightarrow> heartbeat_ping" where
  "worker_ping co ident resources =
     \<lparr>hp_node_id = uuid_text co ident, hp_status = ''ready'', hp_resources = Some (copy_resources resources)\<rparr>"

text \<open>
  One call of \<open>run_heartbeat_sender\<close>: the connection and the call of the stream may fail; otherwise a ping
  is sent at every tick, each with the readings of that moment, until the master ends the stream or
  the stream breaks, and both count as success.
\<close>

record heartbeat_session =
  hs_connect_err :: "string option"
  hs_call_err :: "string option"
  hs_ticks :: "sys_readings list"

definition run_heartbeat_sender ::
  "float_ops \<Rightarrow> core \<Rightarrow> uuid \<Rightarrow> heartbeat_session \<Rightarrow> (string + unit) \<times> heartbeat_ping list" where
  "run_heartbeat_sender fl co ident ses =
     (case hs_connect_err ses of
        Some e \<Rightarrow> (Err e, [])
      | None \<Rightarrow>
          (case hs_call_err ses of
             Some e \<Rightarrow> (Err e, [])
           | None \<Rightarrow> (Ok (), map (\<lambda>sys. worker_ping co ident (collect_resources fl sys)) (hs_ticks ses))))"

text \<open>
  The heartbeat task of \<open>start_worker\<close>: sessions follow each other, with a pause of 5 s after a failed
  one only. The result lists for each session its pings and the pause after it.
\<close>

definition heartbeat_task ::
  "float_ops \<Rightarrow> core \<Rightarrow> uuid \<Rightarrow> heartbeat_session list \<Rightarrow> (heartbeat_ping list \<times> instant) list" where
  "heartbeat_task fl co ident sessions =
     map (\<lambda>ses. case run_heartbeat_sender fl co ident ses of
            (Inl _, pings) \<Rightarrow> (pings, secs 5) | (Inr _, pings) \<Rightarrow> (pings, 0)) sessions"

text \<open>
  The registration phase of \<open>start_worker\<close>: host name and connection are parameters that may
  fail, \<open>call\<close> is the master's \<open>Register\<close>. The value is the node id the worker uses for
  its heartbeats and the hash its own gRPC server checks, or the error message.
\<close>

definition worker_join ::
  "core \<Rightarrow> (grpc_status \<Rightarrow> string) \<Rightarrow> string + string \<Rightarrow> node_resources \<Rightarrow> string option
     \<Rightarrow> (register_request \<Rightarrow> register_response rpc) \<Rightarrow> string \<Rightarrow> string \<Rightarrow> string + (uuid \<times> string)" where
  "worker_join co status_text host resources connect_err call token listen_addr =
     (case host of Inl e \<Rightarrow> Err (''failed to get hostname: '' @ e)
      | Inr hostname \<Rightarrow>
          (case connect_err of Some e \<Rightarrow> Err e
           | None \<Rightarrow>
               (case call \<lparr>rq_node_name = hostname, rq_node_address = listen_addr, rq_token = token,
                           rq_resources = Some (copy_resources resources)\<rparr> of
                  Inl st \<Rightarrow> Err (status_text st)
                | Inr resp \<Rightarrow>
                    if \<not> rs_accepted resp then Err (''master rejected registration: '' @ rs_message resp)
                    else (case parse_uuid co (rs_node_id resp) of
                            Inl e \<Rightarrow> Err (''invalid node_id from master: '' @ e)
                          | Inr ident \<Rightarrow> Ok (ident, hash_token co token)))))"

text \<open>
  \<open>start_grpc_server\<close>: the address is parsed, then the server runs until it fails or is shut down.
\<close>

definition start_grpc_server :: "(string \<Rightarrow> string + string) \<Rightarrow> (string \<Rightarrow> string option) \<Rightarrow> string \<Rightarrow> string + unit" where
  "start_grpc_server parse_addr serve_err addr =
     (case parse_addr addr of
        Inl e \<Rightarrow> Err (''bad addr: '' @ e)
      | Inr a \<Rightarrow> (case serve_err a of Some e \<Rightarrow> Err e | None \<Rightarrow> Ok ()))"

text \<open>
  The last phase of \<open>start_worker\<close>: it ends with the first of its two tasks to end, each with the result of its
  join handle (a panic is the error). The server task itself ends normally also when the server fails, as
  it only logs the error; the heartbeat task never ends by itself.
\<close>

definition grpc_task :: "string + unit \<Rightarrow> string + unit" where
  "grpc_task result = (case result of Inl _ \<Rightarrow> Ok () | Inr _ \<Rightarrow> Ok ())"

datatype worker_end = GrpcEnded "string + unit" | HeartbeatEnded "string + unit"

definition worker_wait :: "worker_end \<Rightarrow> string + unit" where
  "worker_wait w = (case w of GrpcEnded _ \<Rightarrow> Ok () | HeartbeatEnded _ \<Rightarrow> Ok ())"

definition run_worker :: "string + (uuid \<times> string) \<Rightarrow> worker_end \<Rightarrow> string + unit" where
  "run_worker joined w = (case joined of Inl e \<Rightarrow> Err e | Inr _ \<Rightarrow> worker_wait w)"

section \<open>The monitor against its specification\<close>

definition stale :: "instant \<Rightarrow> instant \<Rightarrow> node \<Rightarrow> bool" where
  "stale threshold now n \<longleftrightarrow> node_role n \<noteq> Master \<and> now - last_heartbeat n \<ge> threshold"

definition monitor_node :: "instant \<Rightarrow> node \<Rightarrow> node" where
  "monitor_node now n = (if stale (secs 30) now n then n\<lparr>node_stat := NotReady\<rparr> else n)"

definition pods_on :: "pod list \<Rightarrow> node \<Rightarrow> pod list" where
  "pods_on pods n = filter (\<lambda>p. pod_node_id p = Some (node_id n)) pods"

definition monitor_log :: "instant \<Rightarrow> pod list \<Rightarrow> node list \<Rightarrow> reschedule_log" where
  "monitor_log now pods ns =
     map (\<lambda>n. (node_id n, pods_on pods n)) (filter (\<lambda>n. stale (secs 60) now n \<and> pods_on pods n \<noteq> []) ns)"

lemma elapsed_iff: "0 < th \<Longrightarrow> elapsed_since now t \<ge> th \<longleftrightarrow> now - t \<ge> th"
  by (simp add: elapsed_since_def)

lemmas threshold_defs = not_ready_threshold_def dead_threshold_def secs_def stale_def monitor_node_def

lemma node_stat_self: "node_stat n = st \<Longrightarrow> n\<lparr>node_stat := st\<rparr> = n"
  by simp

context reliable_store
begin

lemma mark_not_ready:
  assumes "inv s" "storable n" "ss_get_node D (node_id n) s = Ok (Some n)"
  obtains s' where
    "s' = (if node_stat n \<noteq> NotReady then snd (ss_update_node D (n\<lparr>node_stat := NotReady\<rparr>) s) else s)"
    "inv s'" "\<And>p. ss_list_pods D p s' = ss_list_pods D p s"
    "\<And>i. ss_get_node D i s' = (if i = node_id n then Ok (Some (n\<lparr>node_stat := NotReady\<rparr>)) else ss_get_node D i s)"
proof (cases "node_stat n = NotReady")
  case True
  then show ?thesis using assms that [of s] by (auto simp: node_stat_self)
next
  case False
  obtain s' where u: "ss_update_node D (n\<lparr>node_stat := NotReady\<rparr>) s = (Ok (), s')" "inv s'"
    "\<And>i. ss_get_node D i s' = (if i = node_id n then Ok (Some (n\<lparr>node_stat := NotReady\<rparr>)) else ss_get_node D i s)"
    "\<And>p. ss_list_pods D p s' = ss_list_pods D p s"
    using update_stat [OF assms] by metis
  show ?thesis using u False by (intro that [of s']) auto
qed

lemma check_nodes_step:
  assumes "inv s" "storable n" "ss_get_node D (node_id n) s = Ok (Some n)" "ss_list_pods D None s = Ok pods"
  obtains s' where "inv s'" "ss_list_pods D None s' = Ok pods"
    "\<And>i. ss_get_node D i s' = (if i = node_id n then Ok (Some (monitor_node now n)) else ss_get_node D i s)"
    "\<And>ns. check_nodes_loop D now (n # ns) s =
       (case check_nodes_loop D now ns s' of (r, s2, log) \<Rightarrow> (r, s2, monitor_log now pods [n] @ log))"
proof -
  obtain s1 where s1: "s1 = (if node_stat n \<noteq> NotReady then snd (ss_update_node D (n\<lparr>node_stat := NotReady\<rparr>) s) else s)"
    "inv s1" "\<And>p. ss_list_pods D p s1 = ss_list_pods D p s"
    "\<And>i. ss_get_node D i s1 = (if i = node_id n then Ok (Some (n\<lparr>node_stat := NotReady\<rparr>)) else ss_get_node D i s)"
    using mark_not_ready [OF assms(1-3)] by metis
  let ?s' = "if stale (secs 30) now n then s1 else s"
  show ?thesis
  proof (rule that)
    show "inv ?s'" "ss_list_pods D None ?s' = Ok pods" using assms s1 by auto
    show "ss_get_node D i ?s' = (if i = node_id n then Ok (Some (monitor_node now n)) else ss_get_node D i s)" for i
      using assms(3) s1(4) by (simp add: monitor_node_def)
    show "check_nodes_loop D now (n # ns) s =
       (case check_nodes_loop D now ns ?s' of (r, s2, log) \<Rightarrow> (r, s2, monitor_log now pods [n] @ log))" for ns
      using s1(1) s1(3) assms(4)
      by (auto simp: monitor_log_def pods_on_def threshold_defs elapsed_iff Let_def split: prod.splits)
  qed
qed

lemma check_nodes_loop_spec:
  assumes "inv s" "distinct (map node_id ns)" "ss_list_pods D None s = Ok pods"
    "\<And>n. n \<in> set ns \<Longrightarrow> storable n \<and> ss_get_node D (node_id n) s = Ok (Some n)"
  shows "\<exists>s'. check_nodes_loop D now ns s = (Ok (), s', monitor_log now pods ns) \<and> inv s'
    \<and> ss_list_pods D None s' = Ok pods
    \<and> (\<forall>n\<in>set ns. ss_get_node D (node_id n) s' = Ok (Some (monitor_node now n)))
    \<and> (\<forall>i. i \<notin> node_id ` set ns \<longrightarrow> ss_get_node D i s' = ss_get_node D i s)"
  using assms
proof (induction ns arbitrary: s)
  case Nil
  then show ?case by (simp add: monitor_log_def)
next
  case (Cons n ns)
  obtain s1 where s1: "inv s1" "ss_list_pods D None s1 = Ok pods"
    "\<And>i. ss_get_node D i s1 = (if i = node_id n then Ok (Some (monitor_node now n)) else ss_get_node D i s)"
    "\<And>ms. check_nodes_loop D now (n # ms) s =
       (case check_nodes_loop D now ms s1 of (r, s2, log) \<Rightarrow> (r, s2, monitor_log now pods [n] @ log))"
    using check_nodes_step [of s n pods now] Cons.prems by (metis list.set_intros(1))
  have fresh: "node_id n \<notin> node_id ` set ns" using Cons.prems(2) by simp
  have "storable m \<and> ss_get_node D (node_id m) s1 = Ok (Some m)" if "m \<in> set ns" for m
  proof -
    have "node_id m \<noteq> node_id n" using fresh that by (metis imageI)
    then show ?thesis using Cons.prems(4) [of m] s1(3) that by simp
  qed
  with Cons.IH [OF s1(1) _ s1(2)] Cons.prems(2) obtain s2 where
    s2: "check_nodes_loop D now ns s1 = (Ok (), s2, monitor_log now pods ns)" "inv s2"
      "ss_list_pods D None s2 = Ok pods"
      "\<forall>m\<in>set ns. ss_get_node D (node_id m) s2 = Ok (Some (monitor_node now m))"
      "\<forall>i. i \<notin> node_id ` set ns \<longrightarrow> ss_get_node D i s2 = ss_get_node D i s1"
    by auto
  have "monitor_log now pods (n # ns) = monitor_log now pods [n] @ monitor_log now pods ns"
    by (simp add: monitor_log_def)
  then show ?case using s2 s1(3,4) fresh by auto
qed

lemma check_nodes_spec:
  assumes "inv s" "ss_list_nodes D s = Ok ns" "list_all storable ns" "ss_list_pods D None s = Ok pods"
  shows "\<exists>s'. check_nodes D now s = (Ok (), s', monitor_log now pods ns) \<and> inv s'
    \<and> ss_list_pods D None s' = Ok pods
    \<and> (\<forall>n\<in>set ns. ss_get_node D (node_id n) s' = Ok (Some (monitor_node now n)))
    \<and> (\<forall>i. i \<notin> node_id ` set ns \<longrightarrow> ss_get_node D i s' = ss_get_node D i s)"
  using check_nodes_loop_spec [OF assms(1) list_nodes_distinct [OF assms(1,2)] assms(4), of now]
    list_nodes_get [OF assms(1,2)] assms(2,3)
  by (auto simp: check_nodes_def list_all_iff)

text \<open>A message of the heartbeat stream rewrites one node.\<close>

lemma handle_ping_spec:
  assumes "inv s" "parse_uuid co (hp_node_id ping) = Ok i" "ss_get_node D i s = Ok (Some n)"
    "storable (ping_node now ping n)"
  shows "\<exists>s'. handle_ping co D now ping s = (True, s') \<and> inv s'
    \<and> (\<forall>j. ss_get_node D j s' = (if j = i then Ok (Some (ping_node now ping n)) else ss_get_node D j s))
    \<and> (\<forall>p. ss_list_pods D p s' = ss_list_pods D p s)"
proof -
  let ?n = "ping_node now ping n"
  have f: "node_id ?n = i" "node_name ?n = node_name n" "joined_at ?n = joined_at n"
    using get_node_id [OF assms(1,3)] by (simp_all add: ping_node_def Let_def split: option.splits)
  have g: "ss_get_node D (node_id ?n) s = Ok (Some n)" using assms(3) f by simp
  obtain s' where u: "ss_update_node D ?n s = (Ok (), s')"
    using update_defined [OF assms(1,4) g] f by auto
  have "?n\<lparr>joined_at := joined_at n\<rparr> = ?n" using f(3) by (metis node.surjective node.update_convs(8))
  then have "inv s' \<and> (\<forall>j. ss_get_node D j s' = (if j = i then Ok (Some ?n) else ss_get_node D j s))"
    using update_ok [OF assms(1,4) g u] f by auto
  moreover have "ss_list_pods D p s' = ss_list_pods D p s" for p
    using update_pods [of p ?n s] u by simp
  ultimately show ?thesis using assms(2,3) u by (auto simp: handle_ping_def)
qed

lemma register_spec:
  assumes "n = registered_node co req" "inv s" "new_node_ok co" "storable n" "ss_get_node D (node_id n) s = Ok None"
    "ss_get_node_by_name D (rq_node_name req) s = Ok None"
  obtains s' where "server_register co D (hash_token co (rq_token req)) req s =
      (Ok \<lparr>rs_node_id = uuid_text co (node_id n), rs_accepted = True, rs_message = ''registered''\<rparr>, s')"
    "inv s'" "\<And>i. ss_get_node D i s' = (if i = node_id n then Ok (Some n) else ss_get_node D i s)"
    "ss_get_node_by_name D (rq_node_name req) s' = Ok (Some n)"
proof -
  have nm: "node_name n = rq_node_name req" using assms(3) by (simp add: new_node_ok_def assms(1) registered_node_def)
  obtain s' where ins: "ss_insert_node D n s = (Ok (), s')"
    using insert_defined [OF assms(2,4,5)] assms(6) nm by auto
  note ok = insert_ok [OF assms(2,4) ins]
  show ?thesis
  proof (rule that)
    show "server_register co D (hash_token co (rq_token req)) req s =
      (Ok \<lparr>rs_node_id = uuid_text co (node_id n), rs_accepted = True, rs_message = ''registered''\<rparr>, s')"
      using assms(1,6) ins by (simp add: server_register_def hash_token_def registered_node_def)
    show "inv s'" "ss_get_node D i s' = (if i = node_id n then Ok (Some n) else ss_get_node D i s)" for i
      using ok by simp_all
    show "ss_get_node_by_name D (rq_node_name req) s' = Ok (Some n)"
      using by_name_complete [of s' "node_id n" n] ok nm by simp
  qed
qed

end

section \<open>Properties\<close>

text \<open>C7: joining the cluster is authenticated and exclusive. With the master holding the hash of
  a token, a registration is accepted exactly when the presented token has the same SHA-256
  digest and the name is free; then the new worker is stored and found under its id and its name,
  and no other node changed. Otherwise the response is a rejection and nothing is stored.\<close>

theorem register_correct:
  assumes "sqlite_inv cd s" "hex_ok co" "new_node_ok co" "n = registered_node co req" "storable cd n"
    "get_node cd None (node_id n) s = Ok None" "get_node_by_name cd None (rq_node_name req) s = Ok found"
  shows "if sha256 co (rq_token req) = sha256 co token \<and> found = None
    then \<exists>s'. server_register co (sqlite_store cd None) (hash_token co token) req s =
             (Ok \<lparr>rs_node_id = uuid_text co (node_id n), rs_accepted = True, rs_message = ''registered''\<rparr>, s')
           \<and> sqlite_inv cd s' \<and> get_node_by_name cd None (rq_node_name req) s' = Ok (Some n)
           \<and> (\<forall>i. get_node cd None i s' = (if i = node_id n then Ok (Some n) else get_node cd None i s))
    else \<exists>msg. server_register co (sqlite_store cd None) (hash_token co token) req s = (Ok (rejected msg), s)"
proof (cases "sha256 co (rq_token req) = sha256 co token")
  case False
  then show ?thesis using assms(2) by (auto simp: server_register_def hash_token_def hex_encode_inject)
next
  case True
  then have h: "hash_token co token = hash_token co (rq_token req)" by (simp add: hash_token_def)
  show ?thesis
  proof (cases found)
    case None
    have "\<exists>s'. server_register co (sqlite_store cd None) (hash_token co (rq_token req)) req s =
             (Ok \<lparr>rs_node_id = uuid_text co (node_id n), rs_accepted = True, rs_message = ''registered''\<rparr>, s')
           \<and> sqlite_inv cd s' \<and> get_node_by_name cd None (rq_node_name req) s' = Ok (Some n)
           \<and> (\<forall>i. get_node cd None i s' = (if i = node_id n then Ok (Some n) else get_node cd None i s))"
      by (rule sqr.register_spec [OF assms(4,1,3,5), unfolded sqlite_store_ops, folded sqlite_store_ops])
         (use assms(6,7) None in \<open>auto simp: sqlite_store_def\<close>)
    then show ?thesis using None True h by simp
  next
    case (Some m)
    then show ?thesis using assms(7) h by (auto simp: server_register_def hash_token_def sqlite_store_def)
  qed
qed

text \<open>C8: one pass of the heartbeat monitor does what its thresholds say. Every worker whose last
  heartbeat is at least 30 s old is \<open>NotReady\<close> afterwards and every other node is as before;
  the reschedule callback is called, in the order of the listing, exactly for the workers silent
  for at least 60 s that still have pods, with all the pods of that node; masters are never touched.\<close>

theorem check_nodes_correct:
  assumes "sqlite_inv cd s" "list_nodes cd None s = Ok ns" "list_all (storable cd) ns"
    "list_pods cd None None s = Ok pods"
  shows "\<exists>s'. check_nodes (sqlite_store cd None) now s = (Ok (), s', monitor_log now pods ns) \<and> sqlite_inv cd s'
    \<and> map (\<lambda>n. get_node cd None (node_id n) s') ns = map (\<lambda>n. Ok (Some (monitor_node now n))) ns
    \<and> list_pods cd None None s' = Ok pods"
  using sqr.check_nodes_spec [of cd s ns pods now] assms by (auto simp: sqlite_store_def)

text \<open>A live worker survives the monitor. After a ping of a known worker at time \<open>t\<close>, a
  monitor pass less than 30 s later reports no error, leaves the node exactly as the ping wrote
  it (its status included) and does not reschedule its pods.\<close>

theorem ping_keeps_worker_alive:
  assumes "sqlite_inv cd s" "parse_uuid co (hp_node_id ping) = Ok i" "get_node cd None i s = Ok (Some n)"
    "storable cd (ping_node t ping n)" "now - t < secs 30"
    "handle_ping co (sqlite_store cd None) t ping s = (True, s1)"
    "list_nodes cd None s1 = Ok ns" "list_all (storable cd) ns" "list_pods cd None None s1 = Ok pods"
    "ping_node t ping n \<in> set ns"
  shows "\<exists>s2 log. check_nodes (sqlite_store cd None) now s1 = (Ok (), s2, log)
    \<and> get_node cd None i s2 = Ok (Some (ping_node t ping n)) \<and> i \<notin> fst ` set log"
proof -
  let ?n = "ping_node t ping n"
  have hb: "last_heartbeat ?n = t" "node_id ?n = i"
    using sq.get_node_id [of cd s None i n] assms(1,3)
    by (simp_all add: ping_node_def Let_def sqlite_store_def split: option.splits)
  have inv1: "sqlite_inv cd s1"
    using sqr.handle_ping_spec [of cd s co ping i n t] assms by (auto simp: sqlite_store_def)
  obtain s2 where s2: "check_nodes (sqlite_store cd None) now s1 = (Ok (), s2, monitor_log now pods ns)"
    "\<And>m. m \<in> set ns \<Longrightarrow> get_node cd None (node_id m) s2 = Ok (Some (monitor_node now m))"
    using sqr.check_nodes_spec [OF inv1, of ns pods now] assms(7-9) by (auto simp: sqlite_store_def)
  have "monitor_node now ?n = ?n" using hb(1) assms(5) by (simp add: monitor_node_def stale_def)
  moreover have "i \<notin> fst ` set (monitor_log now pods ns)"
  proof
    assume "i \<in> fst ` set (monitor_log now pods ns)"
    then obtain m where m: "m \<in> set ns" "node_id m = i" "stale (secs 60) now m"
      by (auto simp: monitor_log_def)
    have "inj_on node_id (set ns)"
      using sq.list_nodes_distinct [of cd s1 None ns] inv1 assms(7) by (simp add: sqlite_store_def distinct_map)
    then have "m = ?n" using m(1,2) assms(10) hb(2) by (auto dest: inj_onD)
    then show False using m(3) hb(1) assms(5) by (simp add: stale_def secs_def)
  qed
  ultimately show ?thesis using s2 assms(10) hb(2) by metis
qed

text \<open>A broken stream is retried without a pause: when the connection is accepted and the stream then ends at
  once, the worker reconnects in a tight loop.\<close>

theorem broken_stream_no_pause:
  assumes "list_all (\<lambda>ses. hs_connect_err ses = None \<and> hs_call_err ses = None \<and> hs_ticks ses = []) sessions"
  shows "heartbeat_task fl co ident sessions = replicate (length sessions) ([], 0)"
  using assms
  by (induction sessions) (simp_all add: heartbeat_task_def run_heartbeat_sender_def)

text \<open>A worker that cannot serve ends with success: when its port is taken or its address does not parse, the
  registered worker stops without an error.\<close>

theorem worker_hides_server_failure:
  assumes "worker_join co status_text host resources connect_err call token addr = Ok joined"
    "start_grpc_server parse_addr serve_err addr = Err e"
  shows "run_worker (worker_join co status_text host resources connect_err call token addr)
      (GrpcEnded (grpc_task (start_grpc_server parse_addr serve_err addr))) = Ok ()"
  using assms by (simp add: run_worker_def worker_wait_def)

text \<open>Every ping of a worker carries its id and reports it ready.\<close>

lemma sent_pings:
  "p \<in> set (snd (run_heartbeat_sender fl co ident ses)) \<Longrightarrow> hp_node_id p = uuid_text co ident \<and> hp_status p = ''ready''"
  by (auto simp: run_heartbeat_sender_def worker_ping_def split: option.splits)

text \<open>Draining does not survive a heartbeat. Whatever the stored status of a worker, also
  \<open>Draining\<close> as set by the API, the next ping its own sender produces stores it as \<open>Ready\<close>.\<close>

theorem worker_ping_overwrites_status:
  assumes "sqlite_inv cd s" "uuid_text_ok co" "get_node cd None i s = Ok (Some n)"
    "storable cd (n\<lparr>node_resources := res\<rparr>)"
  shows "\<exists>s'. handle_ping co (sqlite_store cd None) now (worker_ping co i res) s = (True, s')
    \<and> get_node cd None i s' = Ok (Some (n\<lparr>node_resources := res, last_heartbeat := now, node_stat := Ready\<rparr>))"
proof -
  let ?p = "worker_ping co i res"
  have p: "parse_uuid co (hp_node_id ?p) = Ok i"
    using assms(2) by (simp add: worker_ping_def uuid_text_ok_def)
  have n: "ping_node now ?p n = n\<lparr>node_resources := res, last_heartbeat := now, node_stat := Ready\<rparr>"
    by (simp add: ping_node_def worker_ping_def ping_status_def)
  then have "storable cd (ping_node now ?p n)" using assms(4) by (simp add: storable_def)
  then show ?thesis using sqr.handle_ping_spec [of cd s co ?p i n now] assms(1,3) p n
    by (auto simp: sqlite_store_def)
qed

text \<open>Generated tokens are well formed and only they open the door they were made for. With 32
  random bytes a token has 68 characters and passes the format check; another token verifies
  against its stored hash exactly when the SHA-256 digests agree.\<close>

theorem generated_token_valid:
  assumes "hex_ok co" "length bytes = 32"
  shows "validate_token_format co (generate_token co bytes) = Ok ()
    \<and> length (generate_token co bytes) = 68
    \<and> verify_token co t (hash_token co (generate_token co bytes)) = (sha256 co t = sha256 co (generate_token co bytes))"
proof -
  have "hex_decode co (hex_encode co bytes) = Ok bytes" "length (hex_encode co bytes) = 64"
    using assms by (simp_all add: hex_ok_def)
  then show ?thesis
    using assms(1) by (simp add: validate_token_format_Ok generate_token_def verify_hash_iff) (simp add: token_prefix_def)
qed

section \<open>Witnesses\<close>

text \<open>Concrete helpers: doubled characters for hexadecimal, the identity as digest, ids in
  decimal, one JSON text for the sample pod and spec.\<close>

definition sample_pod :: pod where
  "sample_pod = \<lparr>pod_id = 11, pod_deployment_id = 3, pod_project = ''shop'', pod_deployment_name = ''api'',
     pod_replica_index = 0, pod_node_id = Some 7, pod_container_id = None, pod_container_ip = None,
     pod_stat = PodPending, pod_image = ''nginx'', pod_restart_count = 0, pod_created_at = 0\<rparr>"

fun halve :: "'a list \<Rightarrow> 'a list" where
  "halve (a # b # xs) = a # halve xs"
| "halve xs = []"

definition sample_core :: core where
  "sample_core =
     \<lparr>container_name = (\<lambda>p. ''nexa-'' @ pod_project p @ ''-'' @ pod_deployment_name p),
      err_text = (\<lambda>_. ''error''), uuid_text = uuid_str sample_codec, parse_uuid = uuid_parse sample_codec,
      new_node = (\<lambda>nm ad ro rs. \<lparr>node_id = 7, node_name = nm, node_address = ad, node_role = ro,
        node_stat = Ready, node_resources = rs, last_heartbeat = 0, joined_at = 0\<rparr>),
      zero_resources = \<lparr>cpu_cores = 0, memory_bytes = 0, cpu_available = 0, memory_available = 0, running_pods = 0\<rparr>,
      pod_to_json = (\<lambda>p. if p = sample_pod then Ok ''{}'' else Err ''unsupported''),
      pod_from_json = (\<lambda>_. Ok sample_pod),
      spec_to_json = (\<lambda>d. if d = sample_spec then Ok ''{}'' else Err ''unsupported''),
      spec_from_json = (\<lambda>_. Ok sample_spec),
      sha256 = (\<lambda>s. s), hex_encode = (\<lambda>b. concat (map (\<lambda>c. [c, c]) b)), hex_decode = (\<lambda>s. Ok (halve s))\<rparr>"

lemma halve_doubled: "halve (concat (map (\<lambda>c. [c, c]) b)) = b"
  by (induction b) auto

lemma length_doubled: "length (concat (map (\<lambda>c. [c, c]) b)) = 2 * length b"
  by (induction b) auto

lemma sample_core_ok:
  "hex_ok sample_core" "json_ok sample_core" "new_node_ok sample_core" "uuid_text_ok sample_core"
  by (simp_all add: sample_core_def hex_ok_def json_ok_def new_node_ok_def uuid_text_ok_def
      halve_doubled length_doubled codec_okD [OF sample_codec_ok] split: if_splits)

definition sample_register :: register_request where
  "sample_register = \<lparr>rq_node_name = ''w1'', rq_node_address = ''10.0.0.2:6444'', rq_token = ''nxa_1'',
     rq_resources = Some (node_resources sample_node)\<rparr>"

lemma sample_registered: "registered_node sample_core sample_register = sample_node"
  by (simp add: registered_node_def sample_core_def sample_register_def sample_node_def)

lemma sample_empty_lookups:
  "get_node sample_codec None i db_empty = Ok None" "get_node_by_name sample_codec None nm db_empty = Ok None"
  by (simp_all add: get_node_def get_node_by_name_def db_empty_def fetch_def opt_row_def)

theorem register_correct_witness:
  "\<exists>s'. fst (server_register sample_core (sqlite_store sample_codec None) (hash_token sample_core ''nxa_1'')
        sample_register db_empty) = Ok \<lparr>rs_node_id = uuid_text sample_core 7, rs_accepted = True, rs_message = ''registered''\<rparr>
     \<and> get_node_by_name sample_codec None ''w1'' s' = Ok (Some sample_node)"
  using register_correct [OF sample_inv_empty sample_core_ok(1,3) sample_registered [symmetric] sample_storable
      sample_empty_lookups, of "''nxa_1''"]
  by (auto simp: sample_register_def sample_node_def sample_core_def)

lemma sample_inv_db: "sqlite_inv sample_codec sample_db"
  using sq.insert_ok [of sample_codec db_empty sample_node None sample_db 7] sample_inv_empty sample_storable
    sample_db_insert by (simp add: sqlite_store_def)

lemma sample_node_stored: "get_node sample_codec None 7 sample_db = Ok (Some sample_node)"
  using sq.insert_ok [of sample_codec db_empty sample_node None sample_db 7] sample_inv_empty sample_storable
    sample_db_insert by (simp add: sqlite_store_def sample_node_def)

lemma sample_nodes_listed: "list_nodes sample_codec None sample_db = Ok [sample_node]"
  by (simp add: sample_db_def insert_node_def sql_insert_node_def node_to_row_def has_key_def db_empty_def
      list_nodes_def row_to_node_def label_err_def sample_codec_def sample_node_def parse_dec_show_int fetch_def)

lemma sample_pods_listed: "list_pods sample_codec None None sample_db = Ok []"
  by (simp add: sample_db_def insert_node_def sql_insert_node_def node_to_row_def has_key_def db_empty_def
      list_pods_def sample_codec_def sample_node_def fetch_def)

lemma sample_all_storable: "list_all (storable sample_codec) ns"
  by (simp add: list_all_iff sample_storable)

theorem check_nodes_correct_witness:
  "\<exists>s'. check_nodes (sqlite_store sample_codec None) (secs 30) sample_db = (Ok (), s', [])
    \<and> get_node sample_codec None 7 s' = Ok (Some (sample_node\<lparr>node_stat := NotReady\<rparr>))"
  using check_nodes_correct [OF sample_inv_db sample_nodes_listed sample_all_storable sample_pods_listed, of "secs 30"]
  by (auto simp: monitor_node_def monitor_log_def stale_def sample_node_def secs_def pods_on_def)

definition sample_ping :: heartbeat_ping where
  "sample_ping = worker_ping sample_core 7 (node_resources sample_node)"

lemma sample_ping_same_node: "ping_node 0 sample_ping sample_node = sample_node"
  by (simp add: ping_node_def sample_ping_def worker_ping_def ping_status_def sample_node_def)

lemma sample_ping_parses: "parse_uuid sample_core (hp_node_id sample_ping) = Ok 7"
  using sample_core_ok(4) by (simp add: sample_ping_def worker_ping_def uuid_text_ok_def)

lemma sample_ping_db: "handle_ping sample_core (sqlite_store sample_codec None) 0 sample_ping sample_db = (True, sample_db)"
proof -
  have "snd (update_node sample_codec None sample_node sample_db) = sample_db"
    by (simp add: sample_db_def insert_node_def sql_insert_node_def node_to_row_def has_key_def db_empty_def
        update_node_def sql_update_node_def update_rows_def sample_codec_def sample_node_def)
  then show ?thesis
    using sample_ping_parses sample_node_stored
    by (simp add: handle_ping_def sqlite_store_def sample_ping_same_node)
qed

end
