(* ===== verification/Metrics.thy ===== *)
theory Metrics
  imports Domain
begin

text \<open>
  The Prometheus adapter (\<open>src/adapters/metrics/prometheus.rs\<close>): the metric families it
  registers and, for every operation of the metrics port, the updates it performs on them. The
  \<open>prometheus\<close> crate itself is not modelled: an operation is the list of its calls, each with the
  family, the label values and the number. The adapter unwraps every result of the crate, so a
  rejected family panics at the start and a wrong number of label values at the update. The documented
  conditions under which the crate rejects are stated and shown not to occur.
\<close>

section \<open>Families\<close>

datatype metric_kind = IntCounterVec | HistogramVec | IntGauge

record family =
  fam_name :: string
  fam_help :: string
  fam_labels :: "string list"
  fam_kind :: metric_kind

definition counter_vec :: "string \<Rightarrow> string \<Rightarrow> string list \<Rightarrow> family" where
  "counter_vec n h ls = \<lparr>fam_name = n, fam_help = h, fam_labels = ls, fam_kind = IntCounterVec\<rparr>"

definition histogram_vec :: "string \<Rightarrow> string \<Rightarrow> string list \<Rightarrow> family" where
  "histogram_vec n h ls = \<lparr>fam_name = n, fam_help = h, fam_labels = ls, fam_kind = HistogramVec\<rparr>"

definition int_gauge :: "string \<Rightarrow> string \<Rightarrow> family" where
  "int_gauge n h = \<lparr>fam_name = n, fam_help = h, fam_labels = [], fam_kind = IntGauge\<rparr>"

definition http_requests_total :: family where
  "http_requests_total = counter_vec ''nexa_http_requests_total'' ''Total HTTP requests'' [''method'', ''path'', ''status'']"

definition http_request_duration :: family where
  "http_request_duration =
     histogram_vec ''nexa_http_request_duration_seconds'' ''HTTP request duration in seconds'' [''method'', ''path'']"

definition container_events_total :: family where
  "container_events_total = counter_vec ''nexa_container_events_total'' ''Total container lifecycle events'' [''event'']"

definition schedule_duration :: family where
  "schedule_duration =
     histogram_vec ''nexa_schedule_duration_seconds'' ''Scheduler decision duration in seconds'' [''strategy'']"

definition deployment_ops_total :: family where
  "deployment_ops_total = counter_vec ''nexa_deployment_ops_total'' ''Total deployment operations'' [''op'']"

definition nodes_total :: family where
  "nodes_total = int_gauge ''nexa_nodes_total'' ''Current number of cluster nodes''"

definition pods_total :: family where
  "pods_total = int_gauge ''nexa_pods_total'' ''Current number of pods''"

definition deployments_total :: family where
  "deployments_total = int_gauge ''nexa_deployments_total'' ''Current number of deployments''"

definition proxy_requests_total :: family where
  "proxy_requests_total = counter_vec ''nexa_proxy_requests_total'' ''Total proxy requests'' [''domain'', ''status'']"

definition proxy_request_duration :: family where
  "proxy_request_duration =
     histogram_vec ''nexa_proxy_request_duration_seconds'' ''Proxy upstream request duration in seconds'' [''domain'']"

definition proxy_errors_total :: family where
  "proxy_errors_total = counter_vec ''nexa_proxy_errors_total'' ''Total proxy errors'' [''domain'', ''error_type'']"

text \<open>The families in the order in which \<open>new\<close> registers them.\<close>

definition registry :: "family list" where
  "registry =
     [http_requests_total, http_request_duration, container_events_total, schedule_duration, deployment_ops_total,
      nodes_total, pods_total, deployments_total, proxy_requests_total, proxy_request_duration, proxy_errors_total]"

lemmas family_defs = registry_def http_requests_total_def http_request_duration_def container_events_total_def
  schedule_duration_def deployment_ops_total_def nodes_total_def pods_total_def deployments_total_def
  proxy_requests_total_def proxy_request_duration_def proxy_errors_total_def counter_vec_def histogram_vec_def int_gauge_def

section \<open>Operations of the port\<close>

datatype metric_call =
    Inc family "string list"
  | Observe family "string list" f64
  | SetGauge family int

text \<open>\<open>count as i64\<close>: the 64 bits read as a signed number.\<close>

definition as_i64 :: "u64 \<Rightarrow> int" where
  "as_i64 n = sint n"

definition record_http_request :: "string \<Rightarrow> string \<Rightarrow> u16 \<Rightarrow> f64 \<Rightarrow> metric_call list" where
  "record_http_request method path status duration =
     [Inc http_requests_total [method, path, show_nat (unat status)], Observe http_request_duration [method, path] duration]"

definition record_container_event :: "string \<Rightarrow> metric_call list" where
  "record_container_event event = [Inc container_events_total [event]]"

definition record_schedule_decision :: "string \<Rightarrow> f64 \<Rightarrow> metric_call list" where
  "record_schedule_decision strategy duration = [Observe schedule_duration [strategy] duration]"

definition record_deployment_op :: "string \<Rightarrow> metric_call list" where
  "record_deployment_op oper = [Inc deployment_ops_total [oper]]"

definition set_node_count :: "u64 \<Rightarrow> metric_call list" where
  "set_node_count count = [SetGauge nodes_total (as_i64 count)]"

definition set_pod_count :: "u64 \<Rightarrow> metric_call list" where
  "set_pod_count count = [SetGauge pods_total (as_i64 count)]"

definition set_deployment_count :: "u64 \<Rightarrow> metric_call list" where
  "set_deployment_count count = [SetGauge deployments_total (as_i64 count)]"

definition record_proxy_request :: "string \<Rightarrow> u16 \<Rightarrow> f64 \<Rightarrow> metric_call list" where
  "record_proxy_request domain status duration =
     [Inc proxy_requests_total [domain, show_nat (unat status)], Observe proxy_request_duration [domain] duration]"

definition record_proxy_error :: "string \<Rightarrow> string \<Rightarrow> metric_call list" where
  "record_proxy_error domain error_type = [Inc proxy_errors_total [domain, error_type]]"

datatype metric_op =
    HttpRequest string string u16 f64
  | ContainerEvent string
  | ScheduleDecision string f64
  | DeploymentOp string
  | NodeCount u64
  | PodCount u64
  | DeploymentCount u64
  | ProxyRequest string u16 f64
  | ProxyError string string

fun metric_calls :: "metric_op \<Rightarrow> metric_call list" where
  "metric_calls (HttpRequest m p s d) = record_http_request m p s d"
| "metric_calls (ContainerEvent e) = record_container_event e"
| "metric_calls (ScheduleDecision s d) = record_schedule_decision s d"
| "metric_calls (DeploymentOp oper) = record_deployment_op oper"
| "metric_calls (NodeCount n) = set_node_count n"
| "metric_calls (PodCount n) = set_pod_count n"
| "metric_calls (DeploymentCount n) = set_deployment_count n"
| "metric_calls (ProxyRequest d s t) = record_proxy_request d s t"
| "metric_calls (ProxyError d e) = record_proxy_error d e"

lemmas metric_op_defs = record_http_request_def record_container_event_def record_schedule_decision_def
  record_deployment_op_def set_node_count_def set_pod_count_def set_deployment_count_def record_proxy_request_def
  record_proxy_error_def as_i64_def

section \<open>Properties\<close>

text \<open>
  The conditions under which the crate's constructors and \<open>register\<close> fail, as its
  documentation gives them: a metric name is a letter, underscore or colon followed by such
  characters or digits; a label name is the same without colons; the labels of a family are
  different; the help text is not empty; a histogram must not have a label \<open>le\<close>; and no two
  registered families share a name.
\<close>

definition name_char :: "bool \<Rightarrow> char \<Rightarrow> bool" where
  "name_char colon c \<longleftrightarrow> (let n = (of_char c :: nat) in
     65 \<le> n \<and> n \<le> 90 \<or> 97 \<le> n \<and> n \<le> 122 \<or> c = CHR ''_'' \<or> colon \<and> c = CHR '':'')"

definition valid_name :: "bool \<Rightarrow> string \<Rightarrow> bool" where
  "valid_name colon s \<longleftrightarrow>
     (case s of [] \<Rightarrow> False | c # cs \<Rightarrow> name_char colon c \<and> list_all (\<lambda>x. name_char colon x \<or> is_digit x) cs)"

definition family_accepted :: "family \<Rightarrow> bool" where
  "family_accepted f \<longleftrightarrow> fam_help f \<noteq> [] \<and> valid_name True (fam_name f)
     \<and> list_all (valid_name False) (fam_labels f) \<and> distinct (fam_labels f)
     \<and> (fam_kind f = HistogramVec \<longrightarrow> ''le'' \<notin> set (fam_labels f))
     \<and> (fam_kind f = IntGauge \<longrightarrow> fam_labels f = [])"

text \<open>An update the crate accepts: on a registered family, of the matching kind, with one value per label.\<close>

fun well_labelled :: "metric_call \<Rightarrow> bool" where
  "well_labelled (Inc f ls) \<longleftrightarrow> f \<in> set registry \<and> fam_kind f = IntCounterVec \<and> length ls = length (fam_labels f)"
| "well_labelled (Observe f ls _) \<longleftrightarrow> f \<in> set registry \<and> fam_kind f = HistogramVec \<and> length ls = length (fam_labels f)"
| "well_labelled (SetGauge f _) \<longleftrightarrow> f \<in> set registry \<and> fam_kind f = IntGauge"

lemma families_registered [simp]:
  "http_requests_total \<in> set registry" "http_request_duration \<in> set registry" "container_events_total \<in> set registry"
  "schedule_duration \<in> set registry" "deployment_ops_total \<in> set registry" "nodes_total \<in> set registry"
  "pods_total \<in> set registry" "deployments_total \<in> set registry" "proxy_requests_total \<in> set registry"
  "proxy_request_duration \<in> set registry" "proxy_errors_total \<in> set registry"
  unfolding registry_def by (simp_all only: list.set insert_iff simp_thms)

lemma family_kinds:
  "fam_kind http_requests_total = IntCounterVec" "length (fam_labels http_requests_total) = Suc (Suc (Suc 0))"
  "fam_kind http_request_duration = HistogramVec" "length (fam_labels http_request_duration) = Suc (Suc 0)"
  "fam_kind container_events_total = IntCounterVec" "length (fam_labels container_events_total) = Suc 0"
  "fam_kind schedule_duration = HistogramVec" "length (fam_labels schedule_duration) = Suc 0"
  "fam_kind deployment_ops_total = IntCounterVec" "length (fam_labels deployment_ops_total) = Suc 0"
  "fam_kind nodes_total = IntGauge" "fam_kind pods_total = IntGauge" "fam_kind deployments_total = IntGauge"
  "fam_kind proxy_requests_total = IntCounterVec" "length (fam_labels proxy_requests_total) = Suc (Suc 0)"
  "fam_kind proxy_request_duration = HistogramVec" "length (fam_labels proxy_request_duration) = Suc 0"
  "fam_kind proxy_errors_total = IntCounterVec" "length (fam_labels proxy_errors_total) = Suc (Suc 0)"
  by (simp_all only: family_defs family.simps list.size add_0 add_Suc One_nat_def)

text \<open>C40: the metrics adapter gives the metrics library no cause to panic. Every family that \<open>new\<close> builds
  and registers meets the library's documented conditions (a valid metric name, valid and
  different label names, a help text, no \<open>le\<close> label on a histogram), no two families share a
  name, and every update of every operation of the port addresses a registered family of the
  right kind with exactly as many label values as the family declares.\<close>

theorem metrics_well_labelled:
  "list_all family_accepted registry \<and> distinct (map fam_name registry) \<and> list_all well_labelled (metric_calls oper)"
proof (intro conjI)
  show "list_all family_accepted registry" by code_simp
  show "distinct (map fam_name registry)" by code_simp
  show "list_all well_labelled (metric_calls oper)"
    by (cases oper) (simp_all only: metric_calls.simps metric_op_defs list.pred_inject well_labelled.simps families_registered
        family_kinds list.size add_0 add_Suc One_nat_def add_Suc_right simp_thms)
qed

text \<open>Gauges show counts below \<open>2 ^ 63\<close> as they are.\<close>

lemma as_i64_small: "unat n < 2 ^ 63 \<Longrightarrow> as_i64 n = int (unat n)"
proof -
  assume "unat n < 2 ^ 63"
  moreover have i: "int (unat n) = uint n" by simp
  ultimately have "uint n < 2 ^ 63" by (metis of_nat_less_iff of_nat_numeral of_nat_power)
  then have "signed_take_bit 63 (uint n) = uint n"
    by (intro signed_take_bit_int_eq_self) (use uint_ge_0 [of n] in linarith)+
  then show ?thesis by (simp add: as_i64_def sint_uint i)
qed

end
