(* ===== verification/Event_Watcher.thy ===== *)
theory Event_Watcher
  imports Cluster_Server Metrics
begin

text \<open>
  The container event watcher (\<open>src/adapters/event_watcher.rs\<close>): it turns the events of a
  container runtime into metric updates, messages for the subscribers of the event stream and
  commands for the orchestrator, and reconnects when a stream ends.
\<close>

section \<open>Container events\<close>

datatype orch_command = ContainerExited uuid int

record cluster_event =
  ev_timestamp :: int
  ev_kind :: string
  ev_name :: string
  ev_action :: string
  ev_message :: string

definition extract_pod_id :: "core \<Rightarrow> string \<Rightarrow> uuid option" where
  "extract_pod_id co cid = (case parse_uuid co cid of Inr u \<Rightarrow> Some u | Inl _ \<Rightarrow> None)"

text \<open>What one event causes: the metric label, the message for the subscribers of the event stream
  (stamped with the current time) and the command for the orchestrator.\<close>

definition event_metric :: "runtime_event \<Rightarrow> string" where
  "event_metric e = (case e of ContainerDied _ _ \<Rightarrow> ''died'' | ContainerOom _ \<Rightarrow> ''oom'' | ContainerStarted _ \<Rightarrow> ''started'')"

definition event_broadcast :: "int \<Rightarrow> runtime_event \<Rightarrow> cluster_event" where
  "event_broadcast now e =
     (case e of
        ContainerDied cid code \<Rightarrow>
          \<lparr>ev_timestamp = now, ev_kind = ''pod'', ev_name = cid, ev_action = (if code = 137 then ''OOMKilled'' else ''died''),
           ev_message = ''Container exited with code '' @ show_int code\<rparr>
      | ContainerOom cid \<Rightarrow>
          \<lparr>ev_timestamp = now, ev_kind = ''pod'', ev_name = cid, ev_action = ''OOMKilled'', ev_message = ''Container killed by OOM''\<rparr>
      | ContainerStarted cid \<Rightarrow>
          \<lparr>ev_timestamp = now, ev_kind = ''pod'', ev_name = cid, ev_action = ''started'', ev_message = ''Container started''\<rparr>)"

definition event_command :: "core \<Rightarrow> runtime_event \<Rightarrow> orch_command option" where
  "event_command co e =
     (case e of
        ContainerDied cid code \<Rightarrow> map_option (\<lambda>p. ContainerExited p code) (extract_pod_id co cid)
      | ContainerOom cid \<Rightarrow> map_option (\<lambda>p. ContainerExited p 137) (extract_pod_id co cid)
      | ContainerStarted cid \<Rightarrow> None)"

text \<open>
  The watcher's surroundings: the optional metrics port and event bus (\<open>None\<close> when it was started
  without), the commands sent so far, and how many commands the orchestrator's channel still takes
  before its receiver is dropped.
\<close>

record watcher_env =
  we_metrics :: "metric_call list option"
  we_events :: "cluster_event list option"
  we_commands :: "orch_command list"
  we_room :: nat

definition note_event :: "int \<Rightarrow> runtime_event \<Rightarrow> watcher_env \<Rightarrow> watcher_env" where
  "note_event now e w =
     w\<lparr>we_metrics := map_option (\<lambda>ms. ms @ record_container_event (event_metric e)) (we_metrics w),
       we_events := map_option (\<lambda>bs. bs @ [event_broadcast now e]) (we_events w)\<rparr>"

text \<open>\<open>tx.send\<close>: \<open>None\<close> when the receiver is gone.\<close>

definition send_command :: "orch_command \<Rightarrow> watcher_env \<Rightarrow> watcher_env option" where
  "send_command cmd w =
     (if we_room w = 0 then None
      else Some (w\<lparr>we_commands := we_commands w @ [cmd], we_room := we_room w - 1\<rparr>))"

text \<open>The stream lists each event with the time at which it is handled.\<close>

fun handle_event_stream :: "core \<Rightarrow> (int \<times> runtime_event) list \<Rightarrow> watcher_env \<Rightarrow> watcher_env" where
  "handle_event_stream co [] w = w"
| "handle_event_stream co ((now, e) # es) w =
     (let w1 = note_event now e w
      in (case event_command co e of
            None \<Rightarrow> handle_event_stream co es w1
          | Some cmd \<Rightarrow>
              (case send_command cmd w1 of
                 None \<Rightarrow> w1
               | Some w2 \<Rightarrow> handle_event_stream co es w2)))"

text \<open>
  \<open>spawn_event_watcher\<close>: one element per round of its endless loop, the result of
  \<open>runtime.events()\<close>; both the end of a stream and a failure to open one lead to the next round.
\<close>

definition spawn_event_watcher ::
  "core \<Rightarrow> (int \<times> runtime_event) list res list \<Rightarrow> watcher_env \<Rightarrow> watcher_env" where
  "spawn_event_watcher co rounds w =
     foldl (\<lambda>w r. case r of Inr stream \<Rightarrow> handle_event_stream co stream w | Inl _ \<Rightarrow> w) w rounds"

section \<open>Properties\<close>

definition watched :: "core \<Rightarrow> (int \<times> runtime_event) list \<Rightarrow> nat \<Rightarrow> watcher_env \<Rightarrow> watcher_env" where
  "watched co es room w =
    w\<lparr>we_metrics := map_option (\<lambda>ms. ms @ concat (map (record_container_event \<circ> event_metric \<circ> snd) es)) (we_metrics w),
      we_events := map_option (\<lambda>bs. bs @ map (\<lambda>(t, e). event_broadcast t e) es) (we_events w),
      we_commands := we_commands w @ List.map_filter (event_command co \<circ> snd) es, we_room := room\<rparr>"

lemma watched_Nil [simp]: "watched co [] (we_room w) w = w"
  by (simp add: watched_def option.map_id0 [unfolded id_def])

lemma watched_watched [simp]: "watched co es' k' (watched co es k w) = watched co (es @ es') k' w"
  by (simp add: watched_def option.map_comp comp_def List.map_filter_def)

lemma we_room_watched [simp]: "we_room (watched co es k w) = k"
  by (simp add: watched_def)

lemma note_event_watched: "event_command co e = None \<Longrightarrow> note_event t e w = watched co [(t, e)] (we_room w) w"
  by (simp add: note_event_def watched_def)

lemma send_command_watched:
  "event_command co e = Some cmd \<Longrightarrow>
   send_command cmd (note_event t e w) = (if we_room w = 0 then None else Some (watched co [(t, e)] (we_room w - 1) w))"
  by (simp add: send_command_def note_event_def watched_def)

lemma handle_event_stream_watched:
  "length es \<le> we_room w \<Longrightarrow>
   \<exists>k \<ge> we_room w - length es. handle_event_stream co es w = watched co es k w"
proof (induction es arbitrary: w)
  case (Cons p es)
  obtain t e where p: "p = (t, e)" by (cases p)
  show ?case
  proof (cases "event_command co e")
    case None
    obtain k where "k \<ge> we_room w - length es" "handle_event_stream co es (watched co [p] (we_room w) w) = watched co (p # es) k w"
      using Cons.IH [of "watched co [p] (we_room w) w"] Cons.prems by auto
    then show ?thesis using None by (intro exI [of _ k]) (simp add: p note_event_watched)
  next
    case (Some cmd)
    obtain k where "k \<ge> we_room w - 1 - length es" "handle_event_stream co es (watched co [p] (we_room w - 1) w) = watched co (p # es) k w"
      using Cons.IH [of "watched co [p] (we_room w - 1) w"] Cons.prems by (force simp: Suc_le_eq)
    then show ?thesis using Some Cons.prems by (intro exI [of _ k]) (simp add: p send_command_watched)
  qed
qed (metis diff_le_self handle_event_stream.simps(1) watched_Nil)

lemma spawn_event_watcher_watched:
  assumes "es = concat (map (\<lambda>r. case r of Inr stream \<Rightarrow> stream | Inl _ \<Rightarrow> []) rounds)" "length es \<le> we_room w"
  shows "we_commands (spawn_event_watcher co rounds w) = we_commands w @ List.map_filter (event_command co \<circ> snd) es
    \<and> we_metrics (spawn_event_watcher co rounds w) =
        map_option (\<lambda>ms. ms @ concat (map (record_container_event \<circ> event_metric \<circ> snd) es)) (we_metrics w)
    \<and> we_events (spawn_event_watcher co rounds w) =
        map_option (\<lambda>bs. bs @ map (\<lambda>(t, e). event_broadcast t e) es) (we_events w)"
  using assms
proof (induction rounds arbitrary: w es)
  case (Cons r rounds)
  show ?case
  proof (cases r)
    case (Inr stream)
    let ?rest = "concat (map (\<lambda>r. case r of Inr stream \<Rightarrow> stream | Inl _ \<Rightarrow> []) rounds)"
    have es: "es = stream @ ?rest" using Cons.prems(1) Inr by simp
    obtain k where k: "k \<ge> we_room w - length stream" "handle_event_stream co stream w = watched co stream k w"
      using handle_event_stream_watched [of stream w co] Cons.prems(2) es by auto
    have "length ?rest \<le> we_room (watched co stream k w)"
      using k(1) Cons.prems(2) es by (simp add: watched_def)
    from Cons.IH [OF refl this] show ?thesis
      by (simp add: Inr spawn_event_watcher_def k(2) es)
        (simp add: watched_def option.map_comp comp_def List.map_filter_def)
  qed (use Cons in \<open>simp add: spawn_event_watcher_def\<close>)
qed (simp add: spawn_event_watcher_def List.map_filter_simps option.map_id0 [unfolded id_def])

text \<open>C18: no container exit is lost between reconnections. While the orchestrator's channel has room, the
  watcher turns the streams it could open, one behind the other, into exactly these effects, in
  order: an exit command with the reported code for every died container and with code 137 for
  every out-of-memory kill, whenever the container's id is a pod id, and no command for a start;
  one increment of the container event counter labelled \<open>died\<close>, \<open>oom\<close> or \<open>started\<close> for
  every event; and one message on the event bus with the container's id, the action (a death
  with code 137 counts as \<open>OOMKilled\<close>) and the text for every event. Rounds that fail to open a
  stream change nothing.\<close>

theorem event_watcher_commands:
  assumes "es = concat (map (\<lambda>r. case r of Inr stream \<Rightarrow> stream | Inl _ \<Rightarrow> []) rounds)" "length es \<le> we_room w"
  shows "we_commands (spawn_event_watcher co rounds w) = we_commands w @
      concat (map (\<lambda>(t, e). case e of
          ContainerDied cid code \<Rightarrow> (case parse_uuid co cid of Inr p \<Rightarrow> [ContainerExited p code] | Inl _ \<Rightarrow> [])
        | ContainerOom cid \<Rightarrow> (case parse_uuid co cid of Inr p \<Rightarrow> [ContainerExited p 137] | Inl _ \<Rightarrow> [])
        | ContainerStarted cid \<Rightarrow> []) es)
    \<and> we_metrics (spawn_event_watcher co rounds w) = map_option (\<lambda>ms. ms @
        map (\<lambda>(t, e). Inc container_events_total
          [case e of ContainerDied _ _ \<Rightarrow> ''died'' | ContainerOom _ \<Rightarrow> ''oom'' | ContainerStarted _ \<Rightarrow> ''started'']) es)
        (we_metrics w)
    \<and> we_events (spawn_event_watcher co rounds w) = map_option (\<lambda>bs. bs @
        map (\<lambda>(t, e). case e of
            ContainerDied cid code \<Rightarrow>
              \<lparr>ev_timestamp = t, ev_kind = ''pod'', ev_name = cid, ev_action = (if code = 137 then ''OOMKilled'' else ''died''),
               ev_message = ''Container exited with code '' @ show_int code\<rparr>
          | ContainerOom cid \<Rightarrow>
              \<lparr>ev_timestamp = t, ev_kind = ''pod'', ev_name = cid, ev_action = ''OOMKilled'', ev_message = ''Container killed by OOM''\<rparr>
          | ContainerStarted cid \<Rightarrow>
              \<lparr>ev_timestamp = t, ev_kind = ''pod'', ev_name = cid, ev_action = ''started'', ev_message = ''Container started''\<rparr>) es)
        (we_events w)"
proof -
  have commands: "List.map_filter (event_command co \<circ> snd) es = concat (map (\<lambda>(t, e). case e of
          ContainerDied cid code \<Rightarrow> (case parse_uuid co cid of Inr p \<Rightarrow> [ContainerExited p code] | Inl _ \<Rightarrow> [])
        | ContainerOom cid \<Rightarrow> (case parse_uuid co cid of Inr p \<Rightarrow> [ContainerExited p 137] | Inl _ \<Rightarrow> [])
        | ContainerStarted cid \<Rightarrow> []) es)" for es :: "(int \<times> runtime_event) list"
    by (induction es)
      (auto simp: List.map_filter_simps event_command_def extract_pod_id_def split: runtime_event.split sum.split)
  have calls: "concat (map (record_container_event \<circ> event_metric \<circ> snd) es) = map (\<lambda>(t, e). Inc container_events_total
          [case e of ContainerDied _ _ \<Rightarrow> ''died'' | ContainerOom _ \<Rightarrow> ''oom'' | ContainerStarted _ \<Rightarrow> ''started'']) es"
    for es :: "(int \<times> runtime_event) list"
    by (induction es) (auto simp: record_container_event_def event_metric_def)
  show ?thesis
    using spawn_event_watcher_watched [OF assms, of co] unfolding commands calls event_broadcast_def .
qed

text \<open>Once the orchestrator is gone the watcher logs that it stops, but goes on: its loop opens the next
  stream and still counts and broadcasts the first exit of every round.\<close>

theorem watcher_survives_closed_channel:
  assumes "we_room w = 0" "event_command co e = Some cmd"
  shows "spawn_event_watcher co (replicate n (Ok [(t, e)])) w =
    w\<lparr>we_metrics := map_option (\<lambda>ms. ms @ concat (replicate n (record_container_event (event_metric e)))) (we_metrics w),
      we_events := map_option (\<lambda>bs. bs @ replicate n (event_broadcast t e)) (we_events w)\<rparr>"
proof -
  have step: "handle_event_stream co [(t, e)] v = note_event t e v" if "we_room v = 0" for v
    using that assms(2) by (simp add: send_command_def note_event_def)
  show ?thesis using assms(1)
  proof (induction n arbitrary: w)
    case (Suc n)
    then show ?case
      using Suc.IH [of "note_event t e w"]
      by (simp add: spawn_event_watcher_def step del: handle_event_stream.simps)
        (simp add: note_event_def option.map_comp comp_def)
  qed (simp add: spawn_event_watcher_def option.map_id0 [unfolded id_def])
qed

text \<open>A pod that the kernel kills for its memory is reported twice: the engine announces the kill and then the
  exit with code 137, and each of the two makes the watcher send the same command.\<close>

theorem oom_reported_twice:
  assumes "parse_uuid co cid = Ok p" "2 \<le> we_room w"
  shows "we_commands (handle_event_stream co [(t, ContainerOom cid), (t', ContainerDied cid 137)] w) =
    we_commands w @ [ContainerExited p 137, ContainerExited p 137]"
  using assms by (simp add: event_command_def extract_pod_id_def send_command_def note_event_def)

section \<open>Witnesses\<close>

definition sample_rounds :: "(int \<times> runtime_event) list res list" where
  "sample_rounds = [Err (Runtime []), Ok [(0, ContainerOom ''7''), (1, ContainerStarted ''7'')], Ok [(2, ContainerDied ''7'' 1)]]"

definition sample_watcher :: watcher_env where
  "sample_watcher = \<lparr>we_metrics = Some [], we_events = None, we_commands = [], we_room = 3\<rparr>"

theorem event_watcher_commands_witness:
  "we_commands (spawn_event_watcher sample_core sample_rounds sample_watcher)
      = [ContainerExited 7 137, ContainerExited 7 1]
    \<and> we_metrics (spawn_event_watcher sample_core sample_rounds sample_watcher)
      = Some [Inc container_events_total [''oom''], Inc container_events_total [''started''],
              Inc container_events_total [''died'']]"
proof -
  have "digits_value ''7'' = 7" by code_simp
  then have "parse_uuid sample_core ''7'' = Ok 7" by (simp add: sample_core_def sample_codec_def)
  then show ?thesis
    using event_watcher_commands [of "[(0, ContainerOom ''7''), (1, ContainerStarted ''7''), (2, ContainerDied ''7'' 1)]"
      sample_rounds sample_watcher sample_core]
    by (simp add: sample_rounds_def sample_watcher_def)
qed

end
