(* ===== verification/Rest_Api.thy ===== *)
theory Rest_Api
  imports Event_Watcher
begin

text \<open>
  The REST API (\<open>src/api/handlers.rs\<close>, \<open>src/api/routes.rs\<close>, \<open>src/api/mod.rs\<close>). The
  orchestrator of \<open>nexa_core\<close> behind \<open>state.handle\<close> is a dictionary of operations over an
  abstract state, the store is the dictionary of \<open>Domain\<close>. A request is given after extraction by
  \<open>axum\<close> (path parameters, query and JSON body); what a handler reads from its surroundings (random
  bytes, host name, \<open>sysinfo\<close>, the event bus) is the record \<open>inputs\<close>.
\<close>

section \<open>Responses\<close>

record node_stats =
  st_name :: string
  st_role :: string
  st_status :: string
  st_cpu_cores :: f64
  st_cpu_usage :: f64
  st_memory_total :: u64
  st_memory_used :: u64
  st_pod_count :: u32

text \<open>\<open>JsonValue\<close> is the serialised form of a value whose type the sources do not look into.\<close>

datatype api_body =
    NoBody
  | PlainText string
  | JsonError string
  | JsonToken string
  | JsonNodes "node list"
  | JsonProjects "project list"
  | JsonProject project
  | JsonDeployments "deployment list"
  | JsonDeployment deployment
  | JsonPods "pod list"
  | JsonNames "string list"
  | JsonValue string
  | JsonDomain string string
  | JsonProxy string "string option" "string option"
  | JsonStats "node_stats list"
  | Sse "string list"

record response =
  rsp_status :: u16
  rsp_body :: api_body

definition reply :: "u16 \<Rightarrow> api_body \<Rightarrow> response" where
  "reply st b = \<lparr>rsp_status = st, rsp_body = b\<rparr>"

lemma reply_simps [simp]: "rsp_status (reply st b) = st" "rsp_body (reply st b) = b" "reply st b = reply st' b' \<longleftrightarrow> st = st' \<and> b = b'"
  by (simp_all add: reply_def)

text \<open>\<open>(status, Json({ "error": e.to_string() }))\<close>.\<close>

definition error_reply :: "core \<Rightarrow> u16 \<Rightarrow> nexa_error \<Rightarrow> response" where
  "error_reply co st e = reply st (JsonError (err_text co e))"

definition internal_error :: "core \<Rightarrow> nexa_error \<Rightarrow> response" where
  "internal_error co e = error_reply co 500 e"

definition node_not_found :: "string \<Rightarrow> response" where
  "node_not_found name =
     reply 404 (JsonError (''node '' @ [CHR 39] @ name @ [CHR 39] @ '' not found''))"

definition status_ok :: response where
  "status_ok = reply 200 NoBody"

section \<open>Join tokens\<close>

text \<open>\<open>cluster_init\<close> and \<open>cluster_token_rotate\<close> have the same body in the source.\<close>

definition cluster_init :: "core \<Rightarrow> 's state_store \<Rightarrow> string \<Rightarrow> 's \<Rightarrow> response \<times> 's" where
  "cluster_init co D rnd s =
     (let token = generate_token co rnd; hash = hash_token co token
      in (case ss_set_cluster_config D ''join_token_hash'' hash s of
            (Inr _, s1) \<Rightarrow>
              (let s2 = snd (ss_set_cluster_config D ''join_token'' token s1)
               in (reply 200 (JsonToken token), s2))
          | (Inl e, s1) \<Rightarrow> (internal_error co e, s1)))"

definition cluster_token_rotate :: "core \<Rightarrow> 's state_store \<Rightarrow> string \<Rightarrow> 's \<Rightarrow> response \<times> 's" where
  "cluster_token_rotate co D rnd s =
     (let token = generate_token co rnd; hash = hash_token co token
      in (case ss_set_cluster_config D ''join_token_hash'' hash s of
            (Inr _, s1) \<Rightarrow>
              (let s2 = snd (ss_set_cluster_config D ''join_token'' token s1)
               in (reply 200 (JsonToken token), s2))
          | (Inl e, s1) \<Rightarrow> (internal_error co e, s1)))"

definition cluster_token_show :: "core \<Rightarrow> 's state_store \<Rightarrow> 's \<Rightarrow> response" where
  "cluster_token_show co D s =
     (case ss_get_cluster_config D ''join_token'' s of
        Inr (Some token) \<Rightarrow> reply 200 (JsonToken token)
      | Inr None \<Rightarrow> reply 404 (JsonError ''cluster not initialized'')
      | Inl e \<Rightarrow> internal_error co e)"

section \<open>Nodes\<close>

definition api_list_nodes :: "core \<Rightarrow> 's state_store \<Rightarrow> 's \<Rightarrow> response" where
  "api_list_nodes co D s =
     (case ss_list_nodes D s of
        Inr nodes \<Rightarrow> reply 200 (JsonNodes nodes)
      | Inl e \<Rightarrow> internal_error co e)"

definition drain_node :: "core \<Rightarrow> 's state_store \<Rightarrow> string \<Rightarrow> 's \<Rightarrow> response \<times> 's" where
  "drain_node co D name s =
     (case ss_get_node_by_name D name s of
        Inr (Some node) \<Rightarrow>
          (case ss_update_node D (node\<lparr>node_stat := Draining\<rparr>) s of
             (Inr _, s1) \<Rightarrow> (status_ok, s1)
           | (Inl e, s1) \<Rightarrow> (internal_error co e, s1))
      | Inr None \<Rightarrow> (node_not_found name, s)
      | Inl e \<Rightarrow> (internal_error co e, s))"

text \<open>\<open>status_text\<close> is the \<open>Display\<close> of a node status.\<close>

definition remove_node :: "core \<Rightarrow> (node_status \<Rightarrow> string) \<Rightarrow> 's state_store \<Rightarrow> string \<Rightarrow> 's \<Rightarrow> response \<times> 's" where
  "remove_node co status_text D name s =
     (case ss_get_node_by_name D name s of
        Inr (Some node) \<Rightarrow>
          if node_stat node \<noteq> Draining \<and> node_role node \<noteq> Master
          then (reply 409 (JsonError (''node '' @ [CHR 39] @ name @ [CHR 39]
                   @ '' must be drained before removal (status: '' @ status_text (node_stat node) @ '')'')), s)
          else (case ss_delete_node D (node_id node) s of
                  (Inr _, s1) \<Rightarrow> (status_ok, s1)
                | (Inl e, s1) \<Rightarrow> (internal_error co e, s1))
      | Inr None \<Rightarrow> (node_not_found name, s)
      | Inl e \<Rightarrow> (internal_error co e, s))"

section \<open>Node statistics\<close>

text \<open>What the handler reads from the host.\<close>

record host_readings =
  hr_cpu_usages :: "f64 list"
  hr_total_memory :: u64
  hr_used_memory :: u64
  hr_hostname :: "string option"

text \<open>\<open>(x * 10.0).round() / 10.0\<close>.\<close>

definition one_decimal :: "float_ops \<Rightarrow> f64 \<Rightarrow> f64" where
  "one_decimal fl x = fl_div fl (fl_round fl (fl_mul fl x (fl_of_nat fl 10))) (fl_of_nat fl 10)"

definition local_stats :: "float_ops \<Rightarrow> host_readings \<Rightarrow> string \<Rightarrow> string \<Rightarrow> string \<Rightarrow> u32 \<Rightarrow> node_stats" where
  "local_stats fl h name role status pods =
     (let cpu_count = fl_of_nat fl (length (hr_cpu_usages h));
          cpu_usage = fl_div fl (fl_sum fl (hr_cpu_usages h)) cpu_count
      in \<lparr>st_name = name, st_role = role, st_status = status, st_cpu_cores = cpu_count,
          st_cpu_usage = one_decimal fl cpu_usage, st_memory_total = hr_total_memory h,
          st_memory_used = hr_used_memory h, st_pod_count = pods\<rparr>)"

text \<open>The memory difference of a remote node wraps around on 64 bits.\<close>

definition remote_stats :: "float_ops \<Rightarrow> string \<Rightarrow> string \<Rightarrow> node \<Rightarrow> node_stats" where
  "remote_stats fl role status n =
     (let r = node_resources n
      in \<lparr>st_name = node_name n, st_role = role, st_status = status, st_cpu_cores = cpu_cores r,
          st_cpu_usage = (if fl_pos fl (cpu_cores r)
            then fl_div fl (fl_round fl (fl_mul fl (fl_mul fl
                   (fl_div fl (fl_sub fl (cpu_cores r) (cpu_available r)) (cpu_cores r))
                   (fl_of_nat fl 100)) (fl_of_nat fl 10))) (fl_of_nat fl 10)
            else fl_zero fl),
          st_memory_total = memory_bytes r, st_memory_used = memory_bytes r - memory_available r,
          st_pod_count = running_pods r\<rparr>)"

definition node_stats_reply ::
  "float_ops \<Rightarrow> (node_role \<Rightarrow> string) \<Rightarrow> (node_status \<Rightarrow> string) \<Rightarrow> 's state_store \<Rightarrow> host_readings \<Rightarrow> 's \<Rightarrow> response" where
  "node_stats_reply fl role_text status_text D h s =
     (let hostname = (case hr_hostname h of Some n \<Rightarrow> n | None \<Rightarrow> ''unknown'');
          pod_count = (case ss_list_pods D None s of
                         Inr pods \<Rightarrow> word_of_nat (length (filter (\<lambda>p. pod_stat p = PodRunning) pods))
                       | Inl _ \<Rightarrow> 0);
          nodes = (case ss_list_nodes D s of Inr ns \<Rightarrow> ns | Inl _ \<Rightarrow> [])
      in if nodes = [] then reply 200 (JsonStats [local_stats fl h hostname ''master'' ''ready'' pod_count])
         else reply 200 (JsonStats (map (\<lambda>n.
             if node_name n = hostname \<or> prefix ''127.'' (node_address n)
             then local_stats fl h (node_name n) (role_text (node_role n)) (status_text (node_stat n))
                    (running_pods (node_resources n))
             else remote_stats fl (role_text (node_role n)) (status_text (node_stat n)) n) nodes)))"

section \<open>Handlers in front of the orchestrator\<close>

text \<open>
  The operations of \<open>OrchestratorHandle\<close> the handlers call, over its state \<open>'o\<close>. \<open>'c\<close> is its
  scheduler configuration with \<open>SchedulerConfig::from_strategy\<close>, \<open>set_weight\<close> and its JSON form.
\<close>

record ('o, 'c) orchestrator =
  oh_list_projects :: "'o \<Rightarrow> project list"
  oh_create_project :: "string \<Rightarrow> 'o \<Rightarrow> project res \<times> 'o"
  oh_suspend_project :: "string \<Rightarrow> 'o \<Rightarrow> unit res \<times> 'o"
  oh_resume_project :: "string \<Rightarrow> 'o \<Rightarrow> unit res \<times> 'o"
  oh_delete_project :: "string \<Rightarrow> 'o \<Rightarrow> unit res \<times> 'o"
  oh_list_deployments :: "string option \<Rightarrow> 'o \<Rightarrow> deployment list"
  oh_deploy :: "deployment_spec \<Rightarrow> 'o \<Rightarrow> deployment res \<times> 'o"
  oh_stop :: "string \<Rightarrow> string \<Rightarrow> 'o \<Rightarrow> unit res \<times> 'o"
  oh_remove_deployment :: "string \<Rightarrow> string \<Rightarrow> 'o \<Rightarrow> unit res \<times> 'o"
  oh_scale :: "string \<Rightarrow> string \<Rightarrow> u32 \<Rightarrow> 'o \<Rightarrow> deployment res \<times> 'o"
  oh_list_pods :: "string option \<Rightarrow> 'o \<Rightarrow> pod list"
  oh_pod_logs :: "string \<Rightarrow> string \<Rightarrow> u64 option \<Rightarrow> 'o \<Rightarrow> string res list res"
  oh_list_secrets :: "string \<Rightarrow> 'o \<Rightarrow> string list res"
  oh_set_secret :: "string \<Rightarrow> string \<Rightarrow> string \<Rightarrow> 'o \<Rightarrow> unit res \<times> 'o"
  oh_delete_secret :: "string \<Rightarrow> string \<Rightarrow> 'o \<Rightarrow> unit res \<times> 'o"
  oh_get_scheduler_config :: "'o \<Rightarrow> 'c"
  oh_set_scheduler_config :: "'c \<Rightarrow> 'o \<Rightarrow> 'c res \<times> 'o"
  oh_list_routes :: "string option \<Rightarrow> 'o \<Rightarrow> string"
  oh_add_route :: "string \<Rightarrow> string \<Rightarrow> string \<Rightarrow> string \<Rightarrow> 'o \<Rightarrow> unit res \<times> 'o"
  oh_remove_route :: "string \<Rightarrow> 'o \<Rightarrow> unit res \<times> 'o"
  oh_from_strategy :: "string \<Rightarrow> 'c res"
  oh_set_weight :: "string \<Rightarrow> f64 \<Rightarrow> 'c \<Rightarrow> unit res \<times> 'c"
  oh_config_json :: "'c \<Rightarrow> string"

text \<open>The frequent shape \<open>match handle.op().await { Ok(()) => 200, Err(e) => (status, error) }\<close>.\<close>

definition unit_reply :: "core \<Rightarrow> u16 \<Rightarrow> unit res \<times> 'o \<Rightarrow> response \<times> 'o" where
  "unit_reply co st p = (case p of (Inr _, x) \<Rightarrow> (status_ok, x) | (Inl e, x) \<Rightarrow> (error_reply co st e, x))"

definition api_health :: response where
  "api_health = reply 200 (PlainText ''ok'')"

definition api_list_projects :: "('o, 'c) orchestrator \<Rightarrow> 'o \<Rightarrow> response" where
  "api_list_projects H x = reply 200 (JsonProjects (oh_list_projects H x))"

definition api_list_deployments :: "('o, 'c) orchestrator \<Rightarrow> string option \<Rightarrow> 'o \<Rightarrow> response" where
  "api_list_deployments H project x = reply 200 (JsonDeployments (oh_list_deployments H project x))"

definition api_list_pods :: "('o, 'c) orchestrator \<Rightarrow> string option \<Rightarrow> 'o \<Rightarrow> response" where
  "api_list_pods H project x = reply 200 (JsonPods (oh_list_pods H project x))"

definition get_scheduler_config :: "('o, 'c) orchestrator \<Rightarrow> 'o \<Rightarrow> response" where
  "get_scheduler_config H x = reply 200 (JsonValue (oh_config_json H (oh_get_scheduler_config H x)))"

definition api_list_routes :: "('o, 'c) orchestrator \<Rightarrow> string option \<Rightarrow> 'o \<Rightarrow> response" where
  "api_list_routes H project x = reply 200 (JsonValue (oh_list_routes H project x))"

definition create_project :: "core \<Rightarrow> ('o, 'c) orchestrator \<Rightarrow> string \<Rightarrow> 'o \<Rightarrow> response \<times> 'o" where
  "create_project co H name x =
     (case oh_create_project H name x of
        (Inr p, x1) \<Rightarrow> (reply 201 (JsonProject p), x1)
      | (Inl e, x1) \<Rightarrow> (error_reply co 409 e, x1))"

text \<open>A body that is not a JSON spec is parsed as a deployment file; \<open>parse_deployment\<close> is of \<open>nexa_core\<close>.\<close>

definition deploy_body :: "core \<Rightarrow> (string \<Rightarrow> deployment_spec res) \<Rightarrow> string \<Rightarrow> deployment_spec res" where
  "deploy_body co parse_deployment body =
     (case spec_from_json co body of Inr spec \<Rightarrow> Ok spec | Inl _ \<Rightarrow> parse_deployment body)"

definition deploy ::
  "core \<Rightarrow> (string \<Rightarrow> deployment_spec res) \<Rightarrow> ('o, 'c) orchestrator \<Rightarrow> string \<Rightarrow> 'o \<Rightarrow> response \<times> 'o" where
  "deploy co parse_deployment H body x =
     (case deploy_body co parse_deployment body of
        Inl e \<Rightarrow> (error_reply co 400 e, x)
      | Inr spec \<Rightarrow>
          (case oh_deploy H spec x of
             (Inr d, x1) \<Rightarrow> (reply 201 (JsonDeployment d), x1)
           | (Inl e, x1) \<Rightarrow> (internal_error co e, x1)))"

definition stop_deployment :: "core \<Rightarrow> ('o, 'c) orchestrator \<Rightarrow> string \<Rightarrow> string \<Rightarrow> 'o \<Rightarrow> response \<times> 'o" where
  "stop_deployment co H project name x = unit_reply co 404 (oh_stop H project name x)"

definition remove_deployment :: "core \<Rightarrow> ('o, 'c) orchestrator \<Rightarrow> string \<Rightarrow> string \<Rightarrow> 'o \<Rightarrow> response \<times> 'o" where
  "remove_deployment co H project name x = unit_reply co 404 (oh_remove_deployment H project name x)"

definition scale_deployment :: "core \<Rightarrow> ('o, 'c) orchestrator \<Rightarrow> string \<Rightarrow> string \<Rightarrow> u32 \<Rightarrow> 'o \<Rightarrow> response \<times> 'o" where
  "scale_deployment co H project name replicas x =
     (case oh_scale H project name replicas x of
        (Inr d, x1) \<Rightarrow> (reply 200 (JsonDeployment d), x1)
      | (Inl e, x1) \<Rightarrow> (error_reply co 404 e, x1))"

definition log_event :: "core \<Rightarrow> string res \<Rightarrow> string" where
  "log_event co r = (case r of Inr line \<Rightarrow> line | Inl e \<Rightarrow> ''error: '' @ err_text co e)"

definition logs_reply :: "core \<Rightarrow> ('o, 'c) orchestrator \<Rightarrow> string \<Rightarrow> string \<Rightarrow> u64 option \<Rightarrow> 'o \<Rightarrow> response" where
  "logs_reply co H project name tail x =
     (case oh_pod_logs H project name tail x of
        Inr stream \<Rightarrow> reply 200 (Sse (map (log_event co) stream))
      | Inl e \<Rightarrow> error_reply co 404 e)"

definition suspend_project :: "core \<Rightarrow> ('o, 'c) orchestrator \<Rightarrow> string \<Rightarrow> 'o \<Rightarrow> response \<times> 'o" where
  "suspend_project co H name x = unit_reply co 404 (oh_suspend_project H name x)"

definition resume_project :: "core \<Rightarrow> ('o, 'c) orchestrator \<Rightarrow> string \<Rightarrow> 'o \<Rightarrow> response \<times> 'o" where
  "resume_project co H name x = unit_reply co 404 (oh_resume_project H name x)"

definition api_delete_project :: "core \<Rightarrow> ('o, 'c) orchestrator \<Rightarrow> string \<Rightarrow> 'o \<Rightarrow> response \<times> 'o" where
  "api_delete_project co H name x =
     (case oh_delete_project H name x of
        (Inr _, x1) \<Rightarrow> (status_ok, x1)
      | (Inl e, x1) \<Rightarrow> (error_reply co (case e of ProjectNotEmpty _ \<Rightarrow> 409 | _ \<Rightarrow> 404) e, x1))"

definition list_secrets :: "core \<Rightarrow> ('o, 'c) orchestrator \<Rightarrow> string \<Rightarrow> 'o \<Rightarrow> response" where
  "list_secrets co H project x =
     (case oh_list_secrets H project x of Inr names \<Rightarrow> reply 200 (JsonNames names) | Inl e \<Rightarrow> internal_error co e)"

definition set_secret :: "core \<Rightarrow> ('o, 'c) orchestrator \<Rightarrow> string \<Rightarrow> string \<Rightarrow> string \<Rightarrow> 'o \<Rightarrow> response \<times> 'o" where
  "set_secret co H project name val x = unit_reply co 500 (oh_set_secret H project name val x)"

definition delete_secret :: "core \<Rightarrow> ('o, 'c) orchestrator \<Rightarrow> string \<Rightarrow> string \<Rightarrow> 'o \<Rightarrow> response \<times> 'o" where
  "delete_secret co H project name x = unit_reply co 500 (oh_delete_secret H project name x)"

text \<open>The configuration a scheduler request asks for: a strategy comes before a weight.\<close>

definition requested_config ::
  "core \<Rightarrow> ('o, 'c) orchestrator \<Rightarrow> string option \<Rightarrow> (string \<times> f64) option \<Rightarrow> 'c \<Rightarrow> response + 'c" where
  "requested_config co H strategy weights current =
     (case strategy of
        Some st \<Rightarrow> (case oh_from_strategy H st of Inr c \<Rightarrow> Inr c | Inl e \<Rightarrow> Inl (error_reply co 400 e))
      | None \<Rightarrow>
          (case weights of
             Some (name, val) \<Rightarrow>
               (case oh_set_weight H name val current of
                  (Inr _, c) \<Rightarrow> Inr c | (Inl e, _) \<Rightarrow> Inl (error_reply co 400 e))
           | None \<Rightarrow> Inl (reply 400 (JsonError (''provide '' @ [CHR 39] @ ''strategy'' @ [CHR 39] @ '' or ''
                       @ [CHR 39] @ ''weights'' @ [CHR 39])))))"

definition set_scheduler_config ::
  "core \<Rightarrow> ('o, 'c) orchestrator \<Rightarrow> string option \<Rightarrow> (string \<times> f64) option \<Rightarrow> 'o \<Rightarrow> response \<times> 'o" where
  "set_scheduler_config co H strategy weights x =
     (case requested_config co H strategy weights (oh_get_scheduler_config H x) of
        Inl rsp \<Rightarrow> (rsp, x)
      | Inr config \<Rightarrow>
          (case oh_set_scheduler_config H config x of
             (Inr c, x1) \<Rightarrow> (reply 200 (JsonValue (oh_config_json H c)), x1)
           | (Inl e, x1) \<Rightarrow> (internal_error co e, x1)))"

definition default_tls_mode :: string where
  "default_tls_mode = ''none''"

definition add_route ::
  "core \<Rightarrow> ('o, 'c) orchestrator \<Rightarrow> string \<Rightarrow> string \<Rightarrow> string \<Rightarrow> string option \<Rightarrow> 'o \<Rightarrow> response \<times> 'o" where
  "add_route co H domain project deployment tls_mode x =
     (case oh_add_route H domain project deployment (case tls_mode of Some m \<Rightarrow> m | None \<Rightarrow> default_tls_mode) x of
        (Inr _, x1) \<Rightarrow> (reply 201 (JsonDomain domain ''created''), x1)
      | (Inl e, x1) \<Rightarrow> (error_reply co 409 e, x1))"

definition api_remove_route :: "core \<Rightarrow> ('o, 'c) orchestrator \<Rightarrow> string \<Rightarrow> 'o \<Rightarrow> response \<times> 'o" where
  "api_remove_route co H domain x = unit_reply co 404 (oh_remove_route H domain x)"

section \<open>Handlers without state\<close>

text \<open>\<open>import_cert\<close> answers from the request alone, as do the two proxy configuration handlers.\<close>

definition import_cert :: "string \<Rightarrow> string \<Rightarrow> string \<Rightarrow> response" where
  "import_cert domain cert_pem key_pem = reply 201 (JsonDomain domain ''imported'')"

definition get_proxy_config :: response where
  "get_proxy_config = reply 200 (JsonProxy ''nexa-proxy'' None None)"

definition set_proxy_config :: "string option \<Rightarrow> string option \<Rightarrow> response" where
  "set_proxy_config backend acme_mail =
     reply 200 (JsonProxy (case backend of Some b \<Rightarrow> b | None \<Rightarrow> ''nexa-proxy'') acme_mail (Some ''updated''))"

text \<open>\<open>encoded\<close> is the text of the Prometheus metrics, if the metrics port is that one.\<close>

definition metrics_endpoint :: "string option \<Rightarrow> response" where
  "metrics_endpoint encoded =
     reply 200 (PlainText (case encoded of Some t \<Rightarrow> t
       | None \<Rightarrow> ''# no prometheus metrics available'' @ [CHR 0x0A]))"

datatype bus_recv = BusEvent cluster_event | BusLagged u64 | BusClosed

text \<open>\<open>events_stream\<close>: the results of \<open>recv\<close> up to the closing of the bus; \<open>to_json\<close> serialises an event.\<close>

fun events_stream :: "(cluster_event \<Rightarrow> string option) \<Rightarrow> bus_recv list \<Rightarrow> string list" where
  "events_stream to_json [] = []"
| "events_stream to_json (BusEvent e # rest) = or_default (to_json e) # events_stream to_json rest"
| "events_stream to_json (BusLagged n # rest) =
     (''{'' @ [CHR 34] @ ''warning'' @ [CHR 34] @ '':'' @ [CHR 34] @ ''missed '' @ show_nat (unat n) @ '' events''
        @ [CHR 34] @ ''}'') # events_stream to_json rest"
| "events_stream to_json (BusClosed # rest) = []"

section \<open>Properties\<close>

lemma sqlite_config_get:
  "set_cluster_config cd None k v s = (Ok (), s\<lparr>t_config := hm_insert k v (t_config s)\<rparr>)"
  "get_cluster_config cd None k s = Ok (hm_get (t_config s) k)"
  by (simp_all add: set_cluster_config_def get_cluster_config_def exec_sql_def fetch_def)

text \<open>What draining and removing a stored node do to the table of nodes.\<close>

lemma filter_update_rows:
  "(\<And>r. key (f r) = key r) \<Longrightarrow>
     filter (\<lambda>r. key r \<noteq> k) (update_rows key k f rows) = filter (\<lambda>r. key r \<noteq> k) rows"
  by (induction rows) (auto simp: update_rows_def)

lemma update_node_rows:
  assumes "update_node cd None n s = (Ok (), s1)"
  shows "\<exists>ns. s1 = s\<lparr>t_nodes := ns\<rparr>
    \<and> filter (\<lambda>r. nr_id r \<noteq> uuid_str cd (node_id n)) ns = filter (\<lambda>r. nr_id r \<noteq> uuid_str cd (node_id n)) (t_nodes s)"
  using assms
  by (auto simp: update_node_def sql_update_node_def filter_update_rows split: option.splits if_splits)

lemma named_row:
  assumes "sqlite_inv cd s" "get_node_by_name cd None name s = Ok (Some n)"
  shows "filter (\<lambda>r. nr_id r \<noteq> uuid_str cd (node_id n)) (t_nodes s) = filter (\<lambda>r. nr_name r \<noteq> name) (t_nodes s)"
proof (rule filter_cong [OF refl])
  fix r assume r: "r \<in> set (t_nodes s)"
  obtain q where q: "q \<in> set (t_nodes s)" "nr_name q = name" "row_to_node cd q = Ok n"
    using assms by (auto simp: get_node_by_name_Some)
  have inj: "inj_on nr_id (set (t_nodes s))" "inj_on nr_name (set (t_nodes s))"
    using assms(1) by (simp_all add: sqlite_inv_def db_wf_def distinct_map)
  have "nr_id q = uuid_str cd (node_id n)" by (rule row_id_node_id [OF assms(1) q(1,3)])
  then show "(nr_id r \<noteq> uuid_str cd (node_id n)) = (nr_name r \<noteq> name)"
    using inj_onD [OF inj(1) _ r q(1)] inj_onD [OF inj(2) _ r q(1)] q(2) by metis
qed

lemma find_filter_other:
  "(\<And>r. P r \<Longrightarrow> Q r) \<Longrightarrow> find P (filter Q xs) = find P xs"
  by (induction xs) auto

lemma node_gone:
  assumes "sqlite_inv cd s" "get_node_by_name cd None name s = Ok (Some n)"
    "gone = s\<lparr>t_nodes := filter (\<lambda>r. nr_name r \<noteq> name) (t_nodes s)\<rparr>"
  shows "get_node_by_name cd None nm gone = (if nm = name then Ok None else get_node_by_name cd None nm s)"
    and "get_node cd None i gone = (if i = node_id n then Ok None else get_node cd None i s)"
proof -
  have "find (\<lambda>r. nr_name r = name) (filter (\<lambda>r. nr_name r \<noteq> name) (t_nodes s)) = None" by (auto simp: find_None_iff)
  then show "get_node_by_name cd None nm gone = (if nm = name then Ok None else get_node_by_name cd None nm s)"
    by (simp add: assms(3) get_node_by_name_def fetch_def opt_row_def find_filter_other)
  have "uuid_str cd i = uuid_str cd (node_id n) \<longleftrightarrow> i = node_id n"
    using assms(1) uuid_str_inject by (auto simp: sqlite_inv_def)
  moreover have "find (\<lambda>r. nr_id r = k) (filter (\<lambda>r. nr_id r \<noteq> k) (t_nodes s)) = None" for k by (auto simp: find_None_iff)
  ultimately show "get_node cd None i gone = (if i = node_id n then Ok None else get_node cd None i s)"
    unfolding assms(3) named_row [OF assms(1,2), symmetric]
    by (auto simp: get_node_def fetch_def opt_row_def find_filter_other)
qed

text \<open>C17: nodes leave in two steps. On a store without faults, and for any existing node that can be stored, whatever
  its role and status: draining it answers 200 and marks it as draining, and removing it then
  answers 200 and deletes exactly its row, so that its name and its id are unknown, every other name
  and id reads as before, and a second removal answers 404. Removing the node without draining
  it has the same result if it is draining already or is a master; otherwise the answer is 409
  with the status of the node, and nothing changes.\<close>

theorem drain_then_remove:
  assumes "sqlite_inv cd s" "get_node_by_name cd None name s = Ok (Some n)" "storable cd n"
    "gone = s\<lparr>t_nodes := filter (\<lambda>r. nr_name r \<noteq> name) (t_nodes s)\<rparr>"
  shows "(\<exists>s1. drain_node co (sqlite_store cd None) name s = (status_ok, s1)
        \<and> get_node_by_name cd None name s1 = Ok (Some (n\<lparr>node_stat := Draining\<rparr>))
        \<and> remove_node co st (sqlite_store cd None) name s1 = (status_ok, gone))
    \<and> remove_node co st (sqlite_store cd None) name s =
        (if node_stat n = Draining \<or> node_role n = Master then (status_ok, gone)
         else (reply 409 (JsonError (''node '' @ [CHR 39] @ name @ [CHR 39]
                 @ '' must be drained before removal (status: '' @ st (node_stat n) @ '')'')), s))
    \<and> remove_node co st (sqlite_store cd None) name gone = (node_not_found name, gone)
    \<and> (\<forall>nm. get_node_by_name cd None nm gone = (if nm = name then Ok None else get_node_by_name cd None nm s))
    \<and> (\<forall>i. get_node cd None i gone = (if i = node_id n then Ok None else get_node cd None i s))"
proof -
  let ?D = "sqlite_store cd None"
  let ?d = "n\<lparr>node_stat := Draining\<rparr>"
  have g: "ss_get_node ?D (node_id n) s = Ok (Some n)" and nm: "node_name n = name"
    using sq.get_by_name [OF assms(1), of None name n] assms(2) by (simp_all add: sqlite_store_def)
  obtain s1 where u: "ss_update_node ?D ?d s = (Ok (), s1)" "sqlite_inv cd s1"
    "\<And>i. ss_get_node ?D i s1 = (if i = node_id n then Ok (Some ?d) else ss_get_node ?D i s)"
    using sqr.update_stat [OF assms(1,3) g] by metis
  have by_name: "get_node_by_name cd None name s1 = Ok (Some ?d)"
    using sq.by_name_complete [OF u(2), of None "node_id n" ?d] u(3) nm by (simp add: sqlite_store_def)
  have del: "delete_node cd None (node_id n) s = (Ok (), gone)"
    by (simp add: delete_node_def exec_sql_def assms(4) named_row [OF assms(1,2)])
  obtain ns where ns: "s1 = s\<lparr>t_nodes := ns\<rparr>"
      "filter (\<lambda>r. nr_id r \<noteq> uuid_str cd (node_id n)) ns = filter (\<lambda>r. nr_id r \<noteq> uuid_str cd (node_id n)) (t_nodes s)"
    using update_node_rows [of cd ?d s s1] u(1) by (auto simp: sqlite_store_def)
  have del1: "delete_node cd None (node_id n) s1 = (Ok (), gone)"
    by (simp add: delete_node_def exec_sql_def assms(4) ns named_row [OF assms(1,2)])
  have drain: "drain_node co ?D name s = (status_ok, s1)"
    using assms(2) u(1) by (simp add: drain_node_def sqlite_store_def)
  have rem1: "remove_node co st ?D name s1 = (status_ok, gone)"
    using by_name del1 by (simp add: remove_node_def sqlite_store_def)
  have rem: "remove_node co st ?D name s =
        (if node_stat n = Draining \<or> node_role n = Master then (status_ok, gone)
         else (reply 409 (JsonError (''node '' @ [CHR 39] @ name @ [CHR 39]
                 @ '' must be drained before removal (status: '' @ st (node_stat n) @ '')'')), s))"
    using assms(2) del by (simp add: remove_node_def sqlite_store_def)
  have again: "remove_node co st ?D name gone = (node_not_found name, gone)"
    using node_gone(1) [OF assms(1,2,4), of name] by (simp add: remove_node_def sqlite_store_def)
  show ?thesis
    using drain by_name rem1 rem again node_gone [OF assms(1,2,4)] by blast
qed

text \<open>Rotating the join token does not reach a running server. After a rotation the API shows the new
  token and the store holds its hash, but the server, which keeps the hash it was started with,
  still rejects the new token and accepts registrations with the old one.\<close>

theorem rotated_token_not_used:
  assumes "sqlite_inv cd s" "hex_ok co" "rq_token req = generate_token co rnd"
    "sha256 co (generate_token co rnd) \<noteq> sha256 co old"
    "cluster_token_rotate co (sqlite_store cd None) rnd s = (r, s1)"
  shows "r = reply 200 (JsonToken (generate_token co rnd))
    \<and> cluster_token_show co (sqlite_store cd None) s1 = r
    \<and> get_cluster_config cd None ''join_token_hash'' s1 = Ok (Some (hash_token co (generate_token co rnd)))
    \<and> server_register co (sqlite_store cd None) (hash_token co old) req s1 = (Ok (rejected ''invalid join token''), s1)"
  using assms(2-5)
  by (auto simp: cluster_token_rotate_def cluster_token_show_def sqlite_store_def sqlite_config_get Let_def
      server_register_def hash_token_def hex_encode_inject)

text \<open>The memory a worker reports is not checked: when it claims more available memory than it has, the statistics show
  a used memory just below \<open>2 ^ 64\<close> bytes.\<close>

theorem reported_memory_wraps:
  assumes "memory_bytes (node_resources n) < memory_available (node_resources n)"
  shows "unat (st_memory_used (remote_stats fl role status n)) =
    2 ^ 64 - (unat (memory_available (node_resources n)) - unat (memory_bytes (node_resources n)))"
proof -
  let ?a = "memory_available (node_resources n)" and ?b = "memory_bytes (node_resources n)"
  have "unat ?b < unat ?a" using assms by (simp add: word_less_nat_alt)
  moreover have "unat ?a < 2 ^ 64" using unsigned_less [of ?a] by simp
  moreover have "unat (?b - ?a) = (unat ?b + (2 ^ 64 - unat ?a)) mod 2 ^ 64"
    using unat_sub_if' [of ?b ?a] calculation by simp
  ultimately show ?thesis by (simp add: remote_stats_def Let_def)
qed

section \<open>Witnesses\<close>

theorem drain_then_remove_witness:
  "\<exists>s1 s2. drain_node sample_core (sqlite_store sample_codec None) ''w1'' sample_db = (status_ok, s1)
     \<and> remove_node sample_core (\<lambda>_. []) (sqlite_store sample_codec None) ''w1'' s1 = (status_ok, s2)
     \<and> get_node sample_codec None 7 s2 = Ok None \<and> get_node_by_name sample_codec None ''w1'' s2 = Ok None
     \<and> rsp_status (fst (remove_node sample_core (\<lambda>_. []) (sqlite_store sample_codec None) ''w1'' sample_db)) = 409"
proof -
  have n: "get_node_by_name sample_codec None ''w1'' sample_db = Ok (Some sample_node)"
    using sq.by_name_complete [OF sample_inv_db, of None 7 sample_node] sample_node_stored
    by (simp add: sqlite_store_def sample_node_def)
  have k: "node_stat sample_node = Ready" "node_role sample_node = Worker" "node_id sample_node = 7"
    by (simp_all add: sample_node_def)
  note t = drain_then_remove [OF sample_inv_db n sample_storable refl, of sample_core "\<lambda>_. []"]
  obtain s1 where "drain_node sample_core (sqlite_store sample_codec None) ''w1'' sample_db = (status_ok, s1)"
    "remove_node sample_core (\<lambda>_. []) (sqlite_store sample_codec None) ''w1'' s1 =
       (status_ok, sample_db\<lparr>t_nodes := filter (\<lambda>r. nr_name r \<noteq> ''w1'') (t_nodes sample_db)\<rparr>)"
    using conjunct1 [OF t] by blast
  then show ?thesis
    using conjunct2 [OF t] by (auto simp: k reply_def)
qed

end
