(* ===== verification/Rest_Routes.thy ===== *)
theory Rest_Routes
  imports Rust_Str
begin

text \<open>
  The route table of the REST API (\<open>src/api/routes.rs\<close>) and the dispatch of a request. The table
  is the source's list of \<open>route\<close> calls; the matching of paths is done by \<open>axum\<close>, whose choice of
  a pattern is a parameter with its documented behaviour as a hypothesis.
\<close>

section \<open>Routes\<close>

datatype seg = Lit string | Par string

type_synonym pattern = "seg list"

datatype http_method = GET | POST | DELETE

datatype endpoint =
    E_health
  | E_metrics_endpoint
  | E_list_projects
  | E_create_project
  | E_suspend_project
  | E_resume_project
  | E_delete_project
  | E_list_deployments
  | E_deploy
  | E_remove_deployment
  | E_stop_deployment
  | E_scale_deployment
  | E_list_pods
  | E_logs
  | E_list_secrets
  | E_set_secret
  | E_delete_secret
  | E_cluster_init
  | E_cluster_token_show
  | E_cluster_token_rotate
  | E_list_nodes
  | E_node_stats
  | E_events_stream
  | E_drain_node
  | E_remove_node
  | E_get_scheduler_config
  | E_set_scheduler_config
  | E_list_routes
  | E_add_route
  | E_remove_route
  | E_import_cert
  | E_get_proxy_config
  | E_set_proxy_config

text \<open>\<open>routes::build\<close>, one entry per \<open>route\<close> call.\<close>

definition route_table :: "(pattern \<times> http_method \<times> endpoint) list" where
  "route_table =
     [([Lit ''health''], GET, E_health),
      ([Lit ''metrics''], GET, E_metrics_endpoint),
      ([Lit ''api'', Lit ''v1'', Lit ''projects''], GET, E_list_projects),
      ([Lit ''api'', Lit ''v1'', Lit ''projects''], POST, E_create_project),
      ([Lit ''api'', Lit ''v1'', Lit ''projects'', Par ''name'', Lit ''suspend''], POST, E_suspend_project),
      ([Lit ''api'', Lit ''v1'', Lit ''projects'', Par ''name'', Lit ''resume''], POST, E_resume_project),
      ([Lit ''api'', Lit ''v1'', Lit ''projects'', Par ''name''], DELETE, E_delete_project),
      ([Lit ''api'', Lit ''v1'', Lit ''deployments''], GET, E_list_deployments),
      ([Lit ''api'', Lit ''v1'', Lit ''deploy''], POST, E_deploy),
      ([Lit ''api'', Lit ''v1'', Lit ''projects'', Par ''project'', Lit ''deployments'', Par ''name''], DELETE, E_remove_deployment),
      ([Lit ''api'', Lit ''v1'', Lit ''projects'', Par ''project'', Lit ''deployments'', Par ''name'', Lit ''stop''], POST, E_stop_deployment),
      ([Lit ''api'', Lit ''v1'', Lit ''projects'', Par ''project'', Lit ''deployments'', Par ''name'', Lit ''scale''], POST, E_scale_deployment),
      ([Lit ''api'', Lit ''v1'', Lit ''pods''], GET, E_list_pods),
      ([Lit ''api'', Lit ''v1'', Lit ''projects'', Par ''project'', Lit ''deployments'', Par ''name'', Lit ''logs''], GET, E_logs),
      ([Lit ''api'', Lit ''v1'', Lit ''projects'', Par ''project'', Lit ''secrets''], GET, E_list_secrets),
      ([Lit ''api'', Lit ''v1'', Lit ''projects'', Par ''project'', Lit ''secrets'', Par ''name''], POST, E_set_secret),
      ([Lit ''api'', Lit ''v1'', Lit ''projects'', Par ''project'', Lit ''secrets'', Par ''name''], DELETE, E_delete_secret),
      ([Lit ''api'', Lit ''v1'', Lit ''cluster'', Lit ''init''], POST, E_cluster_init),
      ([Lit ''api'', Lit ''v1'', Lit ''cluster'', Lit ''token''], GET, E_cluster_token_show),
      ([Lit ''api'', Lit ''v1'', Lit ''cluster'', Lit ''token'', Lit ''rotate''], POST, E_cluster_token_rotate),
      ([Lit ''api'', Lit ''v1'', Lit ''nodes''], GET, E_list_nodes),
      ([Lit ''api'', Lit ''v1'', Lit ''nodes'', Lit ''stats''], GET, E_node_stats),
      ([Lit ''api'', Lit ''v1'', Lit ''events''], GET, E_events_stream),
      ([Lit ''api'', Lit ''v1'', Lit ''nodes'', Par ''name'', Lit ''drain''], POST, E_drain_node),
      ([Lit ''api'', Lit ''v1'', Lit ''nodes'', Par ''name''], DELETE, E_remove_node),
      ([Lit ''api'', Lit ''v1'', Lit ''cluster'', Lit ''scheduler''], GET, E_get_scheduler_config),
      ([Lit ''api'', Lit ''v1'', Lit ''cluster'', Lit ''scheduler''], POST, E_set_scheduler_config),
      ([Lit ''api'', Lit ''v1'', Lit ''routes''], GET, E_list_routes),
      ([Lit ''api'', Lit ''v1'', Lit ''routes''], POST, E_add_route),
      ([Lit ''api'', Lit ''v1'', Lit ''routes'', Par ''domain''], DELETE, E_remove_route),
      ([Lit ''api'', Lit ''v1'', Lit ''certs'', Lit ''import''], POST, E_import_cert),
      ([Lit ''api'', Lit ''v1'', Lit ''cluster'', Lit ''config'', Lit ''proxy''], GET, E_get_proxy_config),
      ([Lit ''api'', Lit ''v1'', Lit ''cluster'', Lit ''config'', Lit ''proxy''], POST, E_set_proxy_config)]"

text \<open>
  The values of the parameters when a path matches a pattern: a literal matches itself, a
  parameter any non-empty segment.
\<close>

fun seg_match :: "pattern \<Rightarrow> string list \<Rightarrow> string list option" where
  "seg_match [] [] = Some []"
| "seg_match (Lit a # p) (x # xs) = (if x = a then seg_match p xs else None)"
| "seg_match (Par a # p) (x # xs) = (if x \<noteq> [] then map_option (Cons x) (seg_match p xs) else None)"
| "seg_match _ _ = None"

datatype dispatched = NotFound | MethodNotAllowed | Handler endpoint "string list"

text \<open>
  The choice of a pattern for a path is made by the router of \<open>axum\<close> (\<open>select\<close>); it answers 404
  when no pattern matches and 405 when the pattern has no handler for the method.
\<close>

definition dispatch ::
  "(pattern list \<Rightarrow> string list \<Rightarrow> (pattern \<times> string list) option) \<Rightarrow> http_method \<Rightarrow> string list \<Rightarrow> dispatched" where
  "dispatch select m path =
     (case select (map fst route_table) path of
        None \<Rightarrow> NotFound
      | Some (p, args) \<Rightarrow>
          (case find (\<lambda>(q, m', _). q = p \<and> m' = m) route_table of
             None \<Rightarrow> MethodNotAllowed
           | Some (_, _, e) \<Rightarrow> Handler e args))"

text \<open>Documented behaviour of the router: it picks a matching pattern, and a literal before a parameter.\<close>

fun preferred :: "pattern \<Rightarrow> pattern \<Rightarrow> bool" where
  "preferred (Par a # p) (Lit b # q) \<longleftrightarrow> False"
| "preferred (Lit a # p) (Par b # q) \<longleftrightarrow> True"
| "preferred (_ # p) (_ # q) \<longleftrightarrow> preferred p q"
| "preferred _ _ \<longleftrightarrow> True"

definition router_ok :: "(pattern list \<Rightarrow> string list \<Rightarrow> (pattern \<times> string list) option) \<Rightarrow> bool" where
  "router_ok select \<longleftrightarrow> (\<forall>path.
     (case select (map fst route_table) path of
        None \<Rightarrow> \<forall>q \<in> fst ` set route_table. seg_match q path = None
      | Some (p, args) \<Rightarrow> p \<in> fst ` set route_table \<and> seg_match p path = Some args
          \<and> (\<forall>q \<in> fst ` set route_table. seg_match q path \<noteq> None \<longrightarrow> preferred p q)))"

section \<open>Overlap of patterns\<close>

text \<open>The path of a pattern for given parameter values.\<close>

fun fill :: "pattern \<Rightarrow> string list \<Rightarrow> string list" where
  "fill [] args = []"
| "fill (Lit a # p) args = a # fill p args"
| "fill (Par a # p) (x # args) = x # fill p args"
| "fill (Par a # p) [] = []"

definition params :: "pattern \<Rightarrow> nat" where
  "params p = length (filter (\<lambda>s. case s of Par _ \<Rightarrow> True | Lit _ \<Rightarrow> False) p)"

lemma params_simps [simp]: "params [] = 0" "params (Lit a # p) = params p" "params (Par a # p) = Suc (params p)"
  by (simp_all add: params_def)

fun overlap :: "pattern \<Rightarrow> pattern \<Rightarrow> bool" where
  "overlap [] [] \<longleftrightarrow> True"
| "overlap (Lit a # p) (Lit b # q) \<longleftrightarrow> a = b \<and> overlap p q"
| "overlap (_ # p) (_ # q) \<longleftrightarrow> overlap p q"
| "overlap _ _ \<longleftrightarrow> False"

lemma seg_match_fill:
  "length args = params p \<Longrightarrow> list_all (\<lambda>x. x \<noteq> []) args \<Longrightarrow> seg_match p (fill p args) = Some args"
  by (induction p args rule: fill.induct) auto

lemma seg_match_params: "seg_match p path = Some a \<Longrightarrow> length a = params p"
  by (induction p path arbitrary: a rule: seg_match.induct) (auto split: if_splits)

lemma seg_match_overlap: "seg_match p path = Some a \<Longrightarrow> seg_match q path = Some b \<Longrightarrow> overlap p q"
proof (induction path arbitrary: p q a b)
  case Nil
  then show ?case by (cases p; cases q) auto
next
  case (Cons x path)
  obtain s p' t q' where "p = s # p'" "q = t # q'"
    using Cons.prems by (cases p; cases q) auto
  then show ?case
    using Cons by (cases s; cases t) (auto split: if_splits)
qed

section \<open>Properties\<close>

definition stats_path :: pattern where
  "stats_path = [Lit ''api'', Lit ''v1'', Lit ''nodes'', Lit ''stats'']"

definition node_path :: pattern where
  "node_path = [Lit ''api'', Lit ''v1'', Lit ''nodes'', Par ''name'']"

lemma table_overlaps:
  "list_all (\<lambda>p. list_all (\<lambda>q. overlap p q \<longrightarrow> p = q \<or> p = stats_path \<and> q = node_path \<or> p = node_path \<and> q = stats_path)
     (map fst route_table)) (map fst route_table)"
  by code_simp

lemma table_keys: "distinct (map (\<lambda>(p, m, e). (p, m)) route_table)"
  by code_simp

lemma table_find:
  assumes "(p, m, e) \<in> set route_table"
  shows "find (\<lambda>(q, m', _). q = p \<and> m' = m) route_table = Some (p, m, e)"
proof -
  have "find (\<lambda>(q, m', _). q = p \<and> m' = m) t = Some (p, m, e)"
    if "(p, m, e) \<in> set t" "distinct (map (\<lambda>(p, m, e). (p, m)) t)" for t
    using that by (induction t) (auto simp: image_iff)
  then show ?thesis using assms table_keys by blast
qed

lemma table_overlapD:
  "p \<in> fst ` set route_table \<Longrightarrow> q \<in> fst ` set route_table \<Longrightarrow> overlap p q \<Longrightarrow>
   p = q \<or> p = stats_path \<and> q = node_path \<or> p = node_path \<and> q = stats_path"
  using table_overlaps by (fastforce simp: list_all_iff)

lemma router_selects:
  assumes "router_ok select" "p \<in> fst ` set route_table" "seg_match p path = Some args"
  obtains q b where "select (map fst route_table) path = Some (q, b)" "seg_match q path = Some b" "preferred q p"
    "p = q \<or> p = stats_path \<and> q = node_path \<or> p = node_path \<and> q = stats_path"
proof -
  have "case select (map fst route_table) path of None \<Rightarrow> \<forall>q \<in> fst ` set route_table. seg_match q path = None
      | Some (q, b) \<Rightarrow> q \<in> fst ` set route_table \<and> seg_match q path = Some b
          \<and> (\<forall>q' \<in> fst ` set route_table. seg_match q' path \<noteq> None \<longrightarrow> preferred q q')"
    using assms(1) unfolding router_ok_def by blast
  then obtain q b where q: "select (map fst route_table) path = Some (q, b)" "q \<in> fst ` set route_table"
      "seg_match q path = Some b" "preferred q p"
    using assms(2,3) by (cases "select (map fst route_table) path") auto
  then show ?thesis
    using that table_overlapD [OF assms(2) q(2) seg_match_overlap [OF assms(3) q(3)]] by blast
qed

lemma not_preferred: "\<not> preferred node_path stats_path"
  by (simp add: stats_path_def node_path_def)

subsection \<open>The published addresses\<close>

text \<open>
  The address of every endpoint as a user of the API writes it: the interface table of
  \<open>README.md\<close>, and for the endpoints that table leaves out (metrics, the node
  statistics, events, the deletion of a secret and the proxy settings) the path their handler is
  meant for. A segment in braces is a parameter.
\<close>

fun address :: "endpoint \<Rightarrow> http_method \<times> string" where
  "address E_health = (GET, ''/health'')"
| "address E_metrics_endpoint = (GET, ''/metrics'')"
| "address E_deploy = (POST, ''/api/v1/deploy'')"
| "address E_list_deployments = (GET, ''/api/v1/deployments'')"
| "address E_create_project = (POST, ''/api/v1/projects'')"
| "address E_list_projects = (GET, ''/api/v1/projects'')"
| "address E_suspend_project = (POST, ''/api/v1/projects/{name}/suspend'')"
| "address E_resume_project = (POST, ''/api/v1/projects/{name}/resume'')"
| "address E_delete_project = (DELETE, ''/api/v1/projects/{name}'')"
| "address E_scale_deployment = (POST, ''/api/v1/projects/{p}/deployments/{d}/scale'')"
| "address E_stop_deployment = (POST, ''/api/v1/projects/{p}/deployments/{d}/stop'')"
| "address E_remove_deployment = (DELETE, ''/api/v1/projects/{p}/deployments/{d}'')"
| "address E_logs = (GET, ''/api/v1/projects/{p}/deployments/{d}/logs'')"
| "address E_list_pods = (GET, ''/api/v1/pods'')"
| "address E_list_secrets = (GET, ''/api/v1/projects/{p}/secrets'')"
| "address E_set_secret = (POST, ''/api/v1/projects/{p}/secrets/{n}'')"
| "address E_delete_secret = (DELETE, ''/api/v1/projects/{p}/secrets/{n}'')"
| "address E_list_nodes = (GET, ''/api/v1/nodes'')"
| "address E_node_stats = (GET, ''/api/v1/nodes/stats'')"
| "address E_drain_node = (POST, ''/api/v1/nodes/{name}/drain'')"
| "address E_remove_node = (DELETE, ''/api/v1/nodes/{name}'')"
| "address E_events_stream = (GET, ''/api/v1/events'')"
| "address E_list_routes = (GET, ''/api/v1/routes'')"
| "address E_add_route = (POST, ''/api/v1/routes'')"
| "address E_remove_route = (DELETE, ''/api/v1/routes/{domain}'')"
| "address E_import_cert = (POST, ''/api/v1/certs/import'')"
| "address E_cluster_init = (POST, ''/api/v1/cluster/init'')"
| "address E_cluster_token_show = (GET, ''/api/v1/cluster/token'')"
| "address E_cluster_token_rotate = (POST, ''/api/v1/cluster/token/rotate'')"
| "address E_get_scheduler_config = (GET, ''/api/v1/cluster/scheduler'')"
| "address E_set_scheduler_config = (POST, ''/api/v1/cluster/scheduler'')"
| "address E_get_proxy_config = (GET, ''/api/v1/cluster/config/proxy'')"
| "address E_set_proxy_config = (POST, ''/api/v1/cluster/config/proxy'')"

definition path_segments :: "string \<Rightarrow> string list" where
  "path_segments s = drop 1 (split_on (CHR ''/'') s)"

text \<open>A path is at an address when its segments are those of the address with the parameters filled in.\<close>

fun fits :: "string list \<Rightarrow> string list \<Rightarrow> string list option" where
  "fits [] [] = Some []"
| "fits (t # ts) (x # xs) =
     (if t \<noteq> [] \<and> hd t = CHR ''{'' then (if x \<noteq> [] then map_option (Cons x) (fits ts xs) else None)
      else if x = t then fits ts xs else None)"
| "fits _ _ = None"

definition at_address :: "endpoint \<Rightarrow> string list \<Rightarrow> string list option" where
  "at_address e path = fits (path_segments (snd (address e))) path"

fun seg_fits :: "seg \<Rightarrow> string \<Rightarrow> bool" where
  "seg_fits (Lit a) t \<longleftrightarrow> a = t \<and> \<not> (t \<noteq> [] \<and> hd t = CHR ''{'')"
| "seg_fits (Par a) t \<longleftrightarrow> t \<noteq> [] \<and> hd t = CHR ''{''"

lemma seg_match_fits: "list_all2 seg_fits p ts \<Longrightarrow> seg_match p path = fits ts path"
proof (induction p ts arbitrary: path rule: list_all2_induct)
  case Nil
  then show ?case by (cases path) simp_all
next
  case (Cons s p t ts)
  then show ?case by (cases s; cases path) auto
qed

lemma table_addresses:
  "list_all (\<lambda>(p, m, e). fst (address e) = m \<and> list_all2 seg_fits p (path_segments (snd (address e)))) route_table"
  by code_simp

lemma table_complete: "\<exists>p m. (p, m, e) \<in> set route_table"
  by (cases e) (simp_all add: route_table_def)

lemma table_address:
  assumes "(p, m, e) \<in> set route_table"
  shows "m = fst (address e)" "seg_match p path = at_address e path"
  using table_addresses assms by (auto simp: list_all_iff at_address_def intro: seg_match_fits)

lemma at_addressE:
  assumes "at_address e path = Some args"
  obtains p where "(p, fst (address e), e) \<in> set route_table" "seg_match p path = Some args"
  using table_complete [of e] table_address assms by metis

lemma node_path_entry: "(node_path, m, e) \<in> set route_table \<longleftrightarrow> m = DELETE \<and> e = E_remove_node"
  by (auto simp: route_table_def node_path_def)

lemma seg_match_path: "seg_match p path = Some a \<Longrightarrow> path = fill p a"
  by (induction p path arbitrary: a rule: seg_match.induct) (auto split: if_splits)

lemma stats_path_only: "seg_match stats_path path = Some b \<Longrightarrow> path = [''api'', ''v1'', ''nodes'', ''stats'']"
  using seg_match_path [of stats_path path b] by (simp add: stats_path_def)

lemma dispatch_table:
  assumes "router_ok select" "(p, m, e) \<in> set route_table" "seg_match p path = Some args"
    "p = node_path \<longrightarrow> args \<noteq> [''stats'']"
  shows "dispatch select m path = Handler e args"
proof -
  have p: "p \<in> fst ` set route_table" using assms(2) by force
  obtain q b where q: "select (map fst route_table) path = Some (q, b)" "seg_match q path = Some b"
      "preferred q p" "p = q \<or> p = stats_path \<and> q = node_path \<or> p = node_path \<and> q = stats_path"
    by (rule router_selects [OF assms(1) p assms(3)])
  have "\<not> (p = node_path \<and> q = stats_path)"
  proof
    assume pq: "p = node_path \<and> q = stats_path"
    then have "path = [''api'', ''v1'', ''nodes'', ''stats'']" using stats_path_only [of path b] q(2) by simp
    then have "args = [''stats'']" using pq assms(3) by (simp add: node_path_def)
    then show False using assms(4) pq by simp
  qed
  then have "p = q" using q(3,4) not_preferred by blast
  then show ?thesis
    using q(1,2) assms(3) table_find [OF assms(2)] by (simp add: dispatch_def)
qed

lemma dispatch_selected:
  assumes "router_ok select" "select (map fst route_table) path = Some (p, b)"
  shows "p \<in> fst ` set route_table \<and> seg_match p path = Some b
    \<and> (\<forall>q \<in> fst ` set route_table. seg_match q path \<noteq> None \<longrightarrow> preferred p q)"
proof -
  have "case select (map fst route_table) path of None \<Rightarrow> \<forall>q \<in> fst ` set route_table. seg_match q path = None
      | Some (p, args) \<Rightarrow> p \<in> fst ` set route_table \<and> seg_match p path = Some args
          \<and> (\<forall>q \<in> fst ` set route_table. seg_match q path \<noteq> None \<longrightarrow> preferred p q)"
    using assms(1) unfolding router_ok_def by blast
  then show ?thesis by (simp add: assms(2))
qed

lemma dispatch_missing:
  assumes "router_ok select"
  shows "select (map fst route_table) path = None \<longleftrightarrow> (\<forall>e. at_address e path = None)"
proof -
  have "(\<forall>e. at_address e path = None) \<longleftrightarrow> (\<forall>q \<in> fst ` set route_table. seg_match q path = None)"
    using table_complete table_address(2) by (metis (no_types, lifting) fst_conv image_iff prod.collapse)
  moreover have "case select (map fst route_table) path of None \<Rightarrow> \<forall>q \<in> fst ` set route_table. seg_match q path = None
      | Some (p, args) \<Rightarrow> p \<in> fst ` set route_table \<and> seg_match p path = Some args
          \<and> (\<forall>q \<in> fst ` set route_table. seg_match q path \<noteq> None \<longrightarrow> preferred p q)"
    using assms unfolding router_ok_def by blast
  ultimately show ?thesis by (cases "select (map fst route_table) path") auto
qed

lemma dispatch_Handler:
  assumes "router_ok select" "dispatch select m path = Handler e args"
  shows "m = fst (address e) \<and> at_address e path = Some args \<and> \<not> (e = E_remove_node \<and> args = [''stats''])"
proof -
  obtain p where p: "select (map fst route_table) path = Some (p, args)" "(p, m, e) \<in> set route_table"
    using assms(2)
    by (auto simp: dispatch_def find_Some_iff split: option.splits dest: nth_mem) (metis nth_mem)
  note sel = dispatch_selected [OF assms(1) p(1)]
  have "\<not> (e = E_remove_node \<and> args = [''stats''])"
  proof
    assume e: "e = E_remove_node \<and> args = [''stats'']"
    then have "p = node_path" using p(2) by (auto simp: route_table_def node_path_def)
    then have "path = [''api'', ''v1'', ''nodes'', ''stats'']"
      using sel e seg_match_path [of p path args] by (simp add: node_path_def)
    then have "seg_match stats_path path \<noteq> None" by (simp add: stats_path_def)
    moreover have "stats_path \<in> fst ` set route_table" by (simp add: route_table_def stats_path_def)
    ultimately have "preferred p stats_path" using sel by blast
    then show False using \<open>p = node_path\<close> not_preferred by simp
  qed
  then show ?thesis using table_address [OF p(2)] sel by simp
qed

text \<open>C37: every endpoint is reachable, and under its own address only. A request is handed to an endpoint's
  handler exactly when it has the method of the endpoint's published address and its path is that
  address with non-empty values for the parameters, and the handler gets exactly these values; the
  single exception is the path of the node statistics, which takes precedence over a node named
  \<open>stats\<close>. A request is answered with 404 exactly when its path is the address of no endpoint,
  and with 405 in the remaining cases. The methods are GET, POST and DELETE.\<close>

theorem dispatch_reaches_handler:
  assumes "router_ok select"
  shows "(dispatch select m path = Handler e args \<longleftrightarrow>
      m = fst (address e) \<and> fits (path_segments (snd (address e))) path = Some args
        \<and> \<not> (e = E_remove_node \<and> args = [''stats'']))
    \<and> (dispatch select m path = NotFound \<longleftrightarrow> (\<forall>e. fits (path_segments (snd (address e))) path = None))"
proof
  show "dispatch select m path = Handler e args \<longleftrightarrow>
      m = fst (address e) \<and> fits (path_segments (snd (address e))) path = Some args
        \<and> \<not> (e = E_remove_node \<and> args = [''stats''])" (is "?d \<longleftrightarrow> ?a")
  proof
    assume ?d
    then show ?a using dispatch_Handler [OF assms] by (simp add: at_address_def)
  next
    assume a: ?a
    then obtain p where "(p, m, e) \<in> set route_table" "seg_match p path = Some args"
      using at_addressE [of e path args] by (auto simp: at_address_def)
    then show ?d using dispatch_table [OF assms, of p m e path args] a node_path_entry by blast
  qed
  have "dispatch select m path = NotFound \<longleftrightarrow> select (map fst route_table) path = None"
    by (cases "select (map fst route_table) path") (auto simp: dispatch_def split: option.splits)
  then show "dispatch select m path = NotFound \<longleftrightarrow> (\<forall>e. fits (path_segments (snd (address e))) path = None)"
    using dispatch_missing [OF assms, of path] by (simp add: at_address_def)
qed

text \<open>A node that is called \<open>stats\<close> cannot be removed: its address belongs to the statistics, which only
  answer to \<open>GET\<close>.\<close>

theorem stats_node_not_removable:
  assumes "router_ok select"
  shows "dispatch select DELETE (fill node_path [''stats'']) = MethodNotAllowed"
proof -
  have m: "seg_match stats_path (fill node_path [''stats'']) = Some []" "stats_path \<noteq> node_path"
    by (simp_all add: stats_path_def node_path_def)
  have t: "stats_path \<in> fst ` set route_table" by (simp add: route_table_def stats_path_def)
  obtain q b where "select (map fst route_table) (fill node_path [''stats'']) = Some (q, b)" "preferred q stats_path"
      "stats_path = q \<or> stats_path = stats_path \<and> q = node_path \<or> stats_path = node_path \<and> q = stats_path"
    by (rule router_selects [OF assms t m(1)])
  moreover have "find (\<lambda>(q, m', _). q = stats_path \<and> m' = DELETE) route_table = None"
    by code_simp
  ultimately show ?thesis using m(2) not_preferred by (auto simp: dispatch_def)
qed

section \<open>Witness\<close>

definition sample_select :: "pattern list \<Rightarrow> string list \<Rightarrow> (pattern \<times> string list) option" where
  "sample_select ps path =
     (if seg_match stats_path path \<noteq> None then Some (stats_path, [])
      else (case find (\<lambda>p. seg_match p path \<noteq> None) ps of
              None \<Rightarrow> None | Some p \<Rightarrow> Some (p, the (seg_match p path))))"

lemma preferred_refl: "preferred p p"
proof (induction p)
  case (Cons a p)
  then show ?case by (cases a) simp_all
qed simp

lemma sample_router_ok: "router_ok sample_select"
  unfolding router_ok_def
proof
  fix path
  let ?t = "fst ` set route_table"
  show "case sample_select (map fst route_table) path of None \<Rightarrow> \<forall>q \<in> ?t. seg_match q path = None
      | Some (p, args) \<Rightarrow> p \<in> ?t \<and> seg_match p path = Some args \<and> (\<forall>q \<in> ?t. seg_match q path \<noteq> None \<longrightarrow> preferred p q)"
  proof (cases "seg_match stats_path path")
    case None
    show ?thesis
    proof (cases "find (\<lambda>p. seg_match p path \<noteq> None) (map fst route_table)")
      case none: None
      then have "\<forall>q \<in> ?t. seg_match q path = None" by (auto simp: find_None_iff)
      moreover have "sample_select (map fst route_table) path = None"
        unfolding sample_select_def none using None by simp
      ultimately show ?thesis by simp
    next
      case (Some p)
      then have p: "p \<in> ?t" "seg_match p path \<noteq> None"
        by (auto simp: find_Some_iff in_set_conv_nth image_iff) (metis fst_conv nth_mem)
      have "preferred p q" if "q \<in> ?t" "seg_match q path \<noteq> None" for q
        using table_overlapD [OF p(1) that(1)] seg_match_overlap [of p path _ q] p(2) that(2) None preferred_refl by auto
      moreover have "sample_select (map fst route_table) path = Some (p, the (seg_match p path))"
        unfolding sample_select_def Some using None by simp
      ultimately show ?thesis using p by auto
    qed
  next
    case (Some a)
    then have a: "a = []" using seg_match_params [OF Some] by (simp add: stats_path_def)
    have "stats_path \<in> ?t" by (simp add: route_table_def stats_path_def)
    moreover have "preferred stats_path q" if "q \<in> ?t" "seg_match q path \<noteq> None" for q
      using table_overlapD [OF \<open>stats_path \<in> ?t\<close> that(1)] seg_match_overlap [OF Some, of q] that(2) preferred_refl
      by (auto simp: stats_path_def node_path_def)
    ultimately show ?thesis using Some a by (auto simp: sample_select_def)
  qed
qed

theorem dispatch_reaches_handler_witness:
  "dispatch sample_select POST [''api'', ''v1'', ''nodes'', ''w1'', ''drain''] = Handler E_drain_node [''w1'']
   \<and> dispatch sample_select POST [''api'', ''v2'', ''nodes''] = NotFound"
proof
  show "dispatch sample_select POST [''api'', ''v1'', ''nodes'', ''w1'', ''drain''] = Handler E_drain_node [''w1'']"
    unfolding dispatch_reaches_handler [OF sample_router_ok, THEN conjunct1] by code_simp
  have "fits (path_segments (snd (address e))) [''api'', ''v2'', ''nodes''] = None" for e
    by (cases e; hypsubst; code_simp)
  then show "dispatch sample_select POST [''api'', ''v2'', ''nodes''] = NotFound"
    unfolding dispatch_reaches_handler [OF sample_router_ok, THEN conjunct2] by blast
qed

end
