(* ===== verification/Rest_Server.thy ===== *)
theory Rest_Server
  imports Rest_Api Rest_Routes
begin

text \<open>
  The REST API as a whole: a request, after extraction, is answered by its handler on the state
  shared by all handlers (\<open>AppState\<close> of \<open>src/api/mod.rs\<close>), and the metrics middleware of
  \<open>src/api/handlers.rs\<close> counts it. The properties hold for every orchestrator.
\<close>

section \<open>Requests\<close>

datatype api_request =
    Health
  | MetricsText
  | ListProjects
  | CreateProject string
  | SuspendProject string
  | ResumeProject string
  | DeleteProject string
  | ListDeployments "string option"
  | Deploy string
  | RemoveDeployment string string
  | StopDeployment string string
  | ScaleDeployment string string u32
  | ListPods "string option"
  | Logs string string "u64 option"
  | ListSecrets string
  | SetSecret string string string
  | DeleteSecret string string
  | ClusterInit
  | ClusterTokenShow
  | ClusterTokenRotate
  | ListNodes
  | NodeStats
  | EventsStream
  | DrainNode string
  | RemoveNode string
  | GetSchedulerConfig
  | SetSchedulerConfig "string option" "(string \<times> f64) option"
  | ListRoutes "string option"
  | AddRoute string string string "string option"
  | RemoveRoute string
  | ImportCert string string string
  | GetProxyConfig
  | SetProxyConfig "string option" "string option"

fun endpoint_of :: "api_request \<Rightarrow> endpoint" where
  "endpoint_of Health = E_health"
| "endpoint_of MetricsText = E_metrics_endpoint"
| "endpoint_of ListProjects = E_list_projects"
| "endpoint_of (CreateProject _) = E_create_project"
| "endpoint_of (SuspendProject _) = E_suspend_project"
| "endpoint_of (ResumeProject _) = E_resume_project"
| "endpoint_of (DeleteProject _) = E_delete_project"
| "endpoint_of (ListDeployments _) = E_list_deployments"
| "endpoint_of (Deploy _) = E_deploy"
| "endpoint_of (RemoveDeployment _ _) = E_remove_deployment"
| "endpoint_of (StopDeployment _ _) = E_stop_deployment"
| "endpoint_of (ScaleDeployment _ _ _) = E_scale_deployment"
| "endpoint_of (ListPods _) = E_list_pods"
| "endpoint_of (Logs _ _ _) = E_logs"
| "endpoint_of (ListSecrets _) = E_list_secrets"
| "endpoint_of (SetSecret _ _ _) = E_set_secret"
| "endpoint_of (DeleteSecret _ _) = E_delete_secret"
| "endpoint_of ClusterInit = E_cluster_init"
| "endpoint_of ClusterTokenShow = E_cluster_token_show"
| "endpoint_of ClusterTokenRotate = E_cluster_token_rotate"
| "endpoint_of ListNodes = E_list_nodes"
| "endpoint_of NodeStats = E_node_stats"
| "endpoint_of EventsStream = E_events_stream"
| "endpoint_of (DrainNode _) = E_drain_node"
| "endpoint_of (RemoveNode _) = E_remove_node"
| "endpoint_of GetSchedulerConfig = E_get_scheduler_config"
| "endpoint_of (SetSchedulerConfig _ _) = E_set_scheduler_config"
| "endpoint_of (ListRoutes _) = E_list_routes"
| "endpoint_of (AddRoute _ _ _ _) = E_add_route"
| "endpoint_of (RemoveRoute _) = E_remove_route"
| "endpoint_of (ImportCert _ _ _) = E_import_cert"
| "endpoint_of GetProxyConfig = E_get_proxy_config"
| "endpoint_of (SetProxyConfig _ _) = E_set_proxy_config"

section \<open>The shared state\<close>

text \<open>The fixed parts of \<open>AppState\<close> and the helpers of other crates.\<close>

record ('o, 's, 'c) api_env =
  ae_core :: core
  ae_handle :: "('o, 'c) orchestrator"
  ae_store :: "'s state_store"
  ae_parse_deployment :: "string \<Rightarrow> deployment_spec res"
  ae_float :: float_ops
  ae_role_text :: "node_role \<Rightarrow> string"
  ae_status_text :: "node_status \<Rightarrow> string"
  ae_lower :: "string \<Rightarrow> string"
  ae_event_json :: "cluster_event \<Rightarrow> string option"

text \<open>What a handler reads from its surroundings.\<close>

record inputs =
  in_random :: string
  in_host :: host_readings
  in_bus :: "bus_recv list"
  in_encoded :: "string option"

record ('o, 's) app =
  app_handle :: 'o
  app_store :: 's
  app_metrics :: "metric_call list"

definition on_handle :: "('o \<Rightarrow> response \<times> 'o) \<Rightarrow> ('o, 's) app \<Rightarrow> response \<times> ('o, 's) app" where
  "on_handle f a = (case f (app_handle a) of (r, x) \<Rightarrow> (r, a\<lparr>app_handle := x\<rparr>))"

definition on_store :: "('s \<Rightarrow> response \<times> 's) \<Rightarrow> ('o, 's) app \<Rightarrow> response \<times> ('o, 's) app" where
  "on_store f a = (case f (app_store a) of (r, x) \<Rightarrow> (r, a\<lparr>app_store := x\<rparr>))"

section \<open>Handling a request\<close>

fun api_step ::
  "('o, 's, 'c) api_env \<Rightarrow> inputs \<Rightarrow> api_request \<Rightarrow> ('o, 's) app \<Rightarrow> response \<times> ('o, 's) app" where
  "api_step E i Health a = (api_health, a)"
| "api_step E i MetricsText a = (metrics_endpoint (in_encoded i), a)"
| "api_step E i ListProjects a = (api_list_projects (ae_handle E) (app_handle a), a)"
| "api_step E i (CreateProject n) a = on_handle (create_project (ae_core E) (ae_handle E) n) a"
| "api_step E i (SuspendProject n) a = on_handle (suspend_project (ae_core E) (ae_handle E) n) a"
| "api_step E i (ResumeProject n) a = on_handle (resume_project (ae_core E) (ae_handle E) n) a"
| "api_step E i (DeleteProject n) a = on_handle (api_delete_project (ae_core E) (ae_handle E) n) a"
| "api_step E i (ListDeployments p) a = (api_list_deployments (ae_handle E) p (app_handle a), a)"
| "api_step E i (Deploy body) a = on_handle (deploy (ae_core E) (ae_parse_deployment E) (ae_handle E) body) a"
| "api_step E i (RemoveDeployment p n) a = on_handle (remove_deployment (ae_core E) (ae_handle E) p n) a"
| "api_step E i (StopDeployment p n) a = on_handle (stop_deployment (ae_core E) (ae_handle E) p n) a"
| "api_step E i (ScaleDeployment p n k) a = on_handle (scale_deployment (ae_core E) (ae_handle E) p n k) a"
| "api_step E i (ListPods p) a = (api_list_pods (ae_handle E) p (app_handle a), a)"
| "api_step E i (Logs p n tail) a = (logs_reply (ae_core E) (ae_handle E) p n tail (app_handle a), a)"
| "api_step E i (ListSecrets p) a = (list_secrets (ae_core E) (ae_handle E) p (app_handle a), a)"
| "api_step E i (SetSecret p n v) a = on_handle (set_secret (ae_core E) (ae_handle E) p n v) a"
| "api_step E i (DeleteSecret p n) a = on_handle (delete_secret (ae_core E) (ae_handle E) p n) a"
| "api_step E i ClusterInit a = on_store (cluster_init (ae_core E) (ae_store E) (in_random i)) a"
| "api_step E i ClusterTokenShow a = (cluster_token_show (ae_core E) (ae_store E) (app_store a), a)"
| "api_step E i ClusterTokenRotate a = on_store (cluster_token_rotate (ae_core E) (ae_store E) (in_random i)) a"
| "api_step E i ListNodes a = (api_list_nodes (ae_core E) (ae_store E) (app_store a), a)"
| "api_step E i NodeStats a =
     (node_stats_reply (ae_float E) (ae_lower E \<circ> ae_role_text E) (ae_lower E \<circ> ae_status_text E) (ae_store E)
        (in_host i) (app_store a), a)"
| "api_step E i EventsStream a = (reply 200 (Sse (events_stream (ae_event_json E) (in_bus i))), a)"
| "api_step E i (DrainNode n) a = on_store (drain_node (ae_core E) (ae_store E) n) a"
| "api_step E i (RemoveNode n) a = on_store (remove_node (ae_core E) (ae_status_text E) (ae_store E) n) a"
| "api_step E i GetSchedulerConfig a = (get_scheduler_config (ae_handle E) (app_handle a), a)"
| "api_step E i (SetSchedulerConfig st ws) a = on_handle (set_scheduler_config (ae_core E) (ae_handle E) st ws) a"
| "api_step E i (ListRoutes p) a = (api_list_routes (ae_handle E) p (app_handle a), a)"
| "api_step E i (AddRoute d p n tls) a = on_handle (add_route (ae_core E) (ae_handle E) d p n tls) a"
| "api_step E i (RemoveRoute d) a = on_handle (api_remove_route (ae_core E) (ae_handle E) d) a"
| "api_step E i (ImportCert d c k) a = (import_cert d c k, a)"
| "api_step E i GetProxyConfig a = (get_proxy_config, a)"
| "api_step E i (SetProxyConfig b m) a = (set_proxy_config b m, a)"

text \<open>\<open>metrics_middleware\<close> around a handler: \<open>path\<close> and \<open>verb\<close> as they are in the request, the time it took in
  seconds.\<close>

definition metrics_middleware ::
  "string \<Rightarrow> string \<Rightarrow> f64 \<Rightarrow> (('o, 's) app \<Rightarrow> response \<times> ('o, 's) app) \<Rightarrow> ('o, 's) app \<Rightarrow> response \<times> ('o, 's) app" where
  "metrics_middleware verb path duration run a =
     (case run a of (r, a1) \<Rightarrow>
        (r, a1\<lparr>app_metrics := app_metrics a1 @ record_http_request verb path (rsp_status r) duration\<rparr>))"

definition serve_request ::
  "('o, 's, 'c) api_env \<Rightarrow> inputs \<Rightarrow> string \<Rightarrow> string \<Rightarrow> f64 \<Rightarrow> api_request \<Rightarrow> ('o, 's) app \<Rightarrow> response \<times> ('o, 's) app" where
  "serve_request E i verb path duration req a = metrics_middleware verb path duration (api_step E i req) a"

section \<open>Properties\<close>

text \<open>A response as clients may rely on it: an error carries its message, a success does not.\<close>

definition well_typed_response :: "response \<Rightarrow> bool" where
  "well_typed_response r \<longleftrightarrow>
     (if rsp_status r \<in> {200, 201} then \<forall>m. rsp_body r \<noteq> JsonError m
      else rsp_status r \<in> {400, 404, 409, 500} \<and> (\<exists>m. rsp_body r = JsonError m))"

lemmas handler_defs = api_health_def api_list_projects_def api_list_deployments_def api_list_pods_def
  get_scheduler_config_def api_list_routes_def metrics_endpoint_def create_project_def suspend_project_def resume_project_def api_delete_project_def
  deploy_def remove_deployment_def stop_deployment_def scale_deployment_def logs_reply_def list_secrets_def
  set_secret_def delete_secret_def set_scheduler_config_def add_route_def api_remove_route_def import_cert_def
  get_proxy_config_def set_proxy_config_def

lemmas store_handler_defs = cluster_init_def cluster_token_show_def cluster_token_rotate_def api_list_nodes_def
  node_stats_reply_def drain_node_def remove_node_def

lemma well_typed_replies [simp]:
  "well_typed_response status_ok" "well_typed_response (internal_error co e)" "well_typed_response (node_not_found n)"
  "st \<in> {400, 404, 409, 500} \<Longrightarrow> well_typed_response (error_reply co st e)"
  by (auto simp: well_typed_response_def status_ok_def internal_error_def node_not_found_def error_reply_def)

lemma well_typed_reply [simp]:
  "st \<in> {200, 201} \<Longrightarrow> well_typed_response (reply st b) \<longleftrightarrow> (\<forall>m. b \<noteq> JsonError m)"
  "st \<in> {400, 404, 409, 500} \<Longrightarrow> well_typed_response (reply st (JsonError m))"
  by (auto simp: well_typed_response_def)

lemma well_typed_unit_reply [simp]: "st \<in> {400, 404, 409, 500} \<Longrightarrow> well_typed_response (fst (unit_reply co st p))"
  by (auto simp: unit_reply_def split: prod.splits sum.splits)

lemma well_typed_on [simp]:
  "well_typed_response (fst (on_handle f a)) = well_typed_response (fst (f (app_handle a)))"
  "well_typed_response (fst (on_store g a)) = well_typed_response (fst (g (app_store a)))"
  by (simp_all add: on_handle_def on_store_def split_beta)

lemma well_typed_scheduler: "well_typed_response (fst (set_scheduler_config co H st ws x))"
  by (auto simp: set_scheduler_config_def requested_config_def
      split: option.splits sum.splits prod.splits)

text \<open>C35: the handlers of the REST API are well typed. Every request that the router has handed to a handler
  and whose path, query and body were extracted gets an answer with status 200 or 201 and no
  error, or with status 400, 404, 409 or 500 and an error message in its body, whatever the
  orchestrator and the store do. What \<open>axum\<close> answers before a handler runs is not covered:
  404 for an unknown path, 405 for a wrong method and its own 4xx answers, in plain text, for
  malformed parameters or bodies.\<close>

theorem api_responses_well_typed: "well_typed_response (fst (api_step E i req a))"
proof (cases req)
  case (SetSchedulerConfig st ws)
  then show ?thesis by (simp add: well_typed_scheduler)
qed (auto simp: handler_defs store_handler_defs Let_def split: prod.splits sum.splits option.splits nexa_error.splits)

subsection \<open>A store that fails now and then\<close>

text \<open>
  The SQLite store with faults of single calls: its state counts the writes so far, and every call
  may fail or not depending on the call and on this count. So a request may meet a store whose
  second write fails after the first succeeded, or whose read succeeds and whose write fails.
\<close>

datatype store_call =
    ListNodes_call | GetNode_call uuid | GetNodeByName_call string | InsertNode_call | UpdateNode_call
  | DeleteNode_call | ListPods_call | GetConfig_call string | SetConfig_call string

definition counted_write :: "('a res \<times> db) \<Rightarrow> nat \<Rightarrow> 'a res \<times> nat \<times> db" where
  "counted_write rs k = (case rs of (r, s) \<Rightarrow> (r, k + 1, s))"

definition flaky_store :: "codec \<Rightarrow> (nat \<Rightarrow> store_call \<Rightarrow> string option) \<Rightarrow> (nat \<times> db) state_store" where
  "flaky_store cd flt =
     \<lparr>ss_list_nodes = (\<lambda>(k, s). list_nodes cd (flt k ListNodes_call) s),
      ss_get_node = (\<lambda>i (k, s). get_node cd (flt k (GetNode_call i)) i s),
      ss_get_node_by_name = (\<lambda>nm (k, s). get_node_by_name cd (flt k (GetNodeByName_call nm)) nm s),
      ss_insert_node = (\<lambda>n (k, s). counted_write (insert_node cd (flt k InsertNode_call) n s) k),
      ss_update_node = (\<lambda>n (k, s). counted_write (update_node cd (flt k UpdateNode_call) n s) k),
      ss_delete_node = (\<lambda>i (k, s). counted_write (delete_node cd (flt k DeleteNode_call) i s) k),
      ss_list_pods = (\<lambda>p (k, s). list_pods cd (flt k ListPods_call) p s),
      ss_get_cluster_config = (\<lambda>key (k, s). get_cluster_config cd (flt k (GetConfig_call key)) key s),
      ss_set_cluster_config = (\<lambda>key v (k, s). counted_write (set_cluster_config cd (flt k (SetConfig_call key)) key v s) k)\<rparr>"

text \<open>A failing write of the SQLite store leaves the tables as they are.\<close>

lemma sqlite_failed_writes:
  "set_cluster_config cd flt k v s = (Err e, s') \<Longrightarrow> s' = s"
  "update_node cd flt n s = (Err e, s') \<Longrightarrow> s' = s"
  "delete_node cd flt ident s = (Err e, s') \<Longrightarrow> s' = s"
proof -
  show "set_cluster_config cd flt k v s = (Err e, s') \<Longrightarrow> s' = s"
    "delete_node cd flt ident s = (Err e, s') \<Longrightarrow> s' = s"
    by (auto simp: set_cluster_config_def delete_node_def exec_sql_def split: option.splits)
  show "update_node cd flt n s = (Err e, s') \<Longrightarrow> s' = s"
    using sq.update_err [of cd flt n s e s'] by (simp add: sqlite_store_def)
qed

lemma flaky_failed_writes:
  "ss_set_cluster_config (flaky_store cd flt) key v s = (Err e, s') \<Longrightarrow> snd s' = snd s"
  "ss_update_node (flaky_store cd flt) n s = (Err e, s') \<Longrightarrow> snd s' = snd s"
  "ss_delete_node (flaky_store cd flt) i s = (Err e, s') \<Longrightarrow> snd s' = snd s"
  by (cases s; auto simp: flaky_store_def counted_write_def split: prod.splits dest: sqlite_failed_writes)+

lemma store_handlers_keep:
  assumes "D = flaky_store cd flt"
  shows "400 \<le> rsp_status (fst (cluster_init co D rnd s)) \<Longrightarrow> snd (snd (cluster_init co D rnd s)) = snd s"
    "400 \<le> rsp_status (fst (cluster_token_rotate co D rnd s)) \<Longrightarrow> snd (snd (cluster_token_rotate co D rnd s)) = snd s"
    "400 \<le> rsp_status (fst (drain_node co D name s)) \<Longrightarrow> snd (snd (drain_node co D name s)) = snd s"
    "400 \<le> rsp_status (fst (remove_node co st D name s)) \<Longrightarrow> snd (snd (remove_node co st D name s)) = snd s"
  unfolding assms
  by (auto simp: store_handler_defs Let_def status_ok_def dest: flaky_failed_writes
      split: prod.splits sum.splits option.splits if_splits)

lemma on_keeps [simp]:
  "app_store (snd (on_handle f a)) = app_store a" "app_store (snd (on_store g a)) = snd (g (app_store a))"
  "rsp_status (fst (on_handle f a)) = rsp_status (fst (f (app_handle a)))"
  "rsp_status (fst (on_store g a)) = rsp_status (fst (g (app_store a)))"
  by (simp_all add: on_handle_def on_store_def split_beta)


text \<open>A token that was not saved is handed out. When only the second write of \<open>cluster_init\<close> fails, the API answers
  200 with the new token and its hash is stored, but \<open>GET /api/v1/cluster/token\<close> goes on
  showing the old token, which no server started from now on accepts.\<close>

theorem unsaved_token_handed_out:
  assumes "flt k (SetConfig_call ''join_token_hash'') = None" "flt (k + 1) (SetConfig_call ''join_token'') = Some e"
    "flt (k + 2) (GetConfig_call ''join_token'') = None"
  shows "\<exists>s'. cluster_init co (flaky_store cd flt) rnd (k, s) = (reply 200 (JsonToken (generate_token co rnd)), k + 2, s')
    \<and> get_cluster_config cd None ''join_token_hash'' s' = Ok (Some (hash_token co (generate_token co rnd)))
    \<and> ss_get_cluster_config (flaky_store cd flt) ''join_token'' (k + 2, s') = get_cluster_config cd None ''join_token'' s"
  using assms
  by (auto simp: cluster_init_def flaky_store_def counted_write_def set_cluster_config_def get_cluster_config_def
      exec_sql_def fetch_def Let_def)

section \<open>Sequences of requests\<close>

record call =
  cl_verb :: string
  cl_path :: string
  cl_duration :: f64
  cl_request :: api_request
  cl_inputs :: inputs

fun serve_all :: "('o, 's, 'c) api_env \<Rightarrow> call list \<Rightarrow> ('o, 's) app \<Rightarrow> response list \<times> ('o, 's) app" where
  "serve_all E [] a = ([], a)"
| "serve_all E (c # cs) a =
     (case serve_request E (cl_inputs c) (cl_verb c) (cl_path c) (cl_duration c) (cl_request c) a of (r, a1) \<Rightarrow>
        (case serve_all E cs a1 of (rs, a2) \<Rightarrow> (r # rs, a2)))"

lemma on_metrics [simp]: "app_metrics (snd (on_handle f a)) = app_metrics a" "app_metrics (snd (on_store g a)) = app_metrics a"
  by (simp_all add: on_handle_def on_store_def split_beta)

lemma api_step_metrics [simp]: "app_metrics (snd (api_step E i req a)) = app_metrics a"
  by (cases req) simp_all

text \<open>The counter of a method, path and status: how often it was incremented.\<close>

definition counted :: "string \<Rightarrow> string \<Rightarrow> u16 \<Rightarrow> metric_call list \<Rightarrow> nat" where
  "counted verb path status ms =
     length (filter (\<lambda>m. m = Inc http_requests_total [verb, path, show_nat (unat status)]) ms)"

lemma counted_append [simp]: "counted v p st (ms @ ms') = counted v p st ms + counted v p st ms'"
  by (simp add: counted_def)

lemma counted_request:
  "counted v p st (record_http_request v' p' st' d) = (if v = v' \<and> p = p' \<and> st = st' then 1 else 0)"
  by (auto simp: counted_def record_http_request_def word_unat_eq_iff)

text \<open>The request counters are exact. After any sequence of requests, the counter of a method, path and status
  has grown by the number of those requests that came with that method and path and were answered
  with that status.\<close>

theorem requests_counted:
  "counted v p st (app_metrics (snd (serve_all E cs a))) = counted v p st (app_metrics a)
     + length (filter (\<lambda>(c, r). cl_verb c = v \<and> cl_path c = p \<and> rsp_status r = st) (zip cs (fst (serve_all E cs a))))"
proof (induction cs arbitrary: a)
  case (Cons c cs)
  obtain r a1 where 1: "serve_request E (cl_inputs c) (cl_verb c) (cl_path c) (cl_duration c) (cl_request c) a = (r, a1)"
    by fastforce
  have "app_metrics a1 = app_metrics a @ record_http_request (cl_verb c) (cl_path c) (rsp_status r) (cl_duration c)"
    using 1 by (auto simp: serve_request_def metrics_middleware_def split_beta)
  then show ?case using Cons.IH [of a1] by (auto simp: 1 counted_request split_beta)
qed simp

section \<open>Witness\<close>

text \<open>An orchestrator that knows nothing and refuses every change.\<close>

definition sample_handle :: "(unit, unit) orchestrator" where
  "sample_handle =
     \<lparr>oh_list_projects = (\<lambda>_. []), oh_create_project = (\<lambda>_ x. (Err (InvalidSpec ''refused''), x)),
          oh_suspend_project = (\<lambda>_ x. (Err (InvalidSpec ''refused''), x)), oh_resume_project = (\<lambda>_ x. (Err (InvalidSpec ''refused''), x)), oh_delete_project = (\<lambda>_ x. (Err (InvalidSpec ''refused''), x)),
          oh_list_deployments = (\<lambda>_ _. []), oh_deploy = (\<lambda>_ x. (Err (InvalidSpec ''refused''), x)),
          oh_stop = (\<lambda>_ _ x. (Err (InvalidSpec ''refused''), x)), oh_remove_deployment = (\<lambda>_ _ x. (Err (InvalidSpec ''refused''), x)),
          oh_scale = (\<lambda>_ _ _ x. (Err (InvalidSpec ''refused''), x)), oh_list_pods = (\<lambda>_ _. []),
          oh_pod_logs = (\<lambda>_ _ _ _. Err (InvalidSpec ''refused'')), oh_list_secrets = (\<lambda>_ _. Ok []),
          oh_set_secret = (\<lambda>_ _ _ x. (Err (InvalidSpec ''refused''), x)), oh_delete_secret = (\<lambda>_ _ x. (Err (InvalidSpec ''refused''), x)),
          oh_get_scheduler_config = id, oh_set_scheduler_config = (\<lambda>c x. (Ok c, x)), oh_list_routes = (\<lambda>_ _. ''[]''),
          oh_add_route = (\<lambda>_ _ _ _ x. (Err (InvalidSpec ''refused''), x)), oh_remove_route = (\<lambda>_ x. (Err (InvalidSpec ''refused''), x)),
          oh_from_strategy = (\<lambda>_. Err (InvalidSpec ''unknown strategy'')), oh_set_weight = (\<lambda>_ _ c. (Ok (), c)),
          oh_config_json = (\<lambda>_. ''{}'')\<rparr>"

definition sample_env :: "(nat \<Rightarrow> store_call \<Rightarrow> string option) \<Rightarrow> (unit, nat \<times> db, unit) api_env" where
  "sample_env flt =
     \<lparr>ae_core = sample_core, ae_handle = sample_handle, ae_store = flaky_store sample_codec flt,
      ae_parse_deployment = (\<lambda>_. Err (InvalidSpec ''not a deployment'')),
      ae_float = \<lparr>fl_of_nat = word_of_nat, fl_sum = sum_list, fl_sub = (-), fl_mul = (*), fl_div = (div), fl_max = max, fl_round = id,
        fl_pos = (\<lambda>x. 0 < x), fl_zero = 0\<rparr>,
      ae_role_text = (\<lambda>_. ''Worker''), ae_status_text = (\<lambda>_. ''Ready''), ae_lower = map ascii_lower,
      ae_event_json = (\<lambda>_. None)\<rparr>"

definition sample_inputs :: inputs where
  "sample_inputs = \<lparr>in_random = ''a'', in_host = \<lparr>hr_cpu_usages = [], hr_total_memory = 0, hr_used_memory = 0, hr_hostname = None\<rparr>,
     in_bus = [], in_encoded = None\<rparr>"

definition sample_app :: "(unit, nat \<times> db) app" where
  "sample_app = \<lparr>app_handle = (), app_store = (0, sample_db), app_metrics = []\<rparr>"

text \<open>The disk is full: reads work, the first write of the request fails.\<close>

definition disk_full :: "nat \<Rightarrow> store_call \<Rightarrow> string option" where
  "disk_full k c = (if k = 0 \<and> c = UpdateNode_call then Some ''disk full'' else None)"

lemma sample_named: "get_node_by_name sample_codec None ''w1'' sample_db = Ok (Some sample_node)"
  using sq.by_name_complete [OF sample_inv_db, of None 7 sample_node] sample_node_stored
  by (simp add: sqlite_store_def sample_node_def)


end
