(* ===== verification/Transport.thy ===== *)
theory Transport
  imports Cluster_Server
begin

text \<open>
  The two implementations of the \<open>ClusterTransport\<close> port: \<open>LocalTransport\<close>
  (\<open>src/adapters/transport/local.rs\<close>), which drives a container runtime directly, and
  \<open>GrpcTransport\<close> (\<open>src/adapters/transport/grpc.rs\<close>), which sends the same requests to a
  worker. The generated gRPC client is a record of calls over a remote world; the properties put
  the cluster server of \<open>Cluster_Server\<close> at its other end.
\<close>

section \<open>Local transport\<close>

definition local_register_node :: "node \<Rightarrow> 'r \<Rightarrow> unit res \<times> 'r" where
  "local_register_node node r = (Ok (), r)"

definition local_heartbeat :: "uuid \<Rightarrow> node_status \<Rightarrow> node_resources \<Rightarrow> 'r \<Rightarrow> unit res \<times> 'r" where
  "local_heartbeat ident st resources r = (Ok (), r)"

definition local_assign_pod ::
  "core \<Rightarrow> 'r runtime \<Rightarrow> uuid \<Rightarrow> pod \<Rightarrow> deployment_spec \<Rightarrow> 'r \<Rightarrow> unit res \<times> 'r" where
  "local_assign_pod co RT ident pod spec r =
     (let name = container_name co pod;
          r1 = snd (rt_pull_image RT (spec_image spec) r)
      in (case rt_container_exists RT name r1 of
            (Inl e, r2) \<Rightarrow> (Err e, r2)
          | (Inr ex, r2) \<Rightarrow>
              (let r3 = (if ex then drop_old_container RT name r2 else r2);
                   r4 = ensure_pod_network RT (network_name spec) r3
               in (case rt_create_container RT (pod_config co pod spec) r4 of
                     (Inl e, r5) \<Rightarrow> (Err e, r5)
                   | (Inr cid, r5) \<Rightarrow>
                       (case rt_start_container RT cid r5 of
                          (Inl e, r6) \<Rightarrow> (Err e, r6)
                        | (Inr _, r6) \<Rightarrow> (Ok (), r6))))))"

definition local_stop_pod :: "uuid \<Rightarrow> uuid \<Rightarrow> 'r \<Rightarrow> unit res \<times> 'r" where
  "local_stop_pod ident pod_ident r = (Ok (), r)"

definition local_remove_pod :: "uuid \<Rightarrow> uuid \<Rightarrow> 'r \<Rightarrow> unit res \<times> 'r" where
  "local_remove_pod ident pod_ident r = (Ok (), r)"

definition local_stream_logs :: "uuid \<Rightarrow> uuid \<Rightarrow> u64 option \<Rightarrow> string list res" where
  "local_stream_logs ident pod_ident tail = Err (Runtime ''local transport: use runtime.logs() directly'')"

section \<open>gRPC transport\<close>

record ('c, 'w) rpc_client =
  rc_endpoint :: "string \<Rightarrow> string + string"
  rc_connect :: "string \<Rightarrow> 'w \<Rightarrow> (string + 'c) \<times> 'w"
  rc_register :: "'c \<Rightarrow> register_request \<Rightarrow> 'w \<Rightarrow> register_response rpc \<times> 'w"
  rc_assign_pod :: "'c \<Rightarrow> assign_pod_request \<Rightarrow> 'w \<Rightarrow> assign_pod_response rpc \<times> 'w"
  rc_stop_pod :: "'c \<Rightarrow> string \<Rightarrow> string \<Rightarrow> 'w \<Rightarrow> (bool \<times> string) rpc \<times> 'w"
  rc_remove_pod :: "'c \<Rightarrow> string \<Rightarrow> string \<Rightarrow> 'w \<Rightarrow> (bool \<times> string) rpc \<times> 'w"
  rc_stream_logs :: "'c \<Rightarrow> string \<Rightarrow> string \<Rightarrow> u64 \<Rightarrow> 'w \<Rightarrow> (grpc_status + string) list rpc \<times> 'w"
  rc_status_text :: "grpc_status \<Rightarrow> string"

record 'c grpc_transport =
  clients :: "(uuid, 'c) hashmap"
  master_addr :: string

definition grpc_new :: "string \<Rightarrow> 'c grpc_transport" where
  "grpc_new addr = \<lparr>clients = [], master_addr = addr\<rparr>"

text \<open>\<open>Channel::from_shared(..)?.connect().await?\<close> with the two error prefixes of the caller.\<close>

definition open_channel ::
  "('c, 'w) rpc_client \<Rightarrow> string \<Rightarrow> string \<Rightarrow> string \<Rightarrow> 'w \<Rightarrow> 'c res \<times> 'w" where
  "open_channel C bad_endpoint unreachable address w =
     (case rc_endpoint C (''http://'' @ address) of
        Inl e \<Rightarrow> (Err (Runtime (bad_endpoint @ e)), w)
      | Inr ep \<Rightarrow>
          (case rc_connect C ep w of
             (Inl e, w1) \<Rightarrow> (Err (Runtime (unreachable @ e)), w1)
           | (Inr c, w1) \<Rightarrow> (Ok c, w1)))"

definition add_client ::
  "('c, 'w) rpc_client \<Rightarrow> uuid \<Rightarrow> string \<Rightarrow> 'c grpc_transport \<Rightarrow> 'w \<Rightarrow> unit res \<times> 'c grpc_transport \<times> 'w" where
  "add_client C ident address t w =
     (case open_channel C ''invalid endpoint: '' ''gRPC connect failed: '' address w of
        (Inl e, w1) \<Rightarrow> (Err e, t, w1)
      | (Inr c, w1) \<Rightarrow> (Ok (), t\<lparr>clients := hm_insert ident c (clients t)\<rparr>, w1))"

definition remove_client :: "uuid \<Rightarrow> 'c grpc_transport \<Rightarrow> 'c grpc_transport" where
  "remove_client ident t = t\<lparr>clients := hm_remove ident (clients t)\<rparr>"

definition get_client :: "core \<Rightarrow> uuid \<Rightarrow> 'c grpc_transport \<Rightarrow> 'c res" where
  "get_client co ident t = ok_or (Runtime (''no gRPC client for node '' @ uuid_text co ident)) (hm_get (clients t) ident)"

definition grpc_register_node ::
  "('c, 'w) rpc_client \<Rightarrow> node \<Rightarrow> 'c grpc_transport \<Rightarrow> 'w \<Rightarrow> unit res \<times> 'w" where
  "grpc_register_node C node t w =
     (case open_channel C ''invalid master endpoint: '' ''cannot reach master: '' (master_addr t) w of
        (Inl e, w1) \<Rightarrow> (Err e, w1)
      | (Inr c, w1) \<Rightarrow>
          (case rc_register C c
                  \<lparr>rq_node_name = node_name node, rq_node_address = node_address node, rq_token = [],
                   rq_resources = Some (copy_resources (node_resources node))\<rparr> w1 of
             (Inl st, w2) \<Rightarrow> (Err (Runtime (''register RPC failed: '' @ rc_status_text C st)), w2)
           | (Inr resp, w2) \<Rightarrow>
               if \<not> rs_accepted resp
               then (Err (Runtime (''registration rejected: '' @ rs_message resp)), w2)
               else (Ok (), w2)))"

definition grpc_heartbeat :: "uuid \<Rightarrow> node_status \<Rightarrow> node_resources \<Rightarrow> 'w \<Rightarrow> unit res \<times> 'w" where
  "grpc_heartbeat ident st resources w = (Ok (), w)"

definition grpc_assign_pod ::
  "core \<Rightarrow> ('c, 'w) rpc_client \<Rightarrow> uuid \<Rightarrow> pod \<Rightarrow> deployment_spec \<Rightarrow> 'c grpc_transport \<Rightarrow> 'w \<Rightarrow> unit res \<times> 'w" where
  "grpc_assign_pod co C ident pod spec t w =
     (case get_client co ident t of
        Inl e \<Rightarrow> (Err e, w)
      | Inr c \<Rightarrow>
          (case pod_to_json co pod of
             Inl e \<Rightarrow> (Err (Runtime (''serialize pod: '' @ e)), w)
           | Inr pod_data \<Rightarrow>
               (case spec_to_json co spec of
                  Inl e \<Rightarrow> (Err (Runtime (''serialize spec: '' @ e)), w)
                | Inr spec_data \<Rightarrow>
                    (case rc_assign_pod C c
                            \<lparr>ap_node_id = uuid_text co ident, ap_pod_id = uuid_text co (pod_id pod),
                             ap_pod_data = pod_data, ap_deployment_spec = spec_data\<rparr> w of
                       (Inl st, w1) \<Rightarrow> (Err (Runtime (''assign_pod RPC failed: '' @ rc_status_text C st)), w1)
                     | (Inr resp, w1) \<Rightarrow>
                         if \<not> as_success resp
                         then (Err (Runtime (''assign_pod rejected: '' @ as_message resp)), w1)
                         else (Ok (), w1)))))"

definition grpc_stop_pod ::
  "core \<Rightarrow> ('c, 'w) rpc_client \<Rightarrow> uuid \<Rightarrow> uuid \<Rightarrow> 'c grpc_transport \<Rightarrow> 'w \<Rightarrow> unit res \<times> 'w" where
  "grpc_stop_pod co C ident pod_ident t w =
     (case get_client co ident t of
        Inl e \<Rightarrow> (Err e, w)
      | Inr c \<Rightarrow>
          (case rc_stop_pod C c (uuid_text co ident) (uuid_text co pod_ident) w of
             (Inl st, w1) \<Rightarrow> (Err (Runtime (''stop_pod RPC failed: '' @ rc_status_text C st)), w1)
           | (Inr (success, _), w1) \<Rightarrow>
               if \<not> success then (Err (Runtime ''stop_pod rejected by worker''), w1) else (Ok (), w1)))"

definition grpc_remove_pod ::
  "core \<Rightarrow> ('c, 'w) rpc_client \<Rightarrow> uuid \<Rightarrow> uuid \<Rightarrow> 'c grpc_transport \<Rightarrow> 'w \<Rightarrow> unit res \<times> 'w" where
  "grpc_remove_pod co C ident pod_ident t w =
     (case get_client co ident t of
        Inl e \<Rightarrow> (Err e, w)
      | Inr c \<Rightarrow>
          (case rc_remove_pod C c (uuid_text co ident) (uuid_text co pod_ident) w of
             (Inl st, w1) \<Rightarrow> (Err (Runtime (''remove_pod RPC failed: '' @ rc_status_text C st)), w1)
           | (Inr (success, _), w1) \<Rightarrow>
               if \<not> success then (Err (Runtime ''remove_pod rejected by worker''), w1) else (Ok (), w1)))"

definition grpc_stream_logs ::
  "core \<Rightarrow> ('c, 'w) rpc_client \<Rightarrow> uuid \<Rightarrow> uuid \<Rightarrow> u64 option \<Rightarrow> 'c grpc_transport \<Rightarrow> 'w \<Rightarrow> string res list res \<times> 'w" where
  "grpc_stream_logs co C ident pod_ident tail t w =
     (case get_client co ident t of
        Inl e \<Rightarrow> (Err e, w)
      | Inr c \<Rightarrow>
          (case rc_stream_logs C c (uuid_text co ident) (uuid_text co pod_ident)
                  (case tail of Some n \<Rightarrow> n | None \<Rightarrow> 0) w of
             (Inl st, w1) \<Rightarrow> (Err (Runtime (''stream_logs RPC failed: '' @ rc_status_text C st)), w1)
           | (Inr chunks, w1) \<Rightarrow>
               (Ok (map (map_err (\<lambda>st. Runtime (''log stream error: '' @ rc_status_text C st))) chunks), w1)))"

section \<open>A worker at the other end\<close>

text \<open>The client whose calls reach a \<open>ClusterServer\<close> over the runtime \<open>RT\<close> (engine state) and,
  for registrations, over a store \<open>D\<close>: the remote world is the pair of both.\<close>

definition worker_client ::
  "core \<Rightarrow> (grpc_status \<Rightarrow> string) \<Rightarrow> 'r runtime \<Rightarrow> 's state_store \<Rightarrow> string \<Rightarrow> (unit, 'r \<times> 's) rpc_client" where
  "worker_client co st RT D token_hash =
     \<lparr>rc_endpoint = Ok, rc_connect = (\<lambda>_ w. (Ok (), w)),
      rc_register = (\<lambda>_ req (r, s). (case server_register co D token_hash req s of (x, s') \<Rightarrow> (x, r, s'))),
      rc_assign_pod = (\<lambda>_ req (r, s). (case server_assign_pod co RT req r of (x, r') \<Rightarrow> (x, r', s))),
      rc_stop_pod = (\<lambda>_ n p w. server_stop_pod n p w),
      rc_remove_pod = (\<lambda>_ n p w. server_remove_pod n p w),
      rc_stream_logs = (\<lambda>_ n p tail w. (map_sum id (map Ok) (server_stream_logs n p tail), w)),
      rc_status_text = st\<rparr>"

section \<open>Properties\<close>

text \<open>What the master sees of a worker's answer: the local result, relabelled.\<close>

definition remote_result :: "core \<Rightarrow> string \<Rightarrow> unit res \<Rightarrow> unit res" where
  "remote_result co stage r = map_err (\<lambda>e. Runtime (''assign_pod rejected: '' @ stage @ err_text co e)) r"

section \<open>What a transport relies on\<close>

text \<open>
  The contract of a container engine as the transports use it. \<open>cs\<close> is what runs under each
  container name: the id, the configuration as the engine keeps it (\<open>cfg\<close>) and whether it has
  been started.
\<close>

locale container_engine =
  fixes RT :: "'r runtime"
    and cs :: "'r \<Rightarrow> string \<Rightarrow> (string \<times> 'c \<times> bool) option"
    and cfg :: "container_config \<Rightarrow> 'c"
    and inv :: "'r \<Rightarrow> bool"
  assumes pull: "inv r \<Longrightarrow> rt_pull_image RT img r = (x, r') \<Longrightarrow> inv r' \<and> cs r' = cs r"
    and network: "inv r \<Longrightarrow> rt_create_network RT n r = (y, r') \<Longrightarrow> inv r' \<and> cs r' = cs r"
    and probe: "inv r \<Longrightarrow> rt_container_exists RT n r = (z, r') \<Longrightarrow> inv r' \<and> cs r' = cs r"
    and probe_result: "inv r \<Longrightarrow> rt_container_exists RT n r = (Ok b, r') \<Longrightarrow> b \<longleftrightarrow> cs r n \<noteq> None"
    and stop: "inv r \<Longrightarrow> cs r n \<noteq> None \<Longrightarrow> rt_stop_container RT n t r = (x, r') \<Longrightarrow>
      inv r' \<and> cs r' n \<noteq> None \<and> (\<forall>m. m \<noteq> n \<longrightarrow> cs r' m = cs r m)"
    and remove: "inv r \<Longrightarrow> cs r n \<noteq> None \<Longrightarrow> rt_remove_container RT n f r = (x, r') \<Longrightarrow>
      inv r' \<and> (\<forall>m. m \<noteq> n \<longrightarrow> cs r' m = cs r m)"
    and create: "inv r \<Longrightarrow> rt_create_container RT c r = (Ok i, r') \<Longrightarrow>
      inv r' \<and> cs r' = (cs r)(cc_name c \<mapsto> (i, cfg c, False))"
    and start: "inv r \<Longrightarrow> cs r n = Some (i, d, b) \<Longrightarrow> rt_start_container RT i r = (Ok (), r') \<Longrightarrow>
      inv r' \<and> cs r' = (cs r)(n \<mapsto> (i, d, True))"
begin

lemma drop_old:
  assumes "inv r" "cs r n \<noteq> None"
  shows "inv (drop_old_container RT n r) \<and> (\<forall>m. m \<noteq> n \<longrightarrow> cs (drop_old_container RT n r) m = cs r m)"
proof -
  obtain x r1 where 1: "rt_stop_container RT n 5 r = (x, r1)" by fastforce
  obtain y r2 where 2: "rt_remove_container RT n True r1 = (y, r2)" by fastforce
  show ?thesis
    using stop [OF assms 1] remove [of r1 n True y r2] 2 by (simp add: drop_old_container_def 1)
qed

lemma ensure_network:
  assumes "inv r"
  shows "inv (ensure_pod_network RT n r) \<and> cs (ensure_pod_network RT n r) = cs r"
proof -
  obtain x r1 where 1: "rt_container_exists RT n r = (x, r1)" by fastforce
  obtain y r2 where 2: "rt_create_network RT n r1 = (y, r2)" by fastforce
  show ?thesis
    using probe [OF assms 1] network [of r1 n y r2] 2 by (auto simp: ensure_pod_network_def 1)
qed

lemma assign_runs_pod:
  assumes "inv r" "local_assign_pod co RT ident pod spec r = (Ok (), r')"
  shows "\<exists>i. cs r' = (cs r)(container_name co pod \<mapsto> (i, cfg (pod_config co pod spec), True))"
proof -
  let ?n = "container_name co pod"
  obtain x r1 where 1: "rt_pull_image RT (spec_image spec) r = (x, r1)" by fastforce
  obtain ex r2 where 2: "rt_container_exists RT ?n r1 = (Ok ex, r2)"
    using assms(2) by (auto simp: local_assign_pod_def Let_def 1 split: prod.splits sum.splits)
  define r3 where "r3 = (if ex then drop_old_container RT ?n r2 else r2)"
  define r4 where "r4 = ensure_pod_network RT (network_name spec) r3"
  obtain i r5 where 3: "rt_create_container RT (pod_config co pod spec) r4 = (Ok i, r5)"
    and 4: "rt_start_container RT i r5 = (Ok (), r')"
    using assms(2) by (auto simp: local_assign_pod_def Let_def 1 2 r3_def r4_def split: prod.splits sum.splits)
  have "inv r2" "cs r2 = cs r" "ex \<longleftrightarrow> cs r ?n \<noteq> None"
    using pull [OF assms(1) 1] probe [OF _ 2] probe_result [OF _ 2] by auto
  then have "inv r4 \<and> (\<forall>m. m \<noteq> ?n \<longrightarrow> cs r4 m = cs r m)"
    using drop_old [of r2 ?n] ensure_network [of r3] by (auto simp: r3_def r4_def)
  moreover from this have "cs r' = (cs r4)(?n \<mapsto> (i, cfg (pod_config co pod spec), True))"
    using create [OF _ 3] start [OF _ _ 4, of ?n] by (auto simp: pod_config_def)
  ultimately show ?thesis by (intro exI [of _ i]) auto
qed

text \<open>A worker's server needs no successful probe: where the probe fails, an old container of the name
  stays, and the creation decides.\<close>

lemma server_runs_pod:
  assumes "inv r" "server_assign_pod co RT req r = (Ok resp, r')" "as_success resp"
    "pod_from_json co (ap_pod_data req) = Ok pod" "spec_from_json co (ap_deployment_spec req) = Ok spec"
  shows "cs r' = (cs r)(container_name co pod \<mapsto> (as_container_id resp, cfg (pod_config co pod spec), True))"
proof -
  let ?n = "container_name co pod" and ?c = "pod_config co pod spec"
  obtain x r1 where 1: "rt_pull_image RT (spec_image spec) r = (x, r1)" by fastforce
  obtain ex r2 where 2: "rt_container_exists RT ?n r1 = (ex, r2)" by fastforce
  define r3 where "r3 = (if unwrap_or_false ex then drop_old_container RT ?n r2 else r2)"
  define r4 where "r4 = ensure_pod_network RT (network_name spec) r3"
  have 3: "server_start_pod co RT ?c r4 = (resp, r')"
    using assms(2,4,5)
    by (auto simp: server_assign_pod_unfold Let_def 1 2 r3_def [symmetric] r4_def [symmetric] split: prod.splits)
  obtain i r5 where 4: "rt_create_container RT ?c r4 = (Ok i, r5)" "rt_start_container RT i r5 = (Ok (), r')"
    and i: "as_container_id resp = i"
    using 3 assms(3) by (auto simp: server_start_pod_def split: prod.splits sum.splits)
  have r2: "inv r2" "cs r2 = cs r" using pull [OF assms(1) 1] probe [OF _ 2] by auto
  have "cs r2 ?n \<noteq> None" if "unwrap_or_false ex"
    using that probe_result [of r1 ?n _ r2] pull [OF assms(1) 1] 2 r2 by (cases ex) auto
  then have "inv r4 \<and> (\<forall>m. m \<noteq> ?n \<longrightarrow> cs r4 m = cs r m)"
    using drop_old [of r2 ?n] ensure_network [of r3] r2 by (auto simp: r3_def r4_def)
  moreover from this have "cs r' = (cs r4)(?n \<mapsto> (i, cfg ?c, True))"
    using create [OF _ 4(1)] start [OF _ _ 4(2), of ?n] by (auto simp: pod_config_def)
  ultimately show ?thesis unfolding i by (auto simp: fun_eq_iff)
qed

lemma grpc_assign_runs_pod:
  assumes "inv r" "json_ok co"
    "grpc_assign_pod co (worker_client co st RT D h) ident pod spec t (r, s) = (Ok (), r', s')"
  shows "s' = s \<and> (\<exists>i. cs r' = (cs r)(container_name co pod \<mapsto> (i, cfg (pod_config co pod spec), True)))"
proof -
  obtain c pj sj where c: "get_client co ident t = Ok c"
    and j: "pod_to_json co pod = Ok pj" "spec_to_json co spec = Ok sj"
    using assms(3) by (auto simp: grpc_assign_pod_def split: sum.splits)
  define req where "req = \<lparr>ap_node_id = uuid_text co ident, ap_pod_id = uuid_text co (pod_id pod),
    ap_pod_data = pj, ap_deployment_spec = sj\<rparr>"
  obtain resp where "server_assign_pod co RT req r = (Ok resp, r')" "as_success resp" "s' = s"
    using assms(3) by (auto simp: grpc_assign_pod_def c j req_def [symmetric] worker_client_def split: prod.splits sum.splits if_splits)
  moreover have "pod_from_json co (ap_pod_data req) = Ok pod" "spec_from_json co (ap_deployment_spec req) = Ok spec"
    using assms(2) j by (simp_all add: json_ok_def req_def)
  ultimately show ?thesis using server_runs_pod [OF assms(1)] by blast
qed

end

text \<open>C10: assigning a pod through gRPC to a worker does exactly what assigning it locally does. For
  every runtime, if the pod and spec serialise, the worker is connected and the first
  probe for an old container does not fail, both transports leave the runtime in the same
  state, both succeed or both fail, and the remote error carries the local error's text.\<close>

theorem grpc_assign_refines_local:
  assumes "json_ok co" "pod_to_json co pod = Ok pj" "spec_to_json co spec = Ok sj"
    "hm_get (clients t) ident = Some ()"
    "fst (rt_container_exists RT (container_name co pod) (snd (rt_pull_image RT (spec_image spec) r))) = Ok ex"
    "local_assign_pod co RT ident pod spec r = (lr, r')"
  shows "\<exists>stage. grpc_assign_pod co (worker_client co st RT D h) ident pod spec t (r, s) =
      (remote_result co stage lr, r', s)"
proof -
  obtain r2 where probe: "rt_container_exists RT (container_name co pod) (snd (rt_pull_image RT (spec_image spec) r)) = (Ok ex, r2)"
    using assms(5) by (cases "rt_container_exists RT (container_name co pod) (snd (rt_pull_image RT (spec_image spec) r))") simp
  have parse: "pod_from_json co pj = Ok pod" "spec_from_json co sj = Ok spec"
    using assms(1-3) by (simp_all add: json_ok_def)
  define r4 where "r4 = ensure_pod_network RT (network_name spec)
    (if ex then drop_old_container RT (container_name co pod) r2 else r2)"
  obtain c r5 where create: "rt_create_container RT (pod_config co pod spec) r4 = (c, r5)" by (cases "rt_create_container RT (pod_config co pod spec) r4")
  note defs = grpc_assign_pod_def get_client_def worker_client_def server_assign_pod_unfold server_start_pod_def
    local_assign_pod_def remote_result_def Let_def
  show ?thesis
  proof (cases c)
    case (Inl e)
    then show ?thesis
      using assms(2-4,6) parse probe create
      by (intro exI [of _ "''create failed: ''"]) (auto simp: defs r4_def [symmetric])
  next
    case (Inr cid)
    obtain x r6 where start: "rt_start_container RT cid r5 = (x, r6)" by (cases "rt_start_container RT cid r5")
    then show ?thesis
      using assms(2-4,6) parse probe create Inr
      by (intro exI [of _ "''start failed: ''"]) (cases x; auto simp: defs r4_def [symmetric])
  qed
qed

text \<open>The local transport reports success only when the container described by the pod and its
  spec was created and that very container started, and every failure of these two steps is
  returned to the caller.\<close>

theorem local_assign_starts_container:
  assumes "local_assign_pod co RT ident pod spec r = (Ok (), r')"
  shows "\<exists>r1 cid r2. rt_create_container RT (pod_config co pod spec) r1 = (Ok cid, r2)
    \<and> rt_start_container RT cid r2 = (Ok (), r')"
  using assms
  by (force simp: local_assign_pod_def Let_def split: prod.splits sum.splits)

text \<open>A stream of pings of one worker leaves the readings of the last one in its node, and no other node changes.\<close>

lemma worker_pings_recorded:
  assumes "sqlite_inv cd s" "uuid_text_ok co" "get_node cd None (node_id n) s = Ok (Some n)"
    "\<forall>(t, res)\<in>set beats. storable cd (n\<lparr>node_resources := res\<rparr>)" "length beats \<le> k"
  shows "\<exists>s'. heartbeat_stream co (sqlite_store cd None) k (map (\<lambda>(t, res). (t, worker_ping co (node_id n) res)) beats) s
        = (length beats, s')
    \<and> (\<forall>i. get_node cd None i s' =
        (if i = node_id n then Ok (Some (if beats = [] then n
           else n\<lparr>node_resources := snd (last beats), last_heartbeat := fst (last beats), node_stat := Ready\<rparr>))
         else get_node cd None i s))"
  using assms
proof (induction beats arbitrary: s n k)
  case (Cons b beats)
  obtain t res where b: "b = (t, res)" by (cases b)
  obtain k' where k: "k = Suc k'" using Cons.prems(5) by (cases k) auto
  let ?m = "n\<lparr>node_resources := res, last_heartbeat := t, node_stat := Ready\<rparr>"
  let ?p = "worker_ping co (node_id n) res"
  have p: "parse_uuid co (hp_node_id ?p) = Ok (node_id n)"
    using Cons.prems(2) by (simp add: worker_ping_def uuid_text_ok_def)
  have m: "ping_node t ?p n = ?m"
    by (simp add: ping_node_def worker_ping_def ping_status_def)
  then have "storable cd (ping_node t ?p n)" using Cons.prems(4) by (simp add: storable_def b)
  then obtain s1 where s1: "handle_ping co (sqlite_store cd None) t ?p s = (True, s1)" "sqlite_inv cd s1"
    "\<forall>j. get_node cd None j s1 = (if j = node_id n then Ok (Some ?m) else get_node cd None j s)"
    using sqr.handle_ping_spec [of cd s co ?p "node_id n" n t] Cons.prems(1,3) p m by (auto simp: sqlite_store_def)
  have g: "get_node cd None (node_id ?m) s1 = Ok (Some ?m)" using s1(3) by simp
  have st: "\<forall>(t, r)\<in>set beats. storable cd (?m\<lparr>node_resources := r\<rparr>)"
    using Cons.prems(4) by (auto simp: storable_def)
  obtain s' where s': "heartbeat_stream co (sqlite_store cd None) k'
        (map (\<lambda>(t, res). (t, worker_ping co (node_id ?m) res)) beats) s1 = (length beats, s')"
    "\<forall>i. get_node cd None i s' =
        (if i = node_id ?m then Ok (Some (if beats = [] then ?m
           else ?m\<lparr>node_resources := snd (last beats), last_heartbeat := fst (last beats), node_stat := Ready\<rparr>))
         else get_node cd None i s1)"
    using Cons.IH [OF s1(2) Cons.prems(2) g st, of k'] Cons.prems(5) k by auto
  then show ?case using s1(1,3) by (intro exI [of _ s']) (simp add: b k)
qed simp

text \<open>C16: a worker that joins with the master's token ends up with the id under which the master
  stored it, so that its heartbeats are recorded; its own server checks the same token hash. Let
  the worker send its readings in one heartbeat session, and the master handle the messages
  at any times, over a store without faults. Then the master answers every one of them, the node
  of the worker is \<open>Ready\<close> with the resources of the last reading and the time of the last
  message, and all other nodes are as before the worker joined.\<close>

theorem worker_join_registers:
  assumes "sqlite_inv cd s" "new_node_ok co" "uuid_text_ok co"
    "req = \<lparr>rq_node_name = hostname, rq_node_address = addr, rq_token = token, rq_resources = Some res\<rparr>"
    "n = registered_node co req" "storable cd n" "get_node cd None (node_id n) s = Ok None"
    "get_node_by_name cd None hostname s = Ok None"
    and beats: "\<forall>(t, sys)\<in>set beats. storable cd (n\<lparr>node_resources := collect_resources fl sys\<rparr>)"
      "session = \<lparr>hs_connect_err = None, hs_call_err = None, hs_ticks = map snd beats\<rparr>" "length beats \<le> k"
  shows "\<exists>ident s1 s2.
      worker_join co st (Ok hostname) res None
        (\<lambda>rq. fst (server_register co (sqlite_store cd None) (hash_token co token) rq s)) token addr
      = Ok (ident, hash_token co token)
    \<and> snd (server_register co (sqlite_store cd None) (hash_token co token) req s) = s1
    \<and> get_node_by_name cd None hostname s1 = Ok (Some n) \<and> node_id n = ident
    \<and> heartbeat_stream co (sqlite_store cd None) k
        (zip (map fst beats) (snd (run_heartbeat_sender fl co ident session))) s1 = (length beats, s2)
    \<and> (beats \<noteq> [] \<longrightarrow> get_node cd None ident s2 = Ok (Some (n\<lparr>node_stat := Ready,
         last_heartbeat := fst (last beats), node_resources := collect_resources fl (snd (last beats))\<rparr>)))
    \<and> (\<forall>i. i \<noteq> ident \<longrightarrow> get_node cd None i s2 = get_node cd None i s)"
proof -
  let ?D = "sqlite_store cd None"
  let ?bs = "map (\<lambda>(t, sys). (t, collect_resources fl sys)) beats"
  obtain s1 where s1: "server_register co ?D (hash_token co (rq_token req)) req s =
      (Ok \<lparr>rs_node_id = uuid_text co (node_id n), rs_accepted = True, rs_message = ''registered''\<rparr>, s1)"
    "sqlite_inv cd s1" "\<And>i. ss_get_node ?D i s1 = (if i = node_id n then Ok (Some n) else ss_get_node ?D i s)"
    "ss_get_node_by_name ?D (rq_node_name req) s1 = Ok (Some n)"
    by (rule sqr.register_spec [OF assms(5,1,2,6)])
       (use assms(4,7,8) in \<open>auto simp: sqlite_store_def\<close>)
  have get1: "get_node cd None i s1 = (if i = node_id n then Ok (Some n) else get_node cd None i s)" for i
    using s1(3) [of i] by (simp add: sqlite_store_def)
  have join: "worker_join co st (Ok hostname) res None
        (\<lambda>rq. fst (server_register co ?D (hash_token co token) rq s)) token addr = Ok (node_id n, hash_token co token)"
    using s1(1) assms(3,4) by (simp add: worker_join_def uuid_text_ok_def)
  have reg: "snd (server_register co ?D (hash_token co token) req s) = s1"
    "get_node_by_name cd None hostname s1 = Ok (Some n)"
    using s1(1,4) assms(4) by (simp_all add: sqlite_store_def)
  have stream: "zip (map fst beats) (snd (run_heartbeat_sender fl co (node_id n) session)) =
      map (\<lambda>(t, res). (t, worker_ping co (node_id n) res)) ?bs"
    by (simp add: beats(2) run_heartbeat_sender_def) (simp add: zip_map_map zip_same_conv_map split_beta comp_def)
  have g1: "get_node cd None (node_id n) s1 = Ok (Some n)" using get1 by simp
  have st: "\<forall>(t, r)\<in>set ?bs. storable cd (n\<lparr>node_resources := r\<rparr>)" using beats(1) by auto
  obtain s2 where s2: "heartbeat_stream co ?D k (map (\<lambda>(t, res). (t, worker_ping co (node_id n) res)) ?bs) s1
        = (length ?bs, s2)"
    "\<forall>i. get_node cd None i s2 =
        (if i = node_id n then Ok (Some (if ?bs = [] then n
           else n\<lparr>node_resources := snd (last ?bs), last_heartbeat := fst (last ?bs), node_stat := Ready\<rparr>))
         else get_node cd None i s1)"
    using worker_pings_recorded [OF s1(2) assms(3) g1 st, of k] beats(3) by auto
  have last: "beats \<noteq> [] \<Longrightarrow> get_node cd None (node_id n) s2 = Ok (Some (n\<lparr>node_stat := Ready,
         last_heartbeat := fst (last beats), node_resources := collect_resources fl (snd (last beats))\<rparr>))"
    using s2(2) by (simp add: last_map split_beta)
  have beat: "heartbeat_stream co ?D k
      (zip (map fst beats) (snd (run_heartbeat_sender fl co (node_id n) session))) s1 = (length beats, s2)"
    unfolding stream using s2(1) by simp
  have other: "\<forall>i. i \<noteq> node_id n \<longrightarrow> get_node cd None i s2 = get_node cd None i s" using s2(2) get1 by simp
  show ?thesis using join reg beat last other by blast
qed

text \<open>\<open>GrpcTransport::register_node\<close> never joins a cluster: it sends an empty token, so a
  master holding the hash of any token with another digest rejects it and stores nothing.\<close>

theorem grpc_register_node_rejected:
  assumes "hex_ok co" "sha256 co [] \<noteq> sha256 co token"
  shows "grpc_register_node (worker_client co st RT D (hash_token co token)) node t (r, s) =
    (Err (Runtime (''registration rejected: invalid join token'')), r, s)"
  using assms
  by (simp add: grpc_register_node_def open_channel_def worker_client_def server_register_def hash_token_def
      hex_encode_inject rejected_def)

text \<open>Stopping or removing a pod on a connected worker reports success and does nothing: the
  worker's containers are as before.\<close>

theorem grpc_stop_remove_have_no_effect:
  assumes "hm_get (clients t) ident = Some ()"
  shows "grpc_stop_pod co (worker_client co st RT D h) ident p t w = (Ok (), w)
    \<and> grpc_remove_pod co (worker_client co st RT D h) ident p t w = (Ok (), w)"
  using assms
  by (simp add: grpc_stop_pod_def grpc_remove_pod_def get_client_def worker_client_def server_stop_pod_def
      server_remove_pod_def)

section \<open>Witnesses\<close>

text \<open>A runtime over the list of started containers; the image pull always fails.\<close>

definition sample_runtime :: "string list runtime" where
  "sample_runtime = \<lparr>rt_pull_image = (\<lambda>_ r. (Err (ImagePull ''offline''), r)),
     rt_create_container = (\<lambda>c r. (Ok (cc_name c), r)), rt_start_container = (\<lambda>c r. (Ok (), c # r)),
     rt_stop_container = (\<lambda>_ _ r. (Ok (), r)), rt_remove_container = (\<lambda>c _ r. (Ok (), removeAll c r)),
     rt_container_exists = (\<lambda>c r. (Ok (c \<in> set r), r)), rt_create_network = (\<lambda>n r. (Ok n, r))\<rparr>"

definition sample_transport :: "unit grpc_transport" where
  "sample_transport = \<lparr>clients = [(7, ())], master_addr = ''10.0.0.1:6443''\<rparr>"

lemmas sample_runtime_eval = sample_runtime_def drop_old_container_def ensure_pod_network_def
  pod_config_def network_name_def sample_core_def sample_pod_def sample_spec_def

lemma sample_local_assign:
  "local_assign_pod sample_core sample_runtime 7 sample_pod sample_spec [''nexa-shop-api''] =
     (Ok (), [''nexa-shop-api''])"
  by (simp add: local_assign_pod_def sample_runtime_eval)

theorem grpc_assign_refines_local_witness:
  "\<exists>stage. grpc_assign_pod sample_core (worker_client sample_core (\<lambda>_. []) sample_runtime
      (sqlite_store sample_codec None) []) 7 sample_pod sample_spec sample_transport ([''nexa-shop-api''], db_empty) =
      (remote_result sample_core stage (Ok ()), [''nexa-shop-api''], db_empty)"
  by (rule grpc_assign_refines_local [OF sample_core_ok(2) _ _ _ _ sample_local_assign, where ex = True])
     (simp_all add: sample_core_def sample_transport_def hm_get_def sample_runtime_def sample_pod_def sample_spec_def)

text \<open>Fixed-point readings without a fraction stand for the floating-point ones.\<close>

definition sample_float :: float_ops where
  "sample_float = \<lparr>fl_of_nat = word_of_nat, fl_sum = (\<lambda>xs. fold (+) xs 0), fl_sub = (-), fl_mul = (*), fl_div = (div),
     fl_max = max, fl_round = id, fl_pos = (\<lambda>x. x \<noteq> 0), fl_zero = 0\<rparr>"

definition sample_beats :: "(instant \<times> sys_readings) list" where
  "sample_beats = [(secs 5, \<lparr>sr_cpu_usages = [], sr_total_memory = 8, sr_available_memory = 3\<rparr>),
     (secs 10, \<lparr>sr_cpu_usages = [], sr_total_memory = 8, sr_available_memory = 2\<rparr>)]"

definition sample_session :: heartbeat_session where
  "sample_session = \<lparr>hs_connect_err = None, hs_call_err = None, hs_ticks = map snd sample_beats\<rparr>"

theorem worker_join_registers_witness:
  "\<exists>s1 s2. worker_join sample_core (\<lambda>_. []) (Ok ''w1'') (node_resources sample_node) None
      (\<lambda>rq. fst (server_register sample_core (sqlite_store sample_codec None) (hash_token sample_core ''nxa_1'') rq db_empty))
      ''nxa_1'' ''10.0.0.2:6444''
    = Ok (7, hash_token sample_core ''nxa_1'')
    \<and> heartbeat_stream sample_core (sqlite_store sample_codec None) 2
        (zip [secs 5, secs 10] (snd (run_heartbeat_sender sample_float sample_core 7 sample_session))) s1 = (2, s2)
    \<and> (\<exists>n. get_node sample_codec None 7 s2 = Ok (Some n) \<and> last_heartbeat n = secs 10 \<and> node_stat n = Ready
        \<and> memory_available (node_resources n) = 2)"
proof -
  have st: "\<forall>(t, sys)\<in>set sample_beats. storable sample_codec (sample_node\<lparr>node_resources := collect_resources sample_float sys\<rparr>)"
    by (simp add: sample_storable)
  have len: "length sample_beats \<le> 2" "map fst sample_beats = [secs 5, secs 10]" "sample_beats \<noteq> []"
    "fst (last sample_beats) = secs 10" "length sample_beats = 2"
    "memory_available (collect_resources sample_float (snd (last sample_beats))) = 2"
    by (simp_all add: sample_beats_def collect_resources_def Let_def)
  have k: "node_id sample_node = 7" by (simp add: sample_node_def)
  obtain s1 s2 where "worker_join sample_core (\<lambda>_. []) (Ok ''w1'') (node_resources sample_node) None
      (\<lambda>rq. fst (server_register sample_core (sqlite_store sample_codec None) (hash_token sample_core ''nxa_1'') rq db_empty))
      ''nxa_1'' ''10.0.0.2:6444'' = Ok (7, hash_token sample_core ''nxa_1'')"
    "heartbeat_stream sample_core (sqlite_store sample_codec None) 2
        (zip [secs 5, secs 10] (snd (run_heartbeat_sender sample_float sample_core 7 sample_session))) s1 = (2, s2)"
    "get_node sample_codec None 7 s2 = Ok (Some (sample_node\<lparr>node_stat := Ready, last_heartbeat := secs 10,
        node_resources := collect_resources sample_float (snd (last sample_beats))\<rparr>))"
    using worker_join_registers [OF sample_inv_empty sample_core_ok(3,4) sample_register_def
        sample_registered [symmetric] sample_storable sample_empty_lookups st sample_session_def len(1), of "\<lambda>_. []"]
    by (auto simp: len k)
  then show ?thesis using len(6) by (intro exI conjI) auto
qed

end
