(* ===== verification/Docker_Runtime.thy ===== *)
theory Docker_Runtime
  imports Transport
begin

text \<open>
  The Docker runtime (\<open>src/adapters/runtime/docker.rs\<close>): the translation of the runtime port
  to requests of the \<open>bollard\<close> client. The client is a record of operations over a world; what
  the Docker engine documents about them is the predicate \<open>engine_ok\<close>. The locale
  \<open>container_engine\<close> states the contract a transport relies on and is interpreted on the
  translation.
\<close>

section \<open>Requests and answers of the client\<close>

record port_mapping =
  pm_host_ip :: "string option"
  pm_host_port :: "string option"

record host_config =
  hc_port_bindings :: "(string, port_mapping list option) hashmap option"
  hc_binds :: "string list option"
  hc_network_mode :: "string option"
  hc_dns :: "string list option"
  hc_dns_search :: "string list option"

text \<open>The sets \<open>HashMap<(), ()>\<close> of exposed ports are always empty: an exposed port is its key.\<close>

record docker_config =
  dc_image :: "string option"
  dc_cmd :: "string list option"
  dc_env :: "string list option"
  dc_exposed_ports :: "string list option"
  dc_labels :: "(string, string) hashmap option"
  dc_host_config :: "host_config option"

datatype docker_status = ST_RUNNING | ST_CREATED | ST_EXITED | ST_PAUSED | ST_RESTARTING | ST_REMOVING | ST_DEAD | ST_EMPTY

text \<open>
  Nested options as the client has them: \<open>state.status\<close>, \<open>config.image\<close> and, per network of
  \<open>network_settings.networks\<close>, the optional address.
\<close>

record inspect_response =
  ir_id :: "string option"
  ir_name :: "string option"
  ir_state :: "docker_status option option"
  ir_config :: "string option option"
  ir_networks :: "(string, string option) hashmap option option"

record event_message =
  em_action :: "string option"
  em_actor :: "(string, string) hashmap option option"

type_synonym filters = "(string \<times> string list) list"

record 'w bollard =
  bo_ping :: "'w \<Rightarrow> (string + unit) \<times> 'w"
  bo_create_image :: "string \<Rightarrow> string \<Rightarrow> 'w \<Rightarrow> (string + unit) list \<times> 'w"
  bo_create_container :: "string \<Rightarrow> docker_config \<Rightarrow> 'w \<Rightarrow> (string + string) \<times> 'w"
  bo_start_container :: "string \<Rightarrow> 'w \<Rightarrow> (string + unit) \<times> 'w"
  bo_stop_container :: "string \<Rightarrow> int \<Rightarrow> 'w \<Rightarrow> (string + unit) \<times> 'w"
  bo_remove_container :: "string \<Rightarrow> bool \<Rightarrow> bool \<Rightarrow> 'w \<Rightarrow> (string + unit) \<times> 'w"
  bo_inspect_container :: "string \<Rightarrow> 'w \<Rightarrow> (string + inspect_response) \<times> 'w"
  bo_logs :: "string \<Rightarrow> string \<Rightarrow> 'w \<Rightarrow> (string + string) list"
  bo_list_containers :: "bool \<Rightarrow> filters \<Rightarrow> 'w \<Rightarrow> (string + string list option list) \<times> 'w"
  bo_create_network :: "string \<Rightarrow> string \<Rightarrow> (string, string) hashmap \<Rightarrow> 'w \<Rightarrow> (string + string) \<times> 'w"
  bo_remove_network :: "string \<Rightarrow> 'w \<Rightarrow> (string + unit) \<times> 'w"
  bo_connect_network :: "string \<Rightarrow> string \<Rightarrow> 'w \<Rightarrow> (string + unit) \<times> 'w"
  bo_events :: "filters \<Rightarrow> 'w \<Rightarrow> (string + event_message) list"

text \<open>\<open>map_err(|e| NexaError::Runtime(e.to_string()))\<close> on the result of a request.\<close>

definition docker_err :: "(string + 'a) \<times> 'w \<Rightarrow> 'a res \<times> 'w" where
  "docker_err p = (map_err Runtime (fst p), snd p)"

section \<open>Operations\<close>

definition dk_ping :: "'w bollard \<Rightarrow> 'w \<Rightarrow> unit res \<times> 'w" where
  "dk_ping bo w = (case bo_ping bo w of (r, w1) \<Rightarrow> (map_err (\<lambda>e. Runtime (''Docker daemon unreachable: '' @ e)) r, w1))"

definition image_parts :: "string \<Rightarrow> string \<times> string" where
  "image_parts img = (case rsplit_once (CHR '':'') img of Some (r, t) \<Rightarrow> (r, t) | None \<Rightarrow> (img, ''latest''))"

text \<open>The pull progress stream is read up to its end or its first error.\<close>

fun drain_pull :: "(string + unit) list \<Rightarrow> unit res" where
  "drain_pull [] = Ok ()"
| "drain_pull (Inl e # rest) = Err (ImagePull e)"
| "drain_pull (Inr _ # rest) = drain_pull rest"

definition dk_pull_image :: "'w bollard \<Rightarrow> string \<Rightarrow> 'w \<Rightarrow> unit res \<times> 'w" where
  "dk_pull_image bo img w =
     (let (repo, tag) = image_parts img
      in (case bo_create_image bo repo tag w of (stream, w1) \<Rightarrow> (drain_pull stream, w1)))"

definition port_key :: "u16 \<Rightarrow> string" where
  "port_key p = show_nat (unat p) @ ''/tcp''"

definition port_bindings :: "port_binding list \<Rightarrow> (string, port_mapping list option) hashmap" where
  "port_bindings ps =
     fold (\<lambda>p m. hm_insert (port_key (container_port p))
             (Some [\<lparr>pm_host_ip = Some ''0.0.0.0'', pm_host_port = map_option (\<lambda>h. show_nat (unat h)) (host_port p)\<rparr>]) m)
       ps []"

definition exposed_ports :: "port_binding list \<Rightarrow> string list" where
  "exposed_ports ps = fold (\<lambda>p ks. List.insert (port_key (container_port p)) ks) ps []"

definition bind_of :: "volume_binding \<Rightarrow> string" where
  "bind_of v = (if vb_read_only v then vb_source v @ '':'' @ vb_target v @ '':ro'' else vb_source v @ '':'' @ vb_target v)"

definition some_unless_empty :: "'a list \<Rightarrow> 'a list option" where
  "some_unless_empty xs = (if xs = [] then None else Some xs)"

definition docker_host_config :: "container_config \<Rightarrow> host_config" where
  "docker_host_config c =
     \<lparr>hc_port_bindings = Some (port_bindings (cc_ports c)), hc_binds = Some (map bind_of (cc_volumes c)),
      hc_network_mode = cc_network c, hc_dns = some_unless_empty (cc_dns c),
      hc_dns_search = some_unless_empty (cc_dns_search c)\<rparr>"

definition docker_config_of :: "container_config \<Rightarrow> docker_config" where
  "docker_config_of c =
     \<lparr>dc_image = Some (cc_image c), dc_cmd = some_unless_empty (cc_command c),
      dc_env = Some (map (\<lambda>(k, v). k @ ''='' @ v) (cc_env c)),
      dc_exposed_ports = Some (exposed_ports (cc_ports c)), dc_labels = Some (cc_labels c),
      dc_host_config = Some (docker_host_config c)\<rparr>"

definition dk_create_container :: "'w bollard \<Rightarrow> container_config \<Rightarrow> 'w \<Rightarrow> string res \<times> 'w" where
  "dk_create_container bo c w = docker_err (bo_create_container bo (cc_name c) (docker_config_of c) w)"

definition dk_start_container :: "'w bollard \<Rightarrow> string \<Rightarrow> 'w \<Rightarrow> unit res \<times> 'w" where
  "dk_start_container bo cid w = docker_err (bo_start_container bo cid w)"

text \<open>\<open>timeout_secs as i64\<close> reads the 64 bits as a signed number.\<close>

definition dk_stop_container :: "'w bollard \<Rightarrow> string \<Rightarrow> u64 \<Rightarrow> 'w \<Rightarrow> unit res \<times> 'w" where
  "dk_stop_container bo cid timeout_secs w = docker_err (bo_stop_container bo cid (sint timeout_secs) w)"

definition dk_remove_container :: "'w bollard \<Rightarrow> string \<Rightarrow> bool \<Rightarrow> 'w \<Rightarrow> unit res \<times> 'w" where
  "dk_remove_container bo cid force w = docker_err (bo_remove_container bo cid force True w)"

definition state_of_status :: "docker_status option \<Rightarrow> container_state" where
  "state_of_status st =
     (case st of
        Some ST_RUNNING \<Rightarrow> Running | Some ST_CREATED \<Rightarrow> Created | Some ST_EXITED \<Rightarrow> Exited
      | Some ST_PAUSED \<Rightarrow> Paused | Some ST_RESTARTING \<Rightarrow> Restarting | Some ST_REMOVING \<Rightarrow> Removing
      | Some ST_DEAD \<Rightarrow> Dead | _ \<Rightarrow> UnknownState)"

definition dk_inspect_container :: "'w bollard \<Rightarrow> string \<Rightarrow> 'w \<Rightarrow> container_info res \<times> 'w" where
  "dk_inspect_container bo cid w =
     (case docker_err (bo_inspect_container bo cid w) of
        (Inl e, w1) \<Rightarrow> (Err e, w1)
      | (Inr info, w1) \<Rightarrow>
          (Ok \<lparr>ci_id = or_default (ir_id info), ci_name = trim_start_matches (CHR ''/'') (or_default (ir_name info)),
               ci_image = or_default (Option.bind (ir_config info) id),
               ci_state = state_of_status (Option.bind (ir_state info) id)\<rparr>, w1))"

definition dk_logs :: "'w bollard \<Rightarrow> string \<Rightarrow> u64 option \<Rightarrow> 'w \<Rightarrow> string res list" where
  "dk_logs bo cid tail w =
     map (map_err Runtime)
       (bo_logs bo cid (case tail of Some t \<Rightarrow> show_nat (unat t) | None \<Rightarrow> ''all'') w)"

definition dk_container_exists :: "'w bollard \<Rightarrow> string \<Rightarrow> 'w \<Rightarrow> bool res \<times> 'w" where
  "dk_container_exists bo name w =
     (case docker_err (bo_list_containers bo True [(''name'', [name])] w) of
        (Inl e, w1) \<Rightarrow> (Err e, w1)
      | (Inr containers, w1) \<Rightarrow>
          (Ok (list_ex (\<lambda>names. case names of None \<Rightarrow> False | Some ns \<Rightarrow> List.member ns (''/'' @ name)) containers), w1))"

definition dk_create_network :: "'w bollard \<Rightarrow> string \<Rightarrow> 'w \<Rightarrow> string res \<times> 'w" where
  "dk_create_network bo name w = docker_err (bo_create_network bo name ''bridge'' [(''managed-by'', ''nexanet'')] w)"

definition dk_remove_network :: "'w bollard \<Rightarrow> string \<Rightarrow> 'w \<Rightarrow> unit res \<times> 'w" where
  "dk_remove_network bo name w = docker_err (bo_remove_network bo name w)"

definition dk_connect_to_network :: "'w bollard \<Rightarrow> string \<Rightarrow> string \<Rightarrow> 'w \<Rightarrow> unit res \<times> 'w" where
  "dk_connect_to_network bo cid network w = docker_err (bo_connect_network bo network cid w)"

definition dk_container_ip :: "'w bollard \<Rightarrow> string \<Rightarrow> string \<Rightarrow> 'w \<Rightarrow> string res \<times> 'w" where
  "dk_container_ip bo cid network w =
     (case docker_err (bo_inspect_container bo cid w) of
        (Inl e, w1) \<Rightarrow> (Err e, w1)
      | (Inr info, w1) \<Rightarrow>
          (case Option.bind (Option.bind (ir_networks info) id) (\<lambda>nets. hm_get nets network) of
             Some (Some ip) \<Rightarrow>
               if ip \<noteq> [] then (Ok ip, w1)
               else (Err (Runtime (''no IP found for container '' @ cid @ '' on network '' @ network)), w1)
           | _ \<Rightarrow> (Err (Runtime (''no IP found for container '' @ cid @ '' on network '' @ network)), w1)))"

section \<open>Events\<close>

definition event_filters :: filters where
  "event_filters =
     [(''type'', [''container'']), (''event'', [''die'', ''start'', ''oom'']), (''label'', [''managed-by=nexanet''])]"

definition actor_attribute :: "event_message \<Rightarrow> string \<Rightarrow> string option" where
  "actor_attribute ev k = Option.bind (Option.bind (em_actor ev) id) (\<lambda>attrs. hm_get attrs k)"

definition event_of_message :: "event_message \<Rightarrow> runtime_event option" where
  "event_of_message ev =
     (let action = or_default (em_action ev);
          cid = or_default (actor_attribute ev ''nexa.pod-id'')
      in if action = ''die'' then
           Some (ContainerDied cid
             (case Option.bind (actor_attribute ev ''exitCode'') (parse_int (- (2 ^ 63)) (2 ^ 63 - 1)) of
                Some c \<Rightarrow> c | None \<Rightarrow> -1))
         else if action = ''start'' then Some (ContainerStarted cid)
         else if action = ''oom'' then Some (ContainerOom cid)
         else None)"

definition dk_events :: "'w bollard \<Rightarrow> 'w \<Rightarrow> runtime_event list" where
  "dk_events bo w =
     List.map_filter (\<lambda>r. case r of Inr ev \<Rightarrow> event_of_message ev | Inl _ \<Rightarrow> None) (bo_events bo event_filters w)"

section \<open>The port\<close>

definition docker_runtime :: "'w bollard \<Rightarrow> 'w runtime" where
  "docker_runtime bo =
     \<lparr>rt_pull_image = dk_pull_image bo, rt_create_container = dk_create_container bo,
      rt_start_container = dk_start_container bo, rt_stop_container = dk_stop_container bo,
      rt_remove_container = dk_remove_container bo, rt_container_exists = dk_container_exists bo,
      rt_create_network = dk_create_network bo\<rparr>"

section \<open>What the engine documents\<close>

text \<open>
  \<open>cs\<close> gives the container with a name, if there is one. A container can be addressed by its
  id or by its name; listing with a name filter shows, among others, every container of that name,
  each with its names behind a slash; a stopped container stays until it is removed; requests on
  images and networks do not touch containers.
\<close>

definition engine_ok :: "'w bollard \<Rightarrow> ('w \<Rightarrow> string \<Rightarrow> (string \<times> docker_config \<times> bool) option) \<Rightarrow> bool" where
  "engine_ok bo cs \<longleftrightarrow>
     (\<forall>repo tag w. cs (snd (bo_create_image bo repo tag w)) = cs w)
   \<and> (\<forall>n d l w. cs (snd (bo_create_network bo n d l w)) = cs w)
   \<and> (\<forall>a fs w. cs (snd (bo_list_containers bo a fs w)) = cs w)
   \<and> (\<forall>n w l. fst (bo_list_containers bo True [(''name'', [n])] w) = Ok l \<longrightarrow>
        ((\<exists>ns. Some ns \<in> set l \<and> ''/'' @ n \<in> set ns) \<longleftrightarrow> cs w n \<noteq> None))
   \<and> (\<forall>n t w. cs w n \<noteq> None \<longrightarrow> cs (snd (bo_stop_container bo n t w)) n \<noteq> None
        \<and> (\<forall>m. m \<noteq> n \<longrightarrow> cs (snd (bo_stop_container bo n t w)) m = cs w m))
   \<and> (\<forall>n f v w. cs w n \<noteq> None \<longrightarrow> (\<forall>m. m \<noteq> n \<longrightarrow> cs (snd (bo_remove_container bo n f v w)) m = cs w m))
   \<and> (\<forall>n c w i w'. bo_create_container bo n c w = (Ok i, w') \<longrightarrow> cs w' = (cs w)(n \<mapsto> (i, c, False)))
   \<and> (\<forall>n i c b w w'. cs w n = Some (i, c, b) \<longrightarrow> bo_start_container bo i w = (Ok (), w') \<longrightarrow>
        cs w' = (cs w)(n \<mapsto> (i, c, True)))"

lemma engine_okD:
  assumes "engine_ok bo cs"
  shows "cs (snd (bo_create_image bo repo tag w)) = cs w"
    "cs (snd (bo_create_network bo n d l w)) = cs w"
    "cs (snd (bo_list_containers bo a fs w)) = cs w"
  using assms unfolding engine_ok_def by simp_all

lemma engine_ok_listing:
  "engine_ok bo cs \<Longrightarrow> fst (bo_list_containers bo True [(''name'', [n])] w) = Ok l \<Longrightarrow>
   (\<exists>ns. Some ns \<in> set l \<and> ''/'' @ n \<in> set ns) \<longleftrightarrow> cs w n \<noteq> None"
  unfolding engine_ok_def by meson

lemma engine_ok_stop:
  "engine_ok bo cs \<Longrightarrow> cs w n \<noteq> None \<Longrightarrow> cs (snd (bo_stop_container bo n t w)) n \<noteq> None
     \<and> (\<forall>m. m \<noteq> n \<longrightarrow> cs (snd (bo_stop_container bo n t w)) m = cs w m)"
  unfolding engine_ok_def by meson

lemma engine_ok_remove:
  "engine_ok bo cs \<Longrightarrow> cs w n \<noteq> None \<Longrightarrow> m \<noteq> n \<Longrightarrow> cs (snd (bo_remove_container bo n f v w)) m = cs w m"
  unfolding engine_ok_def by meson

lemma engine_ok_create:
  "engine_ok bo cs \<Longrightarrow> bo_create_container bo n c w = (Ok i, w') \<Longrightarrow> cs w' = (cs w)(n \<mapsto> (i, c, False))"
  unfolding engine_ok_def by meson

lemma engine_ok_start:
  "engine_ok bo cs \<Longrightarrow> cs w n = Some (i, c, b) \<Longrightarrow> bo_start_container bo i w = (Ok (), w') \<Longrightarrow>
   cs w' = (cs w)(n \<mapsto> (i, c, True))"
  unfolding engine_ok_def by meson

lemma map_err_Ok [simp]: "map_err f r = Ok x \<longleftrightarrow> r = Ok x"
  by (cases r) (simp_all add: map_err_def)

lemma docker_err_Ok: "docker_err p = (Ok x, w) \<longleftrightarrow> p = (Ok x, w)"
  by (cases p) (simp add: docker_err_def)

lemma snd_docker_err [simp]: "snd (docker_err p) = snd p"
  by (simp add: docker_err_def)

lemma snd_dk_exists [simp]: "snd (dk_container_exists bo n w) = snd (bo_list_containers bo True [(''name'', [n])] w)"
  by (auto simp: dk_container_exists_def docker_err_def split: prod.splits sum.splits)

lemma dk_exists_Ok:
  "dk_container_exists bo n w = (Ok b, w') \<Longrightarrow>
   \<exists>l. fst (bo_list_containers bo True [(''name'', [n])] w) = Ok l
     \<and> (b \<longleftrightarrow> (\<exists>ns. Some ns \<in> set l \<and> ''/'' @ n \<in> set ns))"
  by (auto simp: dk_container_exists_def docker_err_def list_ex_iff List.member_iff
      split: prod.splits sum.splits option.splits)

lemmas docker_ops = docker_runtime_def dk_pull_image_def dk_create_container_def dk_start_container_def
  dk_stop_container_def dk_remove_container_def dk_create_network_def

interpretation dk: container_engine "docker_runtime bo" cs docker_config_of "\<lambda>_. engine_ok bo cs" for bo cs
proof (unfold_locales, goal_cases)
  case (1 r img x r')
  from arg_cong [OF 1(2), of snd] show ?case
    using 1(1) engine_okD(1) [OF 1(1)] by (auto simp: docker_ops split_beta)
next
  case (2 r n y r')
  from arg_cong [OF 2(2), of snd] show ?case
    using 2(1) engine_okD(2) [OF 2(1)] by (auto simp: docker_ops)
next
  case (3 r n z r')
  from arg_cong [OF 3(2), of snd] show ?case
    using 3(1) engine_okD(3) [OF 3(1)] by (auto simp: docker_ops)
next
  case (4 r n b r')
  then show ?case
    using dk_exists_Ok [of bo n r b r'] engine_ok_listing [of bo cs n r] by (auto simp: docker_runtime_def)
next
  case (5 r n t x r')
  from arg_cong [OF 5(3), of snd] show ?case
    using 5(1) engine_ok_stop [OF 5(1,2), of "sint t"] by (simp add: docker_ops)
next
  case (6 r n f x r')
  from arg_cong [OF 6(3), of snd] show ?case
    using 6(1) engine_ok_remove [OF 6(1,2), of _ f True] by (simp add: docker_ops)
next
  case (7 r c i r')
  then show ?case
    using engine_ok_create [OF 7(1), of "cc_name c" "docker_config_of c" r i r'] by (simp add: docker_ops docker_err_Ok)
next
  case (8 r n i d b r')
  then show ?case using engine_ok_start [OF 8(1,2), of r'] by (simp add: docker_ops docker_err_Ok)
qed

section \<open>Properties\<close>

text \<open>C5: assigning a pod through the local transport leaves it running. When the call succeeds on an engine that
  behaves as documented, the pod's container exists under the pod's name with exactly the configuration
  translated from the pod and its spec, has been started, and every other container is as before,
  whatever ran under that name.\<close>

theorem docker_assign_runs_pod:
  assumes "engine_ok bo cs" "local_assign_pod co (docker_runtime bo) ident pod spec w = (Ok (), w')"
  shows "\<exists>i. cs w' = (cs w)(container_name co pod \<mapsto> (i, docker_config_of (pod_config co pod spec), True))"
  using dk.assign_runs_pod [OF assms] .

lemma port_key_inject [simp]: "port_key p = port_key q \<longleftrightarrow> p = q"
  by (simp add: port_key_def word_unat_eq_iff)

lemma hm_get_fold_insert:
  "inj k \<Longrightarrow> hm_get (fold (\<lambda>p. hm_insert (k p) (v p)) ps m) (k q) = (if q \<in> set ps then Some (v q) else hm_get m (k q))"
  by (induction ps arbitrary: m) (auto simp: inj_eq)

lemma set_exposed_ports: "set (exposed_ports ps) = (\<lambda>p. port_key (container_port p)) ` set ps"
proof -
  have "set (fold (\<lambda>p ks. List.insert (k p) ks) ps acc) = set acc \<union> k ` set ps" for k :: "port_binding \<Rightarrow> string" and acc
    by (induction ps arbitrary: acc) (auto simp: List.insert_def)
  then show ?thesis by (simp add: exposed_ports_def)
qed

text \<open>The ports of a pod. Docker is asked to expose exactly the ports of the spec over TCP, and to bind each of
  them on all addresses: to the same host port when the deployment has one replica, and to a port
  of Docker's choice otherwise.\<close>

theorem docker_pod_ports:
  "hm_get (port_bindings (cc_ports (pod_config co pod spec))) (port_key p) =
     (if p \<in> set (spec_ports spec)
      then Some (Some [\<lparr>pm_host_ip = Some ''0.0.0.0'',
                       pm_host_port = (if spec_replicas spec = 1 then Some (show_nat (unat p)) else None)\<rparr>])
      else None)
   \<and> set (exposed_ports (cc_ports (pod_config co pod spec))) = port_key ` set (spec_ports spec)"
proof -
  have inj: "inj port_key" by (simp add: inj_def)
  show ?thesis
    by (simp add: port_bindings_def pod_config_def pod_ports_def fold_map comp_def hm_get_fold_insert [OF inj]
        set_exposed_ports image_image hm_get_def [of "[]"])
qed

text \<open>A tagged reference is split at its last colon; without one the tag is \<open>latest\<close>. A reference to a
  registry with a port and no tag is split at the port.\<close>

lemma image_parts_tagged: "CHR '':'' \<notin> set t \<Longrightarrow> image_parts (r @ '':'' @ t) = (r, t)"
  by (simp add: image_parts_def)

lemma image_parts_untagged: "CHR '':'' \<notin> set r \<Longrightarrow> image_parts r = (r, ''latest'')"
  by (simp add: image_parts_def iffD2 [OF rsplit_once_None])

lemma image_parts_registry_port: "image_parts ''localhost:5000/app'' = (''localhost'', ''5000/app'')"
  by (simp add: image_parts_def)

text \<open>The pull fails exactly when its stream reports an error, with the first one.\<close>

lemma drain_pull_iff: "drain_pull s = Ok () \<longleftrightarrow> list_all is_ok s"
  by (induction s rule: drain_pull.induct) (simp_all add: is_ok_def)

lemma docker_labels_kept: "dc_labels (docker_config_of (pod_config co pod spec)) = Some (pod_labels co pod spec)"
  by (simp add: docker_config_of_def pod_config_def)

section \<open>Witnesses\<close>

text \<open>A small engine: containers by name, each with itself as its id.\<close>

definition sample_docker :: "(string, docker_config \<times> bool) hashmap bollard" where
  "sample_docker =
     \<lparr>bo_ping = (\<lambda>w. (Ok (), w)), bo_create_image = (\<lambda>_ _ w. ([Ok ()], w)),
      bo_create_container = (\<lambda>n c w. if hm_get w n = None then (Ok n, hm_insert n (c, False) w) else (Err ''conflict'', w)),
      bo_start_container = (\<lambda>n w. case hm_get w n of None \<Rightarrow> (Err ''no such container'', w)
        | Some (c, _) \<Rightarrow> (Ok (), hm_insert n (c, True) w)),
      bo_stop_container = (\<lambda>n _ w. case hm_get w n of None \<Rightarrow> (Err ''no such container'', w)
        | Some (c, _) \<Rightarrow> (Ok (), hm_insert n (c, False) w)),
      bo_remove_container = (\<lambda>n _ _ w. (Ok (), hm_remove n w)),
      bo_inspect_container = (\<lambda>_ w. (Err ''unsupported'', w)), bo_logs = (\<lambda>_ _ _. []),
      bo_list_containers = (\<lambda>_ _ w. (Ok (map (\<lambda>(n, _). Some [''/'' @ n]) w), w)),
      bo_create_network = (\<lambda>n _ _ w. (Ok n, w)), bo_remove_network = (\<lambda>_ w. (Ok (), w)),
      bo_connect_network = (\<lambda>_ _ w. (Ok (), w)), bo_events = (\<lambda>_ _. [])\<rparr>"

definition sample_containers :: "(string, docker_config \<times> bool) hashmap \<Rightarrow> string \<Rightarrow> (string \<times> docker_config \<times> bool) option" where
  "sample_containers w n = map_option (\<lambda>(c, b). (n, c, b)) (hm_get w n)"

lemma sample_listed:
  "(\<exists>ns. Some ns \<in> set (map (\<lambda>(n, _). Some [''/'' @ n]) w) \<and> ''/'' @ n \<in> set ns) \<longleftrightarrow> sample_containers w n \<noteq> None"
proof -
  have "sample_containers w n \<noteq> None \<longleftrightarrow> n \<in> fst ` set w"
    by (simp add: sample_containers_def hm_get_def map_of_eq_None_iff)
  then show ?thesis by (force simp: image_iff)
qed

lemma sample_engine_ok: "engine_ok sample_docker sample_containers"
  unfolding engine_ok_def
proof (intro conjI allI impI, goal_cases)
  case (4 n w l)
  then show ?case using sample_listed [of w n] by (simp add: sample_docker_def)
qed (auto simp: sample_docker_def sample_containers_def fun_eq_iff split: option.splits if_splits)

theorem docker_assign_runs_pod_witness:
  "\<exists>i. sample_containers (snd (local_assign_pod sample_core (docker_runtime sample_docker) 7 sample_pod sample_spec [])) =
     Map.empty(container_name sample_core sample_pod \<mapsto>
       (i, docker_config_of (pod_config sample_core sample_pod sample_spec), True))"
proof -
  have "local_assign_pod sample_core (docker_runtime sample_docker) 7 sample_pod sample_spec [] =
    (Ok (), snd (local_assign_pod sample_core (docker_runtime sample_docker) 7 sample_pod sample_spec []))"
    by (simp add: local_assign_pod_def docker_runtime_def sample_docker_def dk_pull_image_def dk_container_exists_def
        dk_create_container_def dk_start_container_def dk_create_network_def ensure_pod_network_def docker_err_def
        map_err_def Let_def pod_config_def split: prod.splits)
  moreover have "sample_containers [] = Map.empty" by (auto simp: sample_containers_def hm_get_def)
  ultimately show ?thesis using docker_assign_runs_pod [OF sample_engine_ok] by metis
qed

end
