(* ===== verification/File_System.thy ===== *)
theory File_System
  imports Rust_Str
begin

text \<open>
  The part of the file system the daemon uses, as a map from paths to contents, with the
  \<open>std::fs\<close> calls of the sources. A fault plan says which calls fail and with which text; a
  failing call leaves the files alone. \<open>path_join\<close> is \<open>Path::join\<close> on Unix.
\<close>

type_synonym fs = "(string, string) hashmap"

datatype fs_call =
    CreateDirAll string
  | WriteFile string
  | RemoveFile string
  | ReadFile string
  | SetPermissions string

type_synonym faults = "fs_call \<Rightarrow> string option"

definition no_faults :: faults where
  "no_faults = (\<lambda>_. None)"

definition not_found :: string where
  "not_found = ''No such file or directory (os error 2)''"

definition fs_exists :: "string \<Rightarrow> fs \<Rightarrow> bool" where
  "fs_exists p f \<longleftrightarrow> hm_get f p \<noteq> None"

definition fs_read :: "faults \<Rightarrow> string \<Rightarrow> fs \<Rightarrow> string + string" where
  "fs_read flt p f =
     (case flt (ReadFile p) of Some e \<Rightarrow> Inl e
      | None \<Rightarrow> (case hm_get f p of None \<Rightarrow> Inl not_found | Some c \<Rightarrow> Inr c))"

definition fs_read_to_string :: "faults \<Rightarrow> string \<Rightarrow> fs \<Rightarrow> string + string" where
  "fs_read_to_string flt p f =
     (case fs_read flt p f of Inl e \<Rightarrow> Inl e
      | Inr c \<Rightarrow> if utf8_valid (str_bytes c) then Inr c else Inl ''stream did not contain valid UTF-8'')"

definition fs_write :: "faults \<Rightarrow> string \<Rightarrow> string \<Rightarrow> fs \<Rightarrow> (string + unit) \<times> fs" where
  "fs_write flt p c f =
     (case flt (WriteFile p) of Some e \<Rightarrow> (Inl e, f) | None \<Rightarrow> (Inr (), hm_insert p c f))"

definition fs_remove :: "faults \<Rightarrow> string \<Rightarrow> fs \<Rightarrow> (string + unit) \<times> fs" where
  "fs_remove flt p f =
     (case flt (RemoveFile p) of Some e \<Rightarrow> (Inl e, f)
      | None \<Rightarrow> if fs_exists p f then (Inr (), hm_remove p f) else (Inl not_found, f))"

definition fs_create_dir_all :: "faults \<Rightarrow> string \<Rightarrow> string + unit" where
  "fs_create_dir_all flt p = (case flt (CreateDirAll p) of Some e \<Rightarrow> Inl e | None \<Rightarrow> Inr ())"

definition path_join :: "string \<Rightarrow> string \<Rightarrow> string" where
  "path_join a b =
     (if starts_with b ''/'' then b
      else if a = [] \<or> ends_with a ''/'' then a @ b
      else a @ ''/'' @ b)"

lemma no_faults_simps [simp]:
  "fs_read no_faults p f = (case hm_get f p of None \<Rightarrow> Inl not_found | Some c \<Rightarrow> Inr c)"
  "fs_write no_faults p c f = (Inr (), hm_insert p c f)"
  "fs_create_dir_all no_faults p = Inr ()"
  by (simp_all add: no_faults_def fs_read_def fs_write_def fs_create_dir_all_def)

lemma fs_write_cases:
  "fs_write flt p c f = (r, f') \<Longrightarrow> (r = Inr () \<and> f' = hm_insert p c f) \<or> (\<exists>e. r = Inl e \<and> f' = f)"
  by (auto simp: fs_write_def split: option.splits)

lemma fs_remove_cases:
  "fs_remove flt p f = (r, f') \<Longrightarrow> (r = Inr () \<and> f' = hm_remove p f) \<or> (\<exists>e. r = Inl e \<and> f' = f)"
  by (auto simp: fs_remove_def split: option.splits if_splits)

lemma path_join_inject:
  "\<not> starts_with a ''/'' \<Longrightarrow> \<not> starts_with b ''/'' \<Longrightarrow> path_join d a = path_join d b \<longleftrightarrow> a = b"
  by (simp add: path_join_def)

end
