(* ===== verification/Subnets.thy ===== *)
theory Subnets
  imports File_System
begin

text \<open>
  Addresses for container networks: the overlay allocator (\<open>src/adapters/network/subnet.rs\<close>),
  the CNI network manager with its own allocator (\<open>src/adapters/runtime/cni.rs\<close>), and the
  WireGuard manager (\<open>src/adapters/network/wireguard.rs\<close>). The \<open>u8\<close> counters wrap.
\<close>

section \<open>Overlay subnets\<close>

text \<open>\<open>Ipv4Addr::from_str\<close>: four decimal octets without leading zeros.\<close>

definition parse_octet :: "string \<Rightarrow> u8 option" where
  "parse_octet s =
     (if s \<noteq> [] \<and> length s \<le> 3 \<and> list_all is_digit s \<and> (length s = 1 \<or> hd s \<noteq> CHR ''0'') \<and> digits_value s \<le> 255
      then Some (word_of_nat (digits_value s)) else None)"

definition parse_ipv4 :: "string \<Rightarrow> (u8 \<times> u8 \<times> u8 \<times> u8) option" where
  "parse_ipv4 s =
     (case split_on (CHR ''.'') s of
        [a, b, c, d] \<Rightarrow>
          (case (parse_octet a, parse_octet b, parse_octet c, parse_octet d) of
             (Some w, Some x, Some y, Some z) \<Rightarrow> Some (w, x, y, z)
           | _ \<Rightarrow> None)
      | _ \<Rightarrow> None)"

record overlay_allocator =
  base_first :: u8
  base_second :: u8
  next_third_octet :: u8

definition overlay_new :: "string \<Rightarrow> overlay_allocator option" where
  "overlay_new cidr =
     (let parts = split_on (CHR ''/'') cidr in
      if length parts \<noteq> 2 then None
      else (case parse_uint 255 (parts ! 1) of
              None \<Rightarrow> None
            | Some prefix_len \<Rightarrow>
                if prefix_len \<noteq> 16 then None
                else (case parse_ipv4 (parts ! 0) of
                        None \<Rightarrow> None
                      | Some (a, b, _, _) \<Rightarrow>
                          Some \<lparr>base_first = a, base_second = b, next_third_octet = 1\<rparr>)))"

definition subnet_text :: "u8 \<Rightarrow> u8 \<Rightarrow> u8 \<Rightarrow> string" where
  "subnet_text a b c = show_nat (unat a) @ ''.'' @ show_nat (unat b) @ ''.'' @ show_nat (unat c) @ ''.0/24''"

text \<open>\<open>fetch_add\<close> returns the old value and wraps.\<close>

definition overlay_allocate :: "overlay_allocator \<Rightarrow> string option \<times> overlay_allocator" where
  "overlay_allocate al =
     (let third = next_third_octet al; al' = al\<lparr>next_third_octet := third + 1\<rparr>
      in if third = 0 then (None, al')
         else (Some (subnet_text (base_first al) (base_second al) third), al'))"

definition master_gateway :: "overlay_allocator \<Rightarrow> u8 \<times> u8 \<times> u8 \<times> u8" where
  "master_gateway al = (base_first al, base_second al, 0, 1)"

definition master_subnet :: "overlay_allocator \<Rightarrow> string" where
  "master_subnet al = show_nat (unat (base_first al)) @ ''.'' @ show_nat (unat (base_second al)) @ ''.0.0/24''"

fun overlay_run :: "nat \<Rightarrow> overlay_allocator \<Rightarrow> string option list" where
  "overlay_run 0 al = []"
| "overlay_run (Suc n) al = (case overlay_allocate al of (x, al') \<Rightarrow> x # overlay_run n al')"

section \<open>CNI networks\<close>

record cni_ipam =
  ipam_type :: string
  ipam_subnet :: string

datatype cni_plugin = Bridge string bool cni_ipam | Loopback

record cni_config =
  cni_version :: string
  cni_name :: string
  cni_plugins :: "cni_plugin list"

record cni_allocator =
  allocations :: "(string, u8) hashmap"
  next_octet :: u8

definition cni_alloc_new :: cni_allocator where
  "cni_alloc_new = \<lparr>allocations = [], next_octet = 1\<rparr>"

definition cni_allocate :: "string \<Rightarrow> cni_allocator \<Rightarrow> string res \<times> cni_allocator" where
  "cni_allocate name al =
     (case hm_get (allocations al) name of
        Some octet \<Rightarrow> (Ok (subnet_text 172 20 octet), al)
      | None \<Rightarrow>
          if next_octet al = 0
          then (Err (Runtime ''subnet pool exhausted (255 /24 networks allocated)''), al)
          else (let octet = next_octet al
                in (Ok (subnet_text 172 20 octet),
                    al\<lparr>next_octet := octet + 1, allocations := hm_insert name octet (allocations al)\<rparr>)))"

definition cni_release :: "string \<Rightarrow> cni_allocator \<Rightarrow> cni_allocator" where
  "cni_release name al = al\<lparr>allocations := hm_remove name (allocations al)\<rparr>"

record cni_manager =
  cni_bin_dir :: string
  cni_conf_dir :: string
  subnet_allocator :: cni_allocator

datatype cni_error = CniNexa nexa_error | CniIo string | CniJson string | CniMsg string

definition cni_new :: "string \<Rightarrow> cni_manager" where
  "cni_new data_dir =
     \<lparr>cni_bin_dir = path_join (path_join data_dir ''cni'') ''bin'',
      cni_conf_dir = path_join (path_join data_dir ''cni'') ''conf'',
      subnet_allocator = cni_alloc_new\<rparr>"

fun check_plugin_list :: "string list \<Rightarrow> cni_manager \<Rightarrow> fs \<Rightarrow> cni_error + unit" where
  "check_plugin_list [] m f = Inr ()"
| "check_plugin_list (p # ps) m f =
     (let path = path_join (cni_bin_dir m) p
      in if \<not> fs_exists path f then Inl (CniMsg (''CNI plugin not found: '' @ path))
         else check_plugin_list ps m f)"

definition check_plugins :: "cni_manager \<Rightarrow> fs \<Rightarrow> cni_error + unit" where
  "check_plugins m f = check_plugin_list [''bridge'', ''loopback''] m f"

definition conf_path :: "cni_manager \<Rightarrow> string \<Rightarrow> string" where
  "conf_path m name = path_join (cni_conf_dir m) (name @ ''.conflist'')"

definition network_config :: "string \<Rightarrow> string \<Rightarrow> cni_config" where
  "network_config name subnet =
     \<lparr>cni_version = ''1.0.0'', cni_name = name,
      cni_plugins = [Bridge (''cni-'' @ name) True \<lparr>ipam_type = ''host-local'', ipam_subnet = subnet\<rparr>, Loopback]\<rparr>"

text \<open>\<open>to_json\<close> is \<open>serde_json::to_string_pretty\<close> on the configuration.\<close>

definition ensure_network ::
  "(cni_config \<Rightarrow> string + string) \<Rightarrow> faults \<Rightarrow> string \<Rightarrow> cni_manager \<Rightarrow> fs
     \<Rightarrow> (cni_error + unit) \<times> cni_manager \<times> fs" where
  "ensure_network to_json flt name m f =
     (case fs_create_dir_all flt (cni_conf_dir m) of
        Inl e \<Rightarrow> (Inl (CniIo e), m, f)
      | Inr _ \<Rightarrow>
          if fs_exists (conf_path m name) f then (Inr (), m, f)
          else (case cni_allocate name (subnet_allocator m) of
                  (Inl e, al) \<Rightarrow> (Inl (CniNexa e), m\<lparr>subnet_allocator := al\<rparr>, f)
                | (Inr subnet, al) \<Rightarrow>
                    (let m1 = m\<lparr>subnet_allocator := al\<rparr>
                     in (case to_json (network_config name subnet) of
                           Inl e \<Rightarrow> (Inl (CniJson e), m1, f)
                         | Inr json \<Rightarrow>
                             (case fs_write flt (conf_path m name) json f of
                                (Inl e, f1) \<Rightarrow> (Inl (CniIo e), m1, f1)
                              | (Inr _, f1) \<Rightarrow> (Inr (), m1, f1))))))"

definition remove_network ::
  "faults \<Rightarrow> string \<Rightarrow> cni_manager \<Rightarrow> fs \<Rightarrow> (cni_error + unit) \<times> cni_manager \<times> fs" where
  "remove_network flt name m f =
     (let released = m\<lparr>subnet_allocator := cni_release name (subnet_allocator m)\<rparr>
      in if fs_exists (conf_path m name) f
         then (case fs_remove flt (conf_path m name) f of
                 (Inl e, f1) \<Rightarrow> (Inl (CniIo e), m, f1)
               | (Inr _, f1) \<Rightarrow> (Inr (), released, f1))
         else (Inr (), released, f))"

definition attach :: "string \<Rightarrow> string \<Rightarrow> cni_error + string" where
  "attach container_id network = Inl (CniMsg ''CNI attach not yet implemented'')"

definition detach :: "string \<Rightarrow> string \<Rightarrow> cni_error + unit" where
  "detach container_id network = Inl (CniMsg ''CNI detach not yet implemented'')"

section \<open>WireGuard\<close>

text \<open>Keys are 32-byte strings; \<open>public_of\<close> is the key derivation of \<open>x25519_dalek\<close>, \<open>b64\<close> the Base64
  encoding.\<close>

record wg_keypair =
  private_key :: string
  public_key :: string

definition wg_generate :: "(string \<Rightarrow> string) \<Rightarrow> string \<Rightarrow> wg_keypair" where
  "wg_generate public_of secret = \<lparr>private_key = secret, public_key = public_of secret\<rparr>"

definition private_key_base64 :: "(string \<Rightarrow> string) \<Rightarrow> wg_keypair \<Rightarrow> string" where
  "private_key_base64 b64 k = b64 (private_key k)"

definition public_key_base64 :: "(string \<Rightarrow> string) \<Rightarrow> wg_keypair \<Rightarrow> string" where
  "public_key_base64 b64 k = b64 (public_key k)"

record wg_peer_config =
  peer_public_key :: string
  peer_endpoint :: "string option"
  allowed_ips :: "string list"
  persistent_keepalive :: "u16 option"

record wireguard_manager =
  wg_keys :: wg_keypair
  wg_node_ip :: "u8 \<times> u8 \<times> u8 \<times> u8"
  wg_listen_port :: u16
  wg_active :: bool

definition wg_inactive :: wireguard_manager where
  "wg_inactive =
     \<lparr>wg_keys = \<lparr>private_key = replicate 32 (CHR 0x00), public_key = replicate 32 (CHR 0x00)\<rparr>,
      wg_node_ip = (0, 0, 0, 0), wg_listen_port = 0, wg_active = False\<rparr>"

definition wg_new :: "(string \<Rightarrow> string) \<Rightarrow> string \<Rightarrow> u8 \<times> u8 \<times> u8 \<times> u8 \<Rightarrow> u16 \<Rightarrow> wireguard_manager" where
  "wg_new public_of secret ip port = \<lparr>wg_keys = wg_generate public_of secret, wg_node_ip = ip, wg_listen_port = port, wg_active = True\<rparr>"

definition create_tunnel :: "wireguard_manager \<Rightarrow> unit res" where
  "create_tunnel w = (if \<not> wg_active w then Ok () else Ok ())"

definition peer_config_for_node :: "wireguard_manager \<Rightarrow> string \<Rightarrow> string \<Rightarrow> string \<Rightarrow> wg_peer_config" where
  "peer_config_for_node w key endpoint subnet =
     \<lparr>peer_public_key = key, peer_endpoint = Some endpoint, allowed_ips = [subnet],
      persistent_keepalive = Some 25\<rparr>"

section \<open>Subnet texts\<close>

lemma subnet_text_inject [simp]: "subnet_text a b c = subnet_text a b d \<longleftrightarrow> c = d"
  by (simp add: subnet_text_def word_unat_eq_iff)

lemma unat_octet_Suc: "unat (word_of_nat n :: u8) = n mod 256"
  by (simp add: unat_of_nat)

lemma octet_zero_iff: "(word_of_nat n :: u8) = 0 \<longleftrightarrow> n mod 256 = 0"
  by (simp add: word_of_nat_eq_0_iff dvd_eq_mod_eq_0)

section \<open>Allocation histories\<close>

text \<open>The \<open>k\<close>-th answer of the overlay allocator.\<close>

definition overlay_answer :: "overlay_allocator \<Rightarrow> nat \<Rightarrow> string option" where
  "overlay_answer al k =
     (if (k + 1) mod 256 = 0 then None
      else Some (subnet_text (base_first al) (base_second al) (word_of_nat (k + 1))))"

lemma overlay_run_map:
  "next_third_octet al = word_of_nat (j + 1) \<Longrightarrow> overlay_run n al = map (\<lambda>k. overlay_answer al (k + j)) [0..<n]"
proof (induction n arbitrary: al j)
  case (Suc n)
  define al' where "al' = al\<lparr>next_third_octet := word_of_nat (j + 2)\<rparr>"
  have step: "overlay_allocate al = (overlay_answer al j, al')"
    using Suc.prems octet_zero_iff [of "j + 1"]
    by (simp add: overlay_allocate_def overlay_answer_def al'_def Let_def)
  have "overlay_answer al' k = overlay_answer al k" for k
    by (simp add: overlay_answer_def al'_def)
  then have "overlay_run n al' = map (\<lambda>k. overlay_answer al (k + Suc j)) [0..<n]"
    using Suc.IH [of al' "Suc j"] by (simp add: al'_def)
  then show ?case by (simp add: step upt_conv_Cons map_Suc_upt [symmetric] comp_def del: upt_Suc)
qed simp

lemma overlay_new_next: "overlay_new cidr = Some al \<Longrightarrow> next_third_octet al = 1"
  by (auto simp: overlay_new_def Let_def split: if_splits option.splits)

text \<open>Operations on the CNI allocator, and its invariant: live octets are distinct and older than
  the counter, unless the counter has reached its final value 0.\<close>

datatype cni_op = CniAllocate string | CniRelease string

fun cni_step :: "cni_op \<Rightarrow> cni_allocator \<Rightarrow> cni_allocator" where
  "cni_step (CniAllocate n) al = snd (cni_allocate n al)"
| "cni_step (CniRelease n) al = cni_release n al"

definition cni_wf :: "cni_allocator \<Rightarrow> bool" where
  "cni_wf al \<longleftrightarrow> hm_wf (allocations al)
     \<and> (\<forall>n m o'. hm_get (allocations al) n = Some o' \<and> hm_get (allocations al) m = Some o' \<longrightarrow> n = m)
     \<and> (\<forall>n o'. hm_get (allocations al) n = Some o' \<longrightarrow> next_octet al = 0 \<or> o' < next_octet al)"

lemma cni_wf_new [wf_intros]: "cni_wf cni_alloc_new"
  by (simp add: cni_wf_def cni_alloc_new_def)

lemma u8_less_Suc: "(x::u8) < x + 1 \<or> x + 1 = 0"
proof (cases "unat x = 255")
  case True
  then have "x + 1 = 0" by (simp add: word_unat_eq_iff unat_word_ariths)
  then show ?thesis ..
next
  case False
  then have "unat (x + 1) = unat x + 1" using unat_u8_lt [of x] by (simp add: unat_word_ariths)
  then show ?thesis by (simp add: word_less_nat_alt)
qed

lemma cni_wf_allocate [wf_intros]:
  assumes "cni_wf al" shows "cni_wf (snd (cni_allocate n al))"
proof (cases "hm_get (allocations al) n = None \<and> next_octet al \<noteq> 0")
  case False
  then show ?thesis using assms by (auto simp: cni_allocate_def split: option.splits)
next
  case True
  let ?o = "next_octet al"
  have old: "o' < ?o" if "hm_get (allocations al) m = Some o'" for m o'
    using assms True that by (auto simp: cni_wf_def)
  have "?o + 1 = 0 \<or> o' < ?o + 1" if "o' \<le> ?o" for o'
    using u8_less_Suc [of ?o] that by (meson order_le_less_trans)
  then show ?thesis
    using assms True old
    by (auto simp: cni_wf_def cni_allocate_def Let_def dest: less_imp_le split: if_splits)
qed

lemma cni_wf_step [wf_intros]: "cni_wf al \<Longrightarrow> cni_wf (cni_step oper al)"
  by (cases oper) (auto simp: cni_wf_allocate, auto simp: cni_wf_def cni_release_def split: if_splits)

lemma cni_wf_run: "cni_wf al \<Longrightarrow> cni_wf (fold cni_step ops al)"
  by (induction ops arbitrary: al) (auto intro: wf_intros)

lemma conf_path_inject:
  "\<not> starts_with a ''/'' \<Longrightarrow> \<not> starts_with b ''/'' \<Longrightarrow> conf_path m a = conf_path m b \<longleftrightarrow> a = b"
  by (cases a; cases b) (auto simp: conf_path_def path_join_def)

section \<open>Properties\<close>

text \<open>C31: the overlay allocator hands out a \<open>/16\<close> in order. The first 255 allocations all succeed
  with pairwise different \<open>/24\<close> subnets and the next one reports exhaustion.\<close>

theorem overlay_allocations_distinct:
  assumes "overlay_new cidr = Some al"
  shows "overlay_run 256 al = map (\<lambda>k. Some (subnet_text (base_first al) (base_second al) (word_of_nat (k + 1)))) [0..<255] @ [None]
    \<and> distinct (overlay_run 256 al)"
proof -
  have run: "overlay_run 256 al = map (overlay_answer al) [0..<256]"
    using overlay_run_map [of al 0 256] overlay_new_next [OF assms] by simp
  have "[0..<256] = [0..<255] @ [255::nat]" by (simp add: upt_Suc_append [of 0 255, simplified])
  then have list: "overlay_run 256 al = map (\<lambda>k. Some (subnet_text (base_first al) (base_second al) (word_of_nat (k + 1)))) [0..<255] @ [None]"
    using run by (simp add: overlay_answer_def)
  have "inj_on (\<lambda>k. Some (subnet_text (base_first al) (base_second al) (word_of_nat (k + 1)))) {0..<255}"
    by (rule inj_onI) (simp add: word_unat_eq_iff unat_octet_Suc del: of_nat_Suc)
  then show ?thesis using list by (simp add: distinct_map image_iff)
qed

text \<open>Exhaustion of the overlay allocator does not last. Every allocation is repeated 256
  allocations later: after the single \<open>None\<close> the counter has wrapped and the same subnets are
  handed out again.\<close>

theorem overlay_allocator_wraps:
  assumes "overlay_new cidr = Some al" "k < n"
  shows "overlay_run (n + 256) al ! (k + 256) = overlay_run n al ! k"
proof -
  have run: "overlay_run m al = map (overlay_answer al) [0..<m]" for m
    using overlay_run_map [of al 0 m] overlay_new_next [OF assms(1)] by simp
  have m: "(k + 256 + 1) mod 256 = (k + 1) mod 256"
    using mod_add_self2 [of "k + 1" 256] by (simp only: add.assoc add.commute [of 256 1])
  then have "(word_of_nat (k + 256 + 1) :: u8) = word_of_nat (k + 1)"
    by (simp only: word_unat_eq_iff unat_octet_Suc)
  then have "overlay_answer al (k + 256) = overlay_answer al k"
    using m by (simp only: overlay_answer_def)
  moreover have "overlay_run (n + 256) al ! (k + 256) = overlay_answer al (k + 256)"
    and "overlay_run n al ! k = overlay_answer al k"
    using assms(2) unfolding run by simp_all
  ultimately show ?thesis by simp
qed

text \<open>C30: CNI subnets are not shared. After any history of allocations and releases, two
  networks whose allocations both succeed at that point have the same subnet only if they are the
  same network, and asking again for a live network returns the same subnet.\<close>

theorem cni_subnets_not_shared:
  assumes "al = fold cni_step ops cni_alloc_new"
    "cni_allocate a al = (Ok x, al1)" "cni_allocate b al1 = (Ok y, al2)"
  shows "(x = y) = (a = b) \<and> cni_allocate a al2 = (Ok x, al2)"
proof -
  have "cni_wf al" unfolding assms(1) by (intro cni_wf_run wf_intros)
  then have "cni_wf al1" "cni_wf al2"
    using cni_wf_allocate [of al a] cni_wf_allocate [of al1 b] assms(2,3) by simp_all
  moreover obtain p where p: "hm_get (allocations al1) a = Some p" "x = subnet_text 172 20 p"
    using assms(2) by (auto simp: cni_allocate_def Let_def split: option.splits if_splits)
  moreover obtain q where q: "hm_get (allocations al2) b = Some q" "y = subnet_text 172 20 q"
    using assms(3) by (auto simp: cni_allocate_def Let_def split: option.splits if_splits)
  moreover have p2: "hm_get (allocations al2) a = Some p"
    using assms(3) p(1) by (auto simp: cni_allocate_def Let_def split: option.splits if_splits)
  ultimately have "(p = q) = (a = b)" unfolding cni_wf_def by (metis option.inject)
  then show ?thesis using p(2) q(2) p2 by (simp add: cni_allocate_def)
qed

text \<open>\<open>ensure_network\<close> is idempotent: after a successful call the network's configuration file
  exists, and calling again without faults succeeds and changes neither the files nor the
  allocator.\<close>

theorem ensure_network_idempotent:
  assumes "ensure_network to_json flt name m f = (Inr (), m1, f1)"
  shows "fs_exists (conf_path m1 name) f1 \<and> ensure_network to_json no_faults name m1 f1 = (Inr (), m1, f1)"
proof -
  have conf: "conf_path m1 name = conf_path m name" and ex: "fs_exists (conf_path m name) f1"
    using assms
    by (auto simp: ensure_network_def conf_path_def fs_exists_def Let_def
             split: sum.splits prod.splits if_splits dest!: fs_write_cases)
  then show ?thesis by (simp add: ensure_network_def)
qed

text \<open>A restarted manager reuses subnets in use. A first manager creates a network; a second
  manager on the same files (its allocator starts from scratch) creates another network: both
  configuration files name the subnet \<open>172.20.1.0/24\<close>.\<close>

theorem cni_restart_reuses_subnet:
  assumes "a \<noteq> b" "\<not> starts_with a ''/''" "\<not> starts_with b ''/''"
    "to_json (network_config a (subnet_text 172 20 1)) = Ok ja" "to_json (network_config b (subnet_text 172 20 1)) = Ok jb"
    "ensure_network to_json no_faults a (cni_new dir) [] = (r1, m1, f1)"
    "ensure_network to_json no_faults b (cni_new dir) f1 = (r2, m2, f2)"
  shows "r1 = Inr () \<and> r2 = Inr () \<and> hm_get f2 (conf_path (cni_new dir) a) = Some ja
    \<and> hm_get f2 (conf_path (cni_new dir) b) = Some jb"
proof -
  have ne: "conf_path (cni_new dir) b \<noteq> conf_path (cni_new dir) a"
    using conf_path_inject [OF assms(3,2)] assms(1) by blast
  have "r1 = Inr ()" and f1: "f1 = hm_insert (conf_path (cni_new dir) a) ja []"
    using assms(4,6)
    by (auto simp: ensure_network_def fs_exists_def cni_allocate_def cni_new_def cni_alloc_new_def Let_def)
  moreover have "r2 = Inr () \<and> f2 = hm_insert (conf_path (cni_new dir) b) jb f1"
    using assms(5,7) ne f1
    by (auto simp: ensure_network_def fs_exists_def cni_allocate_def cni_new_def cni_alloc_new_def Let_def)
  ultimately show ?thesis using ne by simp
qed

section \<open>Witnesses\<close>

lemma overlay_sample: "overlay_new ''10.42.0.0/16'' = Some \<lparr>base_first = 10, base_second = 42, next_third_octet = 1\<rparr>"
  by code_simp

theorem overlay_allocations_distinct_witness:
  "distinct (overlay_run 256 \<lparr>base_first = 10, base_second = 42, next_third_octet = 1\<rparr>)"
  by (rule conjunct2 [OF overlay_allocations_distinct [OF overlay_sample]])

theorem cni_subnets_not_shared_witness:
  "(subnet_text 172 20 1 = subnet_text 172 20 2) = (''a'' = ''b'')"
  by (rule conjunct1 [OF cni_subnets_not_shared [where ops = "[]" and al = cni_alloc_new
        and ?al1.0 = "\<lparr>allocations = [(''a'', 1)], next_octet = 2\<rparr>"
        and ?al2.0 = "\<lparr>allocations = [(''a'', 1), (''b'', 2)], next_octet = 3\<rparr>"]])
     (simp_all add: cni_allocate_def cni_alloc_new_def Let_def hm_insert_def hm_get_def)

lemma cni_new_fields:
  "allocations (subnet_allocator (cni_new d)) = []" "next_octet (subnet_allocator (cni_new d)) = 1"
  by (simp_all add: cni_new_def cni_alloc_new_def)

lemma sample_conf_paths:
  "conf_path (cni_new ''/d'') ''a'' = ''/d/cni/conf/a.conflist''"
  "conf_path (cni_new ''/d'') ''b'' = ''/d/cni/conf/b.conflist''"
  by code_simp+

end
