(* ===== verification/Containerd.thy ===== *)
theory Containerd
  imports Runtime_Port Subnets
begin

text \<open>
  The containerd runtime (\<open>src/adapters/runtime/containerd.rs\<close>), the log tailer
  (\<open>src/adapters/runtime/log_tailer.rs\<close>) and the choice of a runtime
  (\<open>src/adapters/runtime/detect.rs\<close>). The \<open>ctr\<close> program, the clock and the directories it needs
  are a record of parameters over a world; the CNI manager is the one of \<open>Subnets\<close>.
\<close>

section \<open>Image references\<close>

definition registry_host :: "string \<Rightarrow> string" where
  "registry_host img = hd (split_on (CHR '':'') (hd (split_on (CHR ''/'') img)))"

definition normalize_image_ref :: "string \<Rightarrow> string" where
  "normalize_image_ref img =
     (if CHR ''.'' \<in> set (registry_host img)
      then (if CHR '':'' \<in> set img then img else img @ '':latest'')
      else (let (name, tag) = (case rsplit_once (CHR '':'') img of Some (n, t) \<Rightarrow> (n, t) | None \<Rightarrow> (img, ''latest''))
            in if CHR ''/'' \<in> set name then ''docker.io/'' @ name @ '':'' @ tag
               else ''docker.io/library/'' @ name @ '':'' @ tag))"

section \<open>The environment\<close>

record cmd_output =
  out_success :: bool
  out_stdout :: string
  out_stderr :: string

text \<open>\<open>ce_lossy\<close> is \<open>String::from_utf8_lossy\<close>; \<open>ce_remove_dir\<close> removes a directory if it exists, errors ignored.\<close>

record 'w ctr_env =
  ce_ctr :: "string list \<Rightarrow> 'w \<Rightarrow> (string + cmd_output) \<times> 'w"
  ce_lossy :: "string \<Rightarrow> string"
  ce_now :: "'w \<Rightarrow> instant"
  ce_sleep :: "instant \<Rightarrow> 'w \<Rightarrow> 'w"
  ce_mkdir :: "string \<Rightarrow> 'w \<Rightarrow> (string + unit) \<times> 'w"
  ce_remove_dir :: "string \<Rightarrow> 'w \<Rightarrow> 'w"

record containerd =
  ct_namespace :: string
  ct_data_dir :: string
  ct_cni :: cni_manager
  netns_map :: "(string, string) hashmap"
  network_map :: "(string, string \<times> string) hashmap"

definition containerd_new :: "string \<Rightarrow> containerd" where
  "containerd_new data_dir =
     \<lparr>ct_namespace = ''nexa'', ct_data_dir = data_dir, ct_cni = cni_new data_dir, netns_map = [], network_map = []\<rparr>"

definition ct_ping :: "'w ctr_env \<Rightarrow> 'w \<Rightarrow> unit res \<times> 'w" where
  "ct_ping E w =
     (case ce_ctr E [''version''] w of
        (Inl e, w1) \<Rightarrow> (Err (Runtime (''failed to run ctr: '' @ e)), w1)
      | (Inr out, w1) \<Rightarrow>
          if \<not> out_success out then (Err (Runtime (''containerd unreachable: '' @ ce_lossy E (out_stderr out))), w1)
          else (Ok (), w1))"

definition ctr :: "'w ctr_env \<Rightarrow> containerd \<Rightarrow> string list \<Rightarrow> 'w \<Rightarrow> cmd_output res \<times> 'w" where
  "ctr E rt args w =
     (case ce_ctr E ([''--namespace'', ct_namespace rt] @ args) w of
        (Inl e, w1) \<Rightarrow> (Err (Runtime (''failed to run ctr: '' @ e)), w1)
      | (Inr out, w1) \<Rightarrow> (Ok out, w1))"

definition ctr_ok :: "'w ctr_env \<Rightarrow> containerd \<Rightarrow> string list \<Rightarrow> 'w \<Rightarrow> string res \<times> 'w" where
  "ctr_ok E rt args w =
     (case ctr E rt args w of
        (Inl e, w1) \<Rightarrow> (Err e, w1)
      | (Inr out, w1) \<Rightarrow>
          if \<not> out_success out
          then (Err (Runtime (''ctr '' @ join '' '' args @ '' failed: '' @ trim (ce_lossy E (out_stderr out)))), w1)
          else (Ok (ce_lossy E (out_stdout out)), w1))"

definition log_dir :: "containerd \<Rightarrow> string \<Rightarrow> string" where
  "log_dir rt cid = path_join (path_join (ct_data_dir rt) ''logs'') cid"

definition stdout_log_path :: "containerd \<Rightarrow> string \<Rightarrow> string" where
  "stdout_log_path rt cid = path_join (log_dir rt cid) ''stdout.log''"

section \<open>Container operations\<close>

definition ct_pull_image :: "'w ctr_env \<Rightarrow> containerd \<Rightarrow> string \<Rightarrow> 'w \<Rightarrow> unit res \<times> 'w" where
  "ct_pull_image E rt img w =
     (case ctr_ok E rt [''images'', ''pull'', normalize_image_ref img] w of
        (Inl e, w1) \<Rightarrow> (Err e, w1) | (Inr _, w1) \<Rightarrow> (Ok (), w1))"

definition create_args :: "container_config \<Rightarrow> string list" where
  "create_args c =
     [''containers'', ''create'', normalize_image_ref (cc_image c), cc_name c]
     @ concat (map (\<lambda>(k, v). [''--env'', k @ ''='' @ v]) (cc_env c))
     @ concat (map (\<lambda>(k, v). [''--label'', k @ ''='' @ v]) (cc_labels c))
     @ concat (map (\<lambda>v. [''--mount'', ''type=bind,src='' @ vb_source v @ '',dst='' @ vb_target v @ '',options=''
                @ (if vb_read_only v then ''rbind:ro'' else ''rbind:rw'')]) (cc_volumes c))"

definition ct_create_container :: "'w ctr_env \<Rightarrow> containerd \<Rightarrow> container_config \<Rightarrow> 'w \<Rightarrow> string res \<times> 'w" where
  "ct_create_container E rt c w =
     (case ctr_ok E rt (create_args c) w of
        (Inl e, w1) \<Rightarrow> (Err e, w1)
      | (Inr _, w1) \<Rightarrow>
          (case ce_mkdir E (log_dir rt (cc_name c)) w1 of
             (Inl e, w2) \<Rightarrow> (Err (Runtime (''create log dir: '' @ e)), w2)
           | (Inr _, w2) \<Rightarrow> (Ok (cc_name c), w2)))"

definition ct_start_container :: "'w ctr_env \<Rightarrow> string \<Rightarrow> containerd \<Rightarrow> 'w \<Rightarrow> unit res \<times> containerd \<times> 'w" where
  "ct_start_container E cid rt w =
     (case ce_ctr E [''--namespace'', ct_namespace rt, ''tasks'', ''start'', ''--detach'', cid] w of
        (Inl e, w1) \<Rightarrow> (Err (Runtime (''failed to run ctr tasks start: '' @ e)), rt, w1)
      | (Inr out, w1) \<Rightarrow>
          if \<not> out_success out
          then (Err (Runtime (''ctr tasks start failed: '' @ trim (ce_lossy E (out_stderr out)))), rt, w1)
          else (case parse_uint (2 ^ 64 - 1) (trim (ce_lossy E (out_stdout out))) of
                  Some pid \<Rightarrow>
                    (Ok (), rt\<lparr>netns_map := hm_insert cid (''/proc/'' @ show_nat pid @ ''/ns/net'') (netns_map rt)\<rparr>, w1)
                | None \<Rightarrow> (Ok (), rt, w1)))"

text \<open>
  The waiting loop of \<open>stop_container\<close>: \<open>Ok True\<close> when the task list no longer shows the
  container running, \<open>Ok False\<close> at the deadline. \<open>None\<close> only when the fuel is used up.
\<close>

definition task_running :: "string \<Rightarrow> string \<Rightarrow> bool" where
  "task_running cid listing \<longleftrightarrow> list_ex (\<lambda>line. contains_str line cid \<and> contains_str line ''RUNNING'') (lines listing)"

fun stop_wait :: "nat \<Rightarrow> 'w ctr_env \<Rightarrow> containerd \<Rightarrow> string \<Rightarrow> instant \<Rightarrow> 'w \<Rightarrow> (bool res \<times> 'w) option" where
  "stop_wait 0 E rt cid deadline w = None"
| "stop_wait (Suc n) E rt cid deadline w =
     (if ce_now E w \<ge> deadline then Some (Ok False, w)
      else (case ctr E rt [''tasks'', ''list''] w of
              (Inl e, w1) \<Rightarrow> Some (Err e, w1)
            | (Inr check, w1) \<Rightarrow>
                if \<not> task_running cid (ce_lossy E (out_stdout check)) then Some (Ok True, w1)
                else stop_wait n E rt cid deadline (ce_sleep E 500000000 w1)))"

definition ct_stop_container ::
  "nat \<Rightarrow> 'w ctr_env \<Rightarrow> containerd \<Rightarrow> string \<Rightarrow> u64 \<Rightarrow> 'w \<Rightarrow> (unit res \<times> 'w) option" where
  "ct_stop_container fuel E rt cid timeout_secs w =
     (case ctr E rt [''tasks'', ''kill'', ''--signal'', ''SIGTERM'', cid] w of
        (Inl e, w1) \<Rightarrow> Some (Err e, w1)
      | (Inr out, w1) \<Rightarrow>
          if \<not> out_success out then Some (Ok (), w1)
          else (case stop_wait fuel E rt cid (ce_now E w1 + secs (uint timeout_secs)) w1 of
                  None \<Rightarrow> None
                | Some (Inl e, w2) \<Rightarrow> Some (Err e, w2)
                | Some (Inr True, w2) \<Rightarrow> Some (Ok (), w2)
                | Some (Inr False, w2) \<Rightarrow>
                    (case ctr_ok E rt [''tasks'', ''kill'', ''--signal'', ''SIGKILL'', cid] w2 of
                       (Inl e, w3) \<Rightarrow> Some (Err e, w3)
                     | (Inr _, w3) \<Rightarrow> Some (Ok (), w3))))"

definition ct_remove_container ::
  "'w ctr_env \<Rightarrow> string \<Rightarrow> bool \<Rightarrow> containerd \<Rightarrow> 'w \<Rightarrow> unit res \<times> containerd \<times> 'w" where
  "ct_remove_container E cid force rt w =
     (case ctr E rt [''tasks'', ''delete'', cid] w of
        (Inl e, w1) \<Rightarrow> (Err e, rt, w1)
      | (Inr _, w1) \<Rightarrow>
          (case ctr_ok E rt [''containers'', ''delete'', cid] w1 of
             (Inl e, w2) \<Rightarrow> (Err e, rt, w2)
           | (Inr _, w2) \<Rightarrow>
               (Ok (), rt\<lparr>netns_map := hm_remove cid (netns_map rt), network_map := hm_remove cid (network_map rt)\<rparr>,
                ce_remove_dir E (log_dir rt cid) w2)))"

definition task_state :: "string \<Rightarrow> container_state" where
  "task_state line =
     (if contains_str line ''RUNNING'' then Running
      else if contains_str line ''STOPPED'' then Exited
      else if contains_str line ''PAUSED'' then Paused
      else if contains_str line ''CREATED'' then Created
      else UnknownState)"

text \<open>\<open>split_whitespace\<close>, on text whose white space is ASCII.\<close>

definition is_space :: "char \<Rightarrow> bool" where
  "is_space c \<longleftrightarrow> c \<in> set [CHR 0x20, CHR 0x09, CHR 0x0A, CHR 0x0B, CHR 0x0C, CHR 0x0D]"

fun words :: "string \<Rightarrow> string \<Rightarrow> string list" where
  "words acc [] = (if acc = [] then [] else [acc])"
| "words acc (c # s) =
     (if is_space c then (if acc = [] then words [] s else acc # words [] s) else words (acc @ [c]) s)"

definition image_of_info :: "string \<Rightarrow> string" where
  "image_of_info info =
     (case find (\<lambda>l. contains_str l ''Image:'' \<or> contains_str l ''image:'') (lines info) of
        None \<Rightarrow> ''unknown''
      | Some l \<Rightarrow> if words [] l = [] then ''unknown'' else last (words [] l))"

definition ct_inspect_container :: "'w ctr_env \<Rightarrow> containerd \<Rightarrow> string \<Rightarrow> 'w \<Rightarrow> container_info res \<times> 'w" where
  "ct_inspect_container E rt cid w =
     (case ctr_ok E rt [''containers'', ''info'', cid] w of
        (Inl e, w1) \<Rightarrow> (Err e, w1)
      | (Inr info, w1) \<Rightarrow>
          (case ctr E rt [''tasks'', ''list''] w1 of
             (Inl e, w2) \<Rightarrow> (Err e, w2)
           | (Inr out, w2) \<Rightarrow>
               (let state = (case find (\<lambda>l. contains_str l cid) (lines (ce_lossy E (out_stdout out))) of
                               None \<Rightarrow> Created | Some l \<Rightarrow> task_state l)
                in (Ok \<lparr>ci_id = cid, ci_name = cid, ci_image = image_of_info info, ci_state = state\<rparr>, w2))))"

definition ct_container_exists :: "'w ctr_env \<Rightarrow> containerd \<Rightarrow> string \<Rightarrow> 'w \<Rightarrow> bool res \<times> 'w" where
  "ct_container_exists E rt name w =
     (case ctr E rt [''containers'', ''info'', name] w of
        (Inl e, w1) \<Rightarrow> (Err e, w1) | (Inr out, w1) \<Rightarrow> (Ok (out_success out), w1))"

section \<open>Networks\<close>

definition ct_create_network ::
  "(cni_error \<Rightarrow> string) \<Rightarrow> (cni_config \<Rightarrow> string + string) \<Rightarrow> faults \<Rightarrow> string \<Rightarrow> containerd \<Rightarrow> fs
     \<Rightarrow> string res \<times> containerd \<times> fs" where
  "ct_create_network txt to_json flt name rt f =
     (case ensure_network to_json flt name (ct_cni rt) f of
        (Inl e, m, f1) \<Rightarrow> (Err (Runtime (''create network: '' @ txt e)), rt\<lparr>ct_cni := m\<rparr>, f1)
      | (Inr _, m, f1) \<Rightarrow> (Ok name, rt\<lparr>ct_cni := m\<rparr>, f1))"

definition ct_remove_network ::
  "(cni_error \<Rightarrow> string) \<Rightarrow> faults \<Rightarrow> string \<Rightarrow> containerd \<Rightarrow> fs \<Rightarrow> unit res \<times> containerd \<times> fs" where
  "ct_remove_network txt flt name rt f =
     (case remove_network flt name (ct_cni rt) f of
        (Inl e, m, f1) \<Rightarrow> (Err (Runtime (''remove network: '' @ txt e)), rt\<lparr>ct_cni := m\<rparr>, f1)
      | (Inr _, m, f1) \<Rightarrow> (Ok (), rt\<lparr>ct_cni := m\<rparr>, f1))"

definition ct_connect_to_network ::
  "(cni_error \<Rightarrow> string) \<Rightarrow> string \<Rightarrow> string \<Rightarrow> containerd \<Rightarrow> unit res \<times> containerd" where
  "ct_connect_to_network txt cid network rt =
     (case attach cid network of
        Inl e \<Rightarrow> (Err (Runtime (''CNI attach: '' @ txt e)), rt)
      | Inr ip \<Rightarrow> (Ok (), rt\<lparr>network_map := hm_insert cid (network, ip) (network_map rt)\<rparr>))"

definition ct_container_ip :: "string \<Rightarrow> string \<Rightarrow> containerd \<Rightarrow> string res" where
  "ct_container_ip cid network rt =
     (case hm_get (network_map rt) cid of
        Some (net, ip) \<Rightarrow>
          if net = network then Ok ip
          else Err (Runtime (''no IP found for container '' @ cid @ '' on network '' @ network))
      | None \<Rightarrow> Err (Runtime (''no IP found for container '' @ cid @ '' on network '' @ network)))"

section \<open>Events\<close>

text \<open>\<open>str::find\<close> followed by the slice from there: the text from the first occurrence on.\<close>

fun from_match :: "string \<Rightarrow> string \<Rightarrow> string option" where
  "from_match [] p = (if p = [] then Some [] else None)"
| "from_match (c # s) p = (if prefix p (c # s) then Some (c # s) else from_match s p)"

definition nth_opt :: "'a list \<Rightarrow> nat \<Rightarrow> 'a option" where
  "nth_opt xs i = (if i < length xs then Some (xs ! i) else None)"

definition extract_container_id :: "string \<Rightarrow> string option" where
  "extract_container_id line =
     (case from_match line ''container_id'' of
        None \<Rightarrow> None
      | Some rest \<Rightarrow>
          map_option trim
            (case nth_opt (split_on (CHR 34) rest) 2 of
               Some v \<Rightarrow> Some v
             | None \<Rightarrow> map_option (\<lambda>s. trim_start_matches (CHR 34) (trim_end_matches (CHR 34) s))
                         (nth_opt (split_on (CHR '':'') rest) 1)))"

fun split_code :: "string \<Rightarrow> string \<Rightarrow> string list" where
  "split_code acc [] = [acc]"
| "split_code acc (c # s) = (if \<not> is_digit c \<and> c \<noteq> CHR ''-'' then acc # split_code [] s else split_code (acc @ [c]) s)"

definition extract_exit_code :: "string \<Rightarrow> int option" where
  "extract_exit_code line =
     (case from_match line ''exit_status'' of
        None \<Rightarrow> None
      | Some rest \<Rightarrow>
          (case find (\<lambda>s. s \<noteq> []) (split_code [] rest) of
             None \<Rightarrow> None
           | Some s \<Rightarrow> parse_int (- (2 ^ 63)) (2 ^ 63 - 1) s))"

definition event_of_line :: "string \<Rightarrow> runtime_event option" where
  "event_of_line line =
     (let cid = (case extract_container_id line of Some s \<Rightarrow> s | None \<Rightarrow> [])
      in if contains_str line ''/tasks/exit''
         then Some (ContainerDied cid (case extract_exit_code line of Some c \<Rightarrow> c | None \<Rightarrow> -1))
         else if contains_str line ''/tasks/start'' then Some (ContainerStarted cid)
         else if contains_str line ''/tasks/oom'' then Some (ContainerOom cid)
         else None)"

text \<open>The stream of \<open>events\<close>: unreadable lines are dropped.\<close>

definition ct_events :: "(string + string) list \<Rightarrow> runtime_event list" where
  "ct_events ls = List.map_filter (\<lambda>l. case l of Inl _ \<Rightarrow> None | Inr line \<Rightarrow> event_of_line line) ls"

text \<open>\<open>events\<close>: \<open>spawn\<close> starts the command with its arguments; a child without a pipe has no lines.\<close>

definition ct_open_events ::
  "(string list \<Rightarrow> string + (string + string) list option) \<Rightarrow> containerd \<Rightarrow> runtime_event list res" where
  "ct_open_events spawn rt =
     (case spawn [''--namespace'', ct_namespace rt, ''events''] of
        Inl e \<Rightarrow> Err (Runtime (''failed to start ctr events: '' @ e))
      | Inr None \<Rightarrow> Err (Runtime ''no stdout from ctr events'')
      | Inr (Some ls) \<Rightarrow> Ok (ct_events ls))"

section \<open>Logs\<close>

text \<open>\<open>AsyncBufReadExt::lines\<close> on a whole file: its lines, or an error for text that is not UTF-8.\<close>

definition read_all_inner :: "faults \<Rightarrow> string \<Rightarrow> fs \<Rightarrow> string list res" where
  "read_all_inner flt path f =
     (case fs_read flt path f of
        Inl e \<Rightarrow> Err (Runtime (path @ '': '' @ e))
      | Inr c \<Rightarrow> if utf8_valid (str_bytes c) then Ok (lines c) else Err (Runtime ''stream did not contain valid UTF-8''))"

definition log_history :: "u64 option \<Rightarrow> string list \<Rightarrow> string list" where
  "log_history tail existing =
     (let n = (case tail of Some t \<Rightarrow> unat t | None \<Rightarrow> 100); skip = length existing - n
      in drop skip existing)"

text \<open>
  The poll loop. \<open>read_line\<close> reads from the current position up to and with the next line feed, or
  everything when there is none, and fails when that piece is not UTF-8; a piece loses its line
  feeds and then carriage returns at the end, and empty ones are not sent. An error is sent
  and ends the stream. A poll reads pieces until the end of the file, and continues at this position after a pause.
\<close>

fun read_lines :: "string \<Rightarrow> string \<Rightarrow> string list" where
  "read_lines acc [] = (if acc = [] then [] else [acc])"
| "read_lines acc (c # s) = (if c = CHR 0x0A then (acc @ [c]) # read_lines [] s else read_lines (acc @ [c]) s)"

fun send_lines :: "string list \<Rightarrow> string res list \<times> bool" where
  "send_lines [] = ([], True)"
| "send_lines (buf # bufs) =
     (if \<not> utf8_valid (str_bytes buf) then ([Err (Runtime ''stream did not contain valid UTF-8'')], False)
      else
        let line = trim_end_matches (CHR 0x0D) (trim_end_matches (CHR 0x0A) buf);
            (items, alive) = send_lines bufs
        in ((if line \<noteq> [] then [Ok line] else []) @ items, alive))"

fun follow :: "nat \<Rightarrow> (string + string) list \<Rightarrow> string res list" where
  "follow pos [] = []"
| "follow pos (Inl e # polls) = [Err (Runtime e)]"
| "follow pos (Inr content # polls) =
     (case send_lines (read_lines [] (drop pos content)) of
        (items, alive) \<Rightarrow> items @ (if alive then follow (max pos (length content)) polls else []))"

text \<open>
  The file while a reader follows it: its length when \<open>metadata\<close> is asked, the results of opening it
  again and of seeking, and its content (or a read error) at each poll.
\<close>

record followed_file =
  ff_len :: "string + nat"
  ff_open_err :: "string option"
  ff_seek_err :: "string option"
  ff_polls :: "(string + string) list"

text \<open>The items sent to a reader: the history, then what follows the length that was taken after it.\<close>

definition log_tail ::
  "faults \<Rightarrow> string \<Rightarrow> u64 option \<Rightarrow> followed_file \<Rightarrow> fs \<Rightarrow> string res list res" where
  "log_tail flt path tail w f =
     (if \<not> fs_exists path f then Err (Runtime (''log file not found: '' @ path))
      else (case read_all_inner flt path f of
              Inl e \<Rightarrow> Err e
            | Inr existing \<Rightarrow>
                (case ff_len w of
                   Inl e \<Rightarrow> Err (Runtime e)
                 | Inr byte_offset \<Rightarrow>
                     Ok (map Ok (log_history tail existing) @
                       (case ff_open_err w of
                          Some e \<Rightarrow> [Err (Runtime e)]
                        | None \<Rightarrow>
                            (case ff_seek_err w of
                               Some e \<Rightarrow> [Err (Runtime e)]
                             | None \<Rightarrow> follow byte_offset (ff_polls w)))))))"

definition ct_logs ::
  "faults \<Rightarrow> containerd \<Rightarrow> string \<Rightarrow> u64 option \<Rightarrow> followed_file \<Rightarrow> fs \<Rightarrow> string res list res" where
  "ct_logs flt rt cid tail w f = log_tail flt (stdout_log_path rt cid) tail w f"

section \<open>Runtime selection\<close>

datatype runtime_kind = Docker | ContainerdKind | Auto

text \<open>\<open>lower\<close> is \<open>str::to_lowercase\<close>.\<close>

definition runtime_kind_from_str :: "(string \<Rightarrow> string) \<Rightarrow> string \<Rightarrow> string + runtime_kind" where
  "runtime_kind_from_str lower s =
     (let t = lower s
      in if t = ''docker'' then Ok Docker
         else if t = ''containerd'' then Ok ContainerdKind
         else if t = ''auto'' then Ok Auto
         else Err (''unknown runtime: '' @ t @ ''. Use: docker, containerd, or auto''))"

definition runtime_kind_str :: "runtime_kind \<Rightarrow> string" where
  "runtime_kind_str k = (case k of Docker \<Rightarrow> ''docker'' | ContainerdKind \<Rightarrow> ''containerd'' | Auto \<Rightarrow> ''auto'')"

definition probe :: "fs \<Rightarrow> bool \<times> bool" where
  "probe f = (fs_exists ''/var/run/docker.sock'' f, fs_exists ''/run/containerd/containerd.sock'' f)"

definition auto_detect :: "fs \<Rightarrow> string + runtime_kind" where
  "auto_detect f =
     (let (docker, containerd) = probe f
      in if docker then Ok Docker
         else if containerd then Ok ContainerdKind
         else Err ''no container runtime found: neither Docker nor containerd socket detected'')"

definition resolve_runtime :: "fs \<Rightarrow> runtime_kind \<Rightarrow> string + runtime_kind" where
  "resolve_runtime f k = (case k of Auto \<Rightarrow> auto_detect f | _ \<Rightarrow> Ok k)"

section \<open>Properties\<close>

lemma split_on_hd: "c \<notin> set a \<Longrightarrow> hd (split_on c (a @ c # b)) = a"
  by simp

lemma registry_host_docker_io: "registry_host (''docker.io/'' @ x) = ''docker.io''"
proof -
  have "hd (split_on (CHR ''/'') (''docker.io'' @ CHR ''/'' # x)) = ''docker.io''" by (rule split_on_hd) simp
  then show ?thesis by (simp add: registry_host_def)
qed

lemma registry_host_append_tag:
  assumes "CHR '':'' \<notin> set img" shows "registry_host (img @ '':latest'') = registry_host img"
proof (cases "CHR ''/'' \<in> set img")
  case True
  then obtain a b where "img = a @ CHR ''/'' # b" "CHR ''/'' \<notin> set a" by (metis split_list_first)
  then show ?thesis by (simp add: registry_host_def)
next
  case False
  then have "CHR ''/'' \<notin> set (img @ '':latest'')" by simp
  then have "split_on (CHR ''/'') (img @ '':latest'') = [img @ '':latest'']" by (rule split_on_no_sep)
  moreover have "hd (split_on (CHR '':'') (img @ CHR '':'' # ''latest'')) = img" using assms by (rule split_on_hd)
  ultimately show ?thesis using False assms by (simp add: registry_host_def)
qed

lemma normalize_fixed:
  "CHR ''.'' \<in> set (registry_host r) \<Longrightarrow> CHR '':'' \<in> set r \<Longrightarrow> normalize_image_ref r = r"
  by (simp add: normalize_image_ref_def)

text \<open>Image references are normalised once and for all. The normalised reference names a registry
  (a first component with a dot) and contains a colon, and normalising it again changes nothing.\<close>

theorem normalize_image_ref_idempotent:
  "normalize_image_ref (normalize_image_ref img) = normalize_image_ref img
    \<and> CHR ''.'' \<in> set (registry_host (normalize_image_ref img))
    \<and> CHR '':'' \<in> set (normalize_image_ref img)"
proof (cases "CHR ''.'' \<in> set (registry_host img)")
  case True
  then show ?thesis
    using registry_host_append_tag [of img] by (auto simp: normalize_image_ref_def)
next
  case False
  obtain name tag where nt: "(case rsplit_once (CHR '':'') img of Some (n, t) \<Rightarrow> (n, t) | None \<Rightarrow> (img, ''latest'')) = (name, tag)"
    by (cases "rsplit_once (CHR '':'') img") auto
  obtain x where x: "normalize_image_ref img = ''docker.io/'' @ x" "CHR '':'' \<in> set x"
  proof (cases "CHR ''/'' \<in> set name")
    case True
    then show ?thesis using False nt by (intro that [of "name @ '':'' @ tag"]) (simp_all add: normalize_image_ref_def)
  next
    case no_org: False
    then show ?thesis using False nt
      by (intro that [of "''library/'' @ name @ '':'' @ tag"]) (simp_all add: normalize_image_ref_def)
  qed
  have "CHR ''.'' \<in> set (registry_host (normalize_image_ref img))"
    unfolding x(1) by (simp only: registry_host_docker_io) simp
  moreover have "CHR '':'' \<in> set (normalize_image_ref img)" using x by simp
  ultimately show ?thesis by (simp add: normalize_fixed)
qed

text \<open>A registry without a dot in its name is not recognised: \<open>host:port/repository\<close> with such a
  host becomes an image of the Docker Hub library whose tag is the rest of the reference.\<close>

theorem dotless_registry_rewritten:
  assumes "CHR ''.'' \<notin> set host" "CHR '':'' \<notin> set host" "CHR ''/'' \<notin> set host"
    "CHR '':'' \<notin> set port" "CHR ''/'' \<notin> set port" "CHR '':'' \<notin> set repo"
  shows "normalize_image_ref (host @ '':'' @ port @ ''/'' @ repo) =
    ''docker.io/library/'' @ host @ '':'' @ port @ ''/'' @ repo"
proof -
  let ?img = "host @ '':'' @ port @ ''/'' @ repo"
  have "hd (split_on (CHR ''/'') ((host @ '':'' @ port) @ CHR ''/'' # repo)) = host @ '':'' @ port"
    using assms by (intro split_on_hd) simp
  then have "registry_host ?img = host"
    using split_on_hd [OF assms(2), of port] by (simp add: registry_host_def)
  moreover have "rsplit_once (CHR '':'') (host @ CHR '':'' # (port @ ''/'' @ repo)) = Some (host, port @ ''/'' @ repo)"
    using assms by (intro rsplit_once_append) simp
  ultimately show ?thesis using assms by (simp add: normalize_image_ref_def)
qed

text \<open>Time does not go back, and a sleep lasts at least as long as asked.\<close>

definition clock_ok :: "'w ctr_env \<Rightarrow> bool" where
  "clock_ok E \<longleftrightarrow> (\<forall>args w. ce_now E (snd (ce_ctr E args w)) \<ge> ce_now E w)
     \<and> (\<forall>d w. ce_now E (ce_sleep E d w) \<ge> ce_now E w + d)"

lemma ctr_clock: "clock_ok E \<Longrightarrow> ctr E rt args w = (r, w1) \<Longrightarrow> ce_now E w1 \<ge> ce_now E w"
  by (auto simp: ctr_def clock_ok_def split: prod.splits sum.splits) (metis snd_conv)+

lemma stop_wait_terminates:
  assumes "clock_ok E" "deadline - ce_now E w \<le> int n * 500000000"
  shows "stop_wait (Suc n) E rt cid deadline w \<noteq> None"
  using assms(2)
proof (induction n arbitrary: w)
  case 0
  then show ?case by simp
next
  case (Suc n)
  show ?case
  proof (cases "ctr E rt [''tasks'', ''list''] w")
    case (Pair r w1)
    have "ce_now E (ce_sleep E 500000000 w1) \<ge> ce_now E w1 + 500000000"
      using assms(1) by (auto simp: clock_ok_def)
    then have "ce_now E (ce_sleep E 500000000 w1) \<ge> ce_now E w + 500000000"
      using ctr_clock [OF assms(1) Pair] by linarith
    then have "deadline - ce_now E (ce_sleep E 500000000 w1) \<le> int n * 500000000"
      using Suc.prems by (simp add: algebra_simps)
    then have "stop_wait (Suc n) E rt cid deadline (ce_sleep E 500000000 w1) \<noteq> None" by (rule Suc.IH)
    then show ?thesis by (subst stop_wait.simps) (auto simp: Pair split: sum.splits simp del: stop_wait.simps)
  qed
qed

lemma stop_container_ends:
  assumes "clock_ok E" "fuel \<ge> 2 * unat timeout + 1"
  shows "\<exists>r w'. ct_stop_container fuel E rt cid timeout w = Some (r, w')"
proof -
  obtain n where n: "fuel = Suc n" "2 * unat timeout \<le> n" using assms(2) by (cases fuel) auto
  have "stop_wait fuel E rt cid (ce_now E w1 + secs (uint timeout)) w1 \<noteq> None" for w1
  proof -
    have "int (2 * unat timeout) \<le> int n" using n(2) by (simp only: of_nat_le_iff)
    then show ?thesis unfolding n(1) by (intro stop_wait_terminates [OF assms(1)]) (simp add: secs_def)
  qed
  then have wait: "\<exists>r w2. stop_wait fuel E rt cid (ce_now E w1 + secs (uint timeout)) w1 = Some (r, w2)" for w1
    by (metis option.exhaust surj_pair)
  obtain t w1 where t: "ctr E rt [''tasks'', ''kill'', ''--signal'', ''SIGTERM'', cid] w = (t, w1)" by fastforce
  obtain r w2 where r: "stop_wait fuel E rt cid (ce_now E w1 + secs (uint timeout)) w1 = Some (r, w2)"
    using wait by blast
  obtain k w3 where k: "ctr_ok E rt [''tasks'', ''kill'', ''--signal'', ''SIGKILL'', cid] w2 = (k, w3)" by fastforce
  show ?thesis
    by (cases t; cases r; cases k) (auto simp: ct_stop_container_def t r k split: bool.split)
qed

text \<open>C26: stopping a container ends. Whatever \<open>ctr\<close> answers, with a clock that does not go back the
  operation returns after at most two polls per second of the timeout, plus one.\<close>

theorem stop_container_returns:
  assumes "clock_ok E" "fuel \<ge> 2 * unat timeout + 1"
  shows "\<exists>r w'. ct_stop_container fuel E rt cid timeout w = Some (r, w')"
  using assms by (rule stop_container_ends)

text \<open>The operations that change the runtime's maps, in any order.\<close>

datatype ct_op = StartContainer string | RemoveContainer string bool | ConnectToNetwork string string

fun ct_step :: "'w ctr_env \<Rightarrow> (cni_error \<Rightarrow> string) \<Rightarrow> ct_op \<Rightarrow> containerd \<times> 'w \<Rightarrow> containerd \<times> 'w" where
  "ct_step E txt (StartContainer c) (rt, w) = snd (ct_start_container E c rt w)"
| "ct_step E txt (RemoveContainer c b) (rt, w) = snd (ct_remove_container E c b rt w)"
| "ct_step E txt (ConnectToNetwork c n) (rt, w) = (snd (ct_connect_to_network txt c n rt), w)"

lemma ct_step_network_map:
  "network_map (fst s) = [] \<Longrightarrow> network_map (fst (ct_step E txt oper s)) = []"
  by (cases s; cases oper)
     (auto simp: ct_start_container_def ct_remove_container_def ct_connect_to_network_def attach_def hm_remove_def
       split: prod.splits sum.splits option.splits)

text \<open>With containerd no container address is ever known. After any history of starts, removals and
  network connections, \<open>container_ip\<close> reports an error for every container and network, because
  attaching to a CNI network is not implemented.\<close>

theorem containerd_ip_unknown:
  "\<exists>m. ct_container_ip cid net (fst (fold (ct_step E txt) ops (containerd_new dir, w))) = Err (Runtime m)"
proof -
  have "network_map (fst s) = [] \<Longrightarrow> network_map (fst (fold (ct_step E txt) ops s)) = []" for s
    by (induction ops arbitrary: s) (simp_all add: ct_step_network_map)
  from this [of "(containerd_new dir, w)"] show ?thesis
    by (simp add: ct_container_ip_def containerd_new_def)
qed

lemma read_lines_append: "CHR 0x0A \<notin> set l \<Longrightarrow> read_lines acc (l @ CHR 0x0A # s) = (acc @ l @ [CHR 0x0A]) # read_lines [] s"
  by (induction l arbitrary: acc) auto

lemma read_lines_last: "CHR 0x0A \<notin> set l \<Longrightarrow> read_lines acc l = (if acc @ l = [] then [] else [acc @ l])"
  by (induction l arbitrary: acc) auto

lemma str_bytes_cut: "str_bytes (l @ CHR 0x0A # r) = str_bytes l @ 10 # str_bytes r"
  by (simp add: str_bytes_def)

text \<open>What one poll sends for valid data: the pieces between line feeds without carriage returns at their end,
  as far as they are not empty.\<close>

definition sent_pieces :: "string \<Rightarrow> string list" where
  "sent_pieces d = filter (\<lambda>l. l \<noteq> []) (map (trim_end_matches (CHR 0x0D)) (split_on (CHR 0x0A) d))"

lemma trim_no_feed: "CHR 0x0A \<notin> set l \<Longrightarrow> trim_end_matches (CHR 0x0A) l = l"
  by (metis last_in_set trim_end_matches_id)

lemma send_lines_valid:
  "utf8_valid (str_bytes d) \<Longrightarrow> send_lines (read_lines [] d) = (map Ok (sent_pieces d), True)"
proof (induction "length d" arbitrary: d rule: less_induct)
  case less
  show ?case
  proof (cases "CHR 0x0A \<in> set d")
    case False
    then show ?thesis
      using less.prems by (simp add: read_lines_last sent_pieces_def trim_no_feed)
  next
    case True
    then obtain l r where d: "d = l @ CHR 0x0A # r" "CHR 0x0A \<notin> set l" by (meson split_list_first)
    have v: "utf8_valid (str_bytes l)" "utf8_valid (str_bytes r)"
      using utf8_valid_cut [of "str_bytes l" 10 "str_bytes r"] less.prems unfolding d(1) str_bytes_cut by auto
    have "utf8_valid (str_bytes (l @ [CHR 0x0A]))"
      using utf8_valid_append [OF v(1), of "[10]"] str_bytes_cut [of l "[]"] by (simp add: str_bytes_def)
    moreover have "send_lines (read_lines [] r) = (map Ok (sent_pieces r), True)" using less.hyps [of r] v(2) d(1) by simp
    ultimately show ?thesis
      by (simp add: d read_lines_append sent_pieces_def split_on_append trim_no_feed)
  qed
qed

text \<open>The contents of a file that grows by the given pieces.\<close>

fun grow :: "string \<Rightarrow> string list \<Rightarrow> string list" where
  "grow c [] = []"
| "grow c (d # ds) = (c @ d) # grow (c @ d) ds"

lemma follow_grow:
  "list_all (\<lambda>d. utf8_valid (str_bytes d)) ds \<Longrightarrow>
     follow (length c) (map Inr (grow c ds)) = map Ok (concat (map sent_pieces ds))"
proof (induction ds arbitrary: c)
  case (Cons d ds)
  then show ?case using Cons.IH [of "c @ d"] by (simp add: send_lines_valid)
qed simp

text \<open>C33: a log reader gets the last lines first. For an existing UTF-8 log, whatever its text, the stream
  starts with the last \<open>n\<close> lines of the file (100 when no number is given), in order, all of them
  when the file is shorter. Without faults, and when nothing is written between the reading of
  the history and the taking of the length, it goes on with what each poll finds appended, if
  that is UTF-8: the pieces between line feeds, without carriage returns at their end and
  without the empty ones. A line that is appended in two polls arrives as two pieces.\<close>

theorem log_tail_correct:
  assumes "hm_get f path = Some c" "utf8_valid (str_bytes c)" "list_all (\<lambda>d. utf8_valid (str_bytes d)) added"
    "w = \<lparr>ff_len = Inr (length c), ff_open_err = None, ff_seek_err = None, ff_polls = map Inr (grow c added)\<rparr>"
  shows "log_tail no_faults path tail w f = Ok (map Ok (
      drop (length (lines c) - (case tail of Some n \<Rightarrow> unat n | None \<Rightarrow> 100)) (lines c)
      @ concat (map (\<lambda>d. filter (\<lambda>l. l \<noteq> []) (map (trim_end_matches (CHR 0x0D)) (split_on (CHR 0x0A) d))) added)))"
proof -
  have "read_all_inner no_faults path f = Ok (lines c)" using assms(1,2) by (simp add: read_all_inner_def)
  then show ?thesis
    using assms(1) follow_grow [OF assms(3), of c]
    by (simp add: log_tail_def fs_exists_def log_history_def assms(4) sent_pieces_def [abs_def])
qed

text \<open>Lines that are written while the reader starts can be lost: what is appended between the reading of the
  history and the taking of the length belongs to neither part.\<close>

theorem log_gap_is_lost:
  assumes "hm_get f path = Some c" "utf8_valid (str_bytes c)" "list_all (\<lambda>d. utf8_valid (str_bytes d)) added"
    "w = \<lparr>ff_len = Inr (length (c @ gap)), ff_open_err = None, ff_seek_err = None, ff_polls = map Inr (grow (c @ gap) added)\<rparr>"
  shows "log_tail no_faults path tail w f = Ok (map Ok (log_history tail (lines c) @ concat (map sent_pieces added)))"
proof -
  have "read_all_inner no_faults path f = Ok (lines c)" using assms(1,2) by (simp add: read_all_inner_def)
  then show ?thesis
    using assms(1) follow_grow [OF assms(3), of "c @ gap"] by (simp add: log_tail_def fs_exists_def assms(4))
qed

section \<open>Witnesses\<close>

definition sample_env :: "instant ctr_env" where
  "sample_env = \<lparr>ce_ctr = (\<lambda>_ w. (Ok \<lparr>out_success = True, out_stdout = ''app RUNNING'', out_stderr = []\<rparr>, w + 1)),
     ce_lossy = (\<lambda>s. s), ce_now = (\<lambda>w. w), ce_sleep = (\<lambda>d w. w + d), ce_mkdir = (\<lambda>_ w. (Ok (), w)),
     ce_remove_dir = (\<lambda>_ w. w)\<rparr>"

theorem stop_container_returns_witness:
  "\<exists>r w'. ct_stop_container 11 sample_env (containerd_new ''/d'') ''app'' 5 0 = Some (r, w')"
  by (rule stop_container_returns) (simp_all add: clock_ok_def sample_env_def)

theorem log_tail_correct_witness:
  "log_tail no_faults ''l'' (Some 2)
      \<lparr>ff_len = Inr (length (unlines [''a'', ''b''] @ ''c'')), ff_open_err = None, ff_seek_err = None,
       ff_polls = map Inr (grow (unlines [''a'', ''b''] @ ''c'') [unlines [[], ''d''], ''e''])\<rparr>
      [(''l'', unlines [''a'', ''b''] @ ''c'')]
    = Ok (map Ok [''b'', ''c'', ''d'', ''e''])"
proof -
  let ?c = "unlines [''a'', ''b''] @ ''c''"
  have v: "utf8_valid (str_bytes ?c)" "list_all (\<lambda>d. utf8_valid (str_bytes d)) [unlines [[], ''d''], ''e'']"
    by code_simp+
  have "lines ?c = [''a'', ''b'', ''c'']" by code_simp
  then show ?thesis
    using log_tail_correct [of "[(''l'', ?c)]" "''l''" ?c, OF _ v refl, of "Some 2"] by (simp add: hm_get_def)
qed

end
