(* ===== verification/Containerd_Engine.thy ===== *)
theory Containerd_Engine
  imports Containerd Transport
begin

text \<open>
  The containerd runtime behind the runtime port (\<open>impl ContainerRuntime for ContainerdRuntime\<close> of
  \<open>src/adapters/runtime/containerd.rs\<close>): the operations of \<open>Containerd\<close> over one state, the runtime's
  own maps, the files of its CNI manager and the world of the \<open>ctr\<close> program. What \<open>ctr\<close>
  documents about its containers is the predicate \<open>ctr_documented\<close>; \<open>container_engine\<close> is
  interpreted on this runtime, so that the lemmas on pod assignment hold for it.
\<close>

section \<open>The port\<close>

type_synonym 'w ct_state = "containerd \<times> fs \<times> 'w"

text \<open>\<open>stop_container\<close> with the fuel that \<open>stop_container_returns\<close> shows to be enough; the branch for used-up
  fuel is not reached with a clock that does not go back.\<close>

definition ct_port_stop :: "'w ctr_env \<Rightarrow> string \<Rightarrow> u64 \<Rightarrow> 'w ct_state \<Rightarrow> unit res \<times> 'w ct_state" where
  "ct_port_stop E cid t s =
     (case s of (rt, f, w) \<Rightarrow>
        (case ct_stop_container (2 * unat t + 1) E rt cid t w of
           Some (x, w1) \<Rightarrow> (x, rt, f, w1)
         | None \<Rightarrow> (Err (Runtime ''stop_container still waiting''), rt, f, w)))"

definition containerd_runtime ::
  "'w ctr_env \<Rightarrow> (cni_error \<Rightarrow> string) \<Rightarrow> (cni_config \<Rightarrow> string + string) \<Rightarrow> faults \<Rightarrow> 'w ct_state runtime" where
  "containerd_runtime E cni_text to_json flt =
     \<lparr>rt_pull_image = (\<lambda>img (rt, f, w). case ct_pull_image E rt img w of (x, w1) \<Rightarrow> (x, rt, f, w1)),
      rt_create_container = (\<lambda>c (rt, f, w). case ct_create_container E rt c w of (x, w1) \<Rightarrow> (x, rt, f, w1)),
      rt_start_container = (\<lambda>cid (rt, f, w). case ct_start_container E cid rt w of (x, rt1, w1) \<Rightarrow> (x, rt1, f, w1)),
      rt_stop_container = ct_port_stop E,
      rt_remove_container = (\<lambda>cid force (rt, f, w). case ct_remove_container E cid force rt w of (x, rt1, w1) \<Rightarrow> (x, rt1, f, w1)),
      rt_container_exists = (\<lambda>n (rt, f, w). case ct_container_exists E rt n w of (x, w1) \<Rightarrow> (x, rt, f, w1)),
      rt_create_network = (\<lambda>n (rt, f, w). case ct_create_network cni_text to_json flt n rt f of (x, rt1, f1) \<Rightarrow> (x, rt1, f1, w))\<rparr>"

lemma ct_port_stop_returns:
  assumes "clock_ok E"
  shows "\<exists>x w1. ct_stop_container (2 * unat t + 1) E rt cid t w = Some (x, w1) \<and> ct_port_stop E cid t (rt, f, w) = (x, rt, f, w1)"
  using stop_container_ends [OF assms, of t "2 * unat t + 1" rt cid w] by (auto simp: ct_port_stop_def)

section \<open>What \<open>ctr\<close> documents\<close>

definition run_ctr :: "'w ctr_env \<Rightarrow> string list \<Rightarrow> 'w \<Rightarrow> (string + cmd_output) \<times> 'w" where
  "run_ctr E args w = ce_ctr E ([''--namespace'', ''nexa''] @ args) w"

text \<open>
  \<open>ks\<close> gives, for a name in the namespace \<open>nexa\<close>, the command line that created the container and
  whether a task was started for it. Pulling, listing and signalling change no container;
  \<open>containers info\<close> succeeds for the existing ones; deletions concern the named container; neither time
  nor the log directories do anything to containers.
\<close>

definition ctr_documented :: "'w ctr_env \<Rightarrow> ('w \<Rightarrow> string \<Rightarrow> (string list \<times> bool) option) \<Rightarrow> bool" where
  "ctr_documented E ks \<longleftrightarrow>
     (\<forall>r w. ks (snd (run_ctr E [''images'', ''pull'', r] w)) = ks w)
   \<and> (\<forall>w. ks (snd (run_ctr E [''tasks'', ''list''] w)) = ks w)
   \<and> (\<forall>sg n w. ks (snd (run_ctr E [''tasks'', ''kill'', ''--signal'', sg, n] w)) = ks w)
   \<and> (\<forall>n w. ks (snd (run_ctr E [''containers'', ''info'', n] w)) = ks w)
   \<and> (\<forall>n w out. fst (run_ctr E [''containers'', ''info'', n] w) = Ok out \<longrightarrow> (out_success out \<longleftrightarrow> ks w n \<noteq> None))
   \<and> (\<forall>n w m. m \<noteq> n \<longrightarrow> ks (snd (run_ctr E [''tasks'', ''delete'', n] w)) m = ks w m)
   \<and> (\<forall>n w m. m \<noteq> n \<longrightarrow> ks (snd (run_ctr E [''containers'', ''delete'', n] w)) m = ks w m)
   \<and> (\<forall>img n opts w out w'. run_ctr E ([''containers'', ''create'', img, n] @ opts) w = (Ok out, w') \<longrightarrow> out_success out \<longrightarrow>
        ks w' = (ks w)(n \<mapsto> ([''containers'', ''create'', img, n] @ opts, False)))
   \<and> (\<forall>n a b w out w'. ks w n = Some (a, b) \<longrightarrow> run_ctr E [''tasks'', ''start'', ''--detach'', n] w = (Ok out, w') \<longrightarrow>
        out_success out \<longrightarrow> ks w' = (ks w)(n \<mapsto> (a, True)))
   \<and> (\<forall>d w. ks (ce_sleep E d w) = ks w)
   \<and> (\<forall>p w. ks (snd (ce_mkdir E p w)) = ks w)
   \<and> (\<forall>p w. ks (ce_remove_dir E p w) = ks w)"

lemma ctr_documentedD:
  assumes "ctr_documented E ks"
  shows "ks (snd (run_ctr E [''images'', ''pull'', r] w)) = ks w"
    "ks (snd (run_ctr E [''tasks'', ''list''] w)) = ks w"
    "ks (snd (run_ctr E [''tasks'', ''kill'', ''--signal'', sg, n] w)) = ks w"
    "ks (snd (run_ctr E [''containers'', ''info'', n] w)) = ks w"
    "ks (ce_sleep E d w) = ks w" "ks (snd (ce_mkdir E p w)) = ks w" "ks (ce_remove_dir E p w) = ks w"
  using assms unfolding ctr_documented_def by simp_all

lemma ctr_documented_info:
  "ctr_documented E ks \<Longrightarrow> fst (run_ctr E [''containers'', ''info'', n] w) = Ok out \<Longrightarrow> out_success out \<longleftrightarrow> ks w n \<noteq> None"
  unfolding ctr_documented_def by meson

lemma ctr_documented_delete:
  assumes "ctr_documented E ks" "m \<noteq> n"
  shows "ks (snd (run_ctr E [''tasks'', ''delete'', n] w)) m = ks w m"
    "ks (snd (run_ctr E [''containers'', ''delete'', n] w)) m = ks w m"
  using assms unfolding ctr_documented_def by meson+

lemma ctr_documented_create:
  "ctr_documented E ks \<Longrightarrow> run_ctr E ([''containers'', ''create'', img, n] @ opts) w = (Ok out, w') \<Longrightarrow> out_success out \<Longrightarrow>
   ks w' = (ks w)(n \<mapsto> ([''containers'', ''create'', img, n] @ opts, False))"
  unfolding ctr_documented_def by meson

lemma ctr_documented_start:
  "ctr_documented E ks \<Longrightarrow> ks w n = Some (a, b) \<Longrightarrow> run_ctr E [''tasks'', ''start'', ''--detach'', n] w = (Ok out, w') \<Longrightarrow>
   out_success out \<Longrightarrow> ks w' = (ks w)(n \<mapsto> (a, True))"
  unfolding ctr_documented_def by meson

section \<open>The contract of an engine\<close>

definition ct_containers ::
  "('w \<Rightarrow> string \<Rightarrow> (string list \<times> bool) option) \<Rightarrow> 'w ct_state \<Rightarrow> string \<Rightarrow> (string \<times> string list \<times> bool) option" where
  "ct_containers ks s n = (case s of (rt, f, w) \<Rightarrow> map_option (\<lambda>(a, b). (n, a, b)) (ks w n))"

definition ct_ready :: "'w ctr_env \<Rightarrow> ('w \<Rightarrow> string \<Rightarrow> (string list \<times> bool) option) \<Rightarrow> 'w ct_state \<Rightarrow> bool" where
  "ct_ready E ks s \<longleftrightarrow> ctr_documented E ks \<and> ct_namespace (fst s) = ''nexa''"

lemma ct_ctr: "ct_namespace rt = ''nexa'' \<Longrightarrow>
    ctr E rt args w = (case run_ctr E args w of (Inl e, w1) \<Rightarrow> (Err (Runtime (''failed to run ctr: '' @ e)), w1) | (Inr out, w1) \<Rightarrow> (Ok out, w1))"
  by (simp add: ctr_def run_ctr_def)

lemma ctr_world: "ct_namespace rt = ''nexa'' \<Longrightarrow> snd (ctr E rt args w) = snd (run_ctr E args w)"
  by (simp add: ct_ctr split: prod.split sum.split)

lemma ctr_ok_world: "ct_namespace rt = ''nexa'' \<Longrightarrow> snd (ctr_ok E rt args w) = snd (run_ctr E args w)"
  using ctr_world [of rt E args w] by (auto simp: ctr_ok_def split: prod.split sum.split)

lemma ctr_ok_Ok:
  "ct_namespace rt = ''nexa'' \<Longrightarrow> ctr_ok E rt args w = (Ok x, w') \<Longrightarrow>
   \<exists>out. run_ctr E args w = (Ok out, w') \<and> out_success out"
  by (auto simp: ctr_ok_def ct_ctr split: prod.splits sum.splits if_splits)

lemma stop_wait_keeps:
  assumes "ctr_documented E ks" "ct_namespace rt = ''nexa''"
  shows "stop_wait fuel E rt cid deadline w = Some (x, w') \<Longrightarrow> ks w' = ks w"
proof (induction fuel arbitrary: w)
  case (Suc fuel)
  obtain c w1 where c: "ctr E rt [''tasks'', ''list''] w = (c, w1)" by fastforce
  then have "ks w1 = ks w"
    using ctr_world [OF assms(2), of E "[''tasks'', ''list'']" w] ctr_documentedD(2) [OF assms(1), of w] by simp
  then show ?case
    using Suc.prems Suc.IH [of "ce_sleep E 500000000 w1"] ctr_documentedD(5) [OF assms(1)]
    by (auto simp: c split: sum.splits if_splits)
qed simp

lemma ct_stop_keeps:
  assumes "ctr_documented E ks" "ct_namespace rt = ''nexa''" "ct_stop_container fuel E rt cid t w = Some (x, w')"
  shows "ks w' = ks w"
proof -
  have kill: "ks (snd (ctr E rt [''tasks'', ''kill'', ''--signal'', sg, cid] v)) = ks v"
    "ks (snd (ctr_ok E rt [''tasks'', ''kill'', ''--signal'', sg, cid] v)) = ks v" for sg v
    by (simp_all add: ctr_world [OF assms(2)] ctr_ok_world [OF assms(2)] ctr_documentedD [OF assms(1)])
  obtain a w1 where a: "ctr E rt [''tasks'', ''kill'', ''--signal'', ''SIGTERM'', cid] w = (a, w1)" by fastforce
  have w1: "ks w1 = ks w" using kill(1) [of "''SIGTERM''" w] by (simp add: a)
  show ?thesis
  proof (cases "(\<exists>out. a = Ok out \<and> out_success out) \<and> (\<exists>w2. stop_wait fuel E rt cid (ce_now E w1 + secs (uint t)) w1 = Some (Ok False, w2))")
    case True
    then obtain w2 where w2: "stop_wait fuel E rt cid (ce_now E w1 + secs (uint t)) w1 = Some (Ok False, w2)" by blast
    obtain k w3 where k: "ctr_ok E rt [''tasks'', ''kill'', ''--signal'', ''SIGKILL'', cid] w2 = (k, w3)" by fastforce
    have "w' = w3" using assms(3) True w2 k by (auto simp: ct_stop_container_def a split: sum.splits)
    then show ?thesis using kill(2) [of "''SIGKILL''" w2] stop_wait_keeps [OF assms(1,2) w2] w1 by (simp add: k)
  next
    case False
    then have "w' = w1 \<or> (\<exists>x. stop_wait fuel E rt cid (ce_now E w1 + secs (uint t)) w1 = Some (x, w'))"
      using assms(3) by (auto simp: ct_stop_container_def a split: sum.splits option.splits bool.splits if_splits)
    then show ?thesis using stop_wait_keeps [OF assms(1,2)] w1 by metis
  qed
qed

lemma ct_start_spec:
  assumes "ctr_documented E ks" "ct_namespace rt = ''nexa''" "ks w n = Some (a, b)" "ct_start_container E n rt w = (Ok (), rt', w')"
  shows "ct_namespace rt' = ''nexa'' \<and> ks w' = (ks w)(n \<mapsto> (a, True))"
proof -
  obtain out where "run_ctr E [''tasks'', ''start'', ''--detach'', n] w = (Ok out, w')" "out_success out"
    and "ct_namespace rt' = ''nexa''"
    using assms(2,4) by (auto simp: ct_start_container_def run_ctr_def split: prod.splits sum.splits if_splits option.splits)
  then show ?thesis using ctr_documented_start [OF assms(1,3)] by blast
qed

lemma ct_remove_spec:
  assumes "ctr_documented E ks" "ct_namespace rt = ''nexa''" "ct_remove_container E n force rt w = (x, rt', w')"
  shows "ct_namespace rt' = ''nexa'' \<and> (\<forall>m. m \<noteq> n \<longrightarrow> ks w' m = ks w m)"
proof -
  obtain a w1 where 1: "ctr E rt [''tasks'', ''delete'', n] w = (a, w1)" by fastforce
  obtain b w2 where 2: "ctr_ok E rt [''containers'', ''delete'', n] w1 = (b, w2)" by fastforce
  have "w1 = snd (run_ctr E [''tasks'', ''delete'', n] w)"
    using ctr_world [OF assms(2), of E "[''tasks'', ''delete'', n]" w] unfolding 1 by simp
  moreover have "w2 = snd (run_ctr E [''containers'', ''delete'', n] w1)"
    using ctr_ok_world [OF assms(2), of E "[''containers'', ''delete'', n]" w1] unfolding 2 by simp
  ultimately have "ks w1 m = ks w m" "ks w2 m = ks w1 m" if "m \<noteq> n" for m
    using ctr_documented_delete [OF assms(1) that] by simp_all
  moreover have "ct_namespace rt' = ''nexa''" "w' = w1 \<or> w' = w2 \<or> w' = ce_remove_dir E (log_dir rt n) w2"
    using assms(2,3) by (auto simp: ct_remove_container_def 1 2 split: sum.splits)
  ultimately show ?thesis using ctr_documentedD(7) [OF assms(1)] by fastforce
qed

lemma ct_create_spec:
  assumes "ctr_documented E ks" "ct_namespace rt = ''nexa''" "ct_create_container E rt c w = (Ok i, w')"
  shows "i = cc_name c \<and> ks w' = (ks w)(cc_name c \<mapsto> (create_args c, False))"
proof -
  obtain x w1 where 1: "ctr_ok E rt (create_args c) w = (Ok x, w1)"
    and 2: "ce_mkdir E (log_dir rt (cc_name c)) w1 = (Ok (), w')" "i = cc_name c"
    using assms(3) by (auto simp: ct_create_container_def split: prod.splits sum.splits)
  obtain out where "run_ctr E (create_args c) w = (Ok out, w1)" "out_success out"
    using ctr_ok_Ok [OF assms(2) 1] by blast
  then have "ks w1 = (ks w)(cc_name c \<mapsto> (create_args c, False))"
    using ctr_documented_create [OF assms(1), of "normalize_image_ref (cc_image c)" "cc_name c" "drop 4 (create_args c)"]
    by (simp add: create_args_def)
  then show ?thesis using 2 ctr_documentedD(6) [OF assms(1), of "log_dir rt (cc_name c)" w1] by simp
qed

lemma ct_network_spec:
  "ct_create_network txt to_json flt n rt f = (x, rt', f') \<Longrightarrow> ct_namespace rt' = ct_namespace rt"
  by (auto simp: ct_create_network_def split: prod.splits sum.splits)

lemma ct_exists_Ok:
  "ctr_documented E ks \<Longrightarrow> ct_namespace rt = ''nexa'' \<Longrightarrow> ct_container_exists E rt n w = (Ok b, w') \<Longrightarrow> b \<longleftrightarrow> ks w n \<noteq> None"
  using ctr_documented_info [of E ks n w] by (auto simp: ct_container_exists_def ct_ctr split: prod.splits sum.splits)

lemma ct_exists_world:
  "ctr_documented E ks \<Longrightarrow> ct_namespace rt = ''nexa'' \<Longrightarrow> ct_container_exists E rt n w = (x, w') \<Longrightarrow> ks w' = ks w"
  using ctr_world [of rt E "[''containers'', ''info'', n]" w] ctr_documentedD(4) [of E ks n w]
  by (auto simp: ct_container_exists_def split: prod.splits sum.splits)

lemma ct_pull_world:
  "ctr_documented E ks \<Longrightarrow> ct_namespace rt = ''nexa'' \<Longrightarrow> ct_pull_image E rt img w = (x, w') \<Longrightarrow> ks w' = ks w"
  using ctr_ok_world [of rt E "[''images'', ''pull'', normalize_image_ref img]" w] ctr_documentedD(1) [of E ks "normalize_image_ref img" w]
  by (auto simp: ct_pull_image_def split: prod.splits sum.splits)

lemmas ct_containers_simps = ct_containers_def ct_ready_def containerd_runtime_def

interpretation ctd: container_engine "containerd_runtime E cni_text to_json flt" "ct_containers ks" create_args "ct_ready E ks"
  for E cni_text to_json flt ks
proof (unfold_locales, goal_cases)
  case (1 r img x r')
  then show ?case using ct_pull_world [of E ks "fst r" img]
    by (cases r) (force simp: ct_containers_simps fun_eq_iff split: prod.splits)
next
  case (2 r n y r')
  then show ?case using ct_network_spec [of cni_text to_json flt n "fst r"]
    by (cases r) (auto simp: ct_containers_simps fun_eq_iff split: prod.splits)
next
  case (3 r n z r')
  then show ?case using ct_exists_world [of E ks "fst r" n]
    by (cases r) (force simp: ct_containers_simps fun_eq_iff split: prod.splits)
next
  case (4 r n b r')
  then show ?case using ct_exists_Ok [of E ks "fst r" n]
    by (cases r) (auto simp: ct_containers_simps split: prod.splits)
next
  case (5 r n t x r')
  then show ?case using ct_stop_keeps [of E ks "fst r" "2 * unat t + 1" n t]
    by (cases r) (fastforce simp: ct_containers_simps ct_port_stop_def split: option.splits)
next
  case (6 r n f x r')
  then show ?case using ct_remove_spec [of E ks "fst r" n f]
    by (cases r) (fastforce simp: ct_containers_simps split: prod.splits)
next
  case (7 r c i r')
  then show ?case using ct_create_spec [of E ks "fst r" c]
    by (cases r) (fastforce simp: ct_containers_simps fun_eq_iff split: prod.splits)
next
  case (8 r n i d b r')
  obtain rt f w where r: "r = (rt, f, w)" by (cases r)
  obtain rt' f' w' where r': "r' = (rt', f', w')" by (cases r')
  have "ks w n = Some (d, b)" "i = n" "ct_start_container E n rt w = (Ok (), rt', w')"
    using 8(2,3) by (auto simp: r r' ct_containers_def containerd_runtime_def split: prod.splits)
  then show ?case using ct_start_spec [of E ks rt w n d b rt' w'] 8(1)
    by (simp add: r r' ct_containers_def ct_ready_def fun_eq_iff)
qed

section \<open>Properties\<close>

lemma ct_containers_update:
  assumes "ct_containers ks (rt', f', w') = (ct_containers ks (rt, f, w))(n \<mapsto> (i, a, b))"
  shows "ks w' = (ks w)(n \<mapsto> (a, b))"
proof
  fix m
  have "map_option (\<lambda>(a, b). (m, a, b)) (ks w' m) =
      (if m = n then Some (i, a, b) else map_option (\<lambda>(a, b). (m, a, b)) (ks w m))"
    using fun_cong [OF assms, of m] by (simp add: ct_containers_def split: if_splits)
  then show "ks w' m = ((ks w)(n \<mapsto> (a, b))) m"
    by (cases "ks w' m"; cases "ks w m") (auto split: if_splits)
qed

text \<open>C6: a pod assigned over gRPC to a containerd worker runs there. When the master's call succeeds,
  the worker has a container under the pod's name, created by exactly the command line that
  describes the pod and its spec, and started; every other container and the master's store
  are as before, whatever ran under that name.\<close>

theorem containerd_worker_runs_pod:
  assumes "ctr_documented E ks" "ct_namespace rt = ''nexa''" "json_ok co"
    "grpc_assign_pod co (worker_client co st (containerd_runtime E cni_text to_json flt) D h) ident pod spec t ((rt, f, w), s) =
      (Ok (), (rt', f', w'), s')"
  shows "s' = s \<and> ks w' = (ks w)(container_name co pod \<mapsto> (create_args (pod_config co pod spec), True))"
  using ctd.grpc_assign_runs_pod [OF _ assms(3,4)] assms(1,2) by (auto simp: ct_ready_def dest!: ct_containers_update)

text \<open>What a container is created with does not depend on the command, the ports, the network and the
  DNS settings of its configuration: no port of a deployment is published, and the project's
  network is never joined.\<close>

lemma create_args_drops:
  "create_args (c\<lparr>cc_command := cmd, cc_ports := ps, cc_network := net, cc_dns := dns, cc_dns_search := search\<rparr>) = create_args c"
  by (simp add: create_args_def)

lemma contains_str_trans: "contains_str s t \<Longrightarrow> contains_str t p \<Longrightarrow> contains_str s p"
  unfolding contains_str_iff by (metis append_assoc)

definition listed_running :: "'w ctr_env \<Rightarrow> containerd \<Rightarrow> string \<Rightarrow> bool" where
  "listed_running E rt name \<longleftrightarrow>
     (\<forall>w. \<exists>out w'. ctr E rt [''tasks'', ''list''] w = (Ok out, w') \<and> task_running name (ce_lossy E (out_stdout out)))"

lemma task_running_shared: "task_running other l \<Longrightarrow> contains_str other cid \<Longrightarrow> task_running cid l"
  by (auto simp: task_running_def list_ex_iff intro: contains_str_trans)

lemma stop_wait_deadline:
  assumes "listed_running E rt other" "contains_str other cid"
  shows "stop_wait fuel E rt cid deadline w = Some (x, w') \<Longrightarrow> x = Ok False \<and> deadline \<le> ce_now E w'"
proof (induction fuel arbitrary: w)
  case (Suc fuel)
  obtain out w1 where l: "ctr E rt [''tasks'', ''list''] w = (Ok out, w1)" "task_running other (ce_lossy E (out_stdout out))"
    using assms(1) unfolding listed_running_def by blast
  then have "task_running cid (ce_lossy E (out_stdout out))" using task_running_shared assms(2) by blast
  then show ?case using Suc by (auto simp: l(1) split: if_splits)
qed simp

text \<open>C27: a container cannot be stopped cleanly while another one whose name contains its own keeps running.
  The task list is searched for the name as a substring, so the other container's line is taken for the
  stopped one: although \<open>SIGTERM\<close> ended the task, the call waits for the whole timeout, sends \<open>SIGKILL\<close>
  to a task that is gone and reports an error.\<close>

theorem stop_fails_on_shared_name:
  assumes "clock_ok E" "listed_running E rt other" "contains_str other cid"
    "ctr E rt [''tasks'', ''kill'', ''--signal'', ''SIGTERM'', cid] w = (Ok killed, w1)" "out_success killed"
    "\<And>v. \<exists>out v'. ctr E rt [''tasks'', ''kill'', ''--signal'', ''SIGKILL'', cid] v = (Ok out, v') \<and> \<not> out_success out"
  shows "\<exists>m w'. ct_port_stop E cid t (rt, f, w) = (Err (Runtime m), rt, f, w') \<and> ce_now E w' \<ge> ce_now E w1 + secs (uint t)"
proof -
  obtain x w3 where stop: "ct_stop_container (2 * unat t + 1) E rt cid t w = Some (x, w3)"
    "ct_port_stop E cid t (rt, f, w) = (x, rt, f, w3)"
    using ct_port_stop_returns [OF assms(1)] by blast
  obtain y w2 where y: "stop_wait (2 * unat t + 1) E rt cid (ce_now E w1 + secs (uint t)) w1 = Some (y, w2)"
    using stop(1) assms(4,5)
    by (cases "stop_wait (2 * unat t + 1) E rt cid (ce_now E w1 + secs (uint t)) w1")
       (auto simp: ct_stop_container_def simp del: stop_wait.simps)
  have w2: "y = Ok False" "ce_now E w1 + secs (uint t) \<le> ce_now E w2"
    using stop_wait_deadline [OF assms(2,3) y] by simp_all
  obtain out w4 where k: "ctr E rt [''tasks'', ''kill'', ''--signal'', ''SIGKILL'', cid] w2 = (Ok out, w4)" "\<not> out_success out"
    using assms(6) by blast
  obtain m where m: "ctr_ok E rt [''tasks'', ''kill'', ''--signal'', ''SIGKILL'', cid] w2 = (Err (Runtime m), w4)"
    using k by (simp add: ctr_ok_def)
  have "x = Err (Runtime m)" "w3 = w4"
    using stop(1) assms(4,5) y w2(1) m by (simp_all add: ct_stop_container_def del: stop_wait.simps)
  moreover have "ce_now E w2 \<le> ce_now E w4" by (rule ctr_clock [OF assms(1) k(1)])
  ultimately show ?thesis using stop(2) w2(2) by auto
qed

text \<open>For the same reason \<open>inspect_container\<close> reports the state of another container whose line comes first in the
  list and whose name contains the one that is asked for.\<close>

theorem inspect_reports_other:
  assumes "ctr_ok E rt [''containers'', ''info'', cid] w = (Ok info, w1)" "ctr E rt [''tasks'', ''list''] w1 = (Ok out, w2)"
    "lines (ce_lossy E (out_stdout out)) = l # ls" "contains_str l other" "contains_str other cid"
  shows "\<exists>i. ct_inspect_container E rt cid w = (Ok i, w2) \<and> ci_id i = cid \<and> ci_state i = task_state l"
  using assms contains_str_trans [OF assms(4,5)] by (simp add: ct_inspect_container_def Let_def)

section \<open>Witnesses\<close>

text \<open>A small \<open>ctr\<close> over a clock and the containers by name.\<close>

type_synonym sample_world = "instant \<times> (string, string list \<times> bool) hashmap"

definition answer :: "bool \<Rightarrow> sample_world \<Rightarrow> (string + cmd_output) \<times> sample_world" where
  "answer b s = (Ok \<lparr>out_success = b, out_stdout = [], out_stderr = []\<rparr>, s)"

definition sample_ctr :: "string list \<Rightarrow> sample_world \<Rightarrow> (string + cmd_output) \<times> sample_world" where
  "sample_ctr args s =
     (case s of (t, m) \<Rightarrow>
        (let cmd = take 2 (drop 2 args); n = last args
         in if cmd = [''containers'', ''create'']
            then answer True (t, hm_insert (args ! 5) (drop 2 args, False) m)
            else if cmd = [''containers'', ''info''] then answer (hm_get m n \<noteq> None) s
            else if cmd = [''containers'', ''delete''] then answer True (t, hm_remove n m)
            else if cmd = [''tasks'', ''start'']
            then (case hm_get m n of None \<Rightarrow> answer False s | Some (a, _) \<Rightarrow> answer True (t, hm_insert n (a, True) m))
            else answer True s))"

definition sample_ctr_env :: "sample_world ctr_env" where
  "sample_ctr_env = \<lparr>ce_ctr = sample_ctr, ce_lossy = (\<lambda>s. s), ce_now = fst, ce_sleep = (\<lambda>d (t, m). (t + d, m)),
     ce_mkdir = (\<lambda>_ w. (Ok (), w)), ce_remove_dir = (\<lambda>_ w. w)\<rparr>"

definition sample_ks :: "sample_world \<Rightarrow> string \<Rightarrow> (string list \<times> bool) option" where
  "sample_ks w = hm_get (snd w)"

lemma sample_ctr_documented: "ctr_documented sample_ctr_env sample_ks"
  unfolding ctr_documented_def
  by (intro conjI allI impI)
     (auto simp: run_ctr_def sample_ctr_env_def sample_ctr_def answer_def sample_ks_def fun_eq_iff Let_def
       split: option.splits if_splits)

lemma sample_ctr_steps:
  "ce_ctr sample_ctr_env [''--namespace'', ''nexa'', ''images'', ''pull'', img] s = answer True s"
  "ce_ctr sample_ctr_env [''--namespace'', ''nexa'', ''containers'', ''info'', n] (t, m) = answer (hm_get m n \<noteq> None) (t, m)"
  "ce_ctr sample_ctr_env (''--namespace'' # ''nexa'' # create_args c) (t, m) =
     answer True (t, hm_insert (cc_name c) (create_args c, False) m)"
  "hm_get m n = Some (a, b) \<Longrightarrow>
     ce_ctr sample_ctr_env [''--namespace'', ''nexa'', ''tasks'', ''start'', ''--detach'', n] (t, m) = answer True (t, hm_insert n (a, True) m)"
  by (cases s) (simp_all add: sample_ctr_env_def sample_ctr_def create_args_def)

abbreviation sample_containerd :: "sample_world ct_state runtime" where
  "sample_containerd \<equiv> containerd_runtime sample_ctr_env (\<lambda>_. []) (\<lambda>_. Ok []) no_faults"

lemma sample_port_steps:
  assumes "ct_namespace rt = ''nexa''"
  shows "rt_pull_image sample_containerd img (rt, f, t, m) = (Ok (), rt, f, t, m)"
    "rt_container_exists sample_containerd n (rt, f, t, m) = (Ok (hm_get m n \<noteq> None), rt, f, t, m)"
    "rt_create_container sample_containerd c (rt, f, t, m) = (Ok (cc_name c), rt, f, t, hm_insert (cc_name c) (create_args c, False) m)"
    "hm_get m n = Some (a, b) \<Longrightarrow> \<exists>r. rt_start_container sample_containerd n (rt, f, t, m) = (Ok (), r)"
  using assms
  by (simp_all add: containerd_runtime_def ct_pull_image_def ct_container_exists_def ct_create_container_def
      ct_start_container_def ctr_ok_def ctr_def sample_ctr_steps answer_def split: option.split)
     (simp_all add: sample_ctr_env_def)

lemma sample_server_assign:
  assumes "pod_from_json co (ap_pod_data req) = Ok pod" "spec_from_json co (ap_deployment_spec req) = Ok spec"
  shows "\<exists>resp r'. server_assign_pod co sample_containerd req (containerd_new ''/d'', [], 0, []) = (Ok resp, r') \<and> as_success resp"
proof -
  have ns: "ct_namespace (containerd_new ''/d'') = ''nexa''" by (simp add: containerd_new_def)
  obtain y rt1 f1 where net: "ct_create_network (\<lambda>_. []) (\<lambda>_. Ok []) no_faults (network_name spec) (containerd_new ''/d'') [] = (y, rt1, f1)"
    using prod_cases3 by blast
  then have ns1: "ct_namespace rt1 = ''nexa''" using ct_network_spec [OF net] ns by simp
  have "ensure_pod_network sample_containerd (network_name spec) (containerd_new ''/d'', [], 0, []) = (rt1, f1, 0, [])"
    by (simp add: ensure_pod_network_def sample_port_steps [OF ns]) (simp add: containerd_runtime_def net)
  moreover obtain r where "rt_start_container sample_containerd (cc_name (pod_config co pod spec))
      (rt1, f1, 0, hm_insert (cc_name (pod_config co pod spec)) (create_args (pod_config co pod spec), False) []) = (Ok (), r)"
    using sample_port_steps(4) [OF ns1] by (metis hm_get_insert)
  ultimately show ?thesis
    using assms by (simp add: server_assign_pod_unfold server_start_pod_def sample_port_steps [OF ns] sample_port_steps [OF ns1] del: split_paired_Ex)
qed

lemma sample_containerd_assign:
  "fst (grpc_assign_pod sample_core (worker_client sample_core (\<lambda>_. []) sample_containerd (sqlite_store sample_codec None) [])
       7 sample_pod sample_spec sample_transport ((containerd_new ''/d'', [], 0, []), db_empty)) = Ok ()"
proof -
  obtain pj sj where j: "pod_to_json sample_core sample_pod = Ok pj" "spec_to_json sample_core sample_spec = Ok sj"
    by (simp add: sample_core_def sample_pod_def sample_spec_def)
  then have "pod_from_json sample_core pj = Ok sample_pod" "spec_from_json sample_core sj = Ok sample_spec"
    using sample_core_ok(2) by (simp_all add: json_ok_def)
  then obtain resp r' where "server_assign_pod sample_core sample_containerd \<lparr>ap_node_id = uuid_text sample_core 7,
      ap_pod_id = uuid_text sample_core (pod_id sample_pod), ap_pod_data = pj, ap_deployment_spec = sj\<rparr>
      (containerd_new ''/d'', [], 0, []) = (Ok resp, r')" "as_success resp"
    using sample_server_assign [of sample_core "\<lparr>ap_node_id = uuid_text sample_core 7,
      ap_pod_id = uuid_text sample_core (pod_id sample_pod), ap_pod_data = pj, ap_deployment_spec = sj\<rparr>" sample_pod sample_spec]
    by auto
  moreover have "hm_get (clients sample_transport) 7 = Some ()" by (simp add: sample_transport_def hm_get_def)
  ultimately show ?thesis by (simp add: grpc_assign_pod_def get_client_def worker_client_def j)
qed

theorem containerd_worker_runs_pod_witness:
  "sample_ks (snd (snd (fst (snd (grpc_assign_pod sample_core (worker_client sample_core (\<lambda>_. [])
       sample_containerd (sqlite_store sample_codec None) [])
       7 sample_pod sample_spec sample_transport ((containerd_new ''/d'', [], 0, []), db_empty))))))
     = Map.empty(container_name sample_core sample_pod \<mapsto> (create_args (pod_config sample_core sample_pod sample_spec), True))"
proof -
  let ?r = "(containerd_new ''/d'', [], 0, [])"
  obtain x rt' f' w' s' where r: "grpc_assign_pod sample_core (worker_client sample_core (\<lambda>_. []) sample_containerd (sqlite_store sample_codec None) [])
      7 sample_pod sample_spec sample_transport (?r, db_empty) = (x, (rt', f', w'), s')"
    by (metis surj_pair)
  moreover have "x = Ok ()"
    using arg_cong [OF r, of fst] sample_containerd_assign by simp
  ultimately have "s' = db_empty \<and> sample_ks w' = (sample_ks (0, []))(container_name sample_core sample_pod \<mapsto>
      (create_args (pod_config sample_core sample_pod sample_spec), True))"
    by (intro containerd_worker_runs_pod [OF sample_ctr_documented _ sample_core_ok(2)]) (simp_all add: containerd_new_def)
  then show ?thesis using r by (simp add: sample_ks_def fun_eq_iff)
qed

text \<open>A world in which \<open>app-10\<close> runs for ever and the task of \<open>app-1\<close> ends at the first signal.\<close>

definition shared_name_env :: "instant ctr_env" where
  "shared_name_env = \<lparr>ce_ctr = (\<lambda>args t. (Ok \<lparr>out_success = (args ! 5 \<noteq> ''SIGKILL''), out_stdout = ''app-10 4711 RUNNING'',
     out_stderr = []\<rparr>, t)), ce_lossy = (\<lambda>s. s), ce_now = (\<lambda>t. t), ce_sleep = (\<lambda>d t. t + d), ce_mkdir = (\<lambda>_ t. (Ok (), t)),
     ce_remove_dir = (\<lambda>_ t. t)\<rparr>"

lemma shared_name_ctr: "ctr shared_name_env rt args t =
    (Ok \<lparr>out_success = (args ! 3 \<noteq> ''SIGKILL''), out_stdout = ''app-10 4711 RUNNING'', out_stderr = []\<rparr>, t)"
  by (simp add: ctr_def shared_name_env_def)

lemma shared_name_listed: "listed_running shared_name_env rt ''app-10''"
proof -
  have "task_running ''app-10'' ''app-10 4711 RUNNING''" by code_simp
  then show ?thesis by (simp add: listed_running_def shared_name_ctr) (simp add: shared_name_env_def)
qed

theorem stop_fails_on_shared_name_witness:
  "\<exists>m w'. ct_port_stop shared_name_env ''app-1'' 10 (containerd_new ''/d'', [], 0) = (Err (Runtime m), containerd_new ''/d'', [], w')
    \<and> ce_now shared_name_env w' \<ge> secs 10"
proof -
  have clock: "clock_ok shared_name_env" by (simp add: clock_ok_def shared_name_env_def)
  have name: "contains_str ''app-10'' ''app-1''" by simp
  show ?thesis
    using stop_fails_on_shared_name [OF clock shared_name_listed name shared_name_ctr, where rt = "containerd_new ''/d''" and w = 0 and t = 10 and f = "[]"]
    by (simp add: shared_name_ctr) (simp add: shared_name_env_def)
qed

end
