(* ===== verification/Dns_Records.thy ===== *)
theory Dns_Records
  imports Rust_Str
begin

text \<open>
  The record store of the embedded DNS server (\<open>src/src/adapters/dns/record_store.rs\<close>):
  project to deployment to the list of replica addresses, with the name resolution of
  \<open><deployment>.<project>.internal\<close> and \<open><deployment>-<index>.<project>.internal\<close>.
  The \<open>RwLock\<close> serialises the operations, so a history is a sequence of them.
\<close>

section \<open>Data\<close>

text \<open>\<open>std::net::IpAddr\<close>: four octets, or the 128 bits of an IPv6 address.\<close>

datatype ip_addr = V4 u8 u8 u8 u8 | V6 u128

type_synonym project_map = "(string, ip_addr list) hashmap"

record dns_record_store =
  entries :: "(string, project_map) hashmap"

definition usize_max :: nat where
  "usize_max = 18446744073709551615"

section \<open>Operations\<close>

definition dns_new :: dns_record_store where
  "dns_new = \<lparr>entries = []\<rparr>"

definition register :: "dns_record_store \<Rightarrow> string \<Rightarrow> string \<Rightarrow> ip_addr \<Rightarrow> dns_record_store" where
  "register s project deployment ip =
     (let project_map = or_default (hm_get (entries s) project);
          ips = or_default (hm_get project_map deployment);
          ips' = (if \<not> List.member ips ip then ips @ [ip] else ips)
      in s\<lparr>entries := hm_insert project (hm_insert deployment ips' project_map) (entries s)\<rparr>)"

definition deregister :: "dns_record_store \<Rightarrow> string \<Rightarrow> string \<Rightarrow> ip_addr \<Rightarrow> dns_record_store" where
  "deregister s project deployment ip =
     (case hm_get (entries s) project of
        None \<Rightarrow> s
      | Some project_map \<Rightarrow>
          let project_map' =
                (case hm_get project_map deployment of
                   None \<Rightarrow> project_map
                 | Some ips \<Rightarrow>
                     let ips' = filter (\<lambda>existing. existing \<noteq> ip) ips
                     in if ips' = [] then hm_remove deployment project_map
                        else hm_insert deployment ips' project_map)
          in if project_map' = [] then s\<lparr>entries := hm_remove project (entries s)\<rparr>
             else s\<lparr>entries := hm_insert project project_map' (entries s)\<rparr>)"

definition lookup :: "dns_record_store \<Rightarrow> string \<Rightarrow> string \<Rightarrow> ip_addr list" where
  "lookup s project deployment =
     or_default (Option.bind (hm_get (entries s) project) (\<lambda>m. hm_get m deployment))"

definition lookup_replica :: "dns_record_store \<Rightarrow> string \<Rightarrow> string \<Rightarrow> nat \<Rightarrow> ip_addr option" where
  "lookup_replica s project deployment index =
     Option.bind (Option.bind (hm_get (entries s) project) (\<lambda>m. hm_get m deployment))
       (\<lambda>ips. if index < length ips then Some (ips ! index) else None)"

text \<open>The second half of \<open>resolve\<close>: the whole first label is a deployment name.\<close>

definition resolve_host :: "dns_record_store \<Rightarrow> string \<Rightarrow> string \<Rightarrow> ip_addr list option" where
  "resolve_host s project host =
     (let ips = lookup s project host in if ips = [] then None else Some ips)"

text \<open>The replica branch: \<open>rfind\<close> of the last dash, then \<open>parse::<usize>\<close> of what follows.\<close>

definition resolve_replica :: "dns_record_store \<Rightarrow> string \<Rightarrow> string \<Rightarrow> ip_addr option" where
  "resolve_replica s project host =
     (case rsplit_once (CHR ''-'') host of
        None \<Rightarrow> None
      | Some (deployment, maybe_index) \<Rightarrow>
          (case parse_uint usize_max maybe_index of
             None \<Rightarrow> None
           | Some index \<Rightarrow> lookup_replica s project deployment index))"

definition resolve :: "dns_record_store \<Rightarrow> string \<Rightarrow> ip_addr list option" where
  "resolve s query_name =
     (let name = trim_end_matches (CHR ''.'') query_name
      in case splitn 3 (CHR ''.'') name of
           [host, project, tld] \<Rightarrow>
             if tld \<noteq> ''internal'' then None
             else (case resolve_replica s project host of
                     Some ip \<Rightarrow> Some [ip]
                   | None \<Rightarrow> resolve_host s project host)
         | _ \<Rightarrow> None)"

section \<open>Look-up laws\<close>

definition add_ip :: "ip_addr \<Rightarrow> ip_addr list \<Rightarrow> ip_addr list" where
  "add_ip ip ips = (if ip \<in> set ips then ips else ips @ [ip])"

definition del_ip :: "ip_addr \<Rightarrow> ip_addr list \<Rightarrow> ip_addr list" where
  "del_ip ip ips = filter (\<lambda>x. x \<noteq> ip) ips"

lemma lookup_new [simp]: "lookup dns_new p d = []"
  by (simp add: lookup_def dns_new_def)

lemma lookup_register:
  "lookup (register s p d ip) p' d' =
     (if p' = p \<and> d' = d then add_ip ip (lookup s p d) else lookup s p' d')"
  by (cases "hm_get (entries s) p")
     (auto simp: lookup_def register_def Let_def add_ip_def List.member_iff)

lemma lookup_deregister:
  "lookup (deregister s p d ip) p' d' =
     (if p' = p \<and> d' = d then del_ip ip (lookup s p d) else lookup s p' d')"
proof (cases "hm_get (entries s) p")
  case None
  then show ?thesis by (auto simp: lookup_def deregister_def del_ip_def)
next
  case m: (Some m)
  show ?thesis
  proof (cases "hm_get m d")
    case None
    then show ?thesis using m
      by (auto simp: lookup_def deregister_def del_ip_def hm_empty_iff Let_def)
  next
    case ips: (Some ips)
    have "hm_remove d m = [] \<Longrightarrow> d' \<noteq> d \<Longrightarrow> hm_get m d' = None"
      by (metis hm_get_remove hm_get_Nil)
    moreover have "hm_insert d xs m \<noteq> []" for xs
      by (metis hm_get_insert hm_get_Nil option.simps(3))
    ultimately show ?thesis using m ips
      by (auto simp: lookup_def deregister_def del_ip_def Let_def)
  qed
qed

lemma lookup_replica_nth:
  "lookup_replica s p d i = (if i < length (lookup s p d) then Some (lookup s p d ! i) else None)"
  by (cases "hm_get (entries s) p")
     (auto simp: lookup_replica_def lookup_def or_default_def split: option.splits bind_splits)

section \<open>Representation invariant\<close>

text \<open>
  Keys are unique, no address is listed twice, and no empty list or empty project map is
  ever left behind.
\<close>

definition project_wf :: "project_map \<Rightarrow> bool" where
  "project_wf m \<longleftrightarrow> hm_wf m \<and> m \<noteq> [] \<and> (\<forall>d ips. hm_get m d = Some ips \<longrightarrow> ips \<noteq> [] \<and> distinct ips)"

definition dns_wf :: "dns_record_store \<Rightarrow> bool" where
  "dns_wf s \<longleftrightarrow> hm_wf (entries s) \<and> (\<forall>p m. hm_get (entries s) p = Some m \<longrightarrow> project_wf m)"

lemma hm_insert_not_Nil [simp]: "hm_insert k v m \<noteq> []"
  by (metis hm_get_insert hm_get_Nil option.simps(3))

lemma dns_wf_new [wf_intros]: "dns_wf dns_new"
  by (simp add: dns_wf_def dns_new_def)

lemma project_wf_insert:
  "hm_wf m \<Longrightarrow> (\<forall>d ips. hm_get m d = Some ips \<longrightarrow> ips \<noteq> [] \<and> distinct ips) \<Longrightarrow>
     ips \<noteq> [] \<Longrightarrow> distinct ips \<Longrightarrow> project_wf (hm_insert d ips m)"
  by (simp add: project_wf_def)

lemma dns_wf_register [wf_intros]: "dns_wf s \<Longrightarrow> dns_wf (register s p d ip)"
proof -
  assume wf: "dns_wf s"
  let ?m = "or_default (hm_get (entries s) p)"
  let ?ips = "or_default (hm_get ?m d)"
  have m: "hm_wf ?m" "\<forall>d ips. hm_get ?m d = Some ips \<longrightarrow> ips \<noteq> [] \<and> distinct ips"
    using wf by (cases "hm_get (entries s) p"; auto simp: dns_wf_def project_wf_def)+
  have "distinct ?ips" using m(2) by (cases "hm_get ?m d") auto
  then have "project_wf (hm_insert d (add_ip ip ?ips) ?m)"
    using m by (intro project_wf_insert) (auto simp: add_ip_def)
  then show ?thesis
    using wf by (auto simp: dns_wf_def register_def Let_def add_ip_def List.member_iff)
qed

lemma dns_wf_deregister [wf_intros]: "dns_wf s \<Longrightarrow> dns_wf (deregister s p d ip)"
proof (cases "hm_get (entries s) p")
  case None
  then show "dns_wf s \<Longrightarrow> ?thesis" by (simp add: deregister_def)
next
  case m: (Some m)
  assume wf: "dns_wf s"
  then have pm: "project_wf m" using m by (auto simp: dns_wf_def)
  show ?thesis
  proof (cases "hm_get m d")
    case None
    then show ?thesis using wf m pm
      by (auto simp: deregister_def dns_wf_def Let_def project_wf_def)
  next
    case ips: (Some ips)
    then show ?thesis using wf m pm
      by (auto simp: deregister_def dns_wf_def Let_def project_wf_def split: if_splits)
  qed
qed

section \<open>Histories\<close>

datatype dns_op = Reg string string ip_addr | Dereg string string ip_addr

fun dns_step :: "dns_op \<Rightarrow> dns_record_store \<Rightarrow> dns_record_store" where
  "dns_step (Reg p d ip) s = register s p d ip"
| "dns_step (Dereg p d ip) s = deregister s p d ip"

definition dns_run :: "dns_op list \<Rightarrow> dns_record_store \<Rightarrow> dns_record_store" where
  "dns_run ops s = fold dns_step ops s"

text \<open>The abstract specification: each (project, deployment) key is an ordered set of its own.\<close>

fun ips_step :: "string \<Rightarrow> string \<Rightarrow> dns_op \<Rightarrow> ip_addr list \<Rightarrow> ip_addr list" where
  "ips_step p d (Reg p' d' ip) ips = (if p' = p \<and> d' = d then add_ip ip ips else ips)"
| "ips_step p d (Dereg p' d' ip) ips = (if p' = p \<and> d' = d then del_ip ip ips else ips)"

definition ips_spec :: "dns_op list \<Rightarrow> string \<Rightarrow> string \<Rightarrow> ip_addr list" where
  "ips_spec ops p d = fold (ips_step p d) ops []"

lemma lookup_dns_step: "lookup (dns_step oper s) p d = ips_step p d oper (lookup s p d)"
  by (cases oper) (auto simp: lookup_register lookup_deregister)

lemma lookup_dns_run: "lookup (dns_run ops s) p d = fold (ips_step p d) ops (lookup s p d)"
  by (induction ops arbitrary: s) (auto simp: dns_run_def lookup_dns_step)

lemma dns_wf_step: "dns_wf s \<Longrightarrow> dns_wf (dns_step oper s)"
  by (cases oper) (auto intro: wf_intros)

lemma dns_wf_run: "dns_wf s \<Longrightarrow> dns_wf (dns_run ops s)"
  by (induction ops arbitrary: s) (auto simp: dns_run_def dns_wf_step)

lemma ips_spec_set_distinct: "distinct ips \<Longrightarrow> distinct (fold (ips_step p d) ops ips)"
proof (induction ops arbitrary: ips)
  case (Cons oper ops)
  then show ?case by (cases oper) (auto simp: add_ip_def del_ip_def)
qed simp

section \<open>Resolution\<close>

definition fqdn :: "string \<Rightarrow> string \<Rightarrow> string" where
  "fqdn host project = host @ ''.'' @ project @ ''.internal''"

lemma last_fqdn: "trim_end_matches (CHR ''.'') (fqdn h p @ replicate n (CHR ''.'')) = fqdn h p"
proof (induction n)
  case 0
  then show ?case by (simp add: fqdn_def)
next
  case (Suc n)
  have "fqdn h p @ replicate (Suc n) (CHR ''.'') = (fqdn h p @ replicate n (CHR ''.'')) @ [CHR ''.'']"
    by (simp add: replicate_append_same)
  then show ?case using Suc by (metis trim_end_matches_snoc)
qed

lemma splitn_fqdn:
  "CHR ''.'' \<notin> set h \<Longrightarrow> CHR ''.'' \<notin> set p \<Longrightarrow>
     splitn 3 (CHR ''.'') (fqdn h p) = [h, p, ''internal'']"
  by (simp add: fqdn_def numeral_3_eq_3)

lemma resolve_fqdn:
  assumes "CHR ''.'' \<notin> set h" "CHR ''.'' \<notin> set p"
  shows "resolve s (fqdn h p @ replicate n (CHR ''.'')) =
    (case resolve_replica s p h of Some ip \<Rightarrow> Some [ip] | None \<Rightarrow> resolve_host s p h)"
  using splitn_fqdn [OF assms] by (simp add: resolve_def last_fqdn)

lemma splitn_3_cases:
  "splitn 3 c s = [a, b, t] \<Longrightarrow> s = a @ c # b @ c # t \<and> c \<notin> set a \<and> c \<notin> set b"
  by (auto simp: numeral_3_eq_3 split: option.splits dest!: split_once_SomeD)

lemma resolve_SomeD:
  assumes "resolve s q = Some ips"
  obtains h p where "trim_end_matches (CHR ''.'') q = fqdn h p"
    and "CHR ''.'' \<notin> set h" and "CHR ''.'' \<notin> set p"
    and "(case resolve_replica s p h of Some ip \<Rightarrow> Some [ip] | None \<Rightarrow> resolve_host s p h) = Some ips"
proof -
  let ?n = "trim_end_matches (CHR ''.'') q"
  from assms obtain h p where sp: "splitn 3 (CHR ''.'') ?n = [h, p, ''internal'']"
    and r: "(case resolve_replica s p h of Some ip \<Rightarrow> Some [ip] | None \<Rightarrow> resolve_host s p h) = Some ips"
    by (auto simp: resolve_def Let_def split: list.splits if_splits)
  from splitn_3_cases [OF sp] have "?n = fqdn h p" "CHR ''.'' \<notin> set h" "CHR ''.'' \<notin> set p"
    by (auto simp: fqdn_def)
  then show ?thesis using r that by blast
qed

lemma resolve_replica_SomeD:
  assumes "resolve_replica s p h = Some ip"
  shows "\<exists>d i. h = d @ ''-'' @ i \<and> ip \<in> set (lookup s p d)"
proof -
  from assms obtain d i n where "rsplit_once (CHR ''-'') h = Some (d, i)"
    and "lookup_replica s p d n = Some ip"
    by (auto simp: resolve_replica_def split: option.splits prod.splits)
  then show ?thesis
    by (auto simp: lookup_replica_nth split: if_splits dest!: rsplit_once_SomeD)
qed

lemma resolve_replica_named:
  assumes "i < length (lookup s p d)" "i \<le> usize_max"
  shows "resolve_replica s p (d @ ''-'' @ show_nat i) = Some (lookup s p d ! i)"
proof -
  have "rsplit_once (CHR ''-'') (d @ ''-'' @ show_nat i) = Some (d, show_nat i)"
    using rsplit_once_append [of "CHR ''-''" "show_nat i" d] by simp
  then show ?thesis using assms by (simp add: resolve_replica_def lookup_replica_nth)
qed


section \<open>Properties\<close>

text \<open>Every history of registrations and deregistrations keeps the record store
  well-formed: unique keys, no duplicate address, and no empty deployment or project entry left
  behind once its last address is gone.\<close>

theorem dns_history_wf: "dns_wf (dns_run ops dns_new)"
  by (rule dns_wf_run) (rule dns_wf_new)


text \<open>A deployment whose name has no dot and does not read as a replica name resolves, with
  any number of trailing dots, to exactly its registered addresses, and to nothing when it has
  none.\<close>

theorem resolve_deployment_complete:
  assumes "CHR ''.'' \<notin> set d" "CHR ''.'' \<notin> set p" "resolve_replica s p d = None"
  shows "resolve s (fqdn d p @ replicate n (CHR ''.'')) =
    (if lookup s p d = [] then None else Some (lookup s p d))"
  using resolve_fqdn [OF assms(1,2), of s n] assms(3) by (simp add: resolve_host_def Let_def)

text \<open>The name \<open>d-i.p.internal\<close> resolves to the single address of replica \<open>i\<close> of the
  deployment \<open>d\<close>, for every index below the number of registered addresses.\<close>

theorem resolve_replica_complete:
  assumes "CHR ''.'' \<notin> set d" "CHR ''.'' \<notin> set p"
    and "i < length (lookup s p d)" "i \<le> usize_max"
  shows "resolve s (fqdn (d @ ''-'' @ show_nat i) p) = Some [lookup s p d ! i]"
proof -
  have dot: "CHR ''.'' \<notin> set (d @ ''-'' @ show_nat i)" using assms(1) by simp
  show ?thesis
    using resolve_fqdn [OF dot assms(2), of s 0] resolve_replica_named [OF assms(3,4)] by simp
qed

text \<open>A deployment can be shadowed by a replica of another. When \<open>d\<close> has a replica
  \<open>i\<close>, the deployment called \<open>d-i\<close> is unreachable under its own name: the answer is the
  replica's address, although other addresses are registered for \<open>d-i\<close>.\<close>

theorem deployment_shadowed_by_replica:
  assumes "CHR ''.'' \<notin> set d" "CHR ''.'' \<notin> set p"
    and "i < length (lookup s p d)" "i \<le> usize_max"
    and "lookup s p d ! i \<notin> set (lookup s p (d @ ''-'' @ show_nat i))"
  shows "\<exists>ips. resolve s (fqdn (d @ ''-'' @ show_nat i) p) = Some ips \<and>
    set ips \<inter> set (lookup s p (d @ ''-'' @ show_nat i)) = {}"
proof -
  have dot: "CHR ''.'' \<notin> set (d @ ''-'' @ show_nat i)" using assms(1) by simp
  have "resolve s (fqdn (d @ ''-'' @ show_nat i) p) = Some [lookup s p d ! i]"
    using resolve_fqdn [OF dot assms(2), of s 0] resolve_replica_named [OF assms(3,4)] by simp
  then show ?thesis using assms(5) by auto
qed

section \<open>Witnesses\<close>

definition sample_records :: dns_record_store where
  "sample_records = dns_run
     [Reg ''shop'' ''api'' (V4 10 0 0 1), Reg ''shop'' ''api'' (V4 10 0 0 2),
      Reg ''shop'' ''api-1'' (V4 10 0 0 9)] dns_new"

lemma sample_records_lookup:
  "lookup sample_records ''shop'' ''api'' = [V4 10 0 0 1, V4 10 0 0 2]"
  "lookup sample_records ''shop'' (''api'' @ ''-'' @ show_nat 1) = [V4 10 0 0 9]"
  by (simp_all add: sample_records_def lookup_dns_run add_ip_def show_nat.simps digit_char_def)
     code_simp


end
