(* ===== verification/Dns_Server.thy ===== *)
theory Dns_Server
  imports Dns_Records
begin

unbundle bit_operations_syntax

text \<open>
  The embedded DNS server (\<open>src/src/adapters/dns/hickory.rs\<close>) and its no-op sibling
  (\<open>noop.rs\<close>): the wire parser, the response builder, the query handler, the UDP and TCP
  front ends, and both implementations of the \<open>DnsProvider\<close> port. Parameters: \<open>lower\<close> is
  Rust's Unicode \<open>str::to_lowercase\<close>, of which only its action on ASCII strings is used;
  \<open>forward\<close> is the exchange with the upstream resolver over a socket.
\<close>

section \<open>Parsing a question\<close>

text \<open>
  Indexing and slicing panic out of range, so the checks of the parser are what keeps it from
  panicking: \<open>data[i]\<close> is \<open>byte_at\<close>, \<open>&data[i..j]\<close> is \<open>slice_at\<close>, and a two-byte field is
  read at two indices.
\<close>

definition byte_at :: "u8 list \<Rightarrow> nat \<Rightarrow> u8 outcome" where
  "byte_at data i = (if i < length data then Ret (data ! i) else Panic)"

definition u16_at :: "u8 list \<Rightarrow> nat \<Rightarrow> u16 outcome" where
  "u16_at data i =
     (case byte_at data i of
        Panic \<Rightarrow> Panic
      | Ret a \<Rightarrow> (case byte_at data (i + 1) of Panic \<Rightarrow> Panic | Ret b \<Rightarrow> Ret (u16_from_be a b)))"

definition slice_at :: "u8 list \<Rightarrow> nat \<Rightarrow> nat \<Rightarrow> u8 list outcome" where
  "slice_at data i j = (case slice_range data i j of None \<Rightarrow> Panic | Some bs \<Rightarrow> Ret bs)"

lemma byte_at_Ret: "i < length data \<Longrightarrow> byte_at data i = Ret (data ! i)"
  by (simp add: byte_at_def)

lemma u16_at_Ret: "i + 1 < length data \<Longrightarrow> u16_at data i = Ret (u16_from_be (data ! i) (data ! (i + 1)))"
  by (simp add: u16_at_def byte_at_def)

lemma slice_at_Ret: "i \<le> j \<Longrightarrow> j \<le> length data \<Longrightarrow> slice_at data i j = Ret (take (j - i) (drop i data))"
  by (simp add: slice_at_def slice_range_def)

lemmas reads_Ret = byte_at_Ret u16_at_Ret slice_at_Ret

function parse_labels :: "u8 list \<Rightarrow> nat \<Rightarrow> string list \<Rightarrow> (string list \<times> nat) option outcome" where
  "parse_labels data offset labels =
     (if length data \<le> offset then Ret None
      else
        (case byte_at data offset of
           Panic \<Rightarrow> Panic
         | Ret b \<Rightarrow>
             let label_len = unat b; offset1 = offset + 1
             in if label_len = 0 then Ret (Some (labels, offset1))
                else if length data < offset1 + label_len then Ret None
                else
                  (case slice_at data offset1 (offset1 + label_len) of
                     Panic \<Rightarrow> Panic
                   | Ret label \<Rightarrow>
                       if utf8_valid label
                       then parse_labels data (offset1 + label_len) (labels @ [byte_str label])
                       else Ret None)))"
  by pat_completeness auto
termination
  by (relation "measure (\<lambda>(data, offset, labels). length data - offset)") auto

declare parse_labels.simps [simp del]

definition parse_question :: "u8 list \<Rightarrow> nat \<Rightarrow> (string \<times> u16 \<times> nat) option outcome" where
  "parse_question data offset =
     (case parse_labels data offset [] of
        Panic \<Rightarrow> Panic
      | Ret None \<Rightarrow> Ret None
      | Ret (Some (labels, off)) \<Rightarrow>
          if length data < off + 4 then Ret None
          else
            (case u16_at data off of
               Panic \<Rightarrow> Panic
             | Ret qtype \<Rightarrow> Ret (Some (join ''.'' labels, qtype, off + 4))))"

section \<open>Building a response\<close>

definition u128_to_be :: "u128 \<Rightarrow> u8 list" where
  "u128_to_be w = map (\<lambda>i. word_of_nat (unat w div 256 ^ (15 - i) mod 256)) [0..<16]"

definition qtype_matches :: "u16 \<Rightarrow> ip_addr \<Rightarrow> bool" where
  "qtype_matches qtype ip =
     (case ip of V4 _ _ _ _ \<Rightarrow> qtype = 1 \<or> qtype = 255 | V6 _ \<Rightarrow> qtype = 28 \<or> qtype = 255)"

definition answer_record :: "ip_addr \<Rightarrow> u8 list" where
  "answer_record ip =
     [0xC0, 0x0C] @
     (case ip of
        V4 a b c d \<Rightarrow> u16_to_be 1 @ u16_to_be 1 @ u32_to_be 60 @ u16_to_be 4 @ [a, b, c, d]
      | V6 w \<Rightarrow> u16_to_be 28 @ u16_to_be 1 @ u32_to_be 60 @ u16_to_be 16 @ u128_to_be w)"

definition response_rcode :: "u16 \<Rightarrow> ip_addr list \<Rightarrow> u16" where
  "response_rcode qtype ips = (if filter (qtype_matches qtype) ips = [] \<and> ips = [] then 3 else 0)"

definition response_flags :: "u16 \<Rightarrow> u16" where
  "response_flags rcode = (((0x8000 OR 0x0400) OR 0x0080) OR rcode)"

definition build_dns_response ::
  "u16 \<Rightarrow> u8 list \<Rightarrow> string \<Rightarrow> nat \<Rightarrow> u16 \<Rightarrow> ip_addr list option \<Rightarrow> u8 list outcome" where
  "build_dns_response ident original query_name question_end qtype ips_opt =
     (let ips = or_default ips_opt;
          matching_ips = filter (qtype_matches qtype) ips;
          an_count = (word_of_nat (length matching_ips) :: u16);
          flags = response_flags (response_rcode qtype ips)
      in case slice_range original 12 question_end of
           None \<Rightarrow> Panic
         | Some question \<Rightarrow>
             Ret (u16_to_be ident @ u16_to_be flags @ u16_to_be 1 @ u16_to_be an_count
                  @ u16_to_be 0 @ u16_to_be 0 @ question
                  @ concat (map answer_record matching_ips)))"

section \<open>The query handler\<close>

definition is_internal :: "string \<Rightarrow> bool" where
  "is_internal name \<longleftrightarrow> ends_with name ''.internal'' \<or> ends_with name ''.internal.''"

definition handle_dns_query ::
  "(string \<Rightarrow> string) \<Rightarrow> (u8 list \<Rightarrow> u8 list option) \<Rightarrow> u8 list \<Rightarrow> dns_record_store
    \<Rightarrow> u8 list option outcome" where
  "handle_dns_query lower forward data store =
     (if length data < 12 then Ret None
      else
        (case (u16_at data 0, u16_at data 2, u16_at data 4) of
           (Ret ident, Ret flags, Ret qd_count) \<Rightarrow>
             let opcode = (drop_bit 11 flags AND 0xF)
             in if opcode \<noteq> 0 \<or> qd_count = 0 then Ret None
                else
                  (case parse_question data 12 of
                     Panic \<Rightarrow> Panic
                   | Ret None \<Rightarrow> Ret None
                   | Ret (Some (query_name, qtype, question_end)) \<Rightarrow>
                       let name_lower = lower query_name
                       in if is_internal name_lower
                          then (case build_dns_response ident data query_name question_end qtype
                                       (resolve store name_lower) of
                                  Panic \<Rightarrow> Panic
                                | Ret response \<Rightarrow> Ret (Some response))
                          else Ret (forward data))
         | _ \<Rightarrow> Panic))"

text \<open>
  The UDP task, one datagram after the other: each is read into a 4096-byte buffer, and a
  produced response goes back to its sender.
\<close>

fun udp_loop ::
  "(string \<Rightarrow> string) \<Rightarrow> (u8 list \<Rightarrow> u8 list option) \<Rightarrow> dns_record_store
    \<Rightarrow> ('src \<times> u8 list) list \<Rightarrow> ('src \<times> u8 list) list outcome" where
  "udp_loop lower forward store [] = Ret []"
| "udp_loop lower forward store ((src, dgram) # rest) =
     (case handle_dns_query lower forward (take 4096 dgram) store of
        Panic \<Rightarrow> Panic
      | Ret resp \<Rightarrow>
          (case udp_loop lower forward store rest of
             Panic \<Rightarrow> Panic
           | Ret out \<Rightarrow> Ret ((case resp of None \<Rightarrow> [] | Some r \<Rightarrow> [(src, r)]) @ out)))"

text \<open>
  \<open>forward_to_upstream\<close>: the socket and the request may fail; the first datagram that arrives, from
  whatever sender, is the answer when it comes within 5 s, cut to the buffer. A parameter
  \<open>forward\<close> above stands for this function with the sockets of one query.
\<close>

record 'src upstream_socket =
  us_bind_ok :: bool
  us_send_ok :: bool
  us_first :: "(int \<times> (string + 'src \<times> u8 list)) option"

definition forward_to_upstream :: "(u8 list \<Rightarrow> 'src upstream_socket) \<Rightarrow> u8 list \<Rightarrow> u8 list option" where
  "forward_to_upstream net data =
     (let u = net data
      in if \<not> us_bind_ok u \<or> \<not> us_send_ok u then None
         else (case us_first u of
                 Some (delay, Inr (src, dgram)) \<Rightarrow> if delay \<le> 5000000000 then Some (take 4096 dgram) else None
               | _ \<Rightarrow> None))"

text \<open>
  The time one query takes: an answer from the records takes none, a forwarded query lasts until the first
  datagram arrives, 5 s at most. The UDP task handles one query after the other, so a query waits
  until the task is free: \<open>udp_finish\<close> gives, for the queries with their times of arrival in nanoseconds,
  the times at which they are done.
\<close>

definition is_forwarded :: "(string \<Rightarrow> string) \<Rightarrow> u8 list \<Rightarrow> bool" where
  "is_forwarded lower data \<longleftrightarrow>
     12 \<le> length data \<and> (drop_bit 11 (u16_from_be (data ! 2) (data ! 3)) AND 0xF) = 0
     \<and> u16_from_be (data ! 4) (data ! 5) \<noteq> 0
     \<and> (case parse_question data 12 of Ret (Some (name, _, _)) \<Rightarrow> \<not> is_internal (lower name) | _ \<Rightarrow> False)"

definition query_time :: "(string \<Rightarrow> string) \<Rightarrow> (u8 list \<Rightarrow> 'src upstream_socket) \<Rightarrow> u8 list \<Rightarrow> int" where
  "query_time lower net data =
     (if \<not> is_forwarded lower data \<or> \<not> us_bind_ok (net data) \<or> \<not> us_send_ok (net data) then 0
      else (case us_first (net data) of Some (delay, _) \<Rightarrow> min delay 5000000000 | None \<Rightarrow> 5000000000))"

fun udp_finish :: "(u8 list \<Rightarrow> int) \<Rightarrow> int \<Rightarrow> (int \<times> u8 list) list \<Rightarrow> int list" where
  "udp_finish cost free [] = []"
| "udp_finish cost free ((arrival, data) # rest) =
     (let finish = max free arrival + cost data in finish # udp_finish cost finish rest)"

text \<open>
  One TCP client: \<open>read_exact\<close> of the length prefix and of the message, then the framed
  response. \<open>werr\<close> says whether the two \<open>write_all\<close> calls fail. The result is the error
  or success together with the bytes written.
\<close>

definition handle_tcp_dns_client ::
  "(string \<Rightarrow> string) \<Rightarrow> (u8 list \<Rightarrow> u8 list option) \<Rightarrow> (nat \<Rightarrow> string option) \<Rightarrow> u8 list
    \<Rightarrow> dns_record_store \<Rightarrow> ((string + unit) \<times> u8 list) outcome" where
  "handle_tcp_dns_client lower forward werr stream store =
     (if length stream < 2 then Ret (Err ''early eof'', [])
      else
        let msg_len = unat (u16_from_be (stream ! 0) (stream ! 1)); body = drop 2 stream
        in if length body < msg_len then Ret (Err ''early eof'', [])
           else
             (case handle_dns_query lower forward (take msg_len body) store of
                Panic \<Rightarrow> Panic
              | Ret None \<Rightarrow> Ret (Ok (), [])
              | Ret (Some response) \<Rightarrow>
                  let resp_len = u16_to_be (word_of_nat (length response))
                  in (case werr 0 of
                        Some e \<Rightarrow> Ret (Err e, [])
                      | None \<Rightarrow>
                          (case werr 1 of
                             Some e \<Rightarrow> Ret (Err e, resp_len)
                           | None \<Rightarrow> Ret (Ok (), resp_len @ response)))))"

text \<open>The TCP task: every accepted connection is handled on its own, failed accepts are logged only.\<close>

fun tcp_loop ::
  "(string \<Rightarrow> string) \<Rightarrow> (u8 list \<Rightarrow> u8 list option) \<Rightarrow> dns_record_store
    \<Rightarrow> (string + (nat \<Rightarrow> string option) \<times> u8 list) list \<Rightarrow> ((string + unit) \<times> u8 list) outcome list" where
  "tcp_loop lower forward store [] = []"
| "tcp_loop lower forward store (Inl _ # rest) = tcp_loop lower forward store rest"
| "tcp_loop lower forward store (Inr (werr, stream) # rest) =
     handle_tcp_dns_client lower forward werr stream store # tcp_loop lower forward store rest"

section \<open>The providers\<close>

record hickory_provider =
  dns_store :: dns_record_store
  listen_addr :: string
  upstream_dns :: string

definition hickory_new :: "string \<Rightarrow> string \<Rightarrow> hickory_provider" where
  "hickory_new listen upstream = \<lparr>dns_store = dns_new, listen_addr = listen, upstream_dns = upstream\<rparr>"

text \<open>\<open>start\<close>: the outcome of the two socket binds decides; the tasks then run as above.\<close>

definition hickory_start :: "string option \<Rightarrow> string option \<Rightarrow> hickory_provider \<Rightarrow> unit res" where
  "hickory_start udp_err tcp_err h =
     (case udp_err of
        Some e \<Rightarrow> Err (Runtime (''failed to bind DNS UDP on '' @ listen_addr h @ '': '' @ e))
      | None \<Rightarrow>
          (case tcp_err of
             Some e \<Rightarrow> Err (Runtime (''failed to bind DNS TCP on '' @ listen_addr h @ '': '' @ e))
           | None \<Rightarrow> Ok ()))"

definition hickory_register ::
  "hickory_provider \<Rightarrow> string \<Rightarrow> string \<Rightarrow> ip_addr \<Rightarrow> unit res \<times> hickory_provider" where
  "hickory_register h p d ip = (Ok (), h\<lparr>dns_store := register (dns_store h) p d ip\<rparr>)"

definition hickory_deregister ::
  "hickory_provider \<Rightarrow> string \<Rightarrow> string \<Rightarrow> ip_addr \<Rightarrow> unit res \<times> hickory_provider" where
  "hickory_deregister h p d ip = (Ok (), h\<lparr>dns_store := deregister (dns_store h) p d ip\<rparr>)"

definition hickory_lookup :: "hickory_provider \<Rightarrow> string \<Rightarrow> string \<Rightarrow> ip_addr list res" where
  "hickory_lookup h p d = Ok (lookup (dns_store h) p d)"

definition noop_register :: "unit \<Rightarrow> string \<Rightarrow> string \<Rightarrow> ip_addr \<Rightarrow> unit res \<times> unit" where
  "noop_register n p d ip = (Ok (), n)"

definition noop_deregister :: "unit \<Rightarrow> string \<Rightarrow> string \<Rightarrow> ip_addr \<Rightarrow> unit res \<times> unit" where
  "noop_deregister n p d ip = (Ok (), n)"

definition noop_lookup :: "unit \<Rightarrow> string \<Rightarrow> string \<Rightarrow> ip_addr list res" where
  "noop_lookup n p d = Ok []"


section \<open>The provider contract\<close>

text \<open>
  What every \<open>DnsProvider\<close> gives its client, the orchestrator: the calls succeed and touch
  no other key. A provider that really stores records also gives the look-up laws.
\<close>

locale dns_port =
  fixes reg dereg :: "'s \<Rightarrow> string \<Rightarrow> string \<Rightarrow> ip_addr \<Rightarrow> unit res \<times> 's"
    and look :: "'s \<Rightarrow> string \<Rightarrow> string \<Rightarrow> ip_addr list res"
  assumes reg_ok: "fst (reg s p d ip) = Ok ()"
    and dereg_ok: "fst (dereg s p d ip) = Ok ()"
    and look_ok: "\<exists>ips. look s p d = Ok ips"
    and reg_frame: "(p', d') \<noteq> (p, d) \<Longrightarrow> look (snd (reg s p d ip)) p' d' = look s p' d'"
    and dereg_frame: "(p', d') \<noteq> (p, d) \<Longrightarrow> look (snd (dereg s p d ip)) p' d' = look s p' d'"

locale dns_provider = dns_port +
  assumes reg_look: "look s p d = Ok ips \<Longrightarrow> look (snd (reg s p d ip)) p d = Ok (add_ip ip ips)"
    and dereg_look: "look s p d = Ok ips \<Longrightarrow> look (snd (dereg s p d ip)) p d = Ok (del_ip ip ips)"
begin

fun provider_step :: "dns_op \<Rightarrow> 'a \<Rightarrow> 'a" where
  "provider_step (Reg p d ip) s = snd (reg s p d ip)"
| "provider_step (Dereg p d ip) s = snd (dereg s p d ip)"

lemma provider_step_look:
  "look s p d = Ok ips \<Longrightarrow> look (provider_step oper s) p d = Ok (ips_step p d oper ips)"
proof (cases oper)
  case (Reg p' d' ip)
  then show "look s p d = Ok ips \<Longrightarrow> ?thesis"
    using reg_look [of s p d ips ip] reg_frame [of p d p' d' s ip] by (auto split: if_splits)
next
  case (Dereg p' d' ip)
  then show "look s p d = Ok ips \<Longrightarrow> ?thesis"
    using dereg_look [of s p d ips ip] dereg_frame [of p d p' d' s ip] by (auto split: if_splits)
qed

lemma provider_run_look:
  "look s p d = Ok ips \<Longrightarrow> look (fold provider_step ops s) p d = Ok (fold (ips_step p d) ops ips)"
  by (induction ops arbitrary: s ips) (auto simp: provider_step_look)

lemma reg_dereg_absent:
  "look s p d = Ok ips \<Longrightarrow> ip \<notin> set ips \<Longrightarrow>
     look (snd (dereg (snd (reg s p d ip)) p d ip)) p d = Ok ips"
  using dereg_look [OF reg_look, of s p d ips ip ip]
  by (auto simp: add_ip_def del_ip_def filter_id_conv)

end

interpretation noop: dns_port noop_register noop_deregister noop_lookup
  by unfold_locales (simp_all add: noop_register_def noop_deregister_def noop_lookup_def)

lemmas hickory_defs = hickory_register_def hickory_deregister_def hickory_lookup_def

interpretation hickory: dns_provider hickory_register hickory_deregister hickory_lookup
  by unfold_locales (auto simp: hickory_defs lookup_register lookup_deregister)

section \<open>Parser bounds and round trip\<close>

text \<open>The checks before each read keep it in range, so the parser does not panic.\<close>

lemma parse_labels_step:
  "offset < length data \<Longrightarrow>
     parse_labels data offset labels =
       (let n = unat (data ! offset); label = take n (drop (offset + 1) data)
        in if n = 0 then Ret (Some (labels, offset + 1))
           else if length data < offset + 1 + n then Ret None
           else if utf8_valid label then parse_labels data (offset + 1 + n) (labels @ [byte_str label])
           else Ret None)"
  by (subst parse_labels.simps) (simp add: Let_def byte_at_Ret slice_at_Ret)

lemma parse_labels_end: "length data \<le> offset \<Longrightarrow> parse_labels data offset labels = Ret None"
  by (subst parse_labels.simps) simp

lemma parse_labels_bounds:
  "case parse_labels data offset labels of
     Panic \<Rightarrow> False
   | Ret r \<Rightarrow> (\<forall>ls e. r = Some (ls, e) \<longrightarrow> offset < e \<and> e \<le> length data)"
proof (induction "length data - offset" arbitrary: offset labels rule: less_induct)
  case less
  show ?case
  proof (cases "offset < length data")
    case False
    then show ?thesis by (simp add: parse_labels_end)
  next
    case True
    let ?e = "offset + 1 + unat (data ! offset)"
    let ?ls = "labels @ [byte_str (take (unat (data ! offset)) (drop (offset + 1) data))]"
    have "case parse_labels data ?e ?ls of
        Panic \<Rightarrow> False | Ret r \<Rightarrow> (\<forall>ls e. r = Some (ls, e) \<longrightarrow> ?e < e \<and> e \<le> length data)"
      using True by (intro less) simp
    then show ?thesis
      using True by (auto simp: parse_labels_step [OF True] Let_def split: outcome.splits)
  qed
qed

lemma parse_question_bounds:
  "case parse_question data offset of
     Panic \<Rightarrow> False
   | Ret r \<Rightarrow> (\<forall>name qtype e. r = Some (name, qtype, e) \<longrightarrow> offset + 4 < e \<and> e \<le> length data)"
  using parse_labels_bounds [where data = data and offset = offset and labels = "[]"]
  by (auto simp: parse_question_def reads_Ret split: outcome.splits option.splits)

text \<open>The encoding of a question, as a resolver sends it.\<close>

definition encode_label :: "string \<Rightarrow> u8 list" where
  "encode_label l = word_of_nat (length l) # str_bytes l"

definition encode_question :: "string list \<Rightarrow> u16 \<Rightarrow> u16 \<Rightarrow> u8 list" where
  "encode_question labels qtype qclass =
     concat (map encode_label labels) @ [0] @ u16_to_be qtype @ u16_to_be qclass"

definition label_ok :: "string \<Rightarrow> bool" where
  "label_ok l \<longleftrightarrow> l \<noteq> [] \<and> length l < 256 \<and> utf8_valid (str_bytes l)"

lemma length_encode_label [simp]: "length (encode_label l) = Suc (length l)"
  by (simp add: encode_label_def)

lemma parse_labels_encoded:
  "\<forall>l\<in>set labels. label_ok l \<Longrightarrow>
     parse_labels (pre @ concat (map encode_label labels) @ 0 # post) (length pre) acc =
       Ret (Some (acc @ labels, length pre + length (concat (map encode_label labels)) + 1))"
proof (induction labels arbitrary: pre acc)
  case Nil
  show ?case by (simp add: parse_labels_step nth_append)
next
  case (Cons l ls)
  let ?data = "pre @ concat (map encode_label (l # ls)) @ 0 # post"
  have l: "l \<noteq> []" "length l < 256" "utf8_valid (str_bytes l)"
    using Cons.prems by (auto simp: label_ok_def)
  have len: "unat (?data ! length pre) = length l"
    using l by (simp add: encode_label_def nth_append)
  have lab: "take (length l) (drop (length pre + 1) ?data) = str_bytes l"
    by (simp add: encode_label_def)
  have "parse_labels ?data (length pre) acc = parse_labels ?data (length pre + 1 + length l) (acc @ [l])"
    using l len lab by (subst parse_labels_step) (simp_all add: Let_def)
  also have "\<dots> = Ret (Some (acc @ [l] @ ls,
      length (pre @ encode_label l) + length (concat (map encode_label ls)) + 1))"
    using Cons.IH [of "pre @ encode_label l" "acc @ [l]"] Cons.prems by simp
  finally show ?case by simp
qed

lemma parse_question_encoded:
  assumes "\<forall>l\<in>set labels. label_ok l"
  shows "parse_question (pre @ encode_question labels qtype qclass @ rest) (length pre) =
    Ret (Some (join ''.'' labels, qtype, length pre + length (encode_question labels qtype qclass)))"
proof -
  obtain a b where ab: "u16_to_be qtype = [a, b]" by (rule u16_to_be_cases)
  let ?post = "[a, b] @ u16_to_be qclass @ rest"
  have "parse_labels (pre @ concat (map encode_label labels) @ 0 # ?post) (length pre) [] =
      Ret (Some (labels, length pre + length (concat (map encode_label labels)) + 1))"
    using parse_labels_encoded [OF assms, of pre ?post "[]"] by simp
  then show ?thesis
    using u16_be_roundtrip [OF ab]
    by (simp add: parse_question_def encode_question_def ab u16_at_Ret nth_append)
qed


section \<open>Totality of the handler\<close>

lemma build_dns_response_Ret:
  "12 \<le> e \<Longrightarrow> e \<le> length data \<Longrightarrow> \<exists>r. build_dns_response ident data n e qtype ips = Ret r"
  by (simp add: build_dns_response_def Let_def slice_range_def)

lemma handle_dns_query_Ret: "\<exists>r. handle_dns_query lower forward data st = Ret r"
proof (cases "parse_question data 12")
  case Panic
  then show ?thesis using parse_question_bounds [where data = data and offset = 12] by simp
next
  case (Ret q)
  have "\<exists>r. build_dns_response i data n e qt ips = Ret r" if "q = Some (n, qt, e)" for n qt e i ips
    using that Ret parse_question_bounds [where data = data and offset = 12] by (intro build_dns_response_Ret) auto
  then show ?thesis
    using Ret
    by (auto simp: handle_dns_query_def Let_def u16_at_Ret split: outcome.splits option.splits)
      (metis outcome.distinct(1))
qed

text \<open>Only the queries counted as forwarded ask the upstream resolver.\<close>

lemma handle_dns_query_forward:
  "handle_dns_query lower forward data st =
     (if is_forwarded lower data then Ret (forward data) else handle_dns_query lower (\<lambda>_. None) data st)"
  by (auto simp: handle_dns_query_def is_forwarded_def Let_def u16_at_Ret
           split: outcome.split option.split prod.split)

lemma udp_finish_waits:
  "\<forall>(t, q) \<in> set qs. c \<le> cost q \<Longrightarrow>
     free + int (length qs) * c + cost q \<le> last (udp_finish cost free (qs @ [(t, q)]))"
proof (induction qs arbitrary: free)
  case Nil
  then show ?case by (simp add: Let_def)
next
  case (Cons a qs)
  obtain t' q' where a: "a = (t', q')" by (cases a)
  let ?f = "max free t' + cost q'"
  have "free + c \<le> ?f" using Cons.prems by (auto simp: a)
  moreover have "?f + int (length qs) * c + cost q \<le> last (udp_finish cost ?f (qs @ [(t, q)]))"
    using Cons.prems by (intro Cons.IH) simp
  moreover have "udp_finish cost ?f (qs @ [(t, q)]) \<noteq> []" by (cases qs) (auto simp: Let_def)
  ultimately show ?case by (simp add: a Let_def algebra_simps)
qed

text \<open>Queries that get no answer from upstream hold up all others. After \<open>n\<close> of them, a query for an internal name is
  answered only \<open>n\<close> times 5 s later, although its answer needs no other server.\<close>

theorem unanswered_queries_block:
  assumes "\<forall>(t, q) \<in> set qs. is_forwarded lower q \<and> us_bind_ok (net q) \<and> us_send_ok (net q) \<and> us_first (net q) = None"
    "\<not> is_forwarded lower internal"
  shows "free + int (length qs) * 5000000000 \<le> last (udp_finish (query_time lower net) free (qs @ [(t, internal)]))"
proof -
  have "\<forall>(t, q) \<in> set qs. 5000000000 \<le> query_time lower net q" using assms(1) by (auto simp: query_time_def)
  moreover have "query_time lower net internal = 0" using assms(2) by (simp add: query_time_def)
  ultimately show ?thesis using udp_finish_waits [of qs 5000000000 "query_time lower net" free internal t] by simp
qed

section \<open>Decoding a response\<close>

lemma unat_digits_value:
  "foldl (\<lambda>a b. a * 256 + b) 0 (map (\<lambda>i. n div 256 ^ (k - 1 - i) mod 256) [0..<k]) = n mod 256 ^ k"
  for n k :: nat
proof (induction k arbitrary: n)
  case (Suc k)
  have "map (\<lambda>i. n div 256 ^ (Suc k - 1 - i) mod 256) [0..<k] =
      map (\<lambda>i. (n div 256) div 256 ^ (k - 1 - i) mod 256) [0..<k]"
  proof (rule map_cong [OF refl])
    fix i assume "i \<in> set [0..<k]"
    then have "Suc k - 1 - i = Suc (k - 1 - i)" by auto
    then show "n div 256 ^ (Suc k - 1 - i) mod 256 = (n div 256) div 256 ^ (k - 1 - i) mod 256"
      by (simp add: div_mult2_eq)
  qed
  then have split: "map (\<lambda>i. n div 256 ^ (Suc k - 1 - i) mod 256) [0..<Suc k] =
      map (\<lambda>i. (n div 256) div 256 ^ (k - 1 - i) mod 256) [0..<k] @ [n mod 256]"
    by (simp only: upt_Suc_append [OF le0] map_append) simp
  have "foldl (\<lambda>a b. a * 256 + b) 0 (map (\<lambda>i. n div 256 ^ (Suc k - 1 - i) mod 256) [0..<Suc k])
      = (n div 256 mod 256 ^ k) * 256 + n mod 256"
    unfolding split foldl_append Suc [of "n div 256"] by simp
  also have "\<dots> = n mod 256 ^ Suc k"
    using mod_mult2_eq [of n 256 "256 ^ k"] by (simp add: mult.commute)
  finally show ?case .
qed simp

definition u128_from_be :: "u8 list \<Rightarrow> u128" where
  "u128_from_be bs = word_of_nat (foldl (\<lambda>a b. a * 256 + unat b) 0 bs)"

lemma u128_be_roundtrip [simp]: "u128_from_be (u128_to_be w) = w"
proof -
  have "foldl (\<lambda>a b. a * 256 + unat b) 0 (u128_to_be w) =
      foldl (\<lambda>a b. a * 256 + b) 0 (map (\<lambda>i. unat w div 256 ^ (16 - 1 - i) mod 256) [0..<16])"
    by (simp add: u128_to_be_def foldl_map)
  also have "\<dots> = unat w mod 256 ^ 16"
    by (rule unat_digits_value)
  also have "\<dots> = unat w"
    using unsigned_less [of w] by (intro mod_less) simp
  finally show ?thesis by (simp add: u128_from_be_def)
qed

lemma length_u128_to_be [simp]: "length (u128_to_be w) = 16"
  by (simp add: u128_to_be_def)

text \<open>A reference decoder for the answer section and for a whole response.\<close>

definition rr_head :: "u16 \<Rightarrow> u16 \<Rightarrow> u8 list" where
  "rr_head ty len = [0xC0, 0x0C] @ u16_to_be ty @ u16_to_be 1 @ u32_to_be 60 @ u16_to_be len"

fun decode_answers :: "nat \<Rightarrow> u8 list \<Rightarrow> ip_addr list option" where
  "decode_answers 0 bs = (if bs = [] then Some [] else None)"
| "decode_answers (Suc n) bs =
     (let rd = drop 12 bs
      in if take 12 bs = rr_head 1 4 \<and> 4 \<le> length rd
         then map_option (Cons (V4 (rd ! 0) (rd ! 1) (rd ! 2) (rd ! 3))) (decode_answers n (drop 4 rd))
         else if take 12 bs = rr_head 28 16 \<and> 16 \<le> length rd
         then map_option (Cons (V6 (u128_from_be (take 16 rd)))) (decode_answers n (drop 16 rd))
         else None)"

record dns_message =
  msg_id :: u16
  msg_flags :: u16
  msg_qdcount :: u16
  msg_ancount :: u16
  msg_question :: "u8 list"
  msg_answers :: "ip_addr list"

definition decode_response :: "nat \<Rightarrow> u8 list \<Rightarrow> dns_message option" where
  "decode_response qlen bs =
     (if length bs < 12 + qlen then None
      else
        let an = u16_from_be (bs ! 6) (bs ! 7)
        in (case decode_answers (unat an) (drop (12 + qlen) bs) of
              None \<Rightarrow> None
            | Some answers \<Rightarrow>
                Some \<lparr>msg_id = u16_from_be (bs ! 0) (bs ! 1), msg_flags = u16_from_be (bs ! 2) (bs ! 3),
                      msg_qdcount = u16_from_be (bs ! 4) (bs ! 5), msg_ancount = an,
                      msg_question = take qlen (drop 12 bs), msg_answers = answers\<rparr>))"

lemma answer_record_V4: "answer_record (V4 a b c d) = rr_head 1 4 @ [a, b, c, d]"
  by (simp add: answer_record_def rr_head_def)

lemma answer_record_V6: "answer_record (V6 w) = rr_head 28 16 @ u128_to_be w"
  by (simp add: answer_record_def rr_head_def)

lemma length_rr_head [simp]: "length (rr_head ty len) = 12"
  by (simp add: rr_head_def)

lemma rr_head_distinct: "rr_head 28 16 \<noteq> rr_head 1 4"
  by (simp add: rr_head_def u16_to_be_def)

lemma decode_answers_encoded: "decode_answers (length ips) (concat (map answer_record ips)) = Some ips"
proof (induction ips)
  case (Cons ip ips)
  then show ?case
    by (cases ip) (simp_all add: answer_record_V4 answer_record_V6 rr_head_distinct Let_def)
qed simp

lemma build_dns_response_decodes:
  assumes "12 \<le> e" "e \<le> length data" "length (filter (qtype_matches qtype) (or_default ips)) < 65536"
    and "build_dns_response ident data n e qtype ips = Ret resp"
  shows "decode_response (e - 12) resp = Some
    \<lparr>msg_id = ident, msg_flags = response_flags (response_rcode qtype (or_default ips)),
     msg_qdcount = 1, msg_ancount = word_of_nat (length (filter (qtype_matches qtype) (or_default ips))),
     msg_question = take (e - 12) (drop 12 data),
     msg_answers = filter (qtype_matches qtype) (or_default ips)\<rparr>"
proof -
  let ?m = "filter (qtype_matches qtype) (or_default ips)"
  let ?f = "response_flags (response_rcode qtype (or_default ips))"
  obtain i1 i2 where i: "u16_to_be ident = [i1, i2]" by (rule u16_to_be_cases)
  obtain f1 f2 where f: "u16_to_be ?f = [f1, f2]" by (rule u16_to_be_cases)
  obtain q1 q2 where q: "u16_to_be 1 = [q1, q2]" by (rule u16_to_be_cases)
  obtain a1 a2 where a: "u16_to_be (word_of_nat (length ?m)) = [a1, a2]" by (rule u16_to_be_cases)
  obtain z1 z2 where z: "u16_to_be 0 = [z1, z2]" by (rule u16_to_be_cases)
  have resp: "resp = [i1, i2, f1, f2, q1, q2, a1, a2, z1, z2, z1, z2]
      @ take (e - 12) (drop 12 data) @ concat (map answer_record ?m)"
    using assms by (simp add: build_dns_response_def Let_def slice_range_def i f q a z)
  have cnt: "unat (word_of_nat (length ?m) :: u16) = length ?m"
    using assms(3) by (simp add: unat_of_nat)
  have parts: "\<exists>hdr Q. resp = hdr @ Q @ concat (map answer_record ?m) \<and> length hdr = 12
      \<and> length Q = e - 12 \<and> Q = take (e - 12) (drop 12 data)"
    using assms(1,2) by (intro exI conjI) (rule resp, simp_all)
  then have rest: "drop (12 + (e - 12)) resp = concat (map answer_record ?m)"
    and quest: "take (e - 12) (drop 12 resp) = take (e - 12) (drop 12 data)"
    and len: "12 + (e - 12) \<le> length resp"
    by auto
  have hd: "resp ! 0 = i1" "resp ! Suc 0 = i2" "resp ! 2 = f1" "resp ! 3 = f2" "resp ! 4 = q1"
    "resp ! 5 = q2" "resp ! 6 = a1" "resp ! 7 = a2"
    by (simp_all add: resp)
  have "decode_answers (unat (u16_from_be a1 a2)) (drop (12 + (e - 12)) resp) = Some ?m"
    unfolding rest u16_be_roundtrip [OF a] cnt by (rule decode_answers_encoded)
  then show ?thesis
    using len quest
    by (simp add: decode_response_def Let_def hd u16_be_roundtrip [OF i] u16_be_roundtrip [OF f]
        u16_be_roundtrip [OF q] u16_be_roundtrip [OF a])
qed


section \<open>The handler on a well-formed query\<close>

text \<open>The law of \<open>to_lowercase\<close> that the handler relies on.\<close>

definition lower_ascii :: "(string \<Rightarrow> string) \<Rightarrow> bool" where
  "lower_ascii lower \<longleftrightarrow> (\<forall>s. is_ascii s \<longrightarrow> lower s = map ascii_lower s)"

text \<open>A header of twelve bytes with the standard opcode and at least one question.\<close>

definition query_header :: "u8 list \<Rightarrow> bool" where
  "query_header hdr \<longleftrightarrow> length hdr = 12
     \<and> (drop_bit 11 (u16_from_be (hdr ! 2) (hdr ! 3)) AND 0xF) = 0
     \<and> u16_from_be (hdr ! 4) (hdr ! 5) \<noteq> 0"

definition host_label :: "string \<Rightarrow> bool" where
  "host_label l \<longleftrightarrow> l \<noteq> [] \<and> length l < 256 \<and> is_ascii l \<and> CHR ''.'' \<notin> set l"

lemma label_ok_host: "host_label l \<Longrightarrow> label_ok l"
  by (simp add: host_label_def label_ok_def utf8_valid_str_bytes)

text \<open>The top-level label may be written in any ASCII case.\<close>

lemma host_label_internal: "map ascii_lower tld = ''internal'' \<Longrightarrow> host_label tld"
proof -
  assume tld: "map ascii_lower tld = ''internal''"
  have low: "(of_char c :: nat) < 128 \<or> ascii_lower c = c" for c by (auto simp: ascii_lower_def)
  have "length tld = length ''internal''" unfolding tld [symmetric] by simp
  then have len: "length tld = 8" by simp
  have img: "ascii_lower c \<in> set ''internal''" if "c \<in> set tld" for c
    using that unfolding tld [symmetric] by simp
  have "is_ascii tld"
    unfolding is_ascii_def list_all_iff
  proof
    fix c assume "c \<in> set tld"
    then show "(of_char c :: nat) < 128" using img [of c] low [of c] by auto
  qed
  moreover have "CHR ''.'' \<notin> set tld" using img [of "CHR ''.''"] by (auto simp: ascii_lower_def)
  ultimately show ?thesis using len by (auto simp: host_label_def)
qed

lemma is_ascii_append [simp]: "is_ascii (a @ b) \<longleftrightarrow> is_ascii a \<and> is_ascii b"
  by (simp add: is_ascii_def)

lemma lower_fqdn:
  assumes "lower_ascii lower" "host_label h" "host_label p" and tld: "map ascii_lower tld = ''internal''"
  shows "lower (join ''.'' [h, p, tld]) = fqdn (map ascii_lower h) (map ascii_lower p)"
proof -
  have dot: "ascii_lower (CHR ''.'') = CHR ''.''" "is_ascii ''.''"
    by (simp_all add: ascii_lower_def is_ascii_def)
  have join: "join ''.'' [h, p, tld] = h @ ''.'' @ p @ ''.'' @ tld" by simp
  have "is_ascii (join ''.'' [h, p, tld])"
    using assms host_label_internal [OF tld] dot(2)
    unfolding join is_ascii_append by (simp add: host_label_def)
  then have "lower (join ''.'' [h, p, tld]) = map ascii_lower (h @ ''.'' @ p @ ''.'' @ tld)"
    using assms(1) unfolding join by (simp add: lower_ascii_def)
  then show ?thesis by (simp add: fqdn_def dot tld)
qed

lemma is_internal_fqdn: "is_internal (fqdn h p)"
  by (simp add: is_internal_def fqdn_def suffix_def)

lemma handle_encoded_query:
  assumes hdr: "query_header hdr" and labels: "\<forall>l\<in>set labels. label_ok l"
  shows "handle_dns_query lower forward (hdr @ encode_question labels qtype qclass @ rest) st =
    (let data = hdr @ encode_question labels qtype qclass @ rest; name = join ''.'' labels
     in if is_internal (lower name)
        then (case build_dns_response (u16_from_be (hdr ! 0) (hdr ! 1)) data name
                     (12 + length (encode_question labels qtype qclass)) qtype
                     (resolve st (lower name)) of Panic \<Rightarrow> Panic | Ret r \<Rightarrow> Ret (Some r))
        else Ret (forward data))"
proof -
  let ?data = "hdr @ encode_question labels qtype qclass @ rest"
  have len: "length hdr = 12" using hdr by (simp add: query_header_def)
  have pq: "parse_question ?data 12 =
      Ret (Some (join ''.'' labels, qtype, 12 + length (encode_question labels qtype qclass)))"
    using parse_question_encoded [OF labels, of hdr qtype qclass rest] len by simp
  have nth: "i < 12 \<Longrightarrow> ?data ! i = hdr ! i" for i
    using len by (simp add: nth_append)
  show ?thesis
    using hdr len pq by (simp add: handle_dns_query_def query_header_def Let_def u16_at_Ret nth)
qed

section \<open>Properties\<close>

text \<open>C14: the embedded DNS provider refines its specification. After any history of
  \<open>register\<close> and \<open>deregister\<close> calls on a fresh provider, a \<open>lookup\<close> of a project and
  deployment succeeds with the addresses of that key in order of first registration, each once,
  independently of every other project and deployment.\<close>

theorem hickory_refines_ips_spec:
  "hickory_lookup (fold hickory.provider_step ops (hickory_new listen upstream)) p d
     = Ok (ips_spec ops p d)
   \<and> distinct (ips_spec ops p d)"
  using hickory.provider_run_look [of "hickory_new listen upstream" p d "[]" ops]
  by (simp add: hickory_lookup_def hickory_new_def ips_spec_def ips_spec_set_distinct)

text \<open>The type code under which a client asks for an address.\<close>

definition rr_type :: "ip_addr \<Rightarrow> u16" where
  "rr_type ip = (case ip of V4 _ _ _ _ \<Rightarrow> 1 | V6 _ \<Rightarrow> 28)"

lemma qtype_matches_rr_type: "qtype_matches qtype = (\<lambda>ip. qtype = 255 \<or> qtype = rr_type ip)"
  by (auto simp: fun_eq_iff qtype_matches_def rr_type_def split: ip_addr.split)

lemma response_flags_value:
  "response_flags (response_rcode qtype ips) = (if ips = [] then 0x8483 else 0x8480)"
  by (simp add: response_rcode_def response_flags_def)

text \<open>C9: end to end over the wire. For a standard query whose question names
  \<open>h.p.internal\<close>, each of the three labels in any ASCII case, the handler answers with a message
  that decodes to the query's identifier, the echoed question, the flags of an authoritative
  answer with code 3 when the name is unknown and 0 otherwise, and exactly the addresses of the
  name that the question type asks for (1 for IPv4, 28 for IPv6, 255 for both), in their
  registered order and correctly counted. The name must have fewer than 65536 of them: the
  answer count of a DNS message is a 16-bit field, and the code truncates it silently.\<close>

theorem dns_query_answer_decodes:
  assumes "lower_ascii lower" "query_header hdr" "host_label h" "host_label p"
    and tld: "map ascii_lower tld = ''internal''"
    and ips: "ips = or_default (resolve st (fqdn (map ascii_lower h) (map ascii_lower p)))"
    and answers: "answers = filter (\<lambda>ip. qtype = 255 \<or> qtype = rr_type ip) ips" "length answers < 65536"
  shows "\<exists>resp an. handle_dns_query lower forward
      (hdr @ encode_question [h, p, tld] qtype qclass @ rest) st = Ret (Some resp)
    \<and> unat an = length answers
    \<and> decode_response (length (encode_question [h, p, tld] qtype qclass)) resp =
      Some \<lparr>msg_id = u16_from_be (hdr ! 0) (hdr ! 1),
        msg_flags = (if ips = [] then 0x8483 else 0x8480), msg_qdcount = 1, msg_ancount = an,
        msg_question = encode_question [h, p, tld] qtype qclass, msg_answers = answers\<rparr>"
proof -
  let ?q = "encode_question [h, p, tld] qtype qclass"
  let ?data = "hdr @ ?q @ rest"
  let ?i = "u16_from_be (hdr ! 0) (hdr ! 1)"
  let ?n = "join ''.'' [h, p, tld]"
  let ?r = "resolve st (fqdn (map ascii_lower h) (map ascii_lower p))"
  have ans: "filter (qtype_matches qtype) (or_default ?r) = answers"
    by (simp add: answers(1) ips qtype_matches_rr_type)
  have len: "length hdr = 12" using assms(2) by (simp add: query_header_def)
  have labels: "\<forall>l\<in>set [h, p, tld]. label_ok l"
    using assms(3,4) label_ok_host label_ok_host [OF host_label_internal [OF tld]] by simp
  obtain resp where resp: "build_dns_response ?i ?data ?n (12 + length ?q) qtype ?r = Ret resp"
    using build_dns_response_Ret [of "12 + length ?q" ?data ?i ?n qtype ?r] len by auto
  have "handle_dns_query lower forward ?data st = Ret (Some resp)"
    unfolding handle_encoded_query [OF assms(2) labels]
      Let_def lower_fqdn [OF assms(1,3,4) tld] using resp is_internal_fqdn by simp
  moreover have "decode_response (12 + length ?q - 12) resp = Some
      \<lparr>msg_id = ?i, msg_flags = response_flags (response_rcode qtype (or_default ?r)),
       msg_qdcount = 1, msg_ancount = word_of_nat (length answers),
       msg_question = take (12 + length ?q - 12) (drop 12 ?data), msg_answers = answers\<rparr>"
    unfolding ans [symmetric] using answers(2) [folded ans]
    by (intro build_dns_response_decodes [OF _ _ _ resp]) (simp_all add: len ans)
  moreover have "unat (word_of_nat (length answers) :: u16) = length answers"
    using answers(2) by (simp add: unat_of_nat)
  ultimately show ?thesis using len by (auto simp: ips response_flags_value)
qed

text \<open>C19: no traffic stops the DNS server. Whatever datagrams arrive on the UDP socket and whatever bytes
  TCP clients send, whatever the store, the upstream and the lower-casing, neither the UDP
  task nor the handler of any connection panics: every index and slice that the parser, the
  handler and the response builder take is in range. Every datagram gets at most one answer, sent back to
  its source, in order of arrival.\<close>

theorem dns_server_survives:
  "(\<exists>out. udp_loop lower forward st dgrams = Ret out \<and> subseq (map fst out) (map fst dgrams))
   \<and> Panic \<notin> set (tcp_loop lower forward st conns)"
proof
  show "\<exists>out. udp_loop lower forward st dgrams = Ret out \<and> subseq (map fst out) (map fst dgrams)"
  proof (induction dgrams)
    case (Cons d dgrams)
    obtain src dgram where d: "d = (src, dgram)" by (cases d)
    obtain resp where "handle_dns_query lower forward (take 4096 dgram) st = Ret resp"
      using handle_dns_query_Ret [of lower forward "take 4096 dgram" st] by blast
    then show ?case using Cons by (auto simp: d split: option.splits)
  qed simp
  have "handle_tcp_dns_client lower forward werr stream st \<noteq> Panic" for werr and stream :: "u8 list"
    using handle_dns_query_Ret [of lower forward _ st]
    by (auto simp: handle_tcp_dns_client_def Let_def split: outcome.splits option.splits) (metis outcome.distinct(1))
  then show "Panic \<notin> set (tcp_loop lower forward st conns)"
    by (induction lower forward st conns rule: tcp_loop.induct) (auto dest: sym)
qed

text \<open>C24: parsing inverts encoding. A question encoded from any non-empty list of UTF-8 labels
  of 1 to 255 bytes is read back as the dotted name, the type, and the offset just behind it,
  wherever it stands in the message.\<close>

theorem parse_question_roundtrip:
  assumes "\<forall>l\<in>set labels. label_ok l"
  shows "parse_question (pre @ encode_question labels qtype qclass @ rest) (length pre) =
    Ret (Some (join ''.'' labels, qtype, length pre + length (encode_question labels qtype qclass)))"
  using assms by (rule parse_question_encoded)

text \<open>A query for a name outside \<open>.internal\<close> is never answered from the record store:
  the handler's result is that of forwarding the unchanged datagram.\<close>

theorem external_query_forwarded:
  assumes "query_header hdr" "\<forall>l\<in>set labels. label_ok l"
    and "\<not> is_internal (lower (join ''.'' labels))"
  shows "handle_dns_query lower forward (hdr @ encode_question labels qtype qclass @ rest) st =
    Ret (forward (hdr @ encode_question labels qtype qclass @ rest))"
  using assms handle_encoded_query [OF assms(1,2)] by (simp add: Let_def)


text \<open>C34: over TCP the two-byte prefix written before a response is the length of the
  response, as long as the response is shorter than 65536 bytes (each IPv4 answer takes 16 bytes
  and each IPv6 answer 28), so a client reads back exactly the bytes the handler produced.\<close>

theorem tcp_response_framed:
  assumes "handle_dns_query lower forward msg st = Ret (Some response)"
    and "length msg < 65536" "length response < 65536"
  shows "\<exists>l1 l2. handle_tcp_dns_client lower forward (\<lambda>_. None)
      (u16_to_be (word_of_nat (length msg)) @ msg) st = Ret (Ok (), [l1, l2] @ response)
    \<and> unat (u16_from_be l1 l2) = length response"
proof -
  obtain m1 m2 where m: "u16_to_be (word_of_nat (length msg)) = [m1, m2]" by (rule u16_to_be_cases)
  obtain l1 l2 where l: "u16_to_be (word_of_nat (length response)) = [l1, l2]"
    by (rule u16_to_be_cases)
  have "unat (u16_from_be m1 m2) = length msg"
    using assms(2) by (simp add: u16_be_roundtrip [OF m] unat_of_nat)
  then have "handle_tcp_dns_client lower forward (\<lambda>_. None) ([m1, m2] @ msg) st
      = Ret (Ok (), [l1, l2] @ response)"
    using assms(1) by (simp add: handle_tcp_dns_client_def Let_def l)
  moreover have "unat (u16_from_be l1 l2) = length response"
    using assms(3) by (simp add: u16_be_roundtrip [OF l] unat_of_nat)
  ultimately show ?thesis unfolding m by blast
qed

lemma ascii_lower_idem: "ascii_lower (ascii_lower c) = ascii_lower c"
  by (simp add: ascii_lower_def)

lemma ascii_lower_no_upper: "c \<in> set (map ascii_lower q) \<Longrightarrow> ascii_lower c = c"
  by (auto simp: ascii_lower_idem)

lemma lookup_register_new:
  "lookup (register dns_new p d ip) p' d' = (if p' = p \<and> d' = d then [ip] else [])"
  by (simp add: lookup_register add_ip_def)

text \<open>Names registered with an upper-case letter cannot be reached. The handler lower-cases
  the question but \<open>register\<close> stores the name as given, so a deployment registered under a name
  with an ASCII capital is never found by an ASCII query, whatever its case.\<close>


theorem uppercase_deployment_unreachable:
  assumes "lower_ascii lower" "is_ascii q"
    and up: "c \<in> set d" "ascii_lower c \<noteq> c"
  shows "resolve (register dns_new p d ip) (lower q) = None"
proof (rule ccontr)
  let ?s = "register dns_new p d ip"
  have "lower q = map ascii_lower q" using assms(1,2) by (simp add: lower_ascii_def)
  then have low: "c \<notin> set (lower q)" using up(2) ascii_lower_no_upper [of c q] by metis
  assume "resolve ?s (lower q) \<noteq> None"
  then obtain ips where "resolve ?s (lower q) = Some ips" by auto
  then obtain h p' where tr: "trim_end_matches (CHR ''.'') (lower q) = fqdn h p'"
    and r: "(case resolve_replica ?s p' h of Some i \<Rightarrow> Some [i] | None \<Rightarrow> resolve_host ?s p' h) = Some ips"
    by (rule resolve_SomeD)
  have "set (trim_end_matches (CHR ''.'') (lower q)) \<subseteq> set (lower q)"
    by (auto simp: trim_end_matches_def dest: set_dropWhileD)
  then have h: "c \<notin> set h" using low tr by (auto simp: fqdn_def)
  show False
  proof (cases "resolve_replica ?s p' h")
    case None
    then have "h = d" using r
      by (auto simp: resolve_host_def lookup_register_new Let_def split: if_splits)
    then show ?thesis using h up(1) by simp
  next
    case (Some i)
    then obtain d' j where "h = d' @ ''-'' @ j" and "i \<in> set (lookup ?s p' d')"
      using resolve_replica_SomeD by blast
    then show ?thesis using h up(1) by (auto simp: lookup_register_new split: if_splits)
  qed
qed

section \<open>Witnesses\<close>

text \<open>A concrete query header (identifier 66, recursion desired, one question).\<close>

definition sample_header :: "u8 list" where
  "sample_header = [0, 66, 1, 0, 0, 1, 0, 0, 0, 0, 0, 0]"

definition sample_store :: dns_record_store where
  "sample_store = register (register dns_new ''shop'' ''api'' (V4 10 0 0 1)) ''shop'' ''api'' (V4 10 0 0 2)"

lemma query_header_sample: "query_header sample_header"
  by (simp add: query_header_def sample_header_def u16_from_be_def)

lemma lower_ascii_map: "lower_ascii (map ascii_lower)"
  by (simp add: lower_ascii_def)

lemma host_label_samples: "host_label ''API''" "host_label ''shop''"
  by (simp_all add: host_label_def is_ascii_def)

theorem dns_query_answer_decodes_witness:
  "\<exists>resp an. handle_dns_query (map ascii_lower) (\<lambda>_. None)
      (sample_header @ encode_question [''API'', ''shop'', ''Internal''] 1 1 @ []) sample_store
      = Ret (Some resp)
    \<and> unat an = length [V4 10 0 0 1, V4 10 0 0 2]
    \<and> decode_response (length (encode_question [''API'', ''shop'', ''Internal''] 1 1)) resp =
      Some \<lparr>msg_id = u16_from_be (sample_header ! 0) (sample_header ! 1),
        msg_flags = (if [V4 10 0 0 1, V4 10 0 0 2] = [] then 0x8483 else 0x8480),
        msg_qdcount = 1, msg_ancount = an,
        msg_question = encode_question [''API'', ''shop'', ''Internal''] 1 1,
        msg_answers = [V4 10 0 0 1, V4 10 0 0 2]\<rparr>"
proof (rule dns_query_answer_decodes [OF lower_ascii_map query_header_sample host_label_samples])
  show "[V4 10 0 0 1, V4 10 0 0 2] =
      or_default (resolve sample_store (fqdn (map ascii_lower ''API'') (map ascii_lower ''shop'')))"
    by code_simp
  show "[V4 10 0 0 1, V4 10 0 0 2] =
      filter (\<lambda>ip. (1 :: u16) = 255 \<or> 1 = rr_type ip) [V4 10 0 0 1, V4 10 0 0 2]"
    by (simp add: rr_type_def)
  show "map ascii_lower ''Internal'' = ''internal''" by code_simp
qed simp

theorem parse_question_roundtrip_witness:
  "parse_question ([7] @ encode_question [''a'', ''b''] 28 1 @ [9]) (length [7::u8]) =
    Ret (Some (join ''.'' [''a'', ''b''], 28, length [7::u8] + length (encode_question [''a'', ''b''] 28 1)))"
  by (rule parse_question_roundtrip)
     (simp add: label_ok_def str_bytes_def)

theorem tcp_response_framed_witness:
  "\<exists>l1 l2. handle_tcp_dns_client (map ascii_lower) (\<lambda>_. Some [7]) (\<lambda>_. None)
      (u16_to_be (word_of_nat (length (sample_header @ encode_question [''www'', ''org''] 1 1)))
        @ sample_header @ encode_question [''www'', ''org''] 1 1) sample_store
      = Ret (Ok (), [l1, l2] @ [7])
    \<and> unat (u16_from_be l1 l2) = length [7::u8]"
proof (rule tcp_response_framed)
  show "handle_dns_query (map ascii_lower) (\<lambda>_. Some [7])
      (sample_header @ encode_question [''www'', ''org''] 1 1) sample_store = Ret (Some [7])"
    by code_simp
  show "length (sample_header @ encode_question [''www'', ''org''] 1 1) < 65536"
    by (simp add: sample_header_def encode_question_def)
qed simp

end
