(* ===== verification/Secrets.thy ===== *)
theory Secrets
  imports File_System "HOL-Library.Char_ord" "HOL-Library.List_Lexorder"
begin

text \<open>
  Secrets at rest: the encrypted store (\<open>src/adapters/secrets/encrypted.rs\<close>) and the master key
  on disk (\<open>src/crypto/master_key.rs\<close>). AES-256-GCM is a record of parameters; random nonces
  and keys are arguments.
\<close>

section \<open>The encrypted store\<close>

text \<open>\<open>ae_new\<close> is \<open>new_from_slice\<close>, \<open>ae_encrypt\<close> and \<open>ae_decrypt\<close> the two AEAD operations
  on a cipher, a nonce and a text.\<close>

record 'c aead =
  ae_new :: "string \<Rightarrow> string + 'c"
  ae_encrypt :: "'c \<Rightarrow> string \<Rightarrow> string \<Rightarrow> string + string"
  ae_decrypt :: "'c \<Rightarrow> string \<Rightarrow> string \<Rightarrow> string + string"

text \<open>The \<open>secrets\<close> table: the blob of each (project, name).\<close>

type_synonym secret_table = "(string \<times> string, string) hashmap"

record 'c secret_store =
  sec_rows :: secret_table
  sec_cipher :: 'c

definition secret_store_new ::
  "'c aead \<Rightarrow> string option \<Rightarrow> secret_table \<Rightarrow> string \<Rightarrow> 'c secret_store res" where
  "secret_store_new ae flt rows master_key =
     (case flt of Some e \<Rightarrow> Err (Secret (''failed to init secrets table: '' @ e))
      | None \<Rightarrow>
          (case ae_new ae master_key of
             Inl e \<Rightarrow> Err (Secret (''invalid key: '' @ e))
           | Inr c \<Rightarrow> Ok \<lparr>sec_rows = rows, sec_cipher = c\<rparr>))"

definition encrypt :: "'c aead \<Rightarrow> 'c \<Rightarrow> string \<Rightarrow> string \<Rightarrow> string res" where
  "encrypt ae c nonce plaintext =
     (case ae_encrypt ae c nonce plaintext of
        Inl e \<Rightarrow> Err (Secret (''encryption failed: '' @ e))
      | Inr ciphertext \<Rightarrow> Ok (nonce @ ciphertext))"

definition decrypt :: "'c aead \<Rightarrow> 'c \<Rightarrow> string \<Rightarrow> string res" where
  "decrypt ae c blob =
     (if length blob < 12 then Err (Secret ''ciphertext too short'')
      else map_err (\<lambda>e. Secret (''decryption failed: '' @ e)) (ae_decrypt ae c (take 12 blob) (drop 12 blob)))"

definition secret_set ::
  "'c aead \<Rightarrow> string option \<Rightarrow> string \<Rightarrow> string \<Rightarrow> string \<Rightarrow> string \<Rightarrow> 'c secret_store \<Rightarrow> unit res \<times> 'c secret_store" where
  "secret_set ae flt nonce project name val s =
     (case encrypt ae (sec_cipher s) nonce val of
        Inl e \<Rightarrow> (Err e, s)
      | Inr encrypted \<Rightarrow>
          (case flt of Some e \<Rightarrow> (Err (Secret (''failed to set secret: '' @ e)), s)
           | None \<Rightarrow> (Ok (), s\<lparr>sec_rows := hm_insert (project, name) encrypted (sec_rows s)\<rparr>)))"

definition secret_get ::
  "'c aead \<Rightarrow> string option \<Rightarrow> string \<Rightarrow> string \<Rightarrow> 'c secret_store \<Rightarrow> string option res" where
  "secret_get ae flt project name s =
     (case flt of Some e \<Rightarrow> Err (Secret (''query failed: '' @ e))
      | None \<Rightarrow>
          (case hm_get (sec_rows s) (project, name) of
             None \<Rightarrow> Ok None
           | Some blob \<Rightarrow>
               (case decrypt ae (sec_cipher s) blob of Inl e \<Rightarrow> Err e | Inr plaintext \<Rightarrow> Ok (Some plaintext))))"

text \<open>\<open>row_flt\<close> is a failure while the rows are read.\<close>

definition secret_list :: "string option \<Rightarrow> string option \<Rightarrow> string \<Rightarrow> 'c secret_store \<Rightarrow> string list res" where
  "secret_list flt row_flt project s =
     (case flt of Some e \<Rightarrow> Err (Secret (''query failed: '' @ e))
      | None \<Rightarrow>
          (case row_flt of Some e \<Rightarrow> Err (Secret (''row read failed: '' @ e))
           | None \<Rightarrow> Ok (sort (map (snd \<circ> fst) (filter (\<lambda>row. fst (fst row) = project) (sec_rows s))))))"

definition secret_delete ::
  "string option \<Rightarrow> string \<Rightarrow> string \<Rightarrow> 'c secret_store \<Rightarrow> unit res \<times> 'c secret_store" where
  "secret_delete flt project name s =
     (case flt of Some e \<Rightarrow> (Err (Secret (''delete failed: '' @ e)), s)
      | None \<Rightarrow> (Ok (), s\<lparr>sec_rows := hm_remove (project, name) (sec_rows s)\<rparr>))"

section \<open>The master key\<close>

definition key_len :: nat where
  "key_len = 32"

definition load_key :: "faults \<Rightarrow> string \<Rightarrow> fs \<Rightarrow> string res" where
  "load_key flt path f =
     (case fs_read flt path f of
        Inl e \<Rightarrow> Err (Secret (''failed to read master key: '' @ e))
      | Inr bytes \<Rightarrow>
          if length bytes \<noteq> key_len
          then Err (Secret (''master key invalid length: expected '' @ show_nat key_len @ '', got ''
                      @ show_nat (length bytes)))
          else Ok bytes)"

text \<open>\<open>rnd\<close> are the 32 random bytes; \<open>parent\<close> is \<open>Path::parent\<close> of the key path (\<open>None\<close> when it has none).\<close>

definition generate_key :: "faults \<Rightarrow> string option \<Rightarrow> string \<Rightarrow> string \<Rightarrow> fs \<Rightarrow> string res \<times> fs" where
  "generate_key flt parent rnd path f =
     (case (case parent of None \<Rightarrow> Inr () | Some d \<Rightarrow> fs_create_dir_all flt d) of
        Inl e \<Rightarrow> (Err (Secret (''mkdir failed: '' @ e)), f)
      | Inr _ \<Rightarrow>
          (case fs_write flt path rnd f of
             (Inl e, f1) \<Rightarrow> (Err (Secret (''write key failed: '' @ e)), f1)
           | (Inr _, f1) \<Rightarrow>
               (case flt (SetPermissions path) of
                  Some e \<Rightarrow> (Err (Secret (''set perms failed: '' @ e)), f1)
                | None \<Rightarrow> (Ok rnd, f1))))"

definition load_or_generate :: "faults \<Rightarrow> string \<Rightarrow> string \<Rightarrow> fs \<Rightarrow> string res \<times> fs" where
  "load_or_generate flt rnd data_dir f =
     (let key_path = path_join data_dir ''master.key''
      in if fs_exists key_path f then (load_key flt key_path f, f)
         else generate_key flt (Some data_dir) rnd key_path f)"

section \<open>The secret store contract\<close>

text \<open>Histories of a secret store over the values it holds.\<close>

datatype secret_op = SetSecret string string string | DeleteSecret string string

fun abs_step :: "secret_op \<Rightarrow> (string \<times> string \<Rightarrow> string option) \<Rightarrow> string \<times> string \<Rightarrow> string option" where
  "abs_step (SetSecret p n v) m = m((p, n) \<mapsto> v)"
| "abs_step (DeleteSecret p n) m = m((p, n) := None)"

locale secret_contract =
  fixes put :: "string \<Rightarrow> string \<Rightarrow> string \<Rightarrow> string \<Rightarrow> 's \<Rightarrow> unit res \<times> 's"
    and get :: "string \<Rightarrow> string \<Rightarrow> 's \<Rightarrow> string option res"
    and del :: "string \<Rightarrow> string \<Rightarrow> 's \<Rightarrow> unit res \<times> 's"
    and names :: "string \<Rightarrow> 's \<Rightarrow> string list res"
    and inv :: "'s \<Rightarrow> bool"
  assumes put_defined: "inv s \<Longrightarrow> length x = 12 \<Longrightarrow> \<exists>s'. put x p n v s = (Ok (), s')"
    and put_ok: "inv s \<Longrightarrow> length x = 12 \<Longrightarrow> put x p n v s = (Ok (), s') \<Longrightarrow>
      inv s' \<and> get q m s' = (if (q, m) = (p, n) then Ok (Some v) else get q m s)"
    and del_ok: "inv s \<Longrightarrow> \<exists>s'. del p n s = (Ok (), s') \<and> inv s'
      \<and> (\<forall>q m. get q m s' = (if (q, m) = (p, n) then Ok None else get q m s))"
    and names_ok: "inv s \<Longrightarrow> \<exists>ns. names p s = Ok ns \<and> sorted ns \<and> distinct ns
      \<and> set ns = {n. \<exists>v. get p n s = Ok (Some v)}"
begin

fun run :: "(string \<times> secret_op) list \<Rightarrow> 's \<Rightarrow> 's" where
  "run [] s = s"
| "run ((x, SetSecret p n v) # ops) s = run ops (snd (put x p n v s))"
| "run ((x, DeleteSecret p n) # ops) s = run ops (snd (del p n s))"

lemma run_refines:
  assumes "inv s" "\<And>p n. get p n s = Ok (m (p, n))" "list_all (\<lambda>o'. length (fst o') = 12) ops"
  shows "inv (run ops s) \<and> (\<forall>p n. get p n (run ops s) = Ok (fold (abs_step \<circ> snd) ops m (p, n)))"
  using assms
proof (induction ops s arbitrary: m rule: run.induct)
  case (2 x p n v ops s)
  obtain s' where s': "put x p n v s = (Ok (), s')"
    using put_defined [of s x p n v] "2.prems" by auto
  then have "inv s' \<and> (\<forall>q k. get q k s' = Ok ((m((p, n) \<mapsto> v)) (q, k)))"
    using put_ok [of s x p n v s'] "2.prems" by auto
  then show ?case using "2.IH" [of "m((p, n) \<mapsto> v)"] "2.prems" s' by (simp del: fun_upd_apply)
next
  case (3 x p n ops s)
  obtain s' where s': "del p n s = (Ok (), s')" "inv s'"
    "\<And>q k. get q k s' = Ok ((m((p, n) := None)) (q, k))"
    using del_ok [of s p n] "3.prems" by auto
  then show ?case using "3.IH" [of "m((p, n) := None)"] "3.prems" by (simp del: fun_upd_apply)
qed simp

end

section \<open>The encrypted store meets the contract\<close>

text \<open>What AES-GCM promises a correct user: with a 12-byte nonce encryption succeeds, and the
  ciphertext decrypts under the same cipher and nonce.\<close>

definition aead_ok :: "'c aead \<Rightarrow> 'c \<Rightarrow> bool" where
  "aead_ok ae c \<longleftrightarrow> (\<forall>nonce p. length nonce = 12 \<longrightarrow>
     (\<exists>ct. ae_encrypt ae c nonce p = Ok ct \<and> ae_decrypt ae c nonce ct = Ok p))"

definition secrets_inv :: "'c aead \<Rightarrow> 'c secret_store \<Rightarrow> bool" where
  "secrets_inv ae s \<longleftrightarrow> aead_ok ae (sec_cipher s) \<and> hm_wf (sec_rows s)
     \<and> (\<forall>row\<in>set (sec_rows s). \<exists>v. decrypt ae (sec_cipher s) (snd row) = Ok v)"

lemma encrypt_decrypt:
  assumes "aead_ok ae c" "length nonce = 12"
  obtains blob where "encrypt ae c nonce p = Ok blob" "decrypt ae c blob = Ok p"
proof -
  obtain ct where "ae_encrypt ae c nonce p = Ok ct" "ae_decrypt ae c nonce ct = Ok p"
    using assms by (auto simp: aead_ok_def)
  then show ?thesis using assms(2) by (intro that [of "nonce @ ct"]) (simp_all add: encrypt_def decrypt_def)
qed

lemma secret_get_Some:
  assumes "secrets_inv ae s"
  shows "(\<exists>v. secret_get ae None p n s = Ok (Some v)) \<longleftrightarrow> (\<exists>b. ((p, n), b) \<in> set (sec_rows s))"
proof -
  have rows: "((p, n), b) \<in> set (sec_rows s) \<longleftrightarrow> hm_get (sec_rows s) (p, n) = Some b" for b
    using assms by (simp add: secrets_inv_def hm_get_set)
  show ?thesis
  proof (cases "hm_get (sec_rows s) (p, n)")
    case (Some b)
    then have "\<exists>v. decrypt ae (sec_cipher s) b = Ok v"
      using assms rows [of b] by (force simp: secrets_inv_def)
    then show ?thesis using Some by (auto simp: rows secret_get_def)
  qed (simp add: rows secret_get_def)
qed

lemma secret_set_law:
  assumes "secrets_inv ae s" "length x = 12"
  shows "\<exists>s'. secret_set ae None x p n v s = (Ok (), s') \<and> secrets_inv ae s'
    \<and> (\<forall>q m. secret_get ae None q m s' = (if (q, m) = (p, n) then Ok (Some v) else secret_get ae None q m s))"
proof -
  obtain blob where b: "encrypt ae (sec_cipher s) x v = Ok blob" "decrypt ae (sec_cipher s) blob = Ok v"
    using assms by (metis encrypt_decrypt secrets_inv_def)
  let ?s = "s\<lparr>sec_rows := hm_insert (p, n) blob (sec_rows s)\<rparr>"
  have "secrets_inv ae ?s" using assms(1) b(2) by (auto simp: secrets_inv_def set_hm_insert)
  moreover have "secret_set ae None x p n v s = (Ok (), ?s)" by (simp add: secret_set_def b(1))
  ultimately show ?thesis using b(2) by (auto simp: secret_get_def split: option.split)
qed

lemma secret_list_law:
  assumes "secrets_inv ae s"
  shows "\<exists>ns. secret_list None None p s = Ok ns \<and> sorted ns \<and> distinct ns
    \<and> set ns = {n. \<exists>v. secret_get ae None p n s = Ok (Some v)}"
proof -
  let ?rows = "filter (\<lambda>row. fst (fst row) = p) (sec_rows s)"
  have "distinct (map fst (sec_rows s))" using assms by (simp add: secrets_inv_def hm_wf_def)
  then have d: "distinct ?rows" "inj_on fst (set (sec_rows s))" by (auto simp: distinct_map)
  have "inj_on (snd \<circ> fst) (set ?rows)"
    by (rule inj_onI) (use d(2) in \<open>auto simp: inj_on_def prod_eq_iff\<close>)
  then have "distinct (map (snd \<circ> fst) ?rows)" using d(1) by (simp add: distinct_map)
  moreover have "set (map (snd \<circ> fst) ?rows) = {n. \<exists>v. secret_get ae None p n s = Ok (Some v)}"
    by (force simp: secret_get_Some [OF assms])
  ultimately show ?thesis by (auto simp: secret_list_def)
qed

interpretation enc: secret_contract "secret_set ae None" "secret_get ae None" "secret_delete None" "secret_list None None"
    "secrets_inv ae" for ae :: "'c aead"
proof
  fix s :: "'c secret_store" and s' and x p n v q m :: string
  assume inv: "secrets_inv ae s"
  {
    assume x: "length x = 12"
    show "\<exists>s'. secret_set ae None x p n v s = (Ok (), s')" using secret_set_law [OF inv x] by blast
    assume "secret_set ae None x p n v s = (Ok (), s')"
    then show "secrets_inv ae s' \<and>
        secret_get ae None q m s' = (if (q, m) = (p, n) then Ok (Some v) else secret_get ae None q m s)"
      using secret_set_law [OF inv x, of p n v] by auto
  }
  have "secrets_inv ae (s\<lparr>sec_rows := hm_remove (p, n) (sec_rows s)\<rparr>)"
    using inv by (auto simp: secrets_inv_def set_hm_remove)
  then show "\<exists>s'. secret_delete None p n s = (Ok (), s') \<and> secrets_inv ae s' \<and>
      (\<forall>q m. secret_get ae None q m s' = (if (q, m) = (p, n) then Ok None else secret_get ae None q m s))"
    by (auto simp: secret_delete_def secret_get_def split: option.split)
  show "\<exists>ns. secret_list None None p s = Ok ns \<and> sorted ns \<and> distinct ns
      \<and> set ns = {n. \<exists>v. secret_get ae None p n s = Ok (Some v)}"
    by (rule secret_list_law [OF inv])
qed

section \<open>Properties\<close>

text \<open>The history of a store, each write with its fresh nonce.\<close>

fun secret_run :: "'c aead \<Rightarrow> (string \<times> secret_op) list \<Rightarrow> 'c secret_store \<Rightarrow> 'c secret_store" where
  "secret_run ae [] s = s"
| "secret_run ae ((x, SetSecret p n v) # ops) s = secret_run ae ops (snd (secret_set ae None x p n v s))"
| "secret_run ae ((x, DeleteSecret p n) # ops) s = secret_run ae ops (snd (secret_delete None p n s))"

lemma secret_run_eq: "secret_run ae ops s = enc.run ae ops s"
  by (induction ae ops s rule: secret_run.induct) simp_all

text \<open>C12: the encrypted store behaves like a plain map of secrets. After any history of sets (each
  with a 12-byte nonce) and deletes on a new store, \<open>get\<close> returns exactly the value last set and
  not deleted, decrypted, and \<open>list\<close> returns the names of the project's secrets, sorted and
  without repetition.\<close>

theorem secret_store_refines_map:
  assumes "secret_store_new ae None [] key = Ok s0" "aead_ok ae (sec_cipher s0)"
    "list_all (\<lambda>o'. length (fst o') = 12) ops"
  shows "(\<forall>p n. secret_get ae None p n (secret_run ae ops s0) = Ok (fold (abs_step \<circ> snd) ops Map.empty (p, n)))
    \<and> (\<exists>ns. secret_list None None project (secret_run ae ops s0) = Ok ns \<and> sorted ns \<and> distinct ns
         \<and> set ns = {n. \<exists>v. fold (abs_step \<circ> snd) ops Map.empty (project, n) = Some v})"
proof -
  have empty: "sec_rows s0 = []"
    using assms(1) by (auto simp: secret_store_new_def split: sum.splits)
  have "secrets_inv ae s0" using assms(2) empty by (simp add: secrets_inv_def)
  moreover have "secret_get ae None p n s0 = Ok (Map.empty (p, n))" for p n
    by (simp add: secret_get_def empty)
  ultimately have "secrets_inv ae (secret_run ae ops s0)"
    and get: "\<And>p n. secret_get ae None p n (secret_run ae ops s0) = Ok (fold (abs_step \<circ> snd) ops Map.empty (p, n))"
    using enc.run_refines [OF _ _ assms(3), of ae s0 Map.empty] by (simp_all add: secret_run_eq)
  then show ?thesis using enc.names_ok [of ae "secret_run ae ops s0" project] by (simp add: get)
qed

lemma obtained_key_stored:
  assumes "load_or_generate flt rnd dir f = (Ok key, f1)" "length rnd = 32"
  shows "hm_get f1 (path_join dir ''master.key'') = Some key \<and> length key = 32"
proof (cases "fs_exists (path_join dir ''master.key'') f")
  case True
  then show ?thesis using assms
    by (auto simp: load_or_generate_def Let_def load_key_def fs_read_def key_len_def split: option.splits sum.splits if_splits)
next
  case False
  then show ?thesis using assms
    by (auto simp: load_or_generate_def Let_def generate_key_def split: option.splits sum.splits prod.splits
        dest!: fs_write_cases)
qed

lemma stored_key_loaded:
  "hm_get f (path_join dir ''master.key'') = Some key \<Longrightarrow> length key = 32 \<Longrightarrow> load_or_generate no_faults rnd dir f = (Ok key, f)"
  by (simp add: load_or_generate_def fs_exists_def load_key_def key_len_def)

text \<open>C32: the master key survives restarts. Whatever the disk held, if the daemon obtained a key, it has
  32 bytes and every later start without faults obtains the same key and leaves the disk alone.\<close>

theorem master_key_stable:
  assumes "load_or_generate flt rnd dir f = (Ok key, f1)" "length rnd = 32"
  shows "length key = 32 \<and> load_or_generate no_faults rnd' dir f1 = (Ok key, f1)"
  using obtained_key_stored [OF assms] stored_key_loaded by blast

text \<open>A damaged key file is never used: when \<open>master.key\<close> exists with a length other than 32, the
  daemon reports an error naming both lengths and the file is not replaced.\<close>

theorem damaged_master_key_refused:
  assumes "hm_get f (path_join dir ''master.key'') = Some bytes" "length bytes \<noteq> 32"
  shows "load_or_generate no_faults rnd dir f =
    (Err (Secret (''master key invalid length: expected 32, got '' @ show_nat (length bytes))), f)"
proof -
  have "show_nat 32 = ''32''" by code_simp
  then show ?thesis using assms by (simp add: load_or_generate_def fs_exists_def load_key_def key_len_def)
qed

text \<open>A key whose file could not be protected is used all the same. When only the call that restricts the permissions of a
  new key file fails, the start reports the error but leaves the key behind, and the next start
  takes it without looking at its permissions.\<close>

theorem unprotected_key_accepted:
  assumes "hm_get f (path_join dir ''master.key'') = None" "length rnd = 32"
    "flt = (\<lambda>c. if c = SetPermissions (path_join dir ''master.key'') then Some e else None)"
  shows "\<exists>f1. load_or_generate flt rnd dir f = (Err (Secret (''set perms failed: '' @ e)), f1)
    \<and> load_or_generate no_faults rnd' dir f1 = (Ok rnd, f1)"
proof -
  have "load_or_generate flt rnd dir f =
      (Err (Secret (''set perms failed: '' @ e)), hm_insert (path_join dir ''master.key'') rnd f)"
    using assms(1,3) by (simp add: load_or_generate_def fs_exists_def generate_key_def fs_create_dir_all_def fs_write_def)
  then show ?thesis using stored_key_loaded [OF _ assms(2)] by simp
qed

section \<open>Witnesses\<close>

text \<open>A cipher that stores the text as it is.\<close>

definition sample_aead :: "string aead" where
  "sample_aead = \<lparr>ae_new = Ok, ae_encrypt = (\<lambda>k n p. Ok (rev p)), ae_decrypt = (\<lambda>k n c. Ok (rev c))\<rparr>"

theorem secret_store_refines_map_witness:
  "secret_get sample_aead None ''shop'' ''db''
      (secret_run sample_aead [(replicate 12 (CHR ''n''), SetSecret ''shop'' ''db'' ''pw'')] \<lparr>sec_rows = [], sec_cipher = ''k''\<rparr>)
    = Ok (Some ''pw'')"
  using secret_store_refines_map [of sample_aead "''k''" "\<lparr>sec_rows = [], sec_cipher = ''k''\<rparr>"
      "[(replicate 12 (CHR ''n''), SetSecret ''shop'' ''db'' ''pw'')]"]
  by (simp add: secret_store_new_def sample_aead_def aead_ok_def)

theorem master_key_stable_witness:
  "load_or_generate no_faults [] ''/d'' (snd (load_or_generate no_faults (replicate 32 (CHR ''k'')) ''/d'' []))
     = (Ok (replicate 32 (CHR ''k'')), snd (load_or_generate no_faults (replicate 32 (CHR ''k'')) ''/d'' []))"
  by (rule conjunct2 [OF master_key_stable [where flt = no_faults and dir = "''/d''" and f = "[]" and rnd = "replicate 32 (CHR ''k'')"]])
     (simp_all add: load_or_generate_def fs_exists_def generate_key_def Let_def no_faults_def fs_create_dir_all_def fs_write_def)

end
