(* ===== verification/Proxy_Text.thy ===== *)
theory Proxy_Text
  imports File_System
begin

text \<open>
  The proxy port and its two backends that write text: nginx (\<open>src/adapters/proxy/nginx.rs\<close>),
  one file per domain, and Caddy (\<open>src/adapters/proxy/caddy.rs\<close>), one Caddyfile that
  \<open>remove_route\<close> edits line by line. Files are those of \<open>File_System\<close>; running the
  nginx binary and the HTTP calls to Caddy's admin API are parameters. The text that the sources
  push piece by piece is written as the list of its lines.
\<close>

section \<open>The proxy port\<close>

datatype tls_config = NoTls | AutoTls string | ManualTls string string

record upstream =
  up_address :: string
  up_weight :: u32

record route_config =
  rc_domain :: string
  rc_upstream :: "upstream list"
  rc_tls :: tls_config

text \<open>
  What the routing layer relies on: after \<open>apply_routes\<close> each of the routes is served as
  described, after \<open>remove_route\<close> that domain is not served any more, and all other domains
  are as before. \<open>ok\<close> bounds the domain names for which a backend keeps this promise.
\<close>

locale proxy_backend =
  fixes apply_routes :: "route_config list \<Rightarrow> 's \<Rightarrow> unit res \<times> 's"
    and remove_route :: "string \<Rightarrow> 's \<Rightarrow> unit res \<times> 's"
    and served :: "'s \<Rightarrow> string \<Rightarrow> 'v option"
    and view :: "route_config \<Rightarrow> 'v"
    and inv :: "'s \<Rightarrow> bool"
    and ok :: "string \<Rightarrow> bool"
  assumes apply_served: "inv s \<Longrightarrow> distinct (map rc_domain rs) \<Longrightarrow> list_all (ok \<circ> rc_domain) rs \<Longrightarrow>
      apply_routes rs s = (Ok (), s') \<Longrightarrow> inv s' \<and> (\<forall>r\<in>set rs. served s' (rc_domain r) = Some (view r))"
    and remove_served: "inv s \<Longrightarrow> ok d \<Longrightarrow> ok d' \<Longrightarrow> remove_route d s = (Ok (), s') \<Longrightarrow>
      inv s' \<and> served s' d' = (if d' = d then None else served s d')"
begin

lemma apply_remove:
  assumes "inv s" "distinct (map rc_domain rs)" "list_all (ok \<circ> rc_domain) rs" "ok d"
    "apply_routes rs s = (Ok (), s1)" "remove_route d s1 = (Ok (), s2)"
  shows "served s2 d = None \<and> (\<forall>r\<in>set rs. rc_domain r \<noteq> d \<longrightarrow> served s2 (rc_domain r) = Some (view r))"
proof -
  have 1: "inv s1" "\<And>r. r \<in> set rs \<Longrightarrow> served s1 (rc_domain r) = Some (view r)"
    using apply_served [OF assms(1-3,5)] by auto
  have "ok (rc_domain r)" if "r \<in> set rs" for r using assms(3) that by (simp add: list_all_iff)
  then show ?thesis
    using 1 remove_served [OF 1(1) assms(4) _ assms(6)] assms(4) by simp
qed

end

section \<open>nginx\<close>

record nginx_backend =
  ng_conf_dir :: string
  ng_bin :: string

definition nginx_conf_path :: "nginx_backend \<Rightarrow> string \<Rightarrow> string" where
  "nginx_conf_path b domain = path_join (ng_conf_dir b) (''nexa-'' @ domain @ ''.conf'')"

definition domain_underscored :: "string \<Rightarrow> string" where
  "domain_underscored d = map (\<lambda>c. if c = CHR ''.'' \<or> c = CHR ''-'' then CHR ''_'' else c) d"

definition nginx_server_line :: "upstream \<Rightarrow> string" where
  "nginx_server_line up =
     (if up_weight up > 1
      then ''    server '' @ up_address up @ '' weight='' @ show_nat (unat (up_weight up)) @ '';''
      else ''    server '' @ up_address up @ '';'')"

definition nginx_upstream_block :: "route_config \<Rightarrow> string list" where
  "nginx_upstream_block r =
     [''upstream '' @ domain_underscored (rc_domain r) @ '' {''] @ map nginx_server_line (rc_upstream r) @ [''}'', '''']"

definition nginx_proxy_location :: "route_config \<Rightarrow> string list" where
  "nginx_proxy_location r =
     [''    location / {'',
      ''        proxy_pass http://'' @ domain_underscored (rc_domain r) @ '';'',
      ''    proxy_set_header Host $host;'',
      ''    proxy_set_header X-Real-IP $remote_addr;'',
      ''    proxy_set_header X-Forwarded-For $proxy_add_x_forwarded_for;'',
      ''    proxy_set_header X-Forwarded-Proto $scheme;'',
      ''    }'',
      ''}'']"

definition nginx_server_open :: "string \<Rightarrow> string \<Rightarrow> string list" where
  "nginx_server_open listen domain =
     [''server {'', ''    listen '' @ listen @ '';'', ''    server_name '' @ domain @ '';'', '''']"

definition nginx_redirect :: "string list" where
  "nginx_redirect =
     [''    location / {'', ''        return 301 https://$host$request_uri;'', ''    }'', ''}'', '''']"

definition nginx_lines :: "route_config \<Rightarrow> string list" where
  "nginx_lines r =
     nginx_upstream_block r @
     (case rc_tls r of
        NoTls \<Rightarrow> nginx_server_open ''80'' (rc_domain r) @ nginx_proxy_location r
      | AutoTls email \<Rightarrow>
          nginx_server_open ''80'' (rc_domain r)
          @ [''    location /.well-known/acme-challenge/ {'', ''        root /var/www/certbot;'', ''    }'', '''']
          @ nginx_redirect
          @ nginx_server_open ''443 ssl'' (rc_domain r)
          @ [''    ssl_certificate /etc/letsencrypt/live/'' @ rc_domain r @ ''/fullchain.pem;'',
             ''    ssl_certificate_key /etc/letsencrypt/live/'' @ rc_domain r @ ''/privkey.pem;'',
             ''    # Managed by Certbot for '' @ email, '''']
          @ nginx_proxy_location r
      | ManualTls cert key \<Rightarrow>
          nginx_server_open ''80'' (rc_domain r) @ nginx_redirect
          @ nginx_server_open ''443 ssl'' (rc_domain r)
          @ [''    ssl_certificate '' @ cert @ '';'', ''    ssl_certificate_key '' @ key @ '';'', '''']
          @ nginx_proxy_location r)"

definition nginx_render :: "route_config \<Rightarrow> string" where
  "nginx_render r = unlines (nginx_lines r)"

fun nginx_apply :: "nginx_backend \<Rightarrow> faults \<Rightarrow> route_config list \<Rightarrow> fs \<Rightarrow> unit res \<times> fs" where
  "nginx_apply b flt [] f = (Ok (), f)"
| "nginx_apply b flt (r # rs) f =
     (let path = nginx_conf_path b (rc_domain r)
      in (case fs_write flt path (nginx_render r) f of
            (Inl e, f1) \<Rightarrow> (Err (Proxy (''failed to write nginx config '' @ path @ '': '' @ e)), f1)
          | (Inr _, f1) \<Rightarrow> nginx_apply b flt rs f1))"

text \<open>A removal that fails because the file is not there is a success.\<close>

definition nginx_remove :: "nginx_backend \<Rightarrow> faults \<Rightarrow> string \<Rightarrow> fs \<Rightarrow> unit res \<times> fs" where
  "nginx_remove b flt domain f =
     (let path = nginx_conf_path b domain
      in (case fs_remove flt path f of
            (Inr _, f1) \<Rightarrow> (Ok (), f1)
          | (Inl e, f1) \<Rightarrow>
              if flt (RemoveFile path) = None then (Ok (), f1)
              else (Err (Proxy (''failed to remove nginx config '' @ path @ '': '' @ e)), f1)))"

text \<open>\<open>run\<close> executes a command: an error to start it, or its success flag and standard error.\<close>

definition nginx_reload :: "(string \<Rightarrow> string list \<Rightarrow> string + bool \<times> string) \<Rightarrow> nginx_backend \<Rightarrow> unit res" where
  "nginx_reload run b =
     (case run (ng_bin b) [''-s'', ''reload''] of
        Inl e \<Rightarrow> Err (Proxy (''failed to run nginx reload: '' @ e))
      | Inr (success, stderr) \<Rightarrow>
          if \<not> success then Err (Proxy (''nginx reload failed: '' @ stderr)) else Ok ())"

definition nginx_health :: "(string \<Rightarrow> string list \<Rightarrow> string + bool \<times> string) \<Rightarrow> nginx_backend \<Rightarrow> bool res" where
  "nginx_health run b =
     (case run (ng_bin b) [''-t''] of
        Inl e \<Rightarrow> Err (Proxy (''failed to run nginx -t: '' @ e))
      | Inr (success, _) \<Rightarrow> Ok success)"

section \<open>Caddy\<close>

record caddy_backend =
  cd_path :: string
  cd_admin_api :: string

definition caddy_header :: "route_config \<Rightarrow> string list" where
  "caddy_header r =
     (case rc_tls r of
        NoTls \<Rightarrow> [''http://'' @ rc_domain r @ '' {'']
      | AutoTls email \<Rightarrow> [rc_domain r @ '' {'', ''    tls '' @ email]
      | ManualTls cert key \<Rightarrow> [rc_domain r @ '' {'', ''    tls '' @ cert @ '' '' @ key])"

text \<open>One block of the Caddyfile; \<open>addrs[0]\<close> panics when the route has no upstream.\<close>

definition caddy_block :: "route_config \<Rightarrow> string list outcome" where
  "caddy_block r =
     (let addrs = map up_address (rc_upstream r);
          has_weights = list_ex (\<lambda>u. up_weight u > 1) (rc_upstream r)
      in if length (rc_upstream r) > 1
         then Ret (caddy_header r
                @ [''    reverse_proxy '' @ join '' '' addrs @ '' {'']
                @ (if has_weights then [''        lb_policy weighted_round_robin''] else [])
                @ [''        health_uri /health'', ''        health_interval 10s'', ''    }'', ''}''])
         else (case addrs of
                 [] \<Rightarrow> Panic
               | a # _ \<Rightarrow> Ret (caddy_header r @ [''    reverse_proxy '' @ a, ''}''])))"

fun caddy_lines :: "route_config list \<Rightarrow> string list outcome" where
  "caddy_lines [] = Ret []"
| "caddy_lines [r] = caddy_block r"
| "caddy_lines (r # rs) =
     (case caddy_block r of
        Panic \<Rightarrow> Panic
      | Ret b \<Rightarrow> (case caddy_lines rs of Panic \<Rightarrow> Panic | Ret ls \<Rightarrow> Ret (b @ [] # ls)))"

definition render_caddyfile :: "route_config list \<Rightarrow> string outcome" where
  "render_caddyfile rs = (case caddy_lines rs of Panic \<Rightarrow> Panic | Ret ls \<Rightarrow> Ret (unlines ls))"

definition caddy_apply :: "caddy_backend \<Rightarrow> faults \<Rightarrow> route_config list \<Rightarrow> fs \<Rightarrow> (unit res \<times> fs) outcome" where
  "caddy_apply b flt rs f =
     (case render_caddyfile rs of
        Panic \<Rightarrow> Panic
      | Ret content \<Rightarrow>
          Ret (case fs_write flt (cd_path b) content f of
                 (Inl e, f1) \<Rightarrow> (Err (Proxy (''failed to write Caddyfile '' @ cd_path b @ '': '' @ e)), f1)
               | (Inr _, f1) \<Rightarrow> (Ok (), f1)))"

definition is_domain_line :: "string \<Rightarrow> string \<Rightarrow> bool" where
  "is_domain_line domain trimmed \<longleftrightarrow>
     starts_with trimmed (domain @ '' '') \<or> starts_with trimmed (''http://'' @ domain @ '' '')
     \<or> starts_with trimmed (''https://'' @ domain @ '' '')
     \<or> trimmed = domain \<or> trimmed = ''http://'' @ domain \<or> trimmed = ''https://'' @ domain"

definition brace_delta :: "string \<Rightarrow> int" where
  "brace_delta line = int (count_list line (CHR ''{'')) - int (count_list line (CHR ''}''))"

text \<open>The scanner of \<open>remove_route\<close>: \<open>skip\<close> and \<open>brace_depth\<close> are its state, the result the lines kept.\<close>

fun caddy_scan :: "string \<Rightarrow> bool \<Rightarrow> int \<Rightarrow> string list \<Rightarrow> string list" where
  "caddy_scan domain skip depth [] = []"
| "caddy_scan domain skip depth (line # rest) =
     (let trimmed = trim line
      in if \<not> skip \<and> is_domain_line domain trimmed \<and> ends_with trimmed ''{''
         then caddy_scan domain True 1 rest
         else if skip
         then (let depth' = depth + brace_delta line in caddy_scan domain (depth' > 0) depth' rest)
         else line # caddy_scan domain skip depth rest)"

definition caddy_remove_text :: "string \<Rightarrow> string \<Rightarrow> string" where
  "caddy_remove_text domain content =
     (let result = unlines (caddy_scan domain False 0 (lines content));
          trimmed = trim_end result
      in if trimmed = [] then [] else trimmed @ [CHR 0x0A])"

definition caddy_remove :: "caddy_backend \<Rightarrow> faults \<Rightarrow> string \<Rightarrow> fs \<Rightarrow> unit res \<times> fs" where
  "caddy_remove b flt domain f =
     (case fs_read_to_string flt (cd_path b) f of
        Inl e \<Rightarrow>
          if flt (ReadFile (cd_path b)) = None \<and> \<not> fs_exists (cd_path b) f then (Ok (), f)
          else (Err (Proxy (''failed to read Caddyfile: '' @ e)), f)
      | Inr content \<Rightarrow>
          (case fs_write flt (cd_path b) (caddy_remove_text domain content) f of
             (Inl e, f1) \<Rightarrow> (Err (Proxy (''failed to rewrite Caddyfile: '' @ e)), f1)
           | (Inr _, f1) \<Rightarrow> (Ok (), f1)))"

text \<open>\<open>post\<close> is the HTTP request: a transport error, or the status text, its success flag and the body.\<close>

definition caddy_reload ::
  "(string \<Rightarrow> string \<Rightarrow> string + bool \<times> string \<times> string) \<Rightarrow> caddy_backend \<Rightarrow> faults \<Rightarrow> fs \<Rightarrow> unit res" where
  "caddy_reload post b flt f =
     (case fs_read_to_string flt (cd_path b) f of
        Inl e \<Rightarrow> Err (Proxy (''failed to read Caddyfile for reload: '' @ e))
      | Inr content \<Rightarrow>
          (case post (cd_admin_api b @ ''/load'') content of
             Inl e \<Rightarrow> Err (Proxy (''caddy reload request failed: '' @ e))
           | Inr (success, status, body) \<Rightarrow>
               if \<not> success then Err (Proxy (''caddy reload returned '' @ status @ '': '' @ body)) else Ok ()))"

definition caddy_health :: "(string \<Rightarrow> string + bool) \<Rightarrow> caddy_backend \<Rightarrow> bool res" where
  "caddy_health get b =
     (case get (cd_admin_api b @ ''/config/'') of Inr success \<Rightarrow> Ok success | Inl _ \<Rightarrow> Ok False)"

section \<open>Editing a Caddyfile\<close>

text \<open>Words that fit into a Caddyfile: printable characters, no braces. Domains have a dot and no colon.\<close>

definition clean_word :: "string \<Rightarrow> bool" where
  "clean_word w \<longleftrightarrow> w \<noteq> [] \<and> list_all (\<lambda>c. printable c \<and> c \<noteq> CHR ''{'' \<and> c \<noteq> CHR ''}'') w"

definition clean_domain :: "string \<Rightarrow> bool" where
  "clean_domain d \<longleftrightarrow> clean_word d \<and> CHR ''.'' \<in> set d \<and> CHR '':'' \<notin> set d"

definition clean_route :: "route_config \<Rightarrow> bool" where
  "clean_route r \<longleftrightarrow> clean_domain (rc_domain r) \<and> rc_upstream r \<noteq> []
     \<and> list_all (\<lambda>u. clean_word (up_address u)) (rc_upstream r)
     \<and> (case rc_tls r of NoTls \<Rightarrow> True | AutoTls e \<Rightarrow> clean_word e | ManualTls c k \<Rightarrow> clean_word c \<and> clean_word k)"

lemma printable_consts:
  "\<not> printable (CHR 0x20)" "\<not> printable (CHR 0x0A)" "\<not> printable (CHR 0x0D)"
  "printable (CHR ''{'')" "printable (CHR ''}'')" "printable (CHR ''h'')" "printable (CHR ''t'')"
  "printable (CHR ''r'')"
  by (simp_all add: printable_def)

lemma clean_wordD:
  assumes "clean_word w"
  shows "w \<noteq> []" "CHR 0x20 \<notin> set w" "CHR 0x0A \<notin> set w" "CHR 0x0D \<notin> set w"
    "CHR ''{'' \<notin> set w" "CHR ''}'' \<notin> set w" "printable (hd w)" "printable (last w)"
    "last w \<noteq> CHR ''{''"
proof -
  have p: "\<And>c. c \<in> set w \<Longrightarrow> printable c \<and> c \<noteq> CHR ''{'' \<and> c \<noteq> CHR ''}''" and ne: "w \<noteq> []"
    using assms by (auto simp: clean_word_def list_all_iff)
  show "w \<noteq> []" by (rule ne)
  show "CHR 0x20 \<notin> set w" "CHR 0x0A \<notin> set w" "CHR 0x0D \<notin> set w" "CHR ''{'' \<notin> set w" "CHR ''}'' \<notin> set w"
    using p printable_consts(1-3) by blast+
  show "printable (hd w)" "printable (last w)" "last w \<noteq> CHR ''{''" using p ne by simp_all
qed

lemma brace_delta_append [simp]: "brace_delta (a @ b) = brace_delta a + brace_delta b"
  by (simp add: brace_delta_def)

lemma brace_delta_Nil [simp]: "brace_delta [] = 0"
  by (simp add: brace_delta_def)

lemma brace_delta_Cons [simp]:
  "brace_delta (c # l) = (if c = CHR ''{'' then 1 else if c = CHR ''}'' then -1 else 0) + brace_delta l"
  by (simp add: brace_delta_def)

lemma brace_delta_clean [simp]: "clean_word w \<Longrightarrow> brace_delta w = 0"
  using clean_wordD(5,6) [of w] by (simp add: brace_delta_def count_notin)

lemma brace_delta_join [simp]:
  "list_all clean_word ws \<Longrightarrow> brace_delta (join '' '' ws) = 0"
  by (induction "'' ''" ws rule: join.induct) simp_all

lemma first_word:
  "CHR 0x20 \<notin> set w \<Longrightarrow> CHR 0x20 \<notin> set x \<Longrightarrow>
     starts_with (w @ CHR 0x20 # u) (x @ '' '') \<longleftrightarrow> w = x"
proof (induction w arbitrary: x)
  case Nil
  then show ?case by (cases x) auto
next
  case (Cons a w)
  then show ?case by (cases x) auto
qed

lemma domain_line_word:
  assumes "CHR 0x20 \<notin> set w" "CHR 0x20 \<notin> set d"
  shows "is_domain_line d (w @ CHR 0x20 # u) \<longleftrightarrow> w = d \<or> w = ''http://'' @ d \<or> w = ''https://'' @ d"
proof -
  have "w @ CHR 0x20 # u \<noteq> x" if "CHR 0x20 \<notin> set x" for x using that by auto
  then show ?thesis
    using first_word [OF assms(1), of d u] first_word [OF assms(1), of "''http://'' @ d" u]
      first_word [OF assms(1), of "''https://'' @ d" u] assms(2)
    by (simp add: is_domain_line_def)
qed

text \<open>A line the scanner keeps when it is not inside a block.\<close>

definition keeps :: "string \<Rightarrow> string \<Rightarrow> bool" where
  "keeps d l \<longleftrightarrow> \<not> (is_domain_line d (trim l) \<and> ends_with (trim l) ''{'')"

lemma ends_with_char: "ends_with t [c] \<longleftrightarrow> t \<noteq> [] \<and> last t = c"
  by (auto simp: suffix_def) (metis append_butlast_last_id)

lemma keeps_last: "l \<noteq> [] \<Longrightarrow> printable (last l) \<Longrightarrow> last l \<noteq> CHR ''{'' \<Longrightarrow> keeps d l"
  using trim_last [of l] by (simp add: keeps_def ends_with_char)

lemma keeps_Nil: "clean_domain d \<Longrightarrow> keeps d []"
  by (simp add: keeps_def ends_with_char)

lemma trim_brace_line:
  "printable c \<Longrightarrow> trim (c # w @ '' {'') = c # w @ '' {''"
  by (rule trim_printable) (simp_all add: printable_consts)

lemma clean_domain_space: "clean_domain d \<Longrightarrow> CHR 0x20 \<notin> set d"
  by (simp add: clean_domain_def clean_wordD)

lemma keeps_domain:
  assumes "clean_domain d" "clean_domain D"
  shows "keeps d (D @ '' {'') \<longleftrightarrow> D \<noteq> d" "keeps d (''http://'' @ D @ '' {'') \<longleftrightarrow> D \<noteq> d"
proof -
  have sp: "CHR 0x20 \<notin> set d" "CHR 0x20 \<notin> set D" using assms by (simp_all add: clean_domain_space)
  have colon: "CHR '':'' \<notin> set d" "CHR '':'' \<notin> set D" using assms by (simp_all add: clean_domain_def)
  obtain c w where D: "D = c # w" "printable c"
    using assms(2) clean_wordD(1,7) [of D] by (cases D) (auto simp: clean_domain_def)
  have ne: "D \<noteq> ''http://'' @ d" "D \<noteq> ''https://'' @ d" using colon(2) by auto
  have "trim (D @ '' {'') = D @ '' {''" using trim_brace_line [OF D(2), of w] D(1) by simp
  then show "keeps d (D @ '' {'') \<longleftrightarrow> D \<noteq> d"
    using domain_line_word [OF sp(2,1), of "''{''"] ne by (simp add: keeps_def ends_with_char)
  have "trim (''http://'' @ D @ '' {'') = ''http://'' @ D @ '' {''"
    using trim_brace_line [OF printable_consts(6), of "''ttp://'' @ D"] by simp
  moreover have "''http://'' @ D \<noteq> d" using colon(1) by auto
  ultimately show "keeps d (''http://'' @ D @ '' {'') \<longleftrightarrow> D \<noteq> d"
    using domain_line_word [of "''http://'' @ D" d "''{''"] sp by (simp add: keeps_def ends_with_char)
qed

lemma keeps_reverse_proxy:
  assumes "clean_domain d"
  shows "keeps d (''    reverse_proxy '' @ w @ '' {'')"
proof -
  have "trim (''    reverse_proxy '' @ w @ '' {'') = ''reverse_proxy'' @ CHR 0x20 # w @ '' {''"
    using trim_brace_line [OF printable_consts(8), of "''everse_proxy '' @ w"]
    by (simp add: trim_def printable_consts)
  moreover have "''reverse_proxy'' \<noteq> d" using assms by (auto simp: clean_domain_def)
  ultimately show ?thesis
    using domain_line_word [of "''reverse_proxy''" d "w @ '' {''"] clean_domain_space [OF assms]
    by (simp add: keeps_def)
qed

lemma scan_keep: "list_all (keeps d) ls \<Longrightarrow> caddy_scan d False k (ls @ rest) = ls @ caddy_scan d False k rest"
  by (induction ls) (auto simp: keeps_def Let_def)

lemma scan_depth: "caddy_scan d False k ls = caddy_scan d False 0 ls"
  by (induction ls) (auto simp: Let_def)

lemma scan_skip_body:
  "0 < k \<Longrightarrow> 0 < k + brace_delta l \<Longrightarrow> caddy_scan d True k (l # rest) = caddy_scan d True (k + brace_delta l) rest"
  by (simp add: Let_def)

lemma scan_skip_end:
  "k + brace_delta l \<le> 0 \<Longrightarrow> caddy_scan d True k (l # rest) = caddy_scan d False 0 rest"
  using scan_depth [of d "k + brace_delta l" rest] by (simp add: Let_def)

text \<open>The lines between the header of a block and its closing brace.\<close>

definition tls_lines :: "route_config \<Rightarrow> string list" where
  "tls_lines r = (case rc_tls r of NoTls \<Rightarrow> [] | AutoTls e \<Rightarrow> [''    tls '' @ e]
     | ManualTls c k \<Rightarrow> [''    tls '' @ c @ '' '' @ k])"

definition proxy_lines :: "route_config \<Rightarrow> string list" where
  "proxy_lines r =
     (if length (rc_upstream r) > 1
      then [''    reverse_proxy '' @ join '' '' (map up_address (rc_upstream r)) @ '' {'']
        @ (if list_ex (\<lambda>u. up_weight u > 1) (rc_upstream r) then [''        lb_policy weighted_round_robin''] else [])
        @ [''        health_uri /health'', ''        health_interval 10s'', ''    }'']
      else [''    reverse_proxy '' @ up_address (hd (rc_upstream r))])"

definition header_line :: "route_config \<Rightarrow> string" where
  "header_line r = (case rc_tls r of NoTls \<Rightarrow> ''http://'' @ rc_domain r @ '' {'' | _ \<Rightarrow> rc_domain r @ '' {'')"

definition block_lines :: "route_config \<Rightarrow> string list" where
  "block_lines r = header_line r # tls_lines r @ proxy_lines r @ [''}'']"

lemma caddy_block_lines:
  assumes "rc_upstream r \<noteq> []" shows "caddy_block r = Ret (block_lines r)"
proof -
  have "caddy_header r = header_line r # tls_lines r"
    by (simp add: caddy_header_def header_line_def tls_lines_def split: tls_config.split)
  moreover obtain u us where "rc_upstream r = u # us" using assms by (cases "rc_upstream r") auto
  ultimately show ?thesis by (simp add: caddy_block_def block_lines_def proxy_lines_def Let_def)
qed

lemma caddy_block_Panic: "rc_upstream r = [] \<Longrightarrow> caddy_block r = Panic"
  by (simp add: caddy_block_def)

definition good_line :: "string \<Rightarrow> bool" where
  "good_line l \<longleftrightarrow> l \<noteq> [] \<and> printable (last l) \<and> CHR 0x0A \<notin> set l \<and> CHR 0x0D \<notin> set l"

lemma join_no_newline:
  "list_all clean_word ws \<Longrightarrow> CHR 0x0A \<notin> set (join '' '' ws) \<and> CHR 0x0D \<notin> set (join '' '' ws)"
  by (induction "'' ''" ws rule: join.induct) (auto simp: clean_wordD)

lemma clean_addresses: "clean_route r \<Longrightarrow> list_all clean_word (map up_address (rc_upstream r))"
  by (simp add: clean_route_def list_all_iff)

lemma clean_first: "clean_route r \<Longrightarrow> clean_word (up_address (hd (rc_upstream r)))"
  by (simp add: clean_route_def list_all_iff)

lemma tls_lines_facts:
  assumes "clean_route r" "l \<in> set (tls_lines r)"
  shows "good_line l" "last l \<noteq> CHR ''{''" "brace_delta l = 0"
  using assms
  by (auto simp: clean_route_def tls_lines_def good_line_def clean_wordD split: tls_config.splits)

lemma proxy_lines_good:
  assumes "clean_route r" "l \<in> set (proxy_lines r)"
  shows "good_line l"
  using assms join_no_newline [OF clean_addresses [OF assms(1)]] clean_wordD [OF clean_first [OF assms(1)]]
  by (auto simp: proxy_lines_def good_line_def printable_def split: if_splits)

lemma proxy_lines_kept:
  assumes "clean_route r" "clean_domain d"
  shows "list_all (keeps d) (proxy_lines r)"
  using clean_wordD [OF clean_first [OF assms(1)]] keeps_reverse_proxy [OF assms(2)]
  by (auto simp: proxy_lines_def printable_def intro!: keeps_last)

lemma proxy_lines_skipped:
  "clean_route r \<Longrightarrow> caddy_scan d True 1 (proxy_lines r @ rest) = caddy_scan d True 1 rest"
  using clean_addresses [of r] clean_first [of r] by (simp add: proxy_lines_def Let_def)

lemma tls_lines_skipped:
  assumes "clean_route r"
  shows "caddy_scan d True 1 (tls_lines r @ rest) = caddy_scan d True 1 rest"
proof -
  have "list_all (\<lambda>l. brace_delta l = 0) ls \<Longrightarrow> caddy_scan d True 1 (ls @ rest) = caddy_scan d True 1 rest" for ls
    by (induction ls) (simp_all add: Let_def)
  then show ?thesis using tls_lines_facts(3) [OF assms] by (simp add: list_all_iff)
qed

text \<open>Scanning one block: it disappears when it is the domain's, otherwise it is kept.\<close>

lemma header_line_keeps:
  "clean_domain d \<Longrightarrow> clean_route r \<Longrightarrow> keeps d (header_line r) \<longleftrightarrow> rc_domain r \<noteq> d"
  using keeps_domain [of d "rc_domain r"]
  by (simp add: clean_route_def header_line_def split: tls_config.split)

lemma scan_block:
  assumes "clean_domain d" "clean_route r"
  shows "caddy_scan d False k (block_lines r @ rest) =
    (if rc_domain r = d then caddy_scan d False 0 rest else block_lines r @ caddy_scan d False k rest)"
proof (cases "rc_domain r = d")
  case True
  then have "\<not> keeps d (header_line r)" using header_line_keeps [OF assms] by simp
  then have "caddy_scan d False k (block_lines r @ rest) = caddy_scan d True 1 (tls_lines r @ proxy_lines r @ ''}'' # rest)"
    by (simp add: block_lines_def keeps_def Let_def)
  then show ?thesis
    using True by (simp add: tls_lines_skipped [OF assms(2)] proxy_lines_skipped [OF assms(2)] scan_skip_end)
next
  case False
  have "keeps d ''}''" by (rule keeps_last) (simp_all add: printable_consts)
  moreover have "list_all (keeps d) (tls_lines r)"
    using tls_lines_facts(1,2) [OF assms(2)] by (auto simp: list_all_iff good_line_def intro: keeps_last)
  ultimately have "list_all (keeps d) (block_lines r)"
    using False proxy_lines_kept [OF assms(2,1)] header_line_keeps [OF assms] by (simp add: block_lines_def)
  then show ?thesis using False by (simp add: scan_keep)
qed

lemma block_lines_good: "clean_route r \<Longrightarrow> list_all good_line (block_lines r)"
  using proxy_lines_good [of r] tls_lines_facts(1) [of r] clean_wordD [of "rc_domain r"]
  by (auto simp: block_lines_def list_all_iff good_line_def header_line_def printable_consts clean_route_def
      clean_domain_def split: tls_config.splits)

text \<open>A whole file: the blocks with an empty line between two of them.\<close>

fun file_lines :: "route_config list \<Rightarrow> string list" where
  "file_lines [] = []"
| "file_lines [r] = block_lines r"
| "file_lines (r # rs) = block_lines r @ [] # file_lines rs"

definition nonblank :: "string list \<Rightarrow> string list" where
  "nonblank ls = filter (\<lambda>l. l \<noteq> []) ls"

lemma nonblank_append [simp]: "nonblank (a @ b) = nonblank a @ nonblank b" "nonblank ([] # b) = nonblank b"
  by (simp_all add: nonblank_def)

lemma caddy_lines_clean: "list_all clean_route rs \<Longrightarrow> caddy_lines rs = Ret (file_lines rs)"
  by (induction rs rule: file_lines.induct) (auto simp: clean_route_def caddy_block_lines)

lemma nonblank_block: "clean_route r \<Longrightarrow> nonblank (block_lines r) = block_lines r"
  using block_lines_good [of r] by (auto simp: nonblank_def filter_id_conv list_all_iff good_line_def)

lemma nonblank_file: "list_all clean_route rs \<Longrightarrow> nonblank (file_lines rs) = concat (map block_lines rs)"
  by (induction rs rule: file_lines.induct) (simp_all add: nonblank_block, simp add: nonblank_def)

lemma file_lines_good:
  "list_all clean_route rs \<Longrightarrow> list_all (\<lambda>l. l = [] \<or> good_line l) (file_lines rs)"
proof (induction rs rule: file_lines.induct)
  case (2 r)
  then show ?case using block_lines_good [of r] by (auto simp: list_all_iff)
next
  case (3 r r' rs)
  then show ?case using block_lines_good [of r] by (auto simp: list_all_iff)
qed simp

lemma set_caddy_scan: "set (caddy_scan d sk k ls) \<subseteq> set ls"
proof (induction ls arbitrary: sk k)
  case (Cons l ls)
  show ?case using Cons.IH [of True 1] Cons.IH [of sk k] Cons.IH [of "k + brace_delta l > 0" "k + brace_delta l"]
    by (auto simp: Let_def)
qed simp

lemma scan_file:
  assumes "clean_domain d" "list_all clean_route rs"
  shows "nonblank (caddy_scan d False k (file_lines rs)) =
    concat (map block_lines (filter (\<lambda>r. rc_domain r \<noteq> d) rs))"
  using assms(2)
proof (induction rs arbitrary: k rule: file_lines.induct)
  case (2 r)
  then show ?case using scan_block [OF assms(1), of r k "[]"] by (simp add: nonblank_block) (simp add: nonblank_def)
next
  case (3 r r' rs)
  have "caddy_scan d False j ([] # file_lines (r' # rs)) = [] # caddy_scan d False j (file_lines (r' # rs))" for j
    using scan_keep [of d "[[]]" j "file_lines (r' # rs)"] keeps_Nil [OF assms(1)] by simp
  then show ?case using 3 scan_block [OF assms(1), of r k "[] # file_lines (r' # rs)"]
    by (simp add: nonblank_block)
qed (simp add: nonblank_def)

text \<open>The final trimming only drops empty lines at the end.\<close>

lemma trim_end_unlines:
  assumes "list_all (\<lambda>l. l = [] \<or> good_line l) K"
  shows "(nonblank K = [] \<and> trim_end (unlines K) = []) \<or>
    (\<exists>K1. trim_end (unlines K) @ [CHR 0x0A] = unlines K1 \<and> trim_end (unlines K) \<noteq> []
       \<and> nonblank K1 = nonblank K \<and> set K1 \<subseteq> set K)"
  using assms
proof (induction K rule: rev_induct)
  case Nil
  then show ?case by (simp add: nonblank_def)
next
  case (snoc x K)
  show ?case
  proof (cases "x = []")
    case True
    then have "trim_end (unlines (K @ [x])) = trim_end (unlines K)" by simp
    then show ?thesis using snoc True by (auto simp: nonblank_def)
  next
    case False
    then have x: "good_line x" using snoc.prems by simp
    then obtain y c where y: "x = y @ [c]" "printable c" by (metis good_line_def append_butlast_last_id)
    have "trim_end (unlines (K @ [x])) = trim_end (unlines K @ y @ [c])"
      using trim_end_newline [of "unlines K @ y @ [c]"] y(1) by simp
    also have "\<dots> = unlines K @ x" using trim_end_printable [OF y(2), of "unlines K @ y"] y(1) by simp
    finally have t: "trim_end (unlines (K @ [x])) = unlines K @ x" .
    then have "trim_end (unlines (K @ [x])) @ [CHR 0x0A] = unlines (K @ [x])" by simp
    moreover have "trim_end (unlines (K @ [x])) \<noteq> []" using t False by simp
    ultimately show ?thesis by blast
  qed
qed

lemma lines_of_good:
  assumes "list_all (\<lambda>l. l = [] \<or> good_line l) K" shows "lines (unlines K) = K"
proof -
  have "list_all (\<lambda>l. CHR 0x0A \<notin> set l \<and> CHR 0x0D \<notin> set l) K"
    using assms by (induction K) (auto simp: good_line_def)
  then show ?thesis using lines_unlines [of K "[]"] by simp
qed

lemma remove_text_lines:
  assumes "list_all (\<lambda>l. l = [] \<or> good_line l) ls"
  shows "nonblank (lines (caddy_remove_text d (unlines ls))) = nonblank (caddy_scan d False 0 ls)"
proof -
  let ?K = "caddy_scan d False 0 ls"
  have K: "list_all (\<lambda>l. l = [] \<or> good_line l) ?K"
    using assms set_caddy_scan [of d False 0 ls] by (auto simp: list_all_iff)
  have rewritten: "caddy_remove_text d (unlines ls) =
      (if trim_end (unlines ?K) = [] then [] else trim_end (unlines ?K) @ [CHR 0x0A])"
    by (simp add: caddy_remove_text_def lines_of_good [OF assms])
  from trim_end_unlines [OF K] show ?thesis
  proof
    assume "nonblank ?K = [] \<and> trim_end (unlines ?K) = []"
    then show ?thesis by (simp add: rewritten) (simp add: nonblank_def)
  next
    assume "\<exists>K1. trim_end (unlines ?K) @ [CHR 0x0A] = unlines K1 \<and> trim_end (unlines ?K) \<noteq> []
       \<and> nonblank K1 = nonblank ?K \<and> set K1 \<subseteq> set ?K"
    then obtain K1 where K1: "trim_end (unlines ?K) @ [CHR 0x0A] = unlines K1" "trim_end (unlines ?K) \<noteq> []"
      "nonblank K1 = nonblank ?K" "set K1 \<subseteq> set ?K" by blast
    then have "lines (unlines K1) = K1" using K by (intro lines_of_good) (auto simp: list_all_iff)
    then show ?thesis using K1 by (simp add: rewritten)
  qed
qed

section \<open>Properties\<close>

lemma nginx_conf_path_inject: "nginx_conf_path b d = nginx_conf_path b e \<longleftrightarrow> d = e"
  by (simp add: nginx_conf_path_def path_join_def)

lemma nginx_apply_files:
  assumes "nginx_apply b flt rs f = (Ok (), f')" "distinct (map rc_domain rs)"
  shows "hm_get f' p = (case find (\<lambda>r. nginx_conf_path b (rc_domain r) = p) rs of
    Some r \<Rightarrow> Some (nginx_render r) | None \<Rightarrow> hm_get f p)"
  using assms
proof (induction rs arbitrary: f)
  case (Cons r rs)
  let ?p = "nginx_conf_path b (rc_domain r)"
  obtain f1 where f1: "fs_write flt ?p (nginx_render r) f = (Inr (), f1)" "nginx_apply b flt rs f1 = (Ok (), f')"
    using Cons.prems(1) by (auto simp: Let_def split: prod.splits sum.splits)
  have ins: "f1 = hm_insert ?p (nginx_render r) f" using fs_write_cases [OF f1(1)] by simp
  have "find (\<lambda>q. nginx_conf_path b (rc_domain q) = ?p) rs = None"
    using Cons.prems(2) by (auto simp: find_None_iff nginx_conf_path_inject image_iff)
  then show ?case using Cons.IH [OF f1(2)] Cons.prems(2) ins by (auto split: option.splits)
qed simp

interpretation nginx: proxy_backend "nginx_apply b flt" "nginx_remove b flt" "\<lambda>f d. hm_get f (nginx_conf_path b d)"
    nginx_render "\<lambda>_. True" "\<lambda>_. True" for b flt
proof
  fix s rs s'
  assume d: "distinct (map rc_domain rs)" and a: "nginx_apply b flt rs s = (Ok (), s')"
  have "hm_get s' (nginx_conf_path b (rc_domain r)) = Some (nginx_render r)" if "r \<in> set rs" for r
  proof -
    have "find (\<lambda>q. nginx_conf_path b (rc_domain q) = nginx_conf_path b (rc_domain r)) rs = Some r"
      using d that by (induction rs) (auto simp: nginx_conf_path_inject)
    then show ?thesis using nginx_apply_files [OF a d] by simp
  qed
  then show "True \<and> (\<forall>r\<in>set rs. hm_get s' (nginx_conf_path b (rc_domain r)) = Some (nginx_render r))" by simp
next
  fix s d d' s'
  assume "nginx_remove b flt d s = (Ok (), s')"
  then have "s' = hm_remove (nginx_conf_path b d) s \<or> (s' = s \<and> hm_get s (nginx_conf_path b d) = None)"
    by (auto simp: nginx_remove_def Let_def fs_remove_def fs_exists_def split: prod.splits sum.splits option.splits if_splits)
  then show "True \<and> hm_get s' (nginx_conf_path b d') = (if d' = d then None else hm_get s (nginx_conf_path b d'))"
    by (auto simp: nginx_conf_path_inject)
qed

text \<open>C11: removing a route from a Caddyfile removes exactly its block. For routes with clean names and
  at least one upstream each, deleting a domain from the rendered Caddyfile, by scanning its
  lines and counting braces, leaves the same lines (up to empty ones) as rendering the remaining routes.\<close>

theorem caddy_remove_correct:
  assumes "list_all clean_route rs" "clean_domain d" "render_caddyfile rs = Ret content"
  shows "\<exists>content'. render_caddyfile (filter (\<lambda>r. rc_domain r \<noteq> d) rs) = Ret content'
    \<and> nonblank (lines (caddy_remove_text d content)) = nonblank (lines content')"
proof -
  let ?rest = "filter (\<lambda>r. rc_domain r \<noteq> d) rs"
  have rest: "list_all clean_route ?rest" using assms(1) by (auto simp: list_all_iff)
  have c: "content = unlines (file_lines rs)"
    using assms(3) by (simp add: render_caddyfile_def caddy_lines_clean [OF assms(1)])
  have "nonblank (lines (caddy_remove_text d content)) = concat (map block_lines ?rest)"
    unfolding c remove_text_lines [OF file_lines_good [OF assms(1)]] by (rule scan_file [OF assms(2,1)])
  moreover have "nonblank (lines (unlines (file_lines ?rest))) = concat (map block_lines ?rest)"
    using lines_of_good [OF file_lines_good [OF rest]] nonblank_file [OF rest] by simp
  ultimately show ?thesis by (simp add: render_caddyfile_def caddy_lines_clean [OF rest])
qed

text \<open>The Caddy backend panics exactly when some route has no upstream; every other list of routes
  is rendered, whatever faults the file system has.\<close>

theorem caddy_apply_panics_iff:
  "caddy_apply b flt rs f = Panic \<longleftrightarrow> (\<exists>r. r \<in> set rs \<and> rc_upstream r = [])"
proof -
  have "caddy_lines rs = Panic \<longleftrightarrow> (\<exists>r. r \<in> set rs \<and> rc_upstream r = [])"
  proof (induction rs rule: caddy_lines.induct)
    case (2 r)
    then show ?case by (cases "rc_upstream r = []") (simp_all add: caddy_block_lines caddy_block_Panic)
  next
    case (3 r r' rs)
    then show ?case
      by (cases "rc_upstream r = []") (auto simp: caddy_block_lines caddy_block_Panic split: outcome.splits)
  qed simp
  then show ?thesis by (auto simp: caddy_apply_def render_caddyfile_def split: outcome.splits)
qed

text \<open>Nginx routes are independent files. After writing the configurations of routes with
  different domains and then removing one domain, that domain has no configuration file any more and
  every other route's file holds exactly its own configuration.\<close>

theorem nginx_apply_remove:
  assumes "distinct (map rc_domain rs)" "nginx_apply b flt rs f = (Ok (), f1)" "nginx_remove b flt d f1 = (Ok (), f2)"
  shows "hm_get f2 (nginx_conf_path b d) = None
    \<and> (\<forall>r\<in>set rs. rc_domain r \<noteq> d \<longrightarrow> hm_get f2 (nginx_conf_path b (rc_domain r)) = Some (nginx_render r))"
  by (rule nginx.apply_remove [OF _ assms(1) _ _ assms(2,3)]) (simp_all add: list_all_iff)

section \<open>Witnesses\<close>

definition sample_routes :: "route_config list" where
  "sample_routes =
     [\<lparr>rc_domain = ''a.io'', rc_upstream = [\<lparr>up_address = ''h1:80'', up_weight = 1\<rparr>, \<lparr>up_address = ''h2:80'', up_weight = 3\<rparr>],
        rc_tls = NoTls\<rparr>,
      \<lparr>rc_domain = ''b.io'', rc_upstream = [\<lparr>up_address = ''h3:80'', up_weight = 1\<rparr>], rc_tls = AutoTls ''x@b.io''\<rparr>]"

lemma sample_routes_clean: "list_all clean_route sample_routes" "clean_domain ''a.io''"
  by code_simp+

theorem caddy_remove_correct_witness:
  "\<exists>content'. render_caddyfile (filter (\<lambda>r. rc_domain r \<noteq> ''a.io'') sample_routes) = Ret content'
    \<and> nonblank (lines (caddy_remove_text ''a.io'' (unlines (file_lines sample_routes)))) = nonblank (lines content')"
  by (rule caddy_remove_correct [OF sample_routes_clean])
     (simp add: render_caddyfile_def caddy_lines_clean [OF sample_routes_clean(1)])

definition sample_nginx :: nginx_backend where
  "sample_nginx = \<lparr>ng_conf_dir = ''/etc'', ng_bin = ''nginx''\<rparr>"

end
