(* ===== verification/Proxy_Config.thy ===== *)
theory Proxy_Config
  imports Proxy_Text
begin

text \<open>
  The two proxy backends that write a structured file: Traefik's dynamic configuration
  (\<open>src/adapters/proxy/traefik.rs\<close>) and the configuration of nexa-proxy
  (\<open>src/adapters/proxy/nexa_proxy.rs\<close>). The YAML and JSON libraries are pairs of a printer and a
  parser. Both backends are shown to meet the contract of \<open>Proxy_Text\<close>, Traefik for
  domains without a hyphen.
\<close>

section \<open>Printers and parsers\<close>

record 'a format =
  fmt_print :: "'a \<Rightarrow> string + string"
  fmt_parse :: "string \<Rightarrow> string + 'a"

definition format_ok :: "'a format \<Rightarrow> bool" where
  "format_ok F \<longleftrightarrow> (\<forall>x t. fmt_print F x = Ok t \<longrightarrow> fmt_parse F t = Ok x \<and> utf8_valid (str_bytes t))"

lemma format_okD: "format_ok F \<Longrightarrow> fmt_print F x = Ok t \<Longrightarrow> fmt_parse F t = Ok x \<and> utf8_valid (str_bytes t)"
  by (simp add: format_ok_def)

section \<open>Traefik\<close>

record traefik_router =
  tr_rule :: string
  tr_entry_points :: "string list"
  tr_service :: string
  tr_tls :: "string option option"

record traefik_service =
  ts_servers :: "(string \<times> u32 option) list"
  ts_health_path :: string
  ts_health_interval :: string

record traefik_config =
  tc_routers :: "(string, traefik_router) hashmap"
  tc_services :: "(string, traefik_service) hashmap"

definition traefik_default :: traefik_config where
  "traefik_default = \<lparr>tc_routers = [], tc_services = []\<rparr>"

definition sanitized :: "string \<Rightarrow> string" where
  "sanitized d = map (\<lambda>c. if c = CHR ''.'' then CHR ''-'' else c) d"

definition router_name :: "string \<Rightarrow> string" where
  "router_name d = ''nexa-'' @ sanitized d"

definition service_name :: "string \<Rightarrow> string" where
  "service_name d = ''nexa-svc-'' @ sanitized d"

definition traefik_router_of :: "route_config \<Rightarrow> traefik_router" where
  "traefik_router_of r =
     (let (entry_points, tls) =
        (case rc_tls r of
           NoTls \<Rightarrow> ([''web''], None)
         | AutoTls _ \<Rightarrow> ([''websecure''], Some (Some ''letsencrypt''))
         | ManualTls _ _ \<Rightarrow> ([''websecure''], Some None))
      in \<lparr>tr_rule = ''Host(`'' @ rc_domain r @ ''`)'', tr_entry_points = entry_points,
          tr_service = service_name (rc_domain r), tr_tls = tls\<rparr>)"

definition traefik_service_of :: "route_config \<Rightarrow> traefik_service" where
  "traefik_service_of r =
     \<lparr>ts_servers = map (\<lambda>u. (''http://'' @ up_address u, if up_weight u > 1 then Some (up_weight u) else None)) (rc_upstream r),
      ts_health_path = ''/health'', ts_health_interval = ''10s''\<rparr>"

definition traefik_add :: "route_config \<Rightarrow> traefik_config \<Rightarrow> traefik_config" where
  "traefik_add r c =
     c\<lparr>tc_routers := hm_insert (router_name (rc_domain r)) (traefik_router_of r) (tc_routers c),
       tc_services := hm_insert (service_name (rc_domain r)) (traefik_service_of r) (tc_services c)\<rparr>"

definition traefik_render :: "route_config list \<Rightarrow> traefik_config" where
  "traefik_render rs = fold traefik_add rs traefik_default"

definition traefik_apply ::
  "traefik_config format \<Rightarrow> string \<Rightarrow> faults \<Rightarrow> route_config list \<Rightarrow> fs \<Rightarrow> unit res \<times> fs" where
  "traefik_apply F path flt rs f =
     (case fmt_print F (traefik_render rs) of
        Inl e \<Rightarrow> (Err (Proxy (''failed to serialize traefik config: '' @ e)), f)
      | Inr yaml \<Rightarrow>
          (case fs_write flt path yaml f of
             (Inl e, f1) \<Rightarrow> (Err (Proxy (''failed to write traefik config '' @ path @ '': '' @ e)), f1)
           | (Inr _, f1) \<Rightarrow> (Ok (), f1)))"

definition traefik_remove ::
  "traefik_config format \<Rightarrow> string \<Rightarrow> faults \<Rightarrow> string \<Rightarrow> fs \<Rightarrow> unit res \<times> fs" where
  "traefik_remove F path flt domain f =
     (case fs_read_to_string flt path f of
        Inl e \<Rightarrow>
          if flt (ReadFile path) = None \<and> \<not> fs_exists path f then (Ok (), f)
          else (Err (Proxy (''failed to read traefik config: '' @ e)), f)
      | Inr content \<Rightarrow>
          (case fmt_parse F content of
             Inl e \<Rightarrow> (Err (Proxy (''failed to parse traefik config: '' @ e)), f)
           | Inr c \<Rightarrow>
               (let c' = c\<lparr>tc_routers := hm_remove (router_name domain) (tc_routers c),
                           tc_services := hm_remove (service_name domain) (tc_services c)\<rparr>
                in (case fmt_print F c' of
                      Inl e \<Rightarrow> (Err (Proxy (''failed to serialize traefik config: '' @ e)), f)
                    | Inr yaml \<Rightarrow>
                        (case fs_write flt path yaml f of
                           (Inl e, f1) \<Rightarrow> (Err (Proxy (''failed to rewrite traefik config: '' @ e)), f1)
                         | (Inr _, f1) \<Rightarrow> (Ok (), f1))))))"

definition traefik_reload :: "unit res" where
  "traefik_reload = Ok ()"

definition traefik_health :: "traefik_config format \<Rightarrow> string \<Rightarrow> faults \<Rightarrow> fs \<Rightarrow> bool res" where
  "traefik_health F path flt f =
     (case fs_read_to_string flt path f of
        Inl _ \<Rightarrow> Ok False
      | Inr content \<Rightarrow> (case fmt_parse F content of Inr _ \<Rightarrow> Ok True | Inl _ \<Rightarrow> Ok False))"

section \<open>nexa-proxy\<close>

record nexa_proxy_tls =
  np_cert_path :: "string option"
  np_key_path :: "string option"
  np_acme_email :: "string option"

record nexa_proxy_route =
  np_upstreams :: "(string \<times> u32) list"
  np_tls :: "nexa_proxy_tls option"

record nexa_proxy_config =
  np_http_listen :: string
  np_https_listen :: "string option"
  np_routes :: "(string, nexa_proxy_route) hashmap"

record nexa_proxy =
  np_config_path :: string
  np_binary_path :: string
  np_http :: string
  np_https :: "string option"
  np_child :: "nat option"

definition nexa_proxy_new :: "string \<Rightarrow> string \<Rightarrow> string \<Rightarrow> string option \<Rightarrow> nexa_proxy" where
  "nexa_proxy_new path binary http https =
     \<lparr>np_config_path = path, np_binary_path = binary, np_http = http, np_https = https, np_child = None\<rparr>"

definition nexa_route :: "route_config \<Rightarrow> nexa_proxy_route" where
  "nexa_route r =
     \<lparr>np_upstreams = map (\<lambda>u. (up_address u, up_weight u)) (rc_upstream r),
      np_tls = (case rc_tls r of
        NoTls \<Rightarrow> None
      | AutoTls email \<Rightarrow> Some \<lparr>np_cert_path = None, np_key_path = None, np_acme_email = Some email\<rparr>
      | ManualTls cert key \<Rightarrow> Some \<lparr>np_cert_path = Some cert, np_key_path = Some key, np_acme_email = None\<rparr>)\<rparr>"

definition build_config :: "nexa_proxy \<Rightarrow> route_config list \<Rightarrow> nexa_proxy_config" where
  "build_config b rs =
     \<lparr>np_http_listen = np_http b, np_https_listen = np_https b,
      np_routes = fold (\<lambda>r m. hm_insert (rc_domain r) (nexa_route r) m) rs []\<rparr>"

definition write_config_sync ::
  "nexa_proxy_config format \<Rightarrow> faults \<Rightarrow> nexa_proxy \<Rightarrow> nexa_proxy_config \<Rightarrow> fs \<Rightarrow> unit res \<times> fs" where
  "write_config_sync F flt b c f =
     (case fmt_print F c of
        Inl e \<Rightarrow> (Err (Proxy (''failed to serialize nexa-proxy config: '' @ e)), f)
      | Inr json \<Rightarrow>
          (case fs_write flt (np_config_path b) json f of
             (Inl e, f1) \<Rightarrow> (Err (Proxy (''failed to write nexa-proxy config '' @ np_config_path b @ '': '' @ e)), f1)
           | (Inr _, f1) \<Rightarrow> (Ok (), f1)))"

definition nexa_apply ::
  "nexa_proxy_config format \<Rightarrow> nexa_proxy \<Rightarrow> faults \<Rightarrow> route_config list \<Rightarrow> fs \<Rightarrow> unit res \<times> fs" where
  "nexa_apply F b flt rs f = write_config_sync F flt b (build_config b rs) f"

definition nexa_remove ::
  "nexa_proxy_config format \<Rightarrow> nexa_proxy \<Rightarrow> faults \<Rightarrow> string \<Rightarrow> fs \<Rightarrow> unit res \<times> fs" where
  "nexa_remove F b flt domain f =
     (case fs_read_to_string flt (np_config_path b) f of
        Inl _ \<Rightarrow> (Ok (), f)
      | Inr content \<Rightarrow>
          (case fmt_parse F content of
             Inl e \<Rightarrow> (Err (Proxy (''failed to parse nexa-proxy config: '' @ e)), f)
           | Inr c \<Rightarrow> write_config_sync F flt b (c\<lparr>np_routes := hm_remove domain (np_routes c)\<rparr>) f))"

text \<open>\<open>spawn\<close> starts the binary on the configuration: an error text or the new process id. An old
  child is killed first; when the start fails its handle stays.\<close>

definition start_child :: "(string \<Rightarrow> string \<Rightarrow> string + nat) \<Rightarrow> nexa_proxy \<Rightarrow> unit res \<times> nat list \<times> nexa_proxy" where
  "start_child spawn b =
     (let killed = (case np_child b of None \<Rightarrow> [] | Some pid \<Rightarrow> [pid])
      in (case spawn (np_binary_path b) (np_config_path b) of
            Inl e \<Rightarrow> (Err (Proxy (''failed to spawn nexa-proxy binary '' @ [CHR 39] @ np_binary_path b @ [CHR 39] @ '': '' @ e)),
                     killed, b)
          | Inr pid \<Rightarrow> (Ok (), killed, b\<lparr>np_child := Some pid\<rparr>)))"

definition nexa_reload :: "(string \<Rightarrow> string \<Rightarrow> string + nat) \<Rightarrow> nexa_proxy \<Rightarrow> unit res \<times> nat list \<times> nexa_proxy" where
  "nexa_reload spawn b = start_child spawn b"

definition nexa_health :: "nexa_proxy \<Rightarrow> bool res" where
  "nexa_health b = (case np_child b of Some _ \<Rightarrow> Ok True | None \<Rightarrow> Ok False)"

section \<open>Reading a configuration file\<close>

text \<open>The configuration a file holds, and what it routes.\<close>

definition config_of :: "'a format \<Rightarrow> string \<Rightarrow> fs \<Rightarrow> 'a option" where
  "config_of F path f =
     (case hm_get f path of None \<Rightarrow> None
      | Some t \<Rightarrow> if utf8_valid (str_bytes t) then (case fmt_parse F t of Inl _ \<Rightarrow> None | Inr c \<Rightarrow> Some c) else None)"

text \<open>Either there is no file or it holds a configuration, and the library round trips.\<close>

definition config_inv :: "'a format \<Rightarrow> string \<Rightarrow> fs \<Rightarrow> bool" where
  "config_inv F path f \<longleftrightarrow> format_ok F \<and> (hm_get f path = None \<or> config_of F path f \<noteq> None)"

lemma config_of_write:
  "format_ok F \<Longrightarrow> fmt_print F c = Ok t \<Longrightarrow> config_of F path (hm_insert path t f) = Some c"
  using format_okD [of F c t] by (simp add: config_of_def)

lemma config_write:
  assumes "format_ok F" "fmt_print F c = Ok t" "fs_write flt path t f = (Inr (), f1)"
  shows "config_inv F path f1 \<and> config_of F path f1 = Some c"
  using fs_write_cases [OF assms(3)] config_of_write [OF assms(1,2), of path f] assms(1)
  by (auto simp: config_inv_def)

lemma config_read:
  "config_inv F path f \<Longrightarrow> fs_read_to_string flt path f = Inr t \<Longrightarrow> fmt_parse F t = Ok c \<longleftrightarrow> config_of F path f = Some c"
  by (auto simp: config_inv_def config_of_def fs_read_to_string_def fs_read_def split: option.splits if_splits sum.splits)

lemma fold_insert_routes:
  "distinct (map key rs) \<Longrightarrow>
     hm_get (fold (\<lambda>r m. hm_insert (key r) (val r) m) rs m) k =
       (case find (\<lambda>r. key r = k) rs of Some r \<Rightarrow> Some (val r) | None \<Rightarrow> hm_get m k)"
proof (induction rs arbitrary: m)
  case (Cons r rs)
  then have "find (\<lambda>q. key q = key r) rs = None" by (auto simp: find_None_iff image_iff)
  then show ?case using Cons by (auto split: option.splits)
qed simp

lemma find_key_self: "distinct (map key rs) \<Longrightarrow> r \<in> set rs \<Longrightarrow> find (\<lambda>q. key q = key r) rs = Some r"
  by (induction rs) auto

section \<open>nexa-proxy meets the contract\<close>

definition nexa_served :: "nexa_proxy_config format \<Rightarrow> nexa_proxy \<Rightarrow> fs \<Rightarrow> string \<Rightarrow> nexa_proxy_route option" where
  "nexa_served F b f d = (case config_of F (np_config_path b) f of None \<Rightarrow> None | Some c \<Rightarrow> hm_get (np_routes c) d)"

lemma write_config_sync_ok:
  assumes "format_ok F" "write_config_sync F flt b c f = (Ok (), f')"
  shows "config_inv F (np_config_path b) f' \<and> config_of F (np_config_path b) f' = Some c"
proof -
  obtain t where t: "fmt_print F c = Ok t" "fs_write flt (np_config_path b) t f = (Inr (), f')"
    using assms(2) by (auto simp: write_config_sync_def split: sum.splits prod.splits)
  then show ?thesis by (rule config_write [OF assms(1)])
qed

interpretation nexap: proxy_backend "nexa_apply F b no_faults" "nexa_remove F b no_faults" "nexa_served F b"
    nexa_route "config_inv F (np_config_path b)" "\<lambda>_. True" for F b
proof
  fix s rs s'
  assume inv: "config_inv F (np_config_path b) s" and d: "distinct (map rc_domain rs)"
    and a: "nexa_apply F b no_faults rs s = (Ok (), s')"
  have w: "config_inv F (np_config_path b) s' \<and> config_of F (np_config_path b) s' = Some (build_config b rs)"
    using write_config_sync_ok [of F no_faults b "build_config b rs" s s'] inv a
    by (simp add: config_inv_def nexa_apply_def)
  moreover have "hm_get (np_routes (build_config b rs)) (rc_domain r) = Some (nexa_route r)" if "r \<in> set rs" for r
    using fold_insert_routes [OF d, of nexa_route "[]" "rc_domain r"] find_key_self [OF d that]
    by (simp add: build_config_def)
  ultimately show "config_inv F (np_config_path b) s' \<and> (\<forall>r\<in>set rs. nexa_served F b s' (rc_domain r) = Some (nexa_route r))"
    by (simp add: nexa_served_def)
next
  fix s d d' s'
  assume inv: "config_inv F (np_config_path b) s" and r: "nexa_remove F b no_faults d s = (Ok (), s')"
  show "config_inv F (np_config_path b) s' \<and> nexa_served F b s' d' = (if d' = d then None else nexa_served F b s d')"
  proof (cases "config_of F (np_config_path b) s")
    case None
    then have "hm_get s (np_config_path b) = None" using inv by (simp add: config_inv_def)
    then have "s' = s" using r by (auto simp: nexa_remove_def fs_read_to_string_def)
    then show ?thesis using inv None by (simp add: nexa_served_def)
  next
    case (Some c)
    then obtain t where t: "fs_read_to_string no_faults (np_config_path b) s = Inr t" "fmt_parse F t = Ok c"
      by (auto simp: config_of_def fs_read_to_string_def split: option.splits if_splits sum.splits)
    have "config_inv F (np_config_path b) s' \<and>
        config_of F (np_config_path b) s' = Some (c\<lparr>np_routes := hm_remove d (np_routes c)\<rparr>)"
      using r t inv by (intro write_config_sync_ok) (auto simp: nexa_remove_def config_inv_def)
    then show ?thesis using Some by (simp add: nexa_served_def)
  qed
qed

section \<open>Traefik meets the contract\<close>

definition traefik_entry :: "traefik_config \<Rightarrow> string \<Rightarrow> (traefik_router \<times> traefik_service) option" where
  "traefik_entry c d =
     (case (hm_get (tc_routers c) (router_name d), hm_get (tc_services c) (service_name d)) of
        (Some r, Some s) \<Rightarrow> Some (r, s) | _ \<Rightarrow> None)"

definition traefik_served ::
  "traefik_config format \<Rightarrow> string \<Rightarrow> fs \<Rightarrow> string \<Rightarrow> (traefik_router \<times> traefik_service) option" where
  "traefik_served F path f d = (case config_of F path f of None \<Rightarrow> None | Some c \<Rightarrow> traefik_entry c d)"

definition no_hyphen :: "string \<Rightarrow> bool" where
  "no_hyphen d \<longleftrightarrow> CHR ''-'' \<notin> set d"

lemma sanitized_inject: "no_hyphen d \<Longrightarrow> no_hyphen e \<Longrightarrow> sanitized d = sanitized e \<longleftrightarrow> d = e"
proof (induction d arbitrary: e)
  case (Cons a d)
  then show ?case by (cases e) (auto simp: sanitized_def no_hyphen_def split: if_splits)
qed (auto simp: sanitized_def)

lemma traefik_fold:
  "tc_routers (fold traefik_add rs c) =
     fold (\<lambda>r m. hm_insert (router_name (rc_domain r)) (traefik_router_of r) m) rs (tc_routers c)"
  "tc_services (fold traefik_add rs c) =
     fold (\<lambda>r m. hm_insert (service_name (rc_domain r)) (traefik_service_of r) m) rs (tc_services c)"
  by (induction rs arbitrary: c) (simp_all add: traefik_add_def)

lemma names_distinct:
  assumes "distinct (map rc_domain rs)" "list_all (no_hyphen \<circ> rc_domain) rs"
  shows "distinct (map (router_name \<circ> rc_domain) rs)" "distinct (map (service_name \<circ> rc_domain) rs)"
proof -
  have "inj_on sanitized (set (map rc_domain rs))"
    using assms(2) by (auto simp: inj_on_def list_all_iff sanitized_inject)
  then have "distinct (map sanitized (map rc_domain rs))" using assms(1) by (simp only: distinct_map [of sanitized])
  then show "distinct (map (router_name \<circ> rc_domain) rs)" "distinct (map (service_name \<circ> rc_domain) rs)"
    by (auto simp: router_name_def service_name_def distinct_map inj_on_def)
qed

lemma traefik_render_entry:
  assumes "distinct (map rc_domain rs)" "list_all (no_hyphen \<circ> rc_domain) rs" "r \<in> set rs"
  shows "traefik_entry (traefik_render rs) (rc_domain r) = Some (traefik_router_of r, traefik_service_of r)"
  using fold_insert_routes [OF names_distinct(1) [OF assms(1,2)], of traefik_router_of "[]" "router_name (rc_domain r)"]
    fold_insert_routes [OF names_distinct(2) [OF assms(1,2)], of traefik_service_of "[]" "service_name (rc_domain r)"]
    find_key_self [OF names_distinct(1) [OF assms(1,2)] assms(3)]
    find_key_self [OF names_distinct(2) [OF assms(1,2)] assms(3)]
  by (simp add: traefik_entry_def traefik_render_def traefik_fold traefik_default_def)

lemma traefik_entry_remove:
  "no_hyphen d \<Longrightarrow> no_hyphen d' \<Longrightarrow>
   traefik_entry (c\<lparr>tc_routers := hm_remove (router_name d) (tc_routers c),
     tc_services := hm_remove (service_name d) (tc_services c)\<rparr>) d' = (if d' = d then None else traefik_entry c d')"
  using sanitized_inject [of d' d] by (simp add: traefik_entry_def router_name_def service_name_def)

interpretation traefik: proxy_backend "traefik_apply F path flt" "traefik_remove F path flt" "traefik_served F path"
    "\<lambda>r. (traefik_router_of r, traefik_service_of r)" "config_inv F path" no_hyphen for F path flt
proof
  fix s rs s'
  assume inv: "config_inv F path s" and d: "distinct (map rc_domain rs)" "list_all (no_hyphen \<circ> rc_domain) rs"
    and a: "traefik_apply F path flt rs s = (Ok (), s')"
  obtain t where "fmt_print F (traefik_render rs) = Ok t" "fs_write flt path t s = (Inr (), s')"
    using a by (auto simp: traefik_apply_def split: sum.splits prod.splits)
  then have "config_inv F path s' \<and> config_of F path s' = Some (traefik_render rs)"
    using inv by (intro config_write) (auto simp: config_inv_def)
  then show "config_inv F path s' \<and>
      (\<forall>r\<in>set rs. traefik_served F path s' (rc_domain r) = Some (traefik_router_of r, traefik_service_of r))"
    using traefik_render_entry [OF d] by (simp add: traefik_served_def)
next
  fix s d d' s'
  assume inv: "config_inv F path s" and hy: "no_hyphen d" "no_hyphen d'"
    and r: "traefik_remove F path flt d s = (Ok (), s')"
  show "config_inv F path s' \<and> traefik_served F path s' d' = (if d' = d then None else traefik_served F path s d')"
  proof (cases "fs_exists path s")
    case False
    then have "s' = s \<and> config_of F path s = None"
      using r by (auto simp: traefik_remove_def fs_read_to_string_def fs_read_def fs_exists_def config_of_def
          split: option.splits if_splits)
    then show ?thesis using inv by (simp add: traefik_served_def)
  next
    case True
    obtain t c where t: "fs_read_to_string flt path s = Inr t" "fmt_parse F t = Ok c"
      using r True by (auto simp: traefik_remove_def split: sum.splits if_splits)
    let ?c = "c\<lparr>tc_routers := hm_remove (router_name d) (tc_routers c), tc_services := hm_remove (service_name d) (tc_services c)\<rparr>"
    obtain u where u: "fmt_print F ?c = Ok u" "fs_write flt path u s = (Inr (), s')"
      using r t by (auto simp: traefik_remove_def Let_def split: sum.splits prod.splits)
    have "config_inv F path s' \<and> config_of F path s' = Some ?c"
      using inv by (intro config_write [OF _ u]) (simp add: config_inv_def)
    moreover have "config_of F path s = Some c" using config_read [OF inv t(1), of c] t(2) by blast
    ultimately show ?thesis using traefik_entry_remove [OF hy] by (simp add: traefik_served_def)
  qed
qed

section \<open>Properties\<close>

lemma write_config_sync_frame:
  "write_config_sync F flt b c f = (Ok (), f') \<Longrightarrow> p \<noteq> np_config_path b \<Longrightarrow> hm_get f' p = hm_get f p"
  by (auto simp: write_config_sync_def split: sum.splits prod.splits dest!: fs_write_cases)

lemma config_of_text: "config_of F path f = Some c \<Longrightarrow> \<exists>t. hm_get f path = Some t \<and> fmt_parse F t = Ok c"
  by (auto simp: config_of_def split: option.splits if_splits sum.splits)

text \<open>What a successful removal leaves in the file, with and without a fault of the read.\<close>

lemma nexa_remove_config:
  assumes "format_ok F" "config_of F (np_config_path b) f = Some c" "nexa_remove F b flt d f = (Ok (), f')"
  shows "config_of F (np_config_path b) f' =
      Some (if flt (ReadFile (np_config_path b)) = None then c\<lparr>np_routes := hm_remove d (np_routes c)\<rparr> else c)
    \<and> (\<forall>p. p \<noteq> np_config_path b \<longrightarrow> hm_get f' p = hm_get f p)"
proof (cases "flt (ReadFile (np_config_path b))")
  case None
  obtain t where t: "fs_read_to_string flt (np_config_path b) f = Inr t" "fmt_parse F t = Ok c"
    using assms(2) None by (auto simp: config_of_def fs_read_to_string_def fs_read_def split: option.splits if_splits sum.splits)
  then have w: "write_config_sync F flt b (c\<lparr>np_routes := hm_remove d (np_routes c)\<rparr>) f = (Ok (), f')"
    using assms(3) by (simp add: nexa_remove_def)
  show ?thesis
    using write_config_sync_ok [OF assms(1) w] write_config_sync_frame [OF w] None by simp
next
  case (Some e)
  then have "f' = f" using assms(3) by (simp add: nexa_remove_def fs_read_to_string_def fs_read_def)
  then show ?thesis using assms(2) Some by simp
qed

lemma build_config_routes:
  assumes "distinct (map rc_domain rs)"
  shows "hm_get (np_routes (build_config b rs)) k =
    map_option nexa_route (find (\<lambda>r. rc_domain r = k) rs)"
  using fold_insert_routes [OF assms, of nexa_route "[]" k]
  by (simp add: build_config_def split: option.split)

text \<open>The TLS settings of a route, field by field.\<close>

definition tls_fields :: "tls_config \<Rightarrow> nexa_proxy_tls option \<Rightarrow> bool" where
  "tls_fields tls entry =
     (case tls of
        NoTls \<Rightarrow> entry = None
      | AutoTls email \<Rightarrow> (\<exists>s. entry = Some s \<and> np_acme_email s = Some email
          \<and> np_cert_path s = None \<and> np_key_path s = None)
      | ManualTls cert key \<Rightarrow> (\<exists>s. entry = Some s \<and> np_acme_email s = None
          \<and> np_cert_path s = Some cert \<and> np_key_path s = Some key))"

lemma nexa_route_fields:
  "map fst (np_upstreams (nexa_route r)) = map up_address (rc_upstream r)
   \<and> map snd (np_upstreams (nexa_route r)) = map up_weight (rc_upstream r)
   \<and> tls_fields (rc_tls r) (np_tls (nexa_route r))"
  by (simp add: nexa_route_def tls_fields_def comp_def split: tls_config.split)

text \<open>C25: nexa-proxy's configuration file follows the routes. Let routes with different domains be
  applied with success, whatever the file held before and whatever the file system does, and
  then one domain be removed with success. Then the file parses, and the configuration in it
  listens where the backend was told to, has a route for exactly the applied domains but the
  removed one, each with its upstreams (address and weight, in order) and its TLS settings: none,
  the ACME address alone, or the certificate and the key, each in its own field. No other file
  changes. When the file cannot be read the removal also answers success, but removes
  nothing: the routes of all applied domains are still there.\<close>

theorem nexa_proxy_apply_remove:
  assumes "format_ok F" "distinct (map rc_domain rs)"
    "nexa_apply F b flt rs f = (Ok (), f1)" "nexa_remove F b flt' d f1 = (Ok (), f2)"
  shows "\<exists>t c. hm_get f2 (np_config_path b) = Some t \<and> fmt_parse F t = Ok c
    \<and> np_http_listen c = np_http b \<and> np_https_listen c = np_https b
    \<and> (\<forall>k. hm_get (np_routes c) k \<noteq> None \<longleftrightarrow>
          k \<in> rc_domain ` set rs \<and> (k \<noteq> d \<or> flt' (ReadFile (np_config_path b)) \<noteq> None))
    \<and> (\<forall>r e. r \<in> set rs \<and> hm_get (np_routes c) (rc_domain r) = Some e \<longrightarrow>
          map fst (np_upstreams e) = map up_address (rc_upstream r)
        \<and> map snd (np_upstreams e) = map up_weight (rc_upstream r)
        \<and> tls_fields (rc_tls r) (np_tls e))
    \<and> (\<forall>p. p \<noteq> np_config_path b \<longrightarrow> hm_get f2 p = hm_get f p)"
proof -
  let ?p = "np_config_path b"
  let ?c = "build_config b rs"
  define c where "c = (if flt' (ReadFile ?p) = None then ?c\<lparr>np_routes := hm_remove d (np_routes ?c)\<rparr> else ?c)"
  have a: "write_config_sync F flt b ?c f = (Ok (), f1)" using assms(3) by (simp add: nexa_apply_def)
  have r: "config_of F ?p f2 = Some c \<and> (\<forall>p. p \<noteq> ?p \<longrightarrow> hm_get f2 p = hm_get f1 p)"
    unfolding c_def by (rule nexa_remove_config [OF assms(1) conjunct2 [OF write_config_sync_ok [OF assms(1) a]] assms(4)])
  obtain t where t: "hm_get f2 ?p = Some t" "fmt_parse F t = Ok c" using config_of_text [OF conjunct1 [OF r]] by blast
  have routes: "hm_get (np_routes c) k =
      (if k = d \<and> flt' (ReadFile ?p) = None then None else map_option nexa_route (find (\<lambda>r. rc_domain r = k) rs))" for k
    by (simp add: c_def build_config_routes [OF assms(2)])
  have frame: "\<forall>p. p \<noteq> ?p \<longrightarrow> hm_get f2 p = hm_get f p" using r write_config_sync_frame [OF a] by simp
  have listen: "np_http_listen c = np_http b" "np_https_listen c = np_https b" by (simp_all add: c_def build_config_def)
  have "(find (\<lambda>r. rc_domain r = k) rs \<noteq> None) = (k \<in> rc_domain ` set rs)" for k
    by (auto simp: find_None_iff)
  then have doms: "\<forall>k. (hm_get (np_routes c) k \<noteq> None) =
      (k \<in> rc_domain ` set rs \<and> (k \<noteq> d \<or> flt' (ReadFile ?p) \<noteq> None))"
    unfolding routes by simp
  have fields: "\<forall>r e. r \<in> set rs \<and> hm_get (np_routes c) (rc_domain r) = Some e \<longrightarrow>
      map fst (np_upstreams e) = map up_address (rc_upstream r)
      \<and> map snd (np_upstreams e) = map up_weight (rc_upstream r) \<and> tls_fields (rc_tls r) (np_tls e)"
  proof (intro allI impI)
    fix r e assume re: "r \<in> set rs \<and> hm_get (np_routes c) (rc_domain r) = Some e"
    then have "e = nexa_route r"
      using find_key_self [OF assms(2), of r] unfolding routes by (simp split: if_splits)
    then show "map fst (np_upstreams e) = map up_address (rc_upstream r)
      \<and> map snd (np_upstreams e) = map up_weight (rc_upstream r) \<and> tls_fields (rc_tls r) (np_tls e)"
      using nexa_route_fields [of r] by simp
  qed
  show ?thesis by (intro exI conjI; fact t listen doms frame fields)
qed

text \<open>The same holds for Traefik when no domain contains a hyphen: every remaining domain keeps
  its router and service, and the removed domain has neither.\<close>

theorem traefik_apply_remove:
  assumes "format_ok F" "hm_get f path = None" "distinct (map rc_domain rs)"
    "list_all (no_hyphen \<circ> rc_domain) rs" "no_hyphen d"
    "traefik_apply F path flt rs f = (Ok (), f1)" "traefik_remove F path flt d f1 = (Ok (), f2)"
  shows "traefik_served F path f2 d = None
    \<and> (\<forall>r\<in>set rs. rc_domain r \<noteq> d \<longrightarrow>
         traefik_served F path f2 (rc_domain r) = Some (traefik_router_of r, traefik_service_of r))"
  by (rule traefik.apply_remove [OF _ assms(3-7)]) (use assms(1,2) in \<open>simp add: config_inv_def\<close>)

text \<open>With hyphens Traefik routes collide. Two domains that differ only in dots and hyphens get the
  same router and service names, so that the configuration of both is the configuration of
  the second alone.\<close>

theorem traefik_names_collide:
  assumes "sanitized (rc_domain r1) = sanitized (rc_domain r2)"
  shows "traefik_render [r1, r2] = traefik_render [r2]"
  using assms
  by (simp add: traefik_render_def traefik_add_def traefik_default_def router_name_def service_name_def hm_insert_def)

text \<open>A failed reload is not noticed: when the new child cannot be started, the old one has already been killed, and the
  backend still reports that it is healthy.\<close>

theorem failed_reload_stays_healthy:
  assumes "np_child b = Some pid" "spawn (np_binary_path b) (np_config_path b) = Inl e"
  shows "\<exists>m b'. nexa_reload spawn b = (Err (Proxy m), [pid], b') \<and> nexa_health b' = Ok True"
  using assms by (simp add: nexa_reload_def start_child_def nexa_health_def)

section \<open>Witnesses\<close>

definition sample_route :: "string \<Rightarrow> route_config" where
  "sample_route d = \<lparr>rc_domain = d, rc_upstream = [\<lparr>up_address = ''h:80'', up_weight = 1\<rparr>], rc_tls = NoTls\<rparr>"

text \<open>A format that knows two configurations, told apart by their text.\<close>

definition two_format :: "'a \<Rightarrow> 'a \<Rightarrow> 'a format" where
  "two_format a b =
     \<lparr>fmt_print = (\<lambda>x. if x = a then Ok ''a'' else if x = b then Ok ''b'' else Err ''unknown''),
      fmt_parse = (\<lambda>t. if t = ''a'' then Ok a else Ok b)\<rparr>"

lemma two_format_ok: "format_ok (two_format a b)"
  by (auto simp: format_ok_def two_format_def utf8_valid_str_bytes is_ascii_def split: if_splits)

definition sample_nexa :: nexa_proxy where
  "sample_nexa = nexa_proxy_new ''p.json'' ''nexa-proxy'' '':80'' None"

definition sample_nexa_routes :: "route_config list" where
  "sample_nexa_routes = [sample_route ''a.io'', (sample_route ''b.io'')\<lparr>rc_tls := ManualTls ''c'' ''k''\<rparr>]"

definition sample_nexa_configs :: "nexa_proxy_config \<times> nexa_proxy_config" where
  "sample_nexa_configs =
     (let c = build_config sample_nexa sample_nexa_routes in (c, c\<lparr>np_routes := hm_remove ''a.io'' (np_routes c)\<rparr>))"

definition sample_nexa_format :: "nexa_proxy_config format" where
  "sample_nexa_format = two_format (fst sample_nexa_configs) (snd sample_nexa_configs)"

theorem nexa_proxy_apply_remove_witness:
  "\<exists>c e s. fmt_parse sample_nexa_format ''b'' = Ok c \<and> hm_get (np_routes c) ''a.io'' = None
    \<and> hm_get (np_routes c) ''b.io'' = Some e \<and> map snd (np_upstreams e) = [1]
    \<and> np_tls e = Some s \<and> np_cert_path s = Some ''c'' \<and> np_key_path s = Some ''k''"
proof -
  have path: "np_config_path sample_nexa = ''p.json''" by (simp add: sample_nexa_def nexa_proxy_new_def)
  have u: "utf8_valid (str_bytes ''a'')" by code_simp
  have d: "distinct (map rc_domain sample_nexa_routes)" by (simp add: sample_nexa_routes_def sample_route_def)
  have ne: "snd sample_nexa_configs \<noteq> fst sample_nexa_configs"
    by (simp add: sample_nexa_configs_def sample_nexa_routes_def build_config_def sample_route_def hm_insert_def
        hm_remove_def Let_def)
  have a: "nexa_apply sample_nexa_format sample_nexa no_faults sample_nexa_routes [(''p.json'', ''old'')]
      = (Ok (), [(''p.json'', ''a'')])"
    by (simp add: nexa_apply_def write_config_sync_def sample_nexa_format_def two_format_def hm_insert_def path
        sample_nexa_configs_def Let_def)
  have r: "nexa_remove sample_nexa_format sample_nexa no_faults ''a.io'' [(''p.json'', ''a'')] = (Ok (), [(''p.json'', ''b'')])"
    using u ne
    by (simp add: nexa_remove_def write_config_sync_def sample_nexa_format_def two_format_def fs_read_to_string_def
        hm_get_def hm_insert_def path) (simp add: sample_nexa_configs_def Let_def)
  have "format_ok sample_nexa_format" by (simp add: sample_nexa_format_def two_format_ok)
  from nexa_proxy_apply_remove [OF this d a r] obtain t c where
    t: "hm_get [(''p.json'', ''b'')] ''p.json'' = Some t" "fmt_parse sample_nexa_format t = Ok c"
    and keys: "\<forall>k. hm_get (np_routes c) k \<noteq> None \<longleftrightarrow>
        k \<in> rc_domain ` set sample_nexa_routes \<and> (k \<noteq> ''a.io'' \<or> no_faults (ReadFile ''p.json'') \<noteq> None)"
    and entry: "\<forall>r e. r \<in> set sample_nexa_routes \<and> hm_get (np_routes c) (rc_domain r) = Some e \<longrightarrow>
        map fst (np_upstreams e) = map up_address (rc_upstream r)
      \<and> map snd (np_upstreams e) = map up_weight (rc_upstream r) \<and> tls_fields (rc_tls r) (np_tls e)"
    unfolding path by (elim exE conjE) (rule that)
  have "hm_get (np_routes c) ''a.io'' = None" using keys [rule_format, of "''a.io''"] by (simp add: no_faults_def)
  moreover obtain e where e: "hm_get (np_routes c) ''b.io'' = Some e"
    using keys [rule_format, of "''b.io''"] by (auto simp: sample_nexa_routes_def sample_route_def)
  moreover have "map snd (np_upstreams e) = [1] \<and> tls_fields (ManualTls ''c'' ''k'') (np_tls e)"
    using entry [rule_format, of "(sample_route ''b.io'')\<lparr>rc_tls := ManualTls ''c'' ''k''\<rparr>" e] e
    by (simp add: sample_nexa_routes_def sample_route_def)
  moreover have "t = ''b''" using t(1) by (simp add: hm_get_def)
  ultimately show ?thesis using t(2) by (auto simp: tls_fields_def)
qed

end
