(* ===== verification/Route_Store.thy ===== *)
theory Route_Store
  imports Domain
begin

text \<open>
  Routes, certificates and subnet allocations: the in-memory route store
  (\<open>src/adapters/state/memory_route_store.rs\<close>), the ACME manager (\<open>src/adapters/tls/acme.rs\<close>)
  and the renewal task (\<open>src/adapters/tls/renewal.rs\<close>). The manager and the task know the
  store through the \<open>RouteStore\<close> port; its laws are a locale, interpreted on the store.
\<close>

section \<open>Data\<close>

datatype tls_mode = TlsNone | TlsAuto | TlsOther nat

record route =
  rt_domain :: string
  rt_project :: string
  rt_deployment :: string
  rt_tls_mode :: tls_mode
  rt_created_at :: instant

record certificate =
  ct_domain :: string
  ct_cert_pem :: string
  ct_key_pem_enc :: string
  ct_key_nonce :: string
  ct_issued_at :: instant
  ct_expires_at :: instant
  ct_acme_account :: "string option"

record subnet_allocation =
  sa_node_id :: string
  sa_project :: string
  sa_subnet :: string

record route_store =
  routes :: "(string, route) hashmap"
  certificates :: "(string, certificate) hashmap"
  subnets :: "subnet_allocation list"

definition route_store_new :: route_store where
  "route_store_new = \<lparr>routes = [], certificates = [], subnets = []\<rparr>"

section \<open>Operations\<close>

definition insert_route :: "route \<Rightarrow> route_store \<Rightarrow> unit res \<times> route_store" where
  "insert_route r s =
     (if hm_get (routes s) (rt_domain r) \<noteq> None then (Err (RouteAlreadyExists (rt_domain r)), s)
      else (Ok (), s\<lparr>routes := hm_insert (rt_domain r) r (routes s)\<rparr>))"

definition get_route :: "string \<Rightarrow> route_store \<Rightarrow> route option res" where
  "get_route domain s = Ok (hm_get (routes s) domain)"

definition list_routes :: "string option \<Rightarrow> route_store \<Rightarrow> route list res" where
  "list_routes project s =
     Ok (filter (\<lambda>r. case project of Some p \<Rightarrow> rt_project r = p | None \<Rightarrow> True) (hm_values (routes s)))"

definition delete_route :: "string \<Rightarrow> route_store \<Rightarrow> bool res \<times> route_store" where
  "delete_route domain s =
     (Ok (hm_get (routes s) domain \<noteq> None), s\<lparr>routes := hm_remove domain (routes s)\<rparr>)"

definition upsert_certificate :: "certificate \<Rightarrow> route_store \<Rightarrow> unit res \<times> route_store" where
  "upsert_certificate c s = (Ok (), s\<lparr>certificates := hm_insert (ct_domain c) c (certificates s)\<rparr>)"

definition get_certificate :: "string \<Rightarrow> route_store \<Rightarrow> certificate option res" where
  "get_certificate domain s = Ok (hm_get (certificates s) domain)"

text \<open>\<open>add_days\<close> is chrono's \<open>now + Duration::days(d)\<close>, which panics (\<open>None\<close>) out of range.\<close>

definition list_expiring_certificates ::
  "(instant \<Rightarrow> int \<Rightarrow> instant option) \<Rightarrow> instant \<Rightarrow> int \<Rightarrow> route_store \<Rightarrow> certificate list res outcome" where
  "list_expiring_certificates add_days now within_days s =
     (case add_days now within_days of
        None \<Rightarrow> Panic
      | Some threshold \<Rightarrow>
          Ret (Ok (filter (\<lambda>c. ct_expires_at c \<le> threshold) (hm_values (certificates s)))))"

definition delete_certificate :: "string \<Rightarrow> route_store \<Rightarrow> bool res \<times> route_store" where
  "delete_certificate domain s =
     (Ok (hm_get (certificates s) domain \<noteq> None), s\<lparr>certificates := hm_remove domain (certificates s)\<rparr>)"

definition allocate_subnet :: "subnet_allocation \<Rightarrow> route_store \<Rightarrow> unit res \<times> route_store" where
  "allocate_subnet a s =
     (if list_ex (\<lambda>x. sa_node_id x = sa_node_id a \<and> sa_project x = sa_project a) (subnets s)
      then (Err (Network (''subnet already allocated for node '' @ sa_node_id a @ '' project '' @ sa_project a)), s)
      else if list_ex (\<lambda>x. sa_subnet x = sa_subnet a) (subnets s)
      then (Err (Network (''subnet '' @ sa_subnet a @ '' already in use'')), s)
      else (Ok (), s\<lparr>subnets := subnets s @ [a]\<rparr>))"

definition get_node_subnet :: "string \<Rightarrow> string \<Rightarrow> route_store \<Rightarrow> subnet_allocation option res" where
  "get_node_subnet ident project s =
     Ok (find (\<lambda>x. sa_node_id x = ident \<and> sa_project x = project) (subnets s))"

definition list_subnets :: "route_store \<Rightarrow> subnet_allocation list res" where
  "list_subnets s = Ok (subnets s)"

definition deallocate_subnet :: "string \<Rightarrow> string \<Rightarrow> route_store \<Rightarrow> bool res \<times> route_store" where
  "deallocate_subnet ident project s =
     (let kept = filter (\<lambda>x. \<not> (sa_node_id x = ident \<and> sa_project x = project)) (subnets s)
      in (Ok (length kept < length (subnets s)), s\<lparr>subnets := kept\<rparr>))"

section \<open>Certificates through the port\<close>

text \<open>The operations of \<open>RouteStore\<close> that the manager and the renewal task call.\<close>

record 's cert_port =
  cp_upsert :: "certificate \<Rightarrow> 's \<Rightarrow> unit res \<times> 's"
  cp_get :: "string \<Rightarrow> 's \<Rightarrow> certificate option res"
  cp_list_expiring :: "instant \<Rightarrow> int \<Rightarrow> 's \<Rightarrow> certificate list res outcome"

record acme_manager =
  acme_email :: string
  acme_staging :: bool

definition acme_new :: "string \<Rightarrow> bool \<Rightarrow> acme_manager" where
  "acme_new email staging = \<lparr>acme_email = email, acme_staging = staging\<rparr>"

definition issue_certificate :: "acme_manager \<Rightarrow> string \<Rightarrow> certificate res" where
  "issue_certificate acme domain =
     Err (Certificate_err (''ACME issuance for '' @ [CHR 39] @ domain @ [CHR 39]
            @ '' requires network access and HTTP challenge validation''))"

text \<open>The clock is read twice; 90 days never leave chrono's range for a present date.\<close>

definition import_certificate ::
  "'s cert_port \<Rightarrow> instant \<Rightarrow> instant \<Rightarrow> string \<Rightarrow> string \<Rightarrow> string \<Rightarrow> 's \<Rightarrow> unit res \<times> 's" where
  "import_certificate R now1 now2 domain cert_pem key_pem s =
     (let cert = \<lparr>ct_domain = domain, ct_cert_pem = cert_pem, ct_key_pem_enc = key_pem,
                  ct_key_nonce = replicate 12 (CHR 0x00), ct_issued_at = now1,
                  ct_expires_at = now2 + secs (90 * 86400), ct_acme_account = None\<rparr>
      in (case cp_upsert R cert s of (Inl e, s') \<Rightarrow> (Err e, s') | (Inr _, s') \<Rightarrow> (Ok (), s')))"

text \<open>One round of the renewal loop; a panic ends the task.\<close>

fun renew_all :: "'s cert_port \<Rightarrow> acme_manager \<Rightarrow> certificate list \<Rightarrow> 's \<Rightarrow> 's" where
  "renew_all R acme [] s = s"
| "renew_all R acme (c # cs) s =
     renew_all R acme cs
       (case issue_certificate acme (ct_domain c) of
          Inr new_cert \<Rightarrow> snd (cp_upsert R new_cert s)
        | Inl _ \<Rightarrow> s)"

definition renewal_round :: "'s cert_port \<Rightarrow> acme_manager \<Rightarrow> int \<Rightarrow> instant \<Rightarrow> 's \<Rightarrow> 's outcome" where
  "renewal_round R acme renew_before_days now s =
     (case cp_list_expiring R now renew_before_days s of
        Panic \<Rightarrow> Panic
      | Ret (Inl _) \<Rightarrow> Ret s
      | Ret (Inr certs) \<Rightarrow> if certs = [] then Ret s else Ret (renew_all R acme certs s))"

fun renewal_task :: "'s cert_port \<Rightarrow> acme_manager \<Rightarrow> int \<Rightarrow> instant list \<Rightarrow> 's \<Rightarrow> 's outcome" where
  "renewal_task R acme days [] s = Ret s"
| "renewal_task R acme days (now # ticks) s =
     (case renewal_round R acme days now s of
        Panic \<Rightarrow> Panic
      | Ret s1 \<Rightarrow> renewal_task R acme days ticks s1)"

definition memory_cert_port :: "(instant \<Rightarrow> int \<Rightarrow> instant option) \<Rightarrow> route_store cert_port" where
  "memory_cert_port add_days =
     \<lparr>cp_upsert = upsert_certificate, cp_get = get_certificate,
      cp_list_expiring = list_expiring_certificates add_days\<rparr>"

section \<open>The certificate contract\<close>

locale cert_store =
  fixes R :: "'s cert_port" and cinv :: "'s \<Rightarrow> bool"
  assumes upsert_get: "cinv s \<Longrightarrow> cp_upsert R c s = (Ok (), s') \<Longrightarrow>
      cinv s' \<and> cp_get R d s' = (if d = ct_domain c then Ok (Some c) else cp_get R d s)"
    and expiring_get: "cinv s \<Longrightarrow> cp_list_expiring R now days s = Ret (Ok cs) \<Longrightarrow> x \<in> set cs \<Longrightarrow>
      cp_get R (ct_domain x) s = Ok (Some x)"
begin

lemma import_get:
  assumes "cinv s" "import_certificate R t1 t2 d cp kp s = (Ok (), s')"
  shows "cinv s' \<and> (\<exists>c. cp_get R d s' = Ok (Some c) \<and> ct_cert_pem c = cp \<and> ct_key_pem_enc c = kp
      \<and> ct_expires_at c = t2 + secs (90 * 86400)) \<and> (\<forall>d'. d' = d \<or> cp_get R d' s' = cp_get R d' s)"
proof -
  let ?c = "\<lparr>ct_domain = d, ct_cert_pem = cp, ct_key_pem_enc = kp, ct_key_nonce = replicate 12 (CHR 0x00),
    ct_issued_at = t1, ct_expires_at = t2 + secs (90 * 86400), ct_acme_account = None\<rparr>"
  have "cp_upsert R ?c s = (Ok (), s')"
    using assms(2) by (auto simp: import_certificate_def Let_def split: prod.splits sum.splits)
  from upsert_get [OF assms(1) this] show ?thesis by auto
qed

text \<open>No certificate is ever issued, so a renewal round is the identity on the store.\<close>

lemma renew_all_id: "renew_all R acme cs s = s"
  by (induction cs) (simp_all add: issue_certificate_def)

lemma renewal_round_id: "renewal_round R acme days now s = Ret s' \<Longrightarrow> s' = s"
  by (auto simp: renewal_round_def renew_all_id split: outcome.splits sum.splits if_splits)

lemma renewal_task_id: "renewal_task R acme days ticks s = Ret s' \<Longrightarrow> s' = s"
  by (induction ticks) (auto split: outcome.splits dest: renewal_round_id)

end

section \<open>Invariant\<close>

definition subnet_key :: "subnet_allocation \<Rightarrow> string \<times> string" where
  "subnet_key a = (sa_node_id a, sa_project a)"

definition route_wf :: "route_store \<Rightarrow> bool" where
  "route_wf s \<longleftrightarrow> hm_wf (routes s) \<and> hm_wf (certificates s)
     \<and> (\<forall>d r. hm_get (routes s) d = Some r \<longrightarrow> rt_domain r = d)
     \<and> (\<forall>d c. hm_get (certificates s) d = Some c \<longrightarrow> ct_domain c = d)
     \<and> distinct (map subnet_key (subnets s)) \<and> distinct (map sa_subnet (subnets s))"

datatype route_op =
    InsertRoute route | DeleteRoute string | UpsertCertificate certificate | DeleteCertificate string
  | AllocateSubnet subnet_allocation | DeallocateSubnet string string

fun route_step :: "route_op \<Rightarrow> route_store \<Rightarrow> route_store" where
  "route_step (InsertRoute r) s = snd (insert_route r s)"
| "route_step (DeleteRoute d) s = snd (delete_route d s)"
| "route_step (UpsertCertificate c) s = snd (upsert_certificate c s)"
| "route_step (DeleteCertificate d) s = snd (delete_certificate d s)"
| "route_step (AllocateSubnet a) s = snd (allocate_subnet a s)"
| "route_step (DeallocateSubnet n p) s = snd (deallocate_subnet n p s)"

definition route_run :: "route_op list \<Rightarrow> route_store" where
  "route_run ops = fold route_step ops route_store_new"

lemma list_ex_key: "list_ex (\<lambda>x. f x = k) xs \<longleftrightarrow> k \<in> f ` set xs"
  by (auto simp: list_ex_iff)

lemma list_ex_subnet_key:
  "list_ex (\<lambda>x. sa_node_id x = n \<and> sa_project x = p) xs \<longleftrightarrow> (n, p) \<in> subnet_key ` set xs"
  by (force simp: list_ex_iff subnet_key_def)

lemma route_wf_new [wf_intros]: "route_wf route_store_new"
  by (simp add: route_wf_def route_store_new_def)

lemma route_wf_step [wf_intros]: "route_wf s \<Longrightarrow> route_wf (route_step oper s)"
  by (cases oper)
     (auto simp: route_wf_def insert_route_def delete_route_def upsert_certificate_def delete_certificate_def
       allocate_subnet_def deallocate_subnet_def list_ex_subnet_key list_ex_key Let_def distinct_map_filter
       subnet_key_def image_iff split: if_splits)

lemma route_wf_run: "route_wf (route_run ops)"
proof -
  have "route_wf s \<Longrightarrow> route_wf (fold route_step ops s)" for s
    by (induction ops arbitrary: s) (auto intro: wf_intros)
  then show ?thesis by (simp add: route_run_def wf_intros)
qed

interpretation mem: cert_store "memory_cert_port add_days" route_wf for add_days
proof (unfold_locales, unfold memory_cert_port_def cert_port.simps)
  fix s c s' d now days cs x
  assume wf: "route_wf s"
  {
    assume "upsert_certificate c s = (Ok (), s')"
    then show "route_wf s' \<and> get_certificate d s' = (if d = ct_domain c then Ok (Some c) else get_certificate d s)"
      using route_wf_step [OF wf, of "UpsertCertificate c"]
      by (auto simp: upsert_certificate_def get_certificate_def)
  next
    assume "list_expiring_certificates add_days now days s = Ret (Ok cs)" "x \<in> set cs"
    then have "x \<in> set (hm_values (certificates s))"
      by (auto simp: list_expiring_certificates_def split: option.splits)
    then show "get_certificate (ct_domain x) s = Ok (Some x)"
      using wf by (auto simp: get_certificate_def set_hm_values route_wf_def)
  }
qed

section \<open>Properties\<close>

lemma find_subnet_Some:
  assumes "distinct (map subnet_key xs)"
  shows "find (\<lambda>x. sa_node_id x = n \<and> sa_project x = p) xs = Some a \<longleftrightarrow> a \<in> set xs \<and> subnet_key a = (n, p)"
  using assms by (induction xs) (auto simp: subnet_key_def image_iff)

lemma find_subnet_None:
  "find (\<lambda>x. sa_node_id x = n \<and> sa_project x = p) xs = None \<longleftrightarrow> (n, p) \<notin> subnet_key ` set xs"
  by (force simp: find_None_iff subnet_key_def)

text \<open>C28: route listings are exact. After any history of operations, listing the routes of a
  project (or all routes) returns, without repetition, exactly the routes that the look-up by
  domain finds and that belong to the project.\<close>

theorem list_routes_exact:
  "\<exists>rs. list_routes project (route_run ops) = Ok rs \<and> distinct rs
    \<and> set rs = {r. (project = None \<or> project = Some (rt_project r))
                 \<and> get_route (rt_domain r) (route_run ops) = Ok (Some r)}"
proof -
  let ?m = "routes (route_run ops)"
  have wf: "hm_wf ?m" and own: "\<And>d r. hm_get ?m d = Some r \<Longrightarrow> rt_domain r = d"
    using route_wf_run [of ops] by (auto simp: route_wf_def)
  have "inj_on snd (set ?m)"
  proof (rule inj_onI)
    fix x y assume xy: "x \<in> set ?m" "y \<in> set ?m" "snd x = snd y"
    have "rt_domain (snd x) = fst x" "rt_domain (snd y) = fst y"
      by (rule own; use xy(1,2) in \<open>simp add: hm_get_set [OF wf]\<close>)+
    then show "x = y" using xy(3) by (simp add: prod_eq_iff)
  qed
  then have "distinct (hm_values ?m)"
    using wf by (simp add: hm_values_def hm_wf_def distinct_map)
  moreover have "set (hm_values ?m) = {r. hm_get ?m (rt_domain r) = Some r}"
    using own by (auto simp: set_hm_values [OF wf])
  ultimately show ?thesis
    by (cases project) (auto simp: list_routes_def get_route_def)
qed

text \<open>Subnets are exclusive. After any history, no subnet is held twice, no node holds two subnets
  for one project, and the listing contains exactly the allocations that the look-up by node and
  project returns.\<close>

theorem subnets_exclusive:
  "\<exists>xs. list_subnets (route_run ops) = Ok xs \<and> distinct (map sa_subnet xs) \<and> distinct (map subnet_key xs)
    \<and> set xs = {a. get_node_subnet (sa_node_id a) (sa_project a) (route_run ops) = Ok (Some a)}"
  using route_wf_run [of ops]
  by (auto simp: list_subnets_def get_node_subnet_def route_wf_def find_subnet_Some) (simp_all add: subnet_key_def)

lemma allocate_subnet_cases:
  assumes "route_wf s"
  shows "if subnet_key a \<notin> subnet_key ` set (subnets s) \<and> sa_subnet a \<notin> sa_subnet ` set (subnets s)
      then \<exists>s'. allocate_subnet a s = (Ok (), s') \<and> route_wf s' \<and> list_subnets s' = Ok (subnets s @ [a])
        \<and> (\<forall>n p. get_node_subnet n p s' = (if (n, p) = subnet_key a then Ok (Some a) else get_node_subnet n p s))
      else \<exists>m. allocate_subnet a s = (Err (Network m), s)"
proof (cases "subnet_key a \<notin> subnet_key ` set (subnets s) \<and> sa_subnet a \<notin> sa_subnet ` set (subnets s)")
  case True
  let ?s = "s\<lparr>subnets := subnets s @ [a]\<rparr>"
  have al: "allocate_subnet a s = (Ok (), ?s)"
    using True by (auto simp: allocate_subnet_def list_ex_subnet_key list_ex_key subnet_key_def)
  have wf: "route_wf ?s" using route_wf_step [OF assms, of "AllocateSubnet a"] al by simp
  have "get_node_subnet n p ?s = (if (n, p) = subnet_key a then Ok (Some a) else get_node_subnet n p s)" for n p
    using True find_subnet_None [of n p "subnets s"]
    by (auto simp: get_node_subnet_def find_append subnet_key_def split: option.splits)
  then show ?thesis using True al wf by (auto simp: list_subnets_def)
next
  case False
  then show ?thesis
    by (auto simp: allocate_subnet_def list_ex_subnet_key list_ex_key) (simp_all add: subnet_key_def)
qed

lemma find_other_subnet:
  "(n', p') \<noteq> (n, p) \<Longrightarrow>
     find (\<lambda>x. sa_node_id x = n' \<and> sa_project x = p') (filter (\<lambda>x. subnet_key x \<noteq> (n, p)) xs) =
     find (\<lambda>x. sa_node_id x = n' \<and> sa_project x = p') xs"
  by (induction xs) (auto simp: subnet_key_def)

lemma find_own_subnet:
  "find (\<lambda>x. sa_node_id x = n \<and> sa_project x = p) (filter (\<lambda>x. subnet_key x \<noteq> (n, p)) xs) = None"
  by (induction xs) (auto simp: subnet_key_def)

lemma deallocate_subnet_eq:
  "deallocate_subnet n p s =
     (Ok ((n, p) \<in> subnet_key ` set (subnets s)), s\<lparr>subnets := filter (\<lambda>x. subnet_key x \<noteq> (n, p)) (subnets s)\<rparr>)"
proof -
  have f: "(\<lambda>x. \<not> (sa_node_id x = n \<and> sa_project x = p)) = (\<lambda>x. subnet_key x \<noteq> (n, p))"
    by (auto simp: subnet_key_def fun_eq_iff)
  have "(length (filter (\<lambda>x. subnet_key x \<noteq> (n, p)) xs) < length xs) = ((n, p) \<in> subnet_key ` set xs)" for xs
    using length_filter_le [of "\<lambda>x. subnet_key x \<noteq> (n, p)"] by (induction xs) (auto simp: less_Suc_eq_le)
  then show ?thesis unfolding deallocate_subnet_def Let_def f by (simp only:)
qed

text \<open>C29: subnets are allocated and freed one at a time. An allocation succeeds exactly when the node has
  no subnet for the project and the subnet is free; then it stands at the end of the listing, is
  found under its key, and all other keys read as before. A refused allocation changes nothing.
  A deallocation of any key always succeeds and answers whether the key had a subnet; the
  listing loses this subnet only and keeps the order of the others, every other key reads as
  before, routes and certificates stay, and the freed subnet can be allocated again.\<close>

theorem allocate_subnet_correct:
  assumes "route_wf s"
  shows "(if subnet_key a \<notin> subnet_key ` set (subnets s) \<and> sa_subnet a \<notin> sa_subnet ` set (subnets s)
      then \<exists>s'. allocate_subnet a s = (Ok (), s') \<and> route_wf s' \<and> list_subnets s' = Ok (subnets s @ [a])
        \<and> (\<forall>n p. get_node_subnet n p s' = (if (n, p) = subnet_key a then Ok (Some a) else get_node_subnet n p s))
        \<and> (\<exists>s''. deallocate_subnet (sa_node_id a) (sa_project a) s' = (Ok True, s'') \<and> subnets s'' = subnets s)
      else \<exists>m. allocate_subnet a s = (Err (Network m), s))
    \<and> (\<exists>s'. deallocate_subnet n p s = (Ok (get_node_subnet n p s \<noteq> Ok None), s') \<and> route_wf s'
        \<and> list_subnets s' = Ok (filter (\<lambda>x. (sa_node_id x, sa_project x) \<noteq> (n, p)) (subnets s))
        \<and> (\<forall>n' p'. get_node_subnet n' p' s' = (if (n', p') = (n, p) then Ok None else get_node_subnet n' p' s))
        \<and> (\<forall>d. get_route d s' = get_route d s \<and> get_certificate d s' = get_certificate d s)
        \<and> (\<forall>x. get_node_subnet n p s = Ok (Some x) \<longrightarrow> fst (allocate_subnet x s') = Ok ()))"
proof (rule conjI)
  have same: "filter (\<lambda>x. subnet_key x \<noteq> k) xs = xs" if "k \<notin> subnet_key ` set xs" for k xs
    using that by (auto simp: filter_id_conv)
  show "if subnet_key a \<notin> subnet_key ` set (subnets s) \<and> sa_subnet a \<notin> sa_subnet ` set (subnets s)
      then \<exists>s'. allocate_subnet a s = (Ok (), s') \<and> route_wf s' \<and> list_subnets s' = Ok (subnets s @ [a])
        \<and> (\<forall>n p. get_node_subnet n p s' = (if (n, p) = subnet_key a then Ok (Some a) else get_node_subnet n p s))
        \<and> (\<exists>s''. deallocate_subnet (sa_node_id a) (sa_project a) s' = (Ok True, s'') \<and> subnets s'' = subnets s)
      else \<exists>m. allocate_subnet a s = (Err (Network m), s)"
    using allocate_subnet_cases [OF assms, of a] same [of "subnet_key a" "subnets s"]
    by (auto simp: deallocate_subnet_eq list_subnets_def subnet_key_def [of a, symmetric] split: if_splits)
  let ?s = "s\<lparr>subnets := filter (\<lambda>x. subnet_key x \<noteq> (n, p)) (subnets s)\<rparr>"
  have wf: "route_wf ?s" using route_wf_step [OF assms, of "DeallocateSubnet n p"] by (simp add: deallocate_subnet_eq)
  have found: "(get_node_subnet n p s \<noteq> Ok None) = ((n, p) \<in> subnet_key ` set (subnets s))"
    using find_subnet_None [of n p "subnets s"] by (simp add: get_node_subnet_def)
  have again: "fst (allocate_subnet x ?s) = Ok ()" if "get_node_subnet n p s = Ok (Some x)" for x
  proof -
    have x: "x \<in> set (subnets s)" "subnet_key x = (n, p)"
      using that assms by (auto simp: get_node_subnet_def route_wf_def find_subnet_Some)
    have inj: "inj_on sa_subnet (set (subnets s))" using assms by (simp add: route_wf_def distinct_map)
    have "subnet_key x \<notin> subnet_key ` set (subnets ?s)" "sa_subnet x \<notin> sa_subnet ` set (subnets ?s)"
      using x inj_onD [OF inj] by auto
    then show ?thesis using allocate_subnet_cases [OF wf, of x] by auto
  qed
  show "\<exists>s'. deallocate_subnet n p s = (Ok (get_node_subnet n p s \<noteq> Ok None), s') \<and> route_wf s'
        \<and> list_subnets s' = Ok (filter (\<lambda>x. (sa_node_id x, sa_project x) \<noteq> (n, p)) (subnets s))
        \<and> (\<forall>n' p'. get_node_subnet n' p' s' = (if (n', p') = (n, p) then Ok None else get_node_subnet n' p' s))
        \<and> (\<forall>d. get_route d s' = get_route d s \<and> get_certificate d s' = get_certificate d s)
        \<and> (\<forall>x. get_node_subnet n p s = Ok (Some x) \<longrightarrow> fst (allocate_subnet x s') = Ok ())"
    unfolding deallocate_subnet_eq found
    using wf again find_other_subnet [of _ _ n p "subnets s"] find_own_subnet [of n p "subnets s"]
    by (auto simp: list_subnets_def get_node_subnet_def get_route_def get_certificate_def subnet_key_def)
qed

text \<open>An imported certificate is kept. After a successful import and any number of rounds of the
  renewal task, the look-up of the domain returns the imported certificate and key with the
  90-day expiry, also when the certificate is due: the task never replaces one, because issuance
  always reports an error.\<close>

theorem imported_certificate_kept:
  assumes "route_wf s" "import_certificate (memory_cert_port add_days) t1 t2 d cert key s = (Ok (), s1)"
    "renewal_task (memory_cert_port add_days) acme days ticks s1 = Ret s2"
  shows "\<exists>c. get_certificate d s2 = Ok (Some c) \<and> ct_cert_pem c = cert \<and> ct_key_pem_enc c = key
    \<and> ct_expires_at c = t2 + secs (90 * 86400)"
  using mem.import_get [OF assms(1,2)] mem.renewal_task_id [OF assms(3)]
  by (auto simp: memory_cert_port_def)

section \<open>Witnesses\<close>

definition sample_alloc :: subnet_allocation where
  "sample_alloc = \<lparr>sa_node_id = ''n1'', sa_project = ''shop'', sa_subnet = ''10.42.0.0/24''\<rparr>"

theorem allocate_subnet_correct_witness:
  "\<exists>s' s''. allocate_subnet sample_alloc route_store_new = (Ok (), s')
     \<and> get_node_subnet ''n1'' ''shop'' s' = Ok (Some sample_alloc)
     \<and> deallocate_subnet ''n2'' ''shop'' route_store_new = (Ok False, s'') \<and> list_subnets s'' = Ok []"
proof -
  have s: "subnets route_store_new = []" "get_node_subnet ''n2'' ''shop'' route_store_new = Ok None"
    by (simp_all add: route_store_new_def get_node_subnet_def)
  have k: "subnet_key sample_alloc = (''n1'', ''shop'')" by (simp add: subnet_key_def sample_alloc_def)
  show ?thesis using allocate_subnet_correct [OF route_wf_new, of sample_alloc "''n2''" "''shop''"] by (auto simp: s k)
qed

end
