(* ===== verification/Daemon.thy ===== *)
theory Daemon
  imports Rest_Api Docker_Runtime Containerd_Engine Dns_Server Secrets Proxy_Config Route_Store
begin

text \<open>
  The start of the daemon (\<open>src/main.rs\<close>): the command line as \<open>clap\<close> delivers it, the choice of
  the mode and of the adapters, and the start of each mode up to the point where its servers
  run. Every step that can fail stops the start with its message. What the steps get from the outside
  (database connections, sockets, the host) is the record \<open>startup\<close>; files are those of
  \<open>File_System\<close>.
\<close>

section \<open>Command line\<close>

record cli =
  cli_host :: string
  cli_port :: u16
  cli_data_dir :: string
  cli_mode :: string
  cli_join :: "string option"
  cli_token :: "string option"
  cli_grpc_port :: u16
  cli_dns_mode :: string
  cli_master_ip :: "string option"
  cli_dns_listen :: string
  cli_dns_upstream :: string
  cli_proxy_backend :: string
  cli_proxy_config_dir :: string
  cli_acme_email :: "string option"
  cli_cluster_cidr :: string
  cli_wg_port :: u16
  cli_overlay :: bool
  cli_runtime :: string

definition default_data_dir :: "string option \<Rightarrow> string" where
  "default_data_dir home =
     (case home of Some h \<Rightarrow> path_join (path_join h ''.nexa'') ''data'' | None \<Rightarrow> ''/var/lib/nexa'')"

definition default_proxy_config_dir :: "string option \<Rightarrow> string" where
  "default_proxy_config_dir home = path_join (default_data_dir home) ''proxy''"

definition addr_text :: "string \<Rightarrow> u16 \<Rightarrow> string" where
  "addr_text host port = host @ '':'' @ show_nat (unat port)"

section \<open>Adapters\<close>

text \<open>
  Results of the outside world: opening the databases, connecting to a runtime, parsing socket
  addresses, binding the DNS sockets and the API's listener, the host name and the random bytes of key and token.
\<close>

record 'c startup =
  su_core :: core
  su_codec :: codec
  su_aead :: "'c aead"
  su_lower :: "string \<Rightarrow> string"
  su_faults :: faults
  su_connect :: "string \<Rightarrow> string + db"
  su_store_fault :: "string option"
  su_docker_new :: "unit res"
  su_docker_ping :: "unit res"
  su_ctr_ping :: "unit res"
  su_open_secrets :: "string \<Rightarrow> string + secret_table"
  su_parse_addr :: "string \<Rightarrow> string + string"
  su_dns_udp :: "string option"
  su_dns_tcp :: "string option"
  su_hostname :: "string + string"
  su_resources :: node_resources
  su_key_bytes :: string
  su_token_bytes :: string
  su_bind :: "string \<Rightarrow> string + unit"

text \<open>\<open>RuntimeDetector::build\<close>.\<close>

definition build_runtime :: "'c startup \<Rightarrow> runtime_kind \<Rightarrow> string + runtime_kind" where
  "build_runtime W k =
     (case k of
        Docker \<Rightarrow>
          (case su_docker_new W of Inl e \<Rightarrow> Err (err_text (su_core W) e)
           | Inr _ \<Rightarrow> (case su_docker_ping W of Inl e \<Rightarrow> Err (err_text (su_core W) e) | Inr _ \<Rightarrow> Ok Docker))
      | ContainerdKind \<Rightarrow>
          (case su_ctr_ping W of Inl e \<Rightarrow> Err (err_text (su_core W) e) | Inr _ \<Rightarrow> Ok ContainerdKind)
      | Auto \<Rightarrow> Err ''RuntimeKind::Auto must be resolved before building'')"

text \<open>The runtime of \<open>--runtime\<close>: an undetected one falls back to Docker.\<close>

definition init_runtime :: "'c startup \<Rightarrow> cli \<Rightarrow> fs \<Rightarrow> string + runtime_kind" where
  "init_runtime W c f =
     (case runtime_kind_from_str (su_lower W) (cli_runtime c) of
        Inl e \<Rightarrow> Err e
      | Inr kind \<Rightarrow> build_runtime W (case resolve_runtime f kind of Inr k \<Rightarrow> k | Inl _ \<Rightarrow> Docker))"

definition database_url :: "cli \<Rightarrow> string" where
  "database_url c = ''sqlite:'' @ cli_data_dir c @ ''/nexa.db?mode=rwc''"

definition init_infrastructure :: "'c startup \<Rightarrow> cli \<Rightarrow> fs \<Rightarrow> string + (db \<times> runtime_kind)" where
  "init_infrastructure W c f =
     (case fs_create_dir_all (su_faults W) (cli_data_dir c) of
        Inl e \<Rightarrow> Err e
      | Inr _ \<Rightarrow>
          (case su_connect W (database_url c) of
             Inl e \<Rightarrow> Err e
           | Inr s \<Rightarrow> (case init_runtime W c f of Inl e \<Rightarrow> Err e | Inr k \<Rightarrow> Ok (s, k))))"

definition init_secrets :: "'c startup \<Rightarrow> cli \<Rightarrow> fs \<Rightarrow> (string + 'c secret_store) \<times> fs" where
  "init_secrets W c f =
     (case load_or_generate (su_faults W) (su_key_bytes W) (cli_data_dir c) f of
        (Inl e, f1) \<Rightarrow> (Err (err_text (su_core W) e), f1)
      | (Inr key, f1) \<Rightarrow>
          (case su_open_secrets W (cli_data_dir c @ ''/secrets.db'') of
             Inl e \<Rightarrow> (Err (''failed to open secrets db: '' @ e), f1)
           | Inr rows \<Rightarrow>
               (case secret_store_new (su_aead W) None rows key of
                  Inl e \<Rightarrow> (Err (err_text (su_core W) e), f1)
                | Inr st \<Rightarrow> (Ok st, f1))))"

datatype proxy_choice = UseNginx nginx_backend | UseCaddy caddy_backend | UseTraefik string | UseNexaProxy nexa_proxy

definition choose_proxy :: "cli \<Rightarrow> proxy_choice" where
  "choose_proxy c =
     (if cli_proxy_backend c = ''nginx'' then UseNginx \<lparr>ng_conf_dir = cli_proxy_config_dir c, ng_bin = ''nginx''\<rparr>
      else if cli_proxy_backend c = ''caddy''
      then UseCaddy \<lparr>cd_path = path_join (cli_proxy_config_dir c) ''Caddyfile'', cd_admin_api = ''http://localhost:2019''\<rparr>
      else if cli_proxy_backend c = ''traefik''
      then UseTraefik (path_join (cli_proxy_config_dir c) ''nexa-dynamic.yml'')
      else UseNexaProxy (nexa_proxy_new (path_join (cli_proxy_config_dir c) ''proxy.json'') ''nexa-proxy''
             ''0.0.0.0:80'' (Some ''0.0.0.0:443'')))"

definition init_proxy :: "'c startup \<Rightarrow> cli \<Rightarrow> string + (proxy_choice \<times> route_store)" where
  "init_proxy W c =
     (case fs_create_dir_all (su_faults W) (cli_proxy_config_dir c) of
        Inl e \<Rightarrow> Err e | Inr _ \<Rightarrow> Ok (choose_proxy c, route_store_new))"

definition init_dns :: "'c startup \<Rightarrow> cli \<Rightarrow> string + (hickory_provider option \<times> string option)" where
  "init_dns W c =
     (if cli_dns_mode c = ''embedded'' then
        (case su_parse_addr W (cli_dns_listen c) of
           Inl e \<Rightarrow> Err (''invalid --dns-listen address: '' @ e)
         | Inr listen \<Rightarrow>
             (case su_parse_addr W (cli_dns_upstream c) of
                Inl e \<Rightarrow> Err (''invalid --dns-upstream address: '' @ e)
              | Inr upstream \<Rightarrow>
                  (case hickory_start (su_dns_udp W) (su_dns_tcp W) (hickory_new listen upstream) of
                     Inl e \<Rightarrow> Err (err_text (su_core W) e)
                   | Inr _ \<Rightarrow> Ok (Some (hickory_new listen upstream), cli_master_ip c))))
      else Ok (None, None))"

section \<open>Start of a master\<close>

text \<open>
  Registration of the master itself (errors ignored) and the token hash the gRPC server gets: the
  stored one, or the hash of a new token, of which only the hash is stored.
\<close>

definition master_bootstrap ::
  "core \<Rightarrow> 's state_store \<Rightarrow> string \<Rightarrow> string \<Rightarrow> node_resources \<Rightarrow> string \<Rightarrow> 's \<Rightarrow> string res \<times> 's" where
  "master_bootstrap co D hostname addr resources rnd s =
     (let s1 = snd (ss_insert_node D (new_node co hostname addr Master resources) s)
      in (case ss_get_cluster_config D ''join_token_hash'' s1 of
            Inl e \<Rightarrow> (Err e, s1)
          | Inr (Some hash) \<Rightarrow> (Ok hash, s1)
          | Inr None \<Rightarrow>
              (let hash = hash_token co (generate_token co rnd)
               in (case ss_set_cluster_config D ''join_token_hash'' hash s1 of
                     (Inl e, s2) \<Rightarrow> (Err e, s2)
                   | (Inr _, s2) \<Rightarrow> (Ok hash, s2)))))"

section \<open>Modes\<close>

text \<open>
  The background tasks: the health checker and the event watcher of \<open>spawn_orchestrator\<close>, the renewal
  of certificates with its interval in seconds and lead in days, the gRPC server with its address
  and token hash, and the heartbeat monitor, whose callback only logs.
\<close>

datatype task =
    HealthCheckerTask
  | EventWatcherTask
  | RenewalTask acme_manager int int
  | GrpcServerTask string string
  | MonitorTask

text \<open>The transport an orchestrator assigns pods through, and what \<open>Orchestrator::spawn\<close> gets. The
  database and the metrics are shared with the servers.\<close>

datatype transport = LocalTransport | GrpcTransport

record 'c orchestrator =
  or_runtime :: runtime_kind
  or_secrets :: "'c secret_store option"
  or_transport :: "transport option"
  or_dns :: "hickory_provider option"
  or_master_ip :: "string option"
  or_proxy :: "proxy_choice option"
  or_routes :: "route_store option"

record 'c daemon =
  dm_db :: db
  dm_orchestrator :: "'c orchestrator"
  dm_tasks :: "task list"
  dm_api_addr :: string

definition spawn_orchestrator ::
  "runtime_kind \<Rightarrow> 'c secret_store \<Rightarrow> hickory_provider option \<Rightarrow> string option \<Rightarrow> proxy_choice option
     \<Rightarrow> route_store option \<Rightarrow> 'c orchestrator \<times> task list" where
  "spawn_orchestrator kind secrets dns ip proxy rs =
     (\<lparr>or_runtime = kind, or_secrets = Some secrets, or_transport = Some LocalTransport, or_dns = dns, or_master_ip = ip,
       or_proxy = proxy, or_routes = rs\<rparr>, [HealthCheckerTask, EventWatcherTask])"

definition renewal_tasks :: "cli \<Rightarrow> task list" where
  "renewal_tasks c = (case cli_acme_email c of Some mail \<Rightarrow> [RenewalTask (acme_new mail False) 86400 30] | None \<Rightarrow> [])"

text \<open>The common beginning of a single node and a master.\<close>

definition start_adapters :: "'c startup \<Rightarrow> cli \<Rightarrow> fs \<Rightarrow> (string + 'c daemon) \<times> fs" where
  "start_adapters W c f =
     (case init_infrastructure W c f of
        Inl e \<Rightarrow> (Err e, f)
      | Inr (s, kind) \<Rightarrow>
          (case init_secrets W c f of
             (Inl e, f1) \<Rightarrow> (Err e, f1)
           | (Inr secrets, f1) \<Rightarrow>
               (case init_dns W c of
                  Inl e \<Rightarrow> (Err e, f1)
                | Inr (dns, ip) \<Rightarrow>
                    (case init_proxy W c of
                       Inl e \<Rightarrow> (Err e, f1)
                     | Inr (proxy, rs) \<Rightarrow>
                         (let (orc, tasks) = spawn_orchestrator kind secrets dns ip (Some proxy) (Some rs)
                          in (Ok \<lparr>dm_db = s, dm_orchestrator = orc, dm_tasks = tasks @ renewal_tasks c,
                                  dm_api_addr = addr_text (cli_host c) (cli_port c)\<rparr>, f1))))))"

text \<open>\<open>api::serve\<close>: the listener is bound last, when the background tasks already run.\<close>

definition serve :: "'c startup \<Rightarrow> 'c daemon \<Rightarrow> string + 'c daemon" where
  "serve W d = (case su_bind W (dm_api_addr d) of Inl e \<Rightarrow> Err e | Inr _ \<Rightarrow> Ok d)"

definition start_single_node :: "'c startup \<Rightarrow> cli \<Rightarrow> fs \<Rightarrow> (string + 'c daemon) \<times> fs" where
  "start_single_node W c f =
     (case start_adapters W c f of (Inl e, f1) \<Rightarrow> (Err e, f1) | (Inr d, f1) \<Rightarrow> (serve W d, f1))"

definition start_master :: "'c startup \<Rightarrow> cli \<Rightarrow> fs \<Rightarrow> (string + 'c daemon) \<times> fs" where
  "start_master W c f =
     (case start_adapters W c f of
        (Inl e, f1) \<Rightarrow> (Err e, f1)
      | (Inr d, f1) \<Rightarrow>
          (case su_hostname W of
             Inl e \<Rightarrow> (Err (''failed to get hostname: '' @ e), f1)
           | Inr host \<Rightarrow>
               (let addr = addr_text (cli_host c) (cli_grpc_port c)
                in (case master_bootstrap (su_core W) (sqlite_store (su_codec W) (su_store_fault W)) host addr (su_resources W)
                           (su_token_bytes W) (dm_db d) of
                      (Inl e, _) \<Rightarrow> (Err (err_text (su_core W) e), f1)
                    | (Inr hash, s) \<Rightarrow>
                        (serve W (d\<lparr>dm_db := s, dm_tasks := dm_tasks d @ [GrpcServerTask addr hash, MonitorTask]\<rparr>), f1)))))"

text \<open>
  A worker: \<open>connect_err\<close> and \<open>call\<close> are the connection to the master and its \<open>register\<close> call. The
  result is the runtime, the node id and the token hash of its own server.
\<close>

definition start_worker ::
  "'c startup \<Rightarrow> (grpc_status \<Rightarrow> string) \<Rightarrow> string option \<Rightarrow> (register_request \<Rightarrow> register_response rpc)
     \<Rightarrow> cli \<Rightarrow> fs \<Rightarrow> string + (runtime_kind \<times> uuid \<times> string)" where
  "start_worker W status_text connect_err call c f =
     (case cli_join c of
        None \<Rightarrow> Err ''--join is required in worker mode''
      | Some _ \<Rightarrow>
          (case cli_token c of
             None \<Rightarrow> Err ''--token is required in worker mode''
           | Some token \<Rightarrow>
               (case init_infrastructure W c f of
                  Inl e \<Rightarrow> Err e
                | Inr (_, kind) \<Rightarrow>
                    (case worker_join (su_core W) status_text (su_hostname W) (su_resources W) connect_err call token
                            (addr_text (cli_host c) (cli_grpc_port c)) of
                       Inl e \<Rightarrow> Err e
                     | Inr (ident, hash) \<Rightarrow> Ok (kind, ident, hash)))))"

datatype 'c running = Serving "'c daemon" | WorkerServing runtime_kind uuid string

definition daemon_main ::
  "'c startup \<Rightarrow> (grpc_status \<Rightarrow> string) \<Rightarrow> string option \<Rightarrow> (register_request \<Rightarrow> register_response rpc)
     \<Rightarrow> cli \<Rightarrow> fs \<Rightarrow> (string + 'c running) \<times> fs" where
  "daemon_main W status_text connect_err call c f =
     (if cli_mode c = ''single''
      then (case start_single_node W c f of (r, f1) \<Rightarrow> (map_sum id Serving r, f1))
      else if cli_mode c = ''master''
      then (case start_master W c f of (r, f1) \<Rightarrow> (map_sum id Serving r, f1))
      else if cli_mode c = ''worker''
      then (map_sum id (\<lambda>(k, i, h). WorkerServing k i h) (start_worker W status_text connect_err call c f), f)
      else (Err (''unknown mode: '' @ cli_mode c @ ''. Use: single, master, or worker''), f))"

section \<open>Properties\<close>

lemma serve_Ok: "serve W d = Ok d' \<longleftrightarrow> d' = d \<and> su_bind W (dm_api_addr d) = Ok ()"
  by (auto simp: serve_def split: sum.splits)

text \<open>A master that generated its token at start cannot show it: the first start stores the hash
  only, so that \<open>GET /api/v1/cluster/token\<close> answers 404 although the cluster accepts workers.\<close>

theorem bootstrap_token_not_shown:
  assumes "t_config s = []" "master_bootstrap co (sqlite_store cd None) host addr res rnd s = (r, s1)"
  shows "r = Ok (hash_token co (generate_token co rnd))
    \<and> rsp_status (cluster_token_show co (sqlite_store cd None) s1) = 404"
proof -
  have "t_config (snd (insert_node cd None n s)) = []" for n
    using assms(1) by (auto simp: insert_node_def sql_insert_node_def split: option.splits sum.splits sql_error.splits)
  then show ?thesis
    using assms(2)
    by (auto simp: master_bootstrap_def cluster_token_show_def sqlite_store_def sqlite_config_get Let_def)
qed


definition name_taken :: "string \<Rightarrow> db \<Rightarrow> bool" where
  "name_taken name s \<longleftrightarrow> has_key nr_name name (t_nodes s)"

lemma insert_taken: "name_taken (node_name n) s \<Longrightarrow> storable cd n \<Longrightarrow> snd (insert_node cd flt n s) = s"
  by (auto simp: name_taken_def insert_node_def sql_insert_node_def elim!: node_to_row_storable split: option.splits)

lemma insert_takes:
  assumes "storable cd n" "\<not> has_key nr_id (uuid_str cd (node_id n)) (t_nodes s)"
  shows "name_taken (node_name n) (snd (insert_node cd None n s))"
proof -
  obtain r where "node_to_row cd n = Some r" "nr_id r = uuid_str cd (node_id n)" "nr_name r = node_name n"
    using assms(1) by (rule node_to_row_storable)
  then show ?thesis using assms(2) by (auto simp: name_taken_def insert_node_def sql_insert_node_def has_key_iff)
qed

lemma bootstrap_result:
  assumes "master_bootstrap co (sqlite_store cd None) host addr res rnd s = (r, s1)" "n = new_node co host addr Master res"
    "storable cd n" "\<not> has_key nr_id (uuid_str cd (node_id n)) (t_nodes s)" "node_name n = host"
  shows "\<exists>hash. r = Ok hash \<and> get_cluster_config cd None ''join_token_hash'' s1 = Ok (Some hash) \<and> name_taken host s1"
  using assms(1) insert_takes [OF assms(3,4)] assms(5)
  by (auto simp: master_bootstrap_def sqlite_store_def sqlite_config_get Let_def assms(2) [symmetric] name_taken_def
      split: option.splits)

lemma bootstrap_again:
  assumes "get_cluster_config cd None ''join_token_hash'' s = Ok (Some hash)" "name_taken host s"
    "storable cd (new_node co host addr Master res)" "node_name (new_node co host addr Master res) = host"
  shows "master_bootstrap co (sqlite_store cd None) host addr res rnd s = (Ok hash, s)"
  using assms insert_taken [of "new_node co host addr Master res" s cd None]
  by (simp add: master_bootstrap_def sqlite_store_def Let_def)

lemma key_file_only:
  assumes "load_or_generate flt rnd dir f = (Ok key, f1)" "p \<noteq> path_join dir ''master.key''"
  shows "hm_get f1 p = hm_get f p"
  using assms
  by (auto simp: load_or_generate_def Let_def generate_key_def split: option.splits sum.splits prod.splits if_splits
      dest!: fs_write_cases)

lemma key_path_last: "last (path_join dir ''master.key'') = CHR ''y''"
  by (simp add: path_join_def)

lemma probe_key_file:
  assumes "load_or_generate flt rnd dir f = (Ok key, f1)"
  shows "probe f1 = probe f"
proof -
  have "''/var/run/docker.sock'' \<noteq> path_join dir ''master.key''" "''/run/containerd/containerd.sock'' \<noteq> path_join dir ''master.key''"
    by (auto dest!: arg_cong [where f = last] simp: key_path_last)
  then show ?thesis using key_file_only [OF assms] by (simp add: probe_def fs_exists_def)
qed

lemma adapters_again:
  assumes "start_adapters W c f = (Ok d, f1)" "length (su_key_bytes W) = 32"
    "W' = W\<lparr>su_core := su_core W\<lparr>new_node := nn\<rparr>, su_faults := no_faults, su_connect := (\<lambda>_. Ok s'),
            su_key_bytes := kb, su_token_bytes := tb\<rparr>"
  shows "start_adapters W' c f1 = (Ok (d\<lparr>dm_db := s'\<rparr>), f1)"
proof -
  obtain s kind secrets dns ip proxy rs where
    inf: "init_infrastructure W c f = Ok (s, kind)" and sec: "init_secrets W c f = (Ok secrets, f1)"
    and dns: "init_dns W c = Ok (dns, ip)" and pr: "init_proxy W c = Ok (proxy, rs)"
    and d: "d = \<lparr>dm_db = s, dm_orchestrator = fst (spawn_orchestrator kind secrets dns ip (Some proxy) (Some rs)),
      dm_tasks = snd (spawn_orchestrator kind secrets dns ip (Some proxy) (Some rs)) @ renewal_tasks c,
      dm_api_addr = addr_text (cli_host c) (cli_port c)\<rparr>"
    using assms(1) by (auto simp: start_adapters_def Let_def split: sum.splits prod.splits)
  obtain key rows where key: "load_or_generate (su_faults W) (su_key_bytes W) (cli_data_dir c) f = (Ok key, f1)"
    and rows: "su_open_secrets W (cli_data_dir c @ ''/secrets.db'') = Ok rows"
    and st: "secret_store_new (su_aead W) None rows key = Ok secrets"
    using sec by (auto simp: init_secrets_def split: sum.splits prod.splits)
  have res: "resolve_runtime f1 k = resolve_runtime f k" for k
    by (cases k) (simp_all add: resolve_runtime_def auto_detect_def probe_key_file [OF key])
  have W': "err_text (su_core W') = err_text (su_core W)" "su_docker_new W' = su_docker_new W"
    "su_docker_ping W' = su_docker_ping W" "su_ctr_ping W' = su_ctr_ping W" "su_lower W' = su_lower W"
    "su_open_secrets W' = su_open_secrets W" "su_aead W' = su_aead W" "su_parse_addr W' = su_parse_addr W"
    "su_dns_udp W' = su_dns_udp W" "su_dns_tcp W' = su_dns_tcp W" "su_faults W' = no_faults"
    "su_connect W' = (\<lambda>_. Ok s')" "su_key_bytes W' = kb"
    by (simp_all add: assms(3))
  have build: "build_runtime W' k = build_runtime W k" for k unfolding build_runtime_def W' ..
  have "init_runtime W' c f1 = init_runtime W c f" unfolding init_runtime_def res W' build ..
  moreover have "init_runtime W c f = Ok kind"
    using inf by (auto simp: init_infrastructure_def split: sum.splits)
  ultimately have "init_infrastructure W' c f1 = Ok (s', kind)"
    by (simp add: init_infrastructure_def W')
  moreover have "init_secrets W' c f1 = (Ok secrets, f1)"
    using obtained_key_stored [OF key assms(2)] stored_key_loaded rows st by (simp add: init_secrets_def W')
  moreover have "init_dns W' c = Ok (dns, ip)" using dns unfolding init_dns_def W' .
  moreover have "init_proxy W' c = Ok (proxy, rs)"
    using pr by (auto simp: init_proxy_def W' split: sum.splits)
  ultimately show ?thesis by (simp add: start_adapters_def d Let_def split: prod.split)
qed

text \<open>A store that fails makes the start fail.\<close>

lemma bootstrap_no_fault: "master_bootstrap co (sqlite_store cd flt) host addr res rnd s = (Ok hash, s1) \<Longrightarrow> flt = None"
  by (cases flt) (auto simp: master_bootstrap_def sqlite_store_def get_cluster_config_def fetch_def Let_def split: prod.splits)

text \<open>C38: a restarted master is the same master. After a successful start on a fresh node id, a second start on what the
  first left on disk, with other random bytes and another generated node id, succeeds with the same
  join token hash and the same secrets under the same key, and changes neither the database nor
  the files.\<close>

theorem master_restart_stable:
  assumes "start_master W c f = (Ok d, f1)" "su_hostname W = Ok host" "length (su_key_bytes W) = 32"
    "addr = addr_text (cli_host c) (cli_grpc_port c)" "n = new_node (su_core W) host addr Master (su_resources W)"
    "new_node_ok (su_core W)" "new_node_ok (su_core W\<lparr>new_node := nn\<rparr>)"
    "storable (su_codec W) n" "storable (su_codec W) (nn host addr Master (su_resources W))"
    "su_connect W (database_url c) = Ok s" "\<not> has_key nr_id (uuid_str (su_codec W) (node_id n)) (t_nodes s)"
    "W' = W\<lparr>su_core := su_core W\<lparr>new_node := nn\<rparr>, su_faults := no_faults, su_connect := (\<lambda>_. Ok (dm_db d)),
            su_key_bytes := kb, su_token_bytes := tb\<rparr>"
  shows "start_master W' c f1 = (Ok d, f1)"
proof -
  obtain d0 s1 hash where d0: "start_adapters W c f = (Ok d0, f1)"
    and b0: "master_bootstrap (su_core W) (sqlite_store (su_codec W) (su_store_fault W)) host addr (su_resources W)
        (su_token_bytes W) (dm_db d0) = (Ok hash, s1)"
    and d: "d = d0\<lparr>dm_db := s1, dm_tasks := dm_tasks d0 @ [GrpcServerTask addr hash, MonitorTask]\<rparr>"
    and bind: "su_bind W (dm_api_addr d) = Ok ()"
    using assms(1,2,4) by (auto simp: start_master_def Let_def serve_Ok split: sum.splits prod.splits)
  have flt: "su_store_fault W = None" using b0 by (rule bootstrap_no_fault)
  note b = b0 [unfolded flt]
  have "dm_db d0 = s"
    using d0 assms(10) by (auto simp: start_adapters_def init_infrastructure_def split: sum.splits prod.splits)
  then have stored: "get_cluster_config (su_codec W) None ''join_token_hash'' s1 = Ok (Some hash)" "name_taken host s1"
    using bootstrap_result [OF b assms(5,8)] assms(6,11) by (auto simp: new_node_ok_def assms(5))
  have "master_bootstrap (su_core W') (sqlite_store (su_codec W) None) host addr (su_resources W) tb s1 = (Ok hash, s1)"
    using bootstrap_again [OF stored, of "su_core W'" addr "su_resources W" tb] assms(7,9,12) by (simp add: new_node_ok_def)
  then show ?thesis
    using adapters_again [OF d0 assms(3,12)] bind assms(2,4) flt by (simp add: start_master_def Let_def d serve_def assms(12))
qed

text \<open>The call of \<open>assign_pod\<close> on the transport object of an orchestrator: \<open>RT\<close> is the runtime of its own node, \<open>C\<close> and
  \<open>t\<close> are the client and the connections of a gRPC transport.\<close>

definition assign_through ::
  "transport \<Rightarrow> core \<Rightarrow> 'r runtime \<Rightarrow> ('k, 'w) rpc_client \<Rightarrow> 'k grpc_transport \<Rightarrow> uuid \<Rightarrow> pod \<Rightarrow> deployment_spec
     \<Rightarrow> 'r \<times> 'w \<Rightarrow> unit res \<times> 'r \<times> 'w" where
  "assign_through tr co RT C t ident pod spec s =
     (case s of (r, w) \<Rightarrow>
        (case tr of
           LocalTransport \<Rightarrow> (case local_assign_pod co RT ident pod spec r of (x, r1) \<Rightarrow> (x, r1, w))
         | GrpcTransport \<Rightarrow> (case grpc_assign_pod co C ident pod spec t w of (x, w1) \<Rightarrow> (x, r, w1))))"

lemma adapters_transport: "start_adapters W c f = (Ok d, f1) \<Longrightarrow> or_transport (dm_orchestrator d) = Some LocalTransport"
  by (auto simp: start_adapters_def spawn_orchestrator_def Let_def split: sum.splits prod.splits)

lemma map_sum_Ok: "map_sum id g y = Ok z \<longleftrightarrow> (\<exists>v. y = Ok v \<and> g v = z)"
  by (cases y) auto

text \<open>A master never sends a pod to a worker. However it was started, the transport of its orchestrator is the local one:
  assigning a pod to any node does on the master's own runtime what assigning it to the master does, and
  reaches no worker.\<close>

theorem master_assigns_locally:
  assumes "daemon_main W st ce call c f = (Ok (Serving d), f1)" "or_transport (dm_orchestrator d) = Some tr"
    "assign_through tr co RT C t ident pod spec (r, w) = (x, r1, w1)"
  shows "w1 = w \<and> local_assign_pod co RT master pod spec r = (x, r1)"
proof -
  have "cli_mode c = ''single'' \<or> cli_mode c = ''master''"
    using assms(1) unfolding daemon_main_def by (simp add: map_sum_Ok split: if_splits)
  then have "start_single_node W c f = (Ok d, f1) \<or> start_master W c f = (Ok d, f1)"
    using assms(1) unfolding daemon_main_def by (auto simp: map_sum_Ok split: prod.splits)
  then obtain d0 where "start_adapters W c f = (Ok d0, f1)" "dm_orchestrator d = dm_orchestrator d0"
    by (auto simp: start_single_node_def start_master_def serve_Ok Let_def split: prod.splits sum.splits)
  then have "tr = LocalTransport" using adapters_transport assms(2) by fastforce
  then show ?thesis using assms(3) by (auto simp: assign_through_def local_assign_pod_def Let_def split: prod.splits)
qed

text \<open>A worker advertises the address it listens on. Its registration depends on the master only through requests with
  the text of \<open>--host\<close> and \<open>--grpc-port\<close> as address; with the default host that is \<open>0.0.0.0\<close>, which no
  other node can connect to.\<close>

theorem worker_advertises_listen_address:
  assumes "\<And>req. rq_node_address req = addr_text (cli_host c) (cli_grpc_port c) \<Longrightarrow> call req = call' req"
  shows "start_worker W st ce call c f = start_worker W st ce call' c f"
proof -
  have "worker_join co st host res ce call token (addr_text (cli_host c) (cli_grpc_port c)) =
      worker_join co st host res ce call' token (addr_text (cli_host c) (cli_grpc_port c))" for co host res token
    by (cases host; cases ce) (simp_all add: worker_join_def assms)
  then show ?thesis by (simp add: start_worker_def split: option.split sum.split prod.split)
qed

text \<open>A wrong command line starts nothing. An unknown mode, and a worker without the address of a master or without a
  token, end with a message and touch neither the files nor the databases nor the network.\<close>

theorem wrong_command_line:
  assumes "cli_mode c \<notin> {''single'', ''master'', ''worker''} \<or> (cli_mode c = ''worker'' \<and> (cli_join c = None \<or> cli_token c = None))"
  shows "\<exists>e. \<forall>W st ce call f. daemon_main W st ce call c f = (Err e, f)"
proof (cases "cli_mode c = ''worker''")
  case True
  then consider "cli_join c = None" | m where "cli_join c = Some m" "cli_token c = None" using assms by force
  then show ?thesis
    by cases (auto simp: daemon_main_def start_worker_def True)
next
  case False
  then have "cli_mode c \<noteq> ''single''" "cli_mode c \<noteq> ''master''" using assms by blast+
  then show ?thesis using False by (simp add: daemon_main_def)
qed

section \<open>Witnesses\<close>

definition sample_cli :: cli where
  "sample_cli = \<lparr>cli_host = ''0.0.0.0'', cli_port = 6443, cli_data_dir = ''/d'', cli_mode = ''master'', cli_join = None,
     cli_token = None, cli_grpc_port = 6444, cli_dns_mode = ''noop'', cli_master_ip = None, cli_dns_listen = ''0.0.0.0:15353'',
     cli_dns_upstream = ''8.8.8.8:53'', cli_proxy_backend = ''caddy'', cli_proxy_config_dir = ''/p'', cli_acme_email = None,
     cli_cluster_cidr = ''172.20.0.0/16'', cli_wg_port = 51820, cli_overlay = False, cli_runtime = ''docker''\<rparr>"

definition sample_startup :: "string startup" where
  "sample_startup = \<lparr>su_core = sample_core, su_codec = sample_codec, su_aead = sample_aead, su_lower = id, su_faults = no_faults,
     su_connect = (\<lambda>_. Ok db_empty), su_store_fault = None, su_docker_new = Ok (), su_docker_ping = Ok (), su_ctr_ping = Ok (),
     su_open_secrets = (\<lambda>_. Ok []), su_parse_addr = (\<lambda>a. Ok a), su_dns_udp = None, su_dns_tcp = None,
     su_hostname = Ok ''m1'', su_resources = zero_resources sample_core, su_key_bytes = replicate 32 (CHR ''k''),
     su_token_bytes = ''t'', su_bind = (\<lambda>_. Ok ())\<rparr>"

definition other_node :: "string \<Rightarrow> string \<Rightarrow> node_role \<Rightarrow> node_resources \<Rightarrow> node" where
  "other_node nm ad ro rs = (new_node sample_core nm ad ro rs)\<lparr>node_id := 8\<rparr>"

definition sample_restart :: "db \<Rightarrow> string startup" where
  "sample_restart s = sample_startup\<lparr>su_core := su_core sample_startup\<lparr>new_node := other_node\<rparr>, su_faults := no_faults,
     su_connect := (\<lambda>_. Ok s), su_key_bytes := [], su_token_bytes := ''u''\<rparr>"

lemma sample_started: "\<exists>d f1. start_master sample_startup sample_cli [] = (Ok d, f1)"
  by (simp add: start_master_def start_adapters_def spawn_orchestrator_def serve_def init_infrastructure_def init_runtime_def runtime_kind_from_str_def
      resolve_runtime_def build_runtime_def init_secrets_def load_or_generate_def fs_exists_def generate_key_def
      init_dns_def init_proxy_def sample_cli_def sample_startup_def no_faults_def fs_create_dir_all_def fs_write_def
      secret_store_new_def sample_aead_def master_bootstrap_def sqlite_store_def sqlite_config_get insert_node_def
      Let_def hm_get_def [of "[]"] split: option.splits)

theorem master_restart_stable_witness:
  "\<exists>d f1. start_master sample_startup sample_cli [] = (Ok d, f1) \<and> start_master (sample_restart (dm_db d)) sample_cli f1 = (Ok d, f1)"
proof -
  obtain d f1 where d: "start_master sample_startup sample_cli [] = (Ok d, f1)" using sample_started by blast
  have ok: "new_node_ok (su_core sample_startup)" "new_node_ok (su_core sample_startup\<lparr>new_node := other_node\<rparr>)"
    by (simp_all add: sample_startup_def other_node_def new_node_ok_def sample_core_def)
  have host: "su_hostname sample_startup = Ok ''m1''" and key: "length (su_key_bytes sample_startup) = 32"
    and st: "\<And>n. storable (su_codec sample_startup) n" and con: "su_connect sample_startup (database_url sample_cli) = Ok db_empty"
    by (simp_all add: sample_startup_def sample_storable)
  have fresh: "\<not> has_key nr_id k (t_nodes db_empty)" for k by (simp add: db_empty_def has_key_def)
  show ?thesis
    using d master_restart_stable [OF d host key refl refl ok st st con fresh, of "sample_restart (dm_db d)" "''u''" "[]"]
    by (simp add: sample_restart_def)
qed

end
