(* ===== verification/Health_Checker.thy ===== *)
theory Health_Checker
  imports Domain "HOL-Library.Multiset"
begin

text \<open>
  The health checker (\<open>src/adapters/health/mod.rs\<close>): every tick it asks the orchestrator for its
  probe targets and starts one task per target, which requests the target's URL under a
  time-out and reports the outcome. The HTTP client is a parameter that gives, for a URL and the time
  of the request, how long it takes and how it ends. Rounds do not wait for the tasks of earlier ones, so
  reports arrive in the order in which the tasks end.
\<close>

section \<open>One probe\<close>

record probe_target =
  pt_container_ip :: string
  pt_port :: u16
  pt_path :: string
  pt_timeout :: instant

definition probe_url :: "probe_target \<Rightarrow> string" where
  "probe_url c = ''http://'' @ pt_container_ip c @ '':'' @ show_nat (unat (pt_port c)) @ pt_path c"

text \<open>The time a request takes and its end: the status of a response, or an error.\<close>

type_synonym http_get = "string \<Rightarrow> instant \<Rightarrow> instant \<times> (string + u16)"

text \<open>\<open>StatusCode::is_success\<close>.\<close>

definition is_success :: "u16 \<Rightarrow> bool" where
  "is_success st \<longleftrightarrow> 200 \<le> st \<and> st < 300"

definition healthy :: "http_get \<Rightarrow> instant \<Rightarrow> probe_target \<Rightarrow> bool" where
  "healthy http now c =
     (case http (probe_url c) now of (d, r) \<Rightarrow>
        if d > pt_timeout c then False
        else (case r of Inr st \<Rightarrow> is_success st | Inl _ \<Rightarrow> False))"

definition report_time :: "http_get \<Rightarrow> instant \<Rightarrow> probe_target \<Rightarrow> instant" where
  "report_time http now c = now + min (fst (http (probe_url c) now)) (pt_timeout c)"

section \<open>Rounds\<close>

type_synonym health_round = "instant \<times> (uuid \<times> probe_target) list"

text \<open>The reports of a round, in the order of the targets, each with its time of arrival.\<close>

definition probe_round :: "http_get \<Rightarrow> health_round \<Rightarrow> (instant \<times> uuid \<times> bool) list" where
  "probe_round http r =
     (case r of (now, targets) \<Rightarrow> map (\<lambda>(pod, c). (report_time http now c, pod, healthy http now c)) targets)"

text \<open>What the orchestrator may receive over a number of rounds: all reports, each once, in the order of
  their arrival. The tasks run on their own, so reports that arrive at the same time come in any order.\<close>

definition run_health :: "http_get \<Rightarrow> health_round list \<Rightarrow> (instant \<times> uuid \<times> bool) list \<Rightarrow> bool" where
  "run_health http rounds received \<longleftrightarrow>
     mset received = mset (concat (map (probe_round http) rounds)) \<and> sorted (map fst received)"

section \<open>Properties\<close>

definition time_ok :: "http_get \<Rightarrow> bool" where
  "time_ok http \<longleftrightarrow> (\<forall>u t. 0 \<le> fst (http u t))"

text \<open>Every round starts only after the time-outs of the earlier ones have passed.\<close>

fun rounds_apart :: "health_round list \<Rightarrow> bool" where
  "rounds_apart [] = True"
| "rounds_apart ((now, ts) # rs) =
     ((\<forall>(t', _) \<in> set rs. \<forall>(_, c) \<in> set ts. now + pt_timeout c < t') \<and> rounds_apart rs)"

definition rounds_wf :: "health_round list \<Rightarrow> bool" where
  "rounds_wf rs \<longleftrightarrow> (\<forall>(_, ts) \<in> set rs. distinct (map fst ts) \<and> (\<forall>(_, c) \<in> set ts. 0 \<le> pt_timeout c))"

lemma report_time_bounds:
  assumes "time_ok http" "0 \<le> pt_timeout c"
  shows "now \<le> report_time http now c" "report_time http now c \<le> now + pt_timeout c"
  using assms by (simp_all add: report_time_def time_ok_def)

lemma filter_round:
  assumes "distinct (map fst ts)"
  shows "length (filter (\<lambda>(_, p, _). p = pod) (probe_round http (now, ts))) \<le> 1"
proof -
  have "length (filter (\<lambda>q. fst q = pod) ts) \<le> 1"
    using assms
  proof (induction ts)
    case (Cons a ts)
    then show ?case by (cases "fst a = pod") (auto simp: filter_empty_conv image_iff)
  qed simp
  then show ?thesis by (simp add: probe_round_def filter_map comp_def split_beta)
qed

lemma pod_reports_sorted:
  assumes "time_ok http" "rounds_apart rs" "rounds_wf rs"
  shows "sorted_wrt (<) (map fst (filter (\<lambda>(_, p, _). p = pod) (concat (map (probe_round http) rs))))"
  using assms(2,3)
proof (induction rs)
  case (Cons r rs)
  obtain now ts where r: "r = (now, ts)" by (cases r)
  let ?f = "filter (\<lambda>(_, p, _). p = pod)"
  have "sorted_wrt (<) (map fst (?f (probe_round http r)))"
    using filter_round [of ts pod http now] Cons.prems(2)
    by (cases "?f (probe_round http r)") (auto simp: r rounds_wf_def)
  moreover have "fst x < fst y"
    if x: "x \<in> set (probe_round http r)" and y: "y \<in> set (concat (map (probe_round http) rs))" for x y
  proof -
    obtain p c where c: "(p, c) \<in> set ts" "fst x = report_time http now c"
      using x by (auto simp: probe_round_def r)
    obtain t' us q d where d: "(t', us) \<in> set rs" "(q, d) \<in> set us" "fst y = report_time http t' d"
      using y by (auto simp: probe_round_def)
    have "fst x \<le> now + pt_timeout c" "t' \<le> fst y"
      using report_time_bounds assms(1) Cons.prems(2) c d by (fastforce simp: rounds_wf_def r)+
    moreover have "now + pt_timeout c < t'" using Cons.prems(1) c(1) d(1) by (fastforce simp: r)
    ultimately show ?thesis by simp
  qed
  ultimately show ?case using Cons by (fastforce simp: r sorted_wrt_append rounds_wf_def)
qed simp

text \<open>A list with strictly increasing keys is the only sorted arrangement of its elements.\<close>

lemma sorted_arrangement:
  fixes f :: "'a \<Rightarrow> 'b :: linorder"
  assumes "sorted_wrt (<) (map f xs)" "mset ys = mset xs" "sorted (map f ys)"
  shows "ys = xs"
proof -
  have "distinct (map f xs)" "sorted (map f xs)" using assms(1) by (simp_all add: strict_sorted_iff)
  then have "sort_key f xs = ys" "sort_key f xs = xs"
    using assms by (auto intro!: sort_key_inj_key_eq simp: distinct_map)
  then show ?thesis by simp
qed

text \<open>C39: health reports arrive in order. Let every round start after the time-outs of the earlier rounds, let each round
  have a pod at most once among its targets, as the orchestrator is expected to list them, and let
  no time-out be negative. Then, whichever way reports of the same instant race, the orchestrator
  receives for each pod exactly one report per round in which the pod is a target, in the order
  of the rounds. The report says whether the request for
  \<open>http://<ip>:<port><path>\<close> ended within the time-out with a response of status 200 to 299, and
  it arrives when the request ends or at the time-out, whichever is first.\<close>

theorem health_reports_in_order:
  assumes "time_ok http" "rounds_apart rs" "rounds_wf rs" "run_health http rs received"
  shows "filter (\<lambda>(_, p, _). p = pod) received =
    concat (map (\<lambda>(now, ts). map (\<lambda>(p, c).
        case http (''http://'' @ pt_container_ip c @ '':'' @ show_nat (unat (pt_port c)) @ pt_path c) now of
          (duration, result) \<Rightarrow>
            (if duration \<le> pt_timeout c then now + duration else now + pt_timeout c, p,
             duration \<le> pt_timeout c \<and> (\<exists>st. result = Inr st \<and> 200 \<le> st \<and> st \<le> 299)))
      (filter (\<lambda>(p, _). p = pod) ts)) rs)"
proof -
  let ?P = "\<lambda>(_, p, _). p = pod"
  let ?all = "filter ?P (concat (map (probe_round http) rs))"
  have "(st < 300) = (st \<le> 299)" for st :: u16 by (simp add: word_less_nat_alt word_le_nat_alt) linarith
  then have entry: "(report_time http now c, p, healthy http now c) =
      (case http (''http://'' @ pt_container_ip c @ '':'' @ show_nat (unat (pt_port c)) @ pt_path c) now of
          (duration, result) \<Rightarrow>
            (if duration \<le> pt_timeout c then now + duration else now + pt_timeout c, p,
             duration \<le> pt_timeout c \<and> (\<exists>st. result = Inr st \<and> 200 \<le> st \<and> st \<le> 299)))" for now p c
    by (auto simp: report_time_def healthy_def is_success_def probe_url_def min_def split: prod.split sum.split)
  have "mset (filter ?P received) = mset ?all" "sorted (map fst (filter ?P received))"
    using assms(4) by (simp_all add: run_health_def sorted_filter)
  then have "filter ?P received = ?all"
    by (rule sorted_arrangement [OF pod_reports_sorted [OF assms(1-3)]])
  also have "\<dots> = concat (map (\<lambda>(now, ts). map (\<lambda>(p, c). (report_time http now c, p, healthy http now c))
      (filter (\<lambda>(p, _). p = pod) ts)) rs)"
    by (induction rs) (auto simp: probe_round_def filter_map comp_def split_beta)
  finally show ?thesis unfolding entry .
qed

text \<open>With a time-out above the interval of one second the order can be lost: the failure of a slow first probe
  arrives after the success of the second.\<close>

definition slow_then_fast :: http_get where
  "slow_then_fast u t = (if t = 0 then (secs 3, Ok 500) else (0, Ok 200))"

definition sample_target :: probe_target where
  "sample_target = \<lparr>pt_container_ip = ''10.0.0.9'', pt_port = 80, pt_path = ''/health'', pt_timeout = secs 5\<rparr>"

theorem stale_report_overtakes:
  assumes "run_health slow_then_fast [(0, [(7, sample_target)]), (secs 1, [(7, sample_target)])] received"
  shows "map snd received = [(7, True), (7, False)]"
proof -
  have "received = [(secs 1, 7, True), (secs 3, 7, False)]"
    using assms
    by (intro sorted_arrangement [of fst])
      (simp_all add: run_health_def probe_round_def report_time_def healthy_def slow_then_fast_def sample_target_def
        is_success_def secs_def add_mset_commute)
  then show ?thesis by simp
qed

section \<open>Witness\<close>

definition sample_received :: "(instant \<times> uuid \<times> bool) list" where
  "sample_received = [(secs 3, 7, False), (secs 6, 7, True)]"

theorem health_reports_in_order_witness:
  "run_health slow_then_fast [(0, [(7, sample_target)]), (secs 6, [(7, sample_target)])] sample_received
   \<and> filter (\<lambda>(_, p, _). p = 7) sample_received = [(secs 3, 7, False), (secs 6, 7, True)]"
proof
  show r: "run_health slow_then_fast [(0, [(7, sample_target)]), (secs 6, [(7, sample_target)])] sample_received"
    by (simp add: run_health_def probe_round_def report_time_def healthy_def slow_then_fast_def sample_target_def
        is_success_def secs_def sample_received_def)
  show "filter (\<lambda>(_, p, _). p = 7) sample_received = [(secs 3, 7, False), (secs 6, 7, True)]"
    using health_reports_in_order [OF _ _ _ r, of 7]
    by (simp add: time_ok_def rounds_wf_def slow_then_fast_def sample_target_def secs_def)
qed

end
