(* ===== verification/Cluster_System.thy ===== *)
theory Cluster_System
  imports Rest_Api
begin

text \<open>
  The master's view of its cluster as a state machine. The components that write the nodes table run
  concurrently: the \<open>register\<close> and \<open>heartbeat\<close> handlers of the gRPC server, the heartbeat monitor and
  the node and token handlers of the REST API. A step is one of their operations on the SQLite
  store, possibly with an engine fault. The specification is a map from node ids to nodes; the
  steps refine its effects, and safety and liveness are proved on it.
\<close>

section \<open>Steps\<close>

datatype cl_event =
    EvRegister "string option" register_request
  | EvPing "string option" instant heartbeat_ping
  | EvDrain "string option" string
  | EvRemove "string option" string
  | EvRotate "string option" string
  | EvMonitor "string option" instant

text \<open>\<open>h\<close> is the token hash of the server, \<open>st\<close> the \<open>Display\<close> of a node status.\<close>

inductive cl_step :: "core \<Rightarrow> codec \<Rightarrow> (node_status \<Rightarrow> string) \<Rightarrow> string \<Rightarrow> db \<Rightarrow> cl_event \<Rightarrow> db \<Rightarrow> bool"
  for co cd st h where
  register: "server_register co (sqlite_store cd flt) h req s = (r, s') \<Longrightarrow> cl_step co cd st h s (EvRegister flt req) s'"
| ping: "handle_ping co (sqlite_store cd flt) now p s = (b, s') \<Longrightarrow> cl_step co cd st h s (EvPing flt now p) s'"
| drain: "drain_node co (sqlite_store cd flt) name s = (a, s') \<Longrightarrow> cl_step co cd st h s (EvDrain flt name) s'"
| remove: "remove_node co st (sqlite_store cd flt) name s = (a, s') \<Longrightarrow> cl_step co cd st h s (EvRemove flt name) s'"
| rotate: "cluster_token_rotate co (sqlite_store cd flt) rnd s = (a, s') \<Longrightarrow> cl_step co cd st h s (EvRotate flt rnd) s'"
| monitor: "check_nodes (sqlite_store cd flt) now s = (x, s', log) \<Longrightarrow> cl_step co cd st h s (EvMonitor flt now) s'"

inductive cl_run :: "core \<Rightarrow> codec \<Rightarrow> (node_status \<Rightarrow> string) \<Rightarrow> string \<Rightarrow> db \<Rightarrow> cl_event list \<Rightarrow> db \<Rightarrow> bool"
  for co cd st h where
  nil: "cl_run co cd st h s [] s"
| cons: "cl_step co cd st h s e s1 \<Longrightarrow> cl_run co cd st h s1 es s2 \<Longrightarrow> cl_run co cd st h s (e # es) s2"

inductive_cases cl_stepE:
  "cl_step co cd st h s (EvRegister flt req) s'" "cl_step co cd st h s (EvPing flt now p) s'"
  "cl_step co cd st h s (EvDrain flt name) s'" "cl_step co cd st h s (EvRemove flt name) s'"
  "cl_step co cd st h s (EvRotate flt rnd) s'" "cl_step co cd st h s (EvMonitor flt now) s'"

section \<open>Specification\<close>

type_synonym node_map = "uuid \<Rightarrow> node option"

definition name_used :: "string \<Rightarrow> node_map \<Rightarrow> bool" where
  "name_used name m \<longleftrightarrow> (\<exists>i n. m i = Some n \<and> node_name n = name)"

text \<open>What an event without fault does to the nodes.\<close>

fun effect :: "core \<Rightarrow> codec \<Rightarrow> string \<Rightarrow> cl_event \<Rightarrow> node_map \<Rightarrow> node_map" where
  "effect co cd h (EvRegister _ req) m =
     (let n = registered_node co req
      in if hash_token co (rq_token req) = h \<and> \<not> name_used (rq_node_name req) m \<and> m (node_id n) = None \<and> storable cd n
         then m(node_id n \<mapsto> n) else m)"
| "effect co cd h (EvPing _ now p) m =
     (case parse_uuid co (hp_node_id p) of
        Inl _ \<Rightarrow> m
      | Inr i \<Rightarrow>
          (case m i of None \<Rightarrow> m
           | Some n \<Rightarrow> if storable cd (ping_node now p n) then m(i \<mapsto> ping_node now p n) else m))"
| "effect co cd h (EvDrain _ name) m =
     (\<lambda>i. map_option (\<lambda>n. if node_name n = name then n\<lparr>node_stat := Draining\<rparr> else n) (m i))"
| "effect co cd h (EvRemove _ name) m =
     (\<lambda>i. case m i of None \<Rightarrow> None
        | Some n \<Rightarrow> if node_name n = name \<and> (node_stat n = Draining \<or> node_role n = Master) then None else Some n)"
| "effect co cd h (EvRotate _ _) m = m"
| "effect co cd h (EvMonitor _ now) m = (\<lambda>i. map_option (monitor_node now) (m i))"

fun fault_of :: "cl_event \<Rightarrow> string option" where
  "fault_of (EvRegister flt _) = flt"
| "fault_of (EvPing flt _ _) = flt"
| "fault_of (EvDrain flt _) = flt"
| "fault_of (EvRemove flt _) = flt"
| "fault_of (EvRotate flt _) = flt"
| "fault_of (EvMonitor flt _) = flt"

definition spec_step :: "core \<Rightarrow> codec \<Rightarrow> string \<Rightarrow> cl_event \<Rightarrow> node_map \<Rightarrow> node_map" where
  "spec_step co cd h e m = (if fault_of e = None then effect co cd h e m else m)"

section \<open>Invariant and abstraction\<close>

text \<open>\<open>REAL\<close> columns keep a number or, for NaN, refuse the row.\<close>

definition real_ok :: "codec \<Rightarrow> bool" where
  "real_ok cd \<longleftrightarrow> (\<forall>v. real_col cd v = None \<or> real_col cd v = Some v)"

definition good_row :: "codec \<Rightarrow> node_row \<Rightarrow> bool" where
  "good_row cd r \<longleftrightarrow> (\<exists>n. row_to_node cd r = Ok n \<and> storable cd n)"

definition cl_inv :: "codec \<Rightarrow> db \<Rightarrow> bool" where
  "cl_inv cd s \<longleftrightarrow> sqlite_inv cd s \<and> real_ok cd \<and> list_all (good_row cd) (t_nodes s) \<and> (\<exists>ps. list_pods cd None None s = Ok ps)"

definition nodes_of :: "codec \<Rightarrow> db \<Rightarrow> node_map" where
  "nodes_of cd s i = (case get_node cd None i s of Inr x \<Rightarrow> x | Inl _ \<Rightarrow> None)"

lemma good_find:
  "list_all (good_row cd) rows \<Longrightarrow> \<exists>x. opt_row (row_to_node cd) (find P rows) = Ok x"
proof (cases "find P rows")
  case (Some r)
  then have "r \<in> set rows" by (auto simp: find_Some_iff)
  then show "list_all (good_row cd) rows \<Longrightarrow> ?thesis"
    using Some by (auto simp: opt_row_def list_all_iff good_row_def res_bind_def)
qed (simp add: opt_row_def)

lemma get_node_total: "cl_inv cd s \<Longrightarrow> get_node cd None i s = Ok (nodes_of cd s i)"
  using good_find [of cd "t_nodes s" "\<lambda>r. nr_id r = uuid_str cd i"]
  by (auto simp: cl_inv_def nodes_of_def get_node_def fetch_def)

lemma nodes_of_Some: "cl_inv cd s \<Longrightarrow> nodes_of cd s i = Some n \<longleftrightarrow> get_node cd None i s = Ok (Some n)"
  by (simp add: get_node_total)

lemma nodes_of_id: "cl_inv cd s \<Longrightarrow> nodes_of cd s i = Some n \<Longrightarrow> node_id n = i"
  by (auto simp: nodes_of_Some cl_inv_def dest: sqlite_get_node_id)

lemma by_name_total:
  assumes "cl_inv cd s"
  obtains (known) n where "get_node_by_name cd None name s = Ok (Some n)" "node_name n = name" "nodes_of cd s (node_id n) = Some n"
    "\<And>i m. nodes_of cd s i = Some m \<Longrightarrow> node_name m = name \<longleftrightarrow> i = node_id n"
    | (unknown) "get_node_by_name cd None name s = Ok None" "\<not> name_used name (nodes_of cd s)"
proof -
  have inv: "sqlite_inv cd s" using assms by (simp add: cl_inv_def)
  obtain x where x: "get_node_by_name cd None name s = Ok x"
    using good_find [of cd "t_nodes s" "\<lambda>r. nr_name r = name"] assms by (auto simp: cl_inv_def get_node_by_name_def fetch_def)
  have named: "get_node_by_name cd None (node_name m) s = Ok (Some m)" if "nodes_of cd s i = Some m" for i m
    using sq.by_name_complete [OF inv, of None i m] that assms by (simp add: nodes_of_Some sqlite_store_def)
  show ?thesis
  proof (cases x)
    case None
    then show ?thesis using unknown x named by (force simp: name_used_def)
  next
    case (Some n)
    have n: "node_name n = name" "nodes_of cd s (node_id n) = Some n"
      using sq.get_by_name [OF inv, of None name n] x Some assms by (simp_all add: nodes_of_Some sqlite_store_def)
    then show ?thesis
      using known x Some named nodes_of_id [OF assms] by (metis option.inject sum.inject(2))
  qed
qed

subsection \<open>Writes keep the invariant\<close>

lemma row_storable: "real_ok cd \<Longrightarrow> node_to_row cd n \<noteq> None \<longleftrightarrow> storable cd n"
  by (auto simp: real_ok_def node_to_row_def storable_def split: option.splits) (metis option.distinct(1) option.inject)+

lemma written_row_good:
  assumes "codec_ok cd" "real_ok cd" "node_to_row cd n = Some r" "uuid_parse cd i = Ok u" "ts_parse cd j = Ok t"
  shows "good_row cd (r\<lparr>nr_id := i, nr_joined_at := j\<rparr>)"
proof -
  have "storable cd n" using row_storable [OF assms(2), of n] assms(3) by simp
  then show ?thesis
    using assms by (auto simp: good_row_def row_to_node_def node_to_row_def storable_def label_err_def codec_okD)
qed

lemma good_row_parses: "good_row cd r \<Longrightarrow> \<exists>u t. uuid_parse cd (nr_id r) = Ok u \<and> ts_parse cd (nr_joined_at r) = Ok t"
  by (auto simp: good_row_def dest!: row_to_node_fields)

lemma snd_update_node:
  "snd (update_node cd flt n s) =
    (case (flt, node_to_row cd n) of
       (None, Some r) \<Rightarrow>
         if has_key nr_id (uuid_str cd (node_id n)) (t_nodes s)
           \<and> \<not> list_ex (\<lambda>o'. nr_id o' \<noteq> uuid_str cd (node_id n) \<and> nr_name o' = nr_name r) (t_nodes s)
         then s\<lparr>t_nodes := update_rows nr_id (uuid_str cd (node_id n))
                  (\<lambda>o'. r\<lparr>nr_id := nr_id o', nr_joined_at := nr_joined_at o'\<rparr>) (t_nodes s)\<rparr>
         else s
     | _ \<Rightarrow> s)"
  by (cases flt; cases "node_to_row cd n") (simp_all add: update_node_def sql_update_node_def)

lemma update_node_cases:
  obtains "snd (update_node cd flt n s) = s"
  | r where "node_to_row cd n = Some r" "snd (update_node cd flt n s) = s\<lparr>t_nodes := update_rows nr_id (uuid_str cd (node_id n))
       (\<lambda>o'. r\<lparr>nr_id := nr_id o', nr_joined_at := nr_joined_at o'\<rparr>) (t_nodes s)\<rparr>"
  using snd_update_node [of cd flt n s] by (cases flt; cases "node_to_row cd n") (auto split: if_splits)

lemma insert_node_cases:
  obtains "snd (insert_node cd flt n s) = s"
  | r where "node_to_row cd n = Some r" "snd (insert_node cd flt n s) = s\<lparr>t_nodes := t_nodes s @ [r]\<rparr>"
proof (cases flt; cases "node_to_row cd n")
  fix r
  assume "flt = None" "node_to_row cd n = Some r"
  then show thesis
    using that by (cases "has_key nr_id (nr_id r) (t_nodes s) \<or> has_key nr_name (nr_name r) (t_nodes s)")
      (auto simp: insert_node_def sql_insert_node_def)
qed (use that in \<open>auto simp: insert_node_def sql_insert_node_def\<close>)

lemma list_all_update_rows:
  "(\<And>x. x \<in> set xs \<Longrightarrow> P (g x)) \<Longrightarrow> list_all P xs \<Longrightarrow> list_all P (update_rows key k g xs)"
  by (auto simp: update_rows_def list_all_iff)

lemma cl_inv_update: "cl_inv cd s \<Longrightarrow> cl_inv cd (snd (update_node cd flt n s))"
proof -
  assume inv: "cl_inv cd s"
  then have wf: "sqlite_inv cd s" "real_ok cd" "list_all (good_row cd) (t_nodes s)" by (auto simp: cl_inv_def)
  show ?thesis
  proof (cases rule: update_node_cases [of cd flt n s])
    case 1
    then show ?thesis using inv by simp
  next
    case (2 r)
    have good: "good_row cd (r\<lparr>nr_id := nr_id o', nr_joined_at := nr_joined_at o'\<rparr>)" if o: "o' \<in> set (t_nodes s)" for o'
    proof -
      obtain u t where "uuid_parse cd (nr_id o') = Ok u" "ts_parse cd (nr_joined_at o') = Ok t"
        using good_row_parses o wf(3) unfolding list_all_iff by blast
      then show ?thesis using written_row_good [OF _ wf(2) 2(1)] wf(1) unfolding sqlite_inv_def by blast
    qed
    moreover have "sqlite_inv cd (snd (update_node cd flt n s))"
      using wf(1) db_wf_update_node [of s cd flt n] by (auto simp: sqlite_inv_def 2(2) update_rows_def)
    moreover have "list_all (good_row cd) (t_nodes (snd (update_node cd flt n s)))"
      unfolding 2(2) using list_all_update_rows [OF good wf(3)] by simp
    ultimately show ?thesis using inv by (simp add: cl_inv_def 2(2) list_pods_def)
  qed
qed

lemma cl_inv_insert: "cl_inv cd s \<Longrightarrow> cl_inv cd (snd (insert_node cd flt n s))"
proof -
  assume inv: "cl_inv cd s"
  then have wf: "sqlite_inv cd s" "real_ok cd" by (auto simp: cl_inv_def)
  show ?thesis
  proof (cases rule: insert_node_cases [of cd flt n s])
    case (2 r)
    have row: "nr_id r = uuid_str cd (node_id n)" "nr_joined_at r = ts_str cd (joined_at n)"
      using 2(1) by (auto simp: node_to_row_def split: option.splits)
    have "good_row cd (r\<lparr>nr_id := nr_id r, nr_joined_at := nr_joined_at r\<rparr>)"
      using wf row by (intro written_row_good [OF _ _ 2(1)]) (auto simp: sqlite_inv_def codec_okD)
    moreover have "sqlite_inv cd (snd (insert_node cd flt n s))"
      using wf(1) db_wf_insert_node [of s cd flt n] row by (auto simp: sqlite_inv_def 2(2))
    ultimately show ?thesis using inv by (auto simp: cl_inv_def 2(2) list_pods_def)
  qed (use inv in simp)
qed

lemma cl_inv_delete: "cl_inv cd s \<Longrightarrow> cl_inv cd (snd (delete_node cd flt i s))"
  using db_wf_delete_node [of s cd flt i]
  by (auto simp: cl_inv_def sqlite_inv_def delete_node_def exec_sql_def list_all_iff list_pods_def split: option.splits)

lemma cl_inv_config: "cl_inv cd s \<Longrightarrow> cl_inv cd (snd (set_cluster_config cd flt k v s))"
  using db_wf_set_cluster_config [of s cd flt k v]
  by (auto simp: cl_inv_def sqlite_inv_def set_cluster_config_def exec_sql_def list_pods_def split: option.splits)

lemma nodes_of_config: "nodes_of cd (snd (set_cluster_config cd flt k v s)) = nodes_of cd s"
  using sq.config_nodes [of cd None _ k v s] by (auto simp: fun_eq_iff nodes_of_def set_cluster_config_def exec_sql_def get_node_def split: option.splits)

subsection \<open>Writes on the abstraction\<close>

lemma stored_storable: "cl_inv cd s \<Longrightarrow> nodes_of cd s i = Some n \<Longrightarrow> storable cd n"
  by (auto simp: nodes_of_Some cl_inv_def get_node_Some list_all_iff good_row_def)

lemma update_effect:
  assumes "cl_inv cd s" "nodes_of cd s (node_id n) = Some old" "node_name n = node_name old" "joined_at n = joined_at old"
  shows "nodes_of cd (snd (update_node cd None n s)) =
    (if storable cd n then (nodes_of cd s)(node_id n \<mapsto> n) else nodes_of cd s)"
proof (cases "storable cd n")
  case True
  have inv: "sqlite_inv cd s" "cl_inv cd (snd (update_node cd None n s))"
    using assms(1) cl_inv_update by (auto simp: cl_inv_def)
  have g: "ss_get_node (sqlite_store cd None) (node_id n) s = Ok (Some old)"
    using assms(1,2) by (simp add: sqlite_store_def nodes_of_Some)
  obtain s' where u: "update_node cd None n s = (Ok (), s')"
    using sqr.update_defined [OF inv(1) True g assms(3)] by (auto simp: sqlite_store_def)
  have "n\<lparr>joined_at := joined_at old\<rparr> = n" using assms(4) by (metis node.surjective node.update_convs(8))
  then have "get_node cd None i s' = (if i = node_id n then Ok (Some n) else get_node cd None i s)" for i
    using sq.update_ok [OF inv(1) True g, of s' i] u by (simp add: sqlite_store_def)
  then show ?thesis using True u by (auto simp: nodes_of_def fun_eq_iff)
next
  case False
  then have "node_to_row cd n = None" using row_storable [of cd n] assms(1) by (simp add: cl_inv_def)
  then show ?thesis using False by (cases rule: update_node_cases [of cd None n s]) auto
qed

lemma insert_effect:
  assumes "cl_inv cd s" "\<not> name_used (node_name n) (nodes_of cd s)"
  shows "nodes_of cd (snd (insert_node cd None n s)) =
    (if storable cd n \<and> nodes_of cd s (node_id n) = None then (nodes_of cd s)(node_id n \<mapsto> n) else nodes_of cd s)"
proof (cases "storable cd n \<and> nodes_of cd s (node_id n) = None")
  case True
  have inv: "sqlite_inv cd s" using assms(1) by (simp add: cl_inv_def)
  have nm: "get_node_by_name cd None (node_name n) s = Ok None"
    using assms(2) by (cases rule: by_name_total [OF assms(1), of "node_name n"]) (auto simp: name_used_def)
  obtain s' where i: "insert_node cd None n s = (Ok (), s')"
    using sqr.insert_defined [OF inv, of n] True nm get_node_total [OF assms(1), of "node_id n"]
    by (auto simp: sqlite_store_def)
  have "get_node cd None j s' = (if j = node_id n then Ok (Some n) else get_node cd None j s)" for j
    using sq.insert_ok [OF inv, of n None s' j] True i by (simp add: sqlite_store_def)
  then show ?thesis using True i by (auto simp: nodes_of_def fun_eq_iff)
next
  case False
  have "snd (insert_node cd None n s) = s"
  proof (cases "storable cd n")
    case True
    then obtain old where "nodes_of cd s (node_id n) = Some old" using False by auto
    then have "has_key nr_id (uuid_str cd (node_id n)) (t_nodes s)"
      using assms(1) get_node_Some [of cd s None "node_id n" old] by (force simp: nodes_of_Some cl_inv_def has_key_iff image_iff)
    then show ?thesis using True by (auto simp: insert_node_def sql_insert_node_def elim!: node_to_row_storable)
  next
    case False
    then have "node_to_row cd n = None" using row_storable [of cd n] assms(1) by (simp add: cl_inv_def)
    then show ?thesis by (cases rule: insert_node_cases [of cd None n s]) auto
  qed
  then show ?thesis using False by auto
qed

lemma delete_effect:
  assumes "cl_inv cd s"
  shows "nodes_of cd (snd (delete_node cd None i s)) = (nodes_of cd s)(i := None)"
proof -
  have "sqlite_inv cd s" using assms by (simp add: cl_inv_def)
  then show ?thesis
    using sq.delete_ok [of cd s None i "snd (delete_node cd None i s)"]
    by (auto simp: sqlite_store_def nodes_of_def fun_eq_iff delete_node_def exec_sql_def)
qed

subsection \<open>The monitor's listing\<close>

lemma collect_res_total: "(\<And>x. x \<in> set xs \<Longrightarrow> \<exists>y. f x = Inr y) \<Longrightarrow> \<exists>ys. collect_res (map f xs) = Inr ys"
proof (induction xs)
  case (Cons x xs)
  then obtain y ys where "f x = Inr y" "collect_res (map f xs) = Inr ys" by (meson list.set_intros)
  then show ?case by simp
qed simp

lemma list_all2_in: "list_all2 P xs ys \<Longrightarrow> x \<in> set xs \<Longrightarrow> \<exists>y\<in>set ys. P x y"
  by (induction rule: list_all2_induct) auto

lemma listing_total:
  assumes "cl_inv cd s"
  obtains ns where "list_nodes cd None s = Ok ns" "list_all (storable cd) ns"
    "\<And>i n. nodes_of cd s i = Some n \<longleftrightarrow> n \<in> set ns \<and> node_id n = i"
proof -
  have inv: "sqlite_inv cd s" and good: "\<And>r. r \<in> set (t_nodes s) \<Longrightarrow> good_row cd r"
    using assms by (auto simp: cl_inv_def list_all_iff)
  have "\<exists>ns. collect_res (map (row_to_node cd) (sort_key nr_name (t_nodes s))) = Inr ns"
    by (rule collect_res_total) (use good in \<open>auto simp: good_row_def\<close>)
  then obtain ns where ns: "list_nodes cd None s = Ok ns" by (auto simp: list_nodes_def)
  have rows: "n \<in> set ns \<longleftrightarrow> (\<exists>r\<in>set (t_nodes s). row_to_node cd r = Ok n)" for n
  proof
    assume "\<exists>r\<in>set (t_nodes s). row_to_node cd r = Ok n"
    then obtain r where r: "r \<in> set (sort_key nr_name (t_nodes s))" "row_to_node cd r = Ok n" by auto
    have "list_all2 (\<lambda>x y. row_to_node cd x = Ok y) (sort_key nr_name (t_nodes s)) ns"
      using ns by (simp add: list_nodes_def collect_res_list_all2)
    then show "n \<in> set ns" using list_all2_in [OF _ r(1)] r(2) by fastforce
  qed (use sqlite_list_nodes_rows(2) [OF inv ns] in blast)
  show ?thesis
  proof (rule that [OF ns])
    show "list_all (storable cd) ns"
      using good rows unfolding list_all_iff good_row_def by (metis sum.inject(2))
    show "nodes_of cd s i = Some n \<longleftrightarrow> n \<in> set ns \<and> node_id n = i" for i n
    proof
      assume a: "nodes_of cd s i = Some n"
      then have "get_node cd None i s = Ok (Some n)" using assms by (simp add: nodes_of_Some)
      then show "n \<in> set ns \<and> node_id n = i"
        unfolding rows get_node_Some [OF inv] using nodes_of_id [OF assms a] by blast
    next
      assume "n \<in> set ns \<and> node_id n = i"
      then show "nodes_of cd s i = Some n" using sqlite_list_nodes_get [OF inv ns, of n] assms by (simp add: nodes_of_Some)
    qed
  qed
qed

lemma cl_inv_loop: "cl_inv cd s \<Longrightarrow> cl_inv cd (fst (snd (check_nodes_loop (sqlite_store cd flt) now ns s)))"
proof (induction ns arbitrary: s)
  case (Cons n ns)
  have "cl_inv cd (snd (ss_update_node (sqlite_store cd flt) m s))" for m
    using cl_inv_update [OF Cons.prems] by (simp add: sqlite_store_def)
  then show ?case using Cons by (auto simp: Let_def split: sum.splits prod.splits) (metis fst_conv snd_conv)+
qed simp

section \<open>Every step refines the specification\<close>

text \<open>A failing engine refuses every read and write.\<close>

lemma register_refines:
  assumes "cl_inv cd s" "new_node_ok co" "server_register co (sqlite_store cd None) h req s = (r, s')"
  shows "cl_inv cd s' \<and> nodes_of cd s' = effect co cd h (EvRegister None req) (nodes_of cd s)"
proof -
  let ?n = "registered_node co req"
  have nm: "node_name ?n = rq_node_name req" using assms(2) by (simp add: new_node_ok_def registered_node_def)
  show ?thesis
  proof (cases "hash_token co (rq_token req) = h")
    case False
    then show ?thesis using assms by (auto simp: server_register_def hash_token_def)
  next
    case True
    show ?thesis
    proof (cases rule: by_name_total [OF assms(1), of "rq_node_name req"])
      case known: (1 n)
      then have "name_used (rq_node_name req) (nodes_of cd s)" by (auto simp: name_used_def)
      then show ?thesis using assms known(1) by (auto simp: server_register_def sqlite_store_def split: if_splits)
    next
      case unknown: 2
      have "s' = snd (insert_node cd None ?n s)"
        using assms(3) unknown(1) True
        by (auto simp: server_register_def hash_token_def sqlite_store_def Let_def split: prod.splits sum.splits)
      then show ?thesis using insert_effect [OF assms(1), of ?n] cl_inv_insert [OF assms(1)] unknown(2) True
        by (auto simp: nm Let_def)
    qed
  qed
qed

lemma ping_node_fields [simp]:
  "node_id (ping_node now p n) = node_id n" "node_name (ping_node now p n) = node_name n"
  "joined_at (ping_node now p n) = joined_at n" "node_role (ping_node now p n) = node_role n"
  by (simp_all add: ping_node_def Let_def split: option.splits)

lemma ping_refines:
  assumes "cl_inv cd s" "handle_ping co (sqlite_store cd None) now p s = (b, s')"
  shows "cl_inv cd s' \<and> nodes_of cd s' = effect co cd h (EvPing None now p) (nodes_of cd s)"
proof (cases "parse_uuid co (hp_node_id p)")
  case (Inr i)
  show ?thesis
  proof (cases "nodes_of cd s i")
    case None
    then show ?thesis using assms Inr by (auto simp: handle_ping_def sqlite_store_def get_node_total)
  next
    case (Some n)
    have i: "node_id n = i" using nodes_of_id [OF assms(1) Some] .
    have "s' = snd (update_node cd None (ping_node now p n) s)"
      using assms Inr Some by (auto simp: handle_ping_def sqlite_store_def get_node_total)
    then show ?thesis
      using update_effect [OF assms(1), of "ping_node now p n" n] cl_inv_update [OF assms(1)] Some Inr i by simp
  qed
qed (use assms in \<open>auto simp: handle_ping_def\<close>)

lemma node_map_ext: "(\<And>i n. m i = Some n \<Longrightarrow> m' i = f n) \<Longrightarrow> (\<And>i. m i = None \<Longrightarrow> m' i = None) \<Longrightarrow>
    m' = (\<lambda>i. case m i of None \<Rightarrow> None | Some n \<Rightarrow> f n)"
  by (auto simp: fun_eq_iff split: option.splits)

lemma drain_refines:
  assumes "cl_inv cd s" "drain_node co (sqlite_store cd None) name s = (a, s')"
  shows "cl_inv cd s' \<and> nodes_of cd s' = effect co cd h (EvDrain None name) (nodes_of cd s)"
proof (cases rule: by_name_total [OF assms(1), of name])
  case unknown: 2
  then show ?thesis using assms
    by (auto simp: drain_node_def sqlite_store_def name_used_def fun_eq_iff intro!: option.map_ident_strong [symmetric])
next
  case known: (1 n)
  let ?n = "n\<lparr>node_stat := Draining\<rparr>"
  have s': "s' = snd (update_node cd None ?n s)"
    using assms(2) known(1) by (auto simp: drain_node_def sqlite_store_def split: prod.splits sum.splits)
  have st: "storable cd n" using stored_storable [OF assms(1) known(3)] .
  then have "nodes_of cd s' = (nodes_of cd s)(node_id n \<mapsto> ?n)"
    using update_effect [OF assms(1), of ?n n] known(3) by (simp add: s' storable_def)
  moreover have "(nodes_of cd s)(node_id n \<mapsto> ?n) = effect co cd h (EvDrain None name) (nodes_of cd s)"
    using known(2-4) by (auto simp: fun_eq_iff option.map_id intro!: option.map_ident_strong [symmetric])
  ultimately show ?thesis using cl_inv_update [OF assms(1)] s' by simp
qed

lemma remove_refines:
  assumes "cl_inv cd s" "remove_node co st (sqlite_store cd None) name s = (a, s')"
  shows "cl_inv cd s' \<and> nodes_of cd s' = effect co cd h (EvRemove None name) (nodes_of cd s)"
proof (cases rule: by_name_total [OF assms(1), of name])
  case unknown: 2
  then show ?thesis using assms
    by (auto simp: remove_node_def sqlite_store_def name_used_def fun_eq_iff split: option.splits)
next
  case known: (1 n)
  have same: "nodes_of cd s i = Some m \<Longrightarrow> node_name m = name \<Longrightarrow> i = node_id n \<and> m = n" for i m
    using known(3,4) by fastforce
  show ?thesis
  proof (cases "node_stat n = Draining \<or> node_role n = Master")
    case True
    then have "s' = snd (delete_node cd None (node_id n) s)"
      using assms(2) known(1) by (auto simp: remove_node_def sqlite_store_def split: prod.splits sum.splits)
    moreover have "((nodes_of cd s)(node_id n := None)) i = effect co cd h (EvRemove None name) (nodes_of cd s) i" for i
    proof (cases "nodes_of cd s i")
      case (Some m)
      then show ?thesis using True known(2,3) same [OF Some] by (cases "node_name m = name") auto
    qed auto
    ultimately show ?thesis using delete_effect [OF assms(1)] cl_inv_delete [OF assms(1)] by (simp add: fun_eq_iff)
  next
    case False
    then have "s' = s" using assms(2) known(1) by (auto simp: remove_node_def sqlite_store_def)
    moreover have "\<not> (node_name m = name \<and> (node_stat m = Draining \<or> node_role m = Master))"
      if "nodes_of cd s i = Some m" for i m using same [OF that] False by blast
    ultimately show ?thesis using assms(1) by (auto simp: fun_eq_iff split: option.split)
  qed
qed

lemma rotate_refines:
  assumes "cl_inv cd s" "cluster_token_rotate co (sqlite_store cd flt) rnd s = (a, s')"
  shows "cl_inv cd s' \<and> nodes_of cd s' = nodes_of cd s"
proof (cases "set_cluster_config cd flt ''join_token_hash'' (hash_token co (generate_token co rnd)) s")
  case (Pair r s1)
  have s1: "cl_inv cd s1" "nodes_of cd s1 = nodes_of cd s"
    using cl_inv_config [OF assms(1)] nodes_of_config Pair by (metis snd_conv)+
  have "s' = s1 \<or> s' = snd (set_cluster_config cd flt ''join_token'' (generate_token co rnd) s1)"
    using assms(2) Pair by (cases r) (auto simp: cluster_token_rotate_def sqlite_store_def Let_def)
  then show ?thesis using s1 cl_inv_config nodes_of_config by metis
qed

lemma monitor_refines:
  assumes "cl_inv cd s" "check_nodes (sqlite_store cd None) now s = (x, s', log)"
  shows "cl_inv cd s' \<and> nodes_of cd s' = effect co cd h (EvMonitor None now) (nodes_of cd s)"
proof -
  obtain ns where ns: "list_nodes cd None s = Ok ns" "list_all (storable cd) ns"
    "\<And>i n. nodes_of cd s i = Some n \<longleftrightarrow> n \<in> set ns \<and> node_id n = i"
    by (rule listing_total [OF assms(1)]) blast
  obtain pods where pods: "list_pods cd None None s = Ok pods" using assms(1) by (auto simp: cl_inv_def)
  have inv: "sqlite_inv cd s" using assms(1) by (simp add: cl_inv_def)
  have s': "\<And>n. n \<in> set ns \<Longrightarrow> get_node cd None (node_id n) s' = Ok (Some (monitor_node now n))"
    "\<And>i. i \<notin> node_id ` set ns \<Longrightarrow> get_node cd None i s' = get_node cd None i s"
    using sqr.check_nodes_spec [OF inv, of ns pods now] ns(1,2) pods assms(2) by (auto simp: sqlite_store_def)
  have "cl_inv cd s'"
    using cl_inv_loop [OF assms(1), of None now ns] assms(2) ns(1) by (simp add: check_nodes_def sqlite_store_def)
  moreover have "nodes_of cd s' i = map_option (monitor_node now) (nodes_of cd s i)" for i
  proof (cases "nodes_of cd s i")
    case None
    then have "i \<notin> node_id ` set ns" using ns(3) by force
    then show ?thesis using s'(2) None by (simp add: nodes_of_def)
  next
    case (Some n)
    then show ?thesis using s'(1) [of n] ns(3) [of i n] by (simp add: nodes_of_def)
  qed
  ultimately show ?thesis by auto
qed

lemma faulty_step: "cl_step co cd st h s e s' \<Longrightarrow> fault_of e = Some x \<Longrightarrow> s' = s"
  by (cases e)
    (auto elim!: cl_stepE simp: server_register_def handle_ping_def drain_node_def remove_node_def cluster_token_rotate_def check_nodes_def
      sqlite_store_def get_node_def get_node_by_name_def list_nodes_def fetch_def snd_update_node insert_node_def
      sql_insert_node_def update_node_def sql_update_node_def set_cluster_config_def exec_sql_def Let_def
      split: sum.splits if_splits prod.splits option.splits)

lemma step_refines:
  assumes "cl_inv cd s" "new_node_ok co" "cl_step co cd st h s e s'"
  shows "cl_inv cd s' \<and> nodes_of cd s' = spec_step co cd h e (nodes_of cd s)"
proof (cases "fault_of e")
  case (Some x)
  then show ?thesis using faulty_step [OF assms(3)] assms(1) by (simp add: spec_step_def)
next
  case None
  with assms(3) show ?thesis
  proof cases
    case register
    then show ?thesis using register_refines [OF assms(1,2)] None by (auto simp: spec_step_def simp del: effect.simps)
  next
    case ping
    then show ?thesis using ping_refines [OF assms(1)] None by (auto simp: spec_step_def simp del: effect.simps)
  next
    case drain
    then show ?thesis using drain_refines [OF assms(1)] None by (auto simp: spec_step_def simp del: effect.simps)
  next
    case remove
    then show ?thesis using remove_refines [OF assms(1)] None by (auto simp: spec_step_def simp del: effect.simps)
  next
    case rotate
    then show ?thesis using rotate_refines [OF assms(1)] None by (auto simp: spec_step_def)
  next
    case monitor
    then show ?thesis using monitor_refines [OF assms(1)] None by (auto simp: spec_step_def simp del: effect.simps)
  qed
qed

lemma cl_run_refines:
  assumes "cl_run co cd st h s es s'" "cl_inv cd s" "new_node_ok co"
  shows "cl_inv cd s' \<and> nodes_of cd s' = fold (spec_step co cd h) es (nodes_of cd s)"
  using assms by (induction rule: cl_run.induct) (auto dest: step_refines)

text \<open>A step adds at most the node of an accepted registration, and no step renames a node.\<close>

definition accepted_as :: "core \<Rightarrow> string \<Rightarrow> cl_event \<Rightarrow> uuid \<Rightarrow> string \<Rightarrow> bool" where
  "accepted_as co h e i name \<longleftrightarrow> (\<exists>req. e = EvRegister None req \<and> hash_token co (rq_token req) = h
     \<and> node_id (registered_node co req) = i \<and> rq_node_name req = name)"

lemma monitor_node_name [simp]: "node_name (monitor_node now n) = node_name n" "last_heartbeat (monitor_node now n) = last_heartbeat n"
  "node_role (monitor_node now n) = node_role n"
  by (simp_all add: monitor_node_def)

lemma spec_step_origin:
  assumes "new_node_ok co" "spec_step co cd h e m i = Some n"
  shows "accepted_as co h e i (node_name n) \<or> (\<exists>n0. m i = Some n0 \<and> node_name n0 = node_name n)"
proof (cases e)
  case (EvRegister flt req)
  then show ?thesis using assms
    by (auto simp: spec_step_def accepted_as_def Let_def new_node_ok_def registered_node_def split: if_splits)
qed (use assms(2) in \<open>auto simp: spec_step_def split: sum.splits option.splits if_splits\<close>)

lemma spec_run_origin:
  assumes "new_node_ok co" "fold (spec_step co cd h) es m i = Some n"
  shows "(\<exists>e\<in>set es. accepted_as co h e i (node_name n)) \<or> (\<exists>n0. m i = Some n0 \<and> node_name n0 = node_name n)"
  using assms(2)
proof (induction es arbitrary: n rule: rev_induct)
  case (snoc e es)
  then show ?case using spec_step_origin [OF assms(1), of cd h e "fold (spec_step co cd h) es m" i n] by fastforce
qed auto

text \<open>An event leaves a worker alone when it is no ping of it and no drain or removal of its name.\<close>

fun touches :: "core \<Rightarrow> uuid \<Rightarrow> string \<Rightarrow> cl_event \<Rightarrow> bool" where
  "touches co i name (EvPing _ _ p) \<longleftrightarrow> parse_uuid co (hp_node_id p) = Ok i"
| "touches co i name (EvDrain _ nm) \<longleftrightarrow> nm = name"
| "touches co i name (EvRemove _ nm) \<longleftrightarrow> nm = name"
| "touches co i name _ \<longleftrightarrow> False"

definition silent_since :: "instant \<Rightarrow> string \<Rightarrow> node \<Rightarrow> bool" where
  "silent_since t name n \<longleftrightarrow> node_name n = name \<and> last_heartbeat n = t \<and> node_role n \<noteq> Master"

lemma effect_silent:
  assumes "m i = Some n" "silent_since t name n" "\<not> touches co i name e"
  shows "\<exists>n'. effect co cd h e m i = Some n' \<and> silent_since t name n'
    \<and> (node_stat n = NotReady \<longrightarrow> node_stat n' = NotReady)
    \<and> (\<forall>flt now. e = EvMonitor flt now \<and> now - t \<ge> secs 30 \<longrightarrow> node_stat n' = NotReady)"
  using assms
  by (cases e) (auto simp: silent_since_def Let_def monitor_node_def stale_def split: sum.splits option.splits)

lemma spec_step_silent:
  assumes "m i = Some n" "silent_since t name n" "\<not> touches co i name e"
  obtains n' where "spec_step co cd h e m i = Some n'" "silent_since t name n'"
    "node_stat n = NotReady \<Longrightarrow> node_stat n' = NotReady"
    "\<And>now. e = EvMonitor None now \<Longrightarrow> now - t \<ge> secs 30 \<Longrightarrow> node_stat n' = NotReady"
proof (cases "fault_of e")
  case None
  then show ?thesis using effect_silent [of m i n t name co e cd h] assms that by (auto simp: spec_step_def)
next
  case (Some x)
  then show ?thesis using assms(1,2) by (intro that [of n]) (auto simp: spec_step_def)
qed

lemma spec_run_silent:
  assumes "m i = Some n" "silent_since t name n" "list_all (\<lambda>e. \<not> touches co i name e) es"
  shows "\<exists>n'. fold (spec_step co cd h) es m i = Some n' \<and> silent_since t name n'
    \<and> (node_stat n = NotReady \<or> (\<exists>now. EvMonitor None now \<in> set es \<and> now - t \<ge> secs 30) \<longrightarrow> node_stat n' = NotReady)"
  using assms
proof (induction es arbitrary: m n)
  case (Cons e es)
  obtain n1 where n1: "spec_step co cd h e m i = Some n1" "silent_since t name n1"
    "node_stat n = NotReady \<Longrightarrow> node_stat n1 = NotReady"
    "\<And>now. e = EvMonitor None now \<Longrightarrow> now - t \<ge> secs 30 \<Longrightarrow> node_stat n1 = NotReady"
    by (rule spec_step_silent [of m i n t name co e cd h]) (use Cons.prems in auto)
  show ?case using Cons.IH [of "spec_step co cd h e m" n1] n1 Cons.prems(3) by auto
qed auto

text \<open>
  The worker \<open>i\<close>, last heard of at \<open>t\<close>, pings in time: at every monitor pass its last stored ping is less
  than 30 s old. A ping counts when the store took it.
\<close>

fun pings_in_time :: "core \<Rightarrow> codec \<Rightarrow> uuid \<Rightarrow> instant \<Rightarrow> cl_event list \<Rightarrow> bool" where
  "pings_in_time co cd i t [] \<longleftrightarrow> True"
| "pings_in_time co cd i t (EvPing flt now p # es) \<longleftrightarrow>
     (if flt = None \<and> parse_uuid co (hp_node_id p) = Ok i
      then hp_status p = ''ready'' \<and> list_all (\<lambda>r. real_col cd (cpu_cores r) \<noteq> None \<and> real_col cd (cpu_available r) \<noteq> None)
             (case hp_resources p of None \<Rightarrow> [] | Some r \<Rightarrow> [r]) \<and> pings_in_time co cd i now es
      else pings_in_time co cd i t es)"
| "pings_in_time co cd i t (EvMonitor flt now # es) \<longleftrightarrow> (flt = None \<longrightarrow> now - t < secs 30) \<and> pings_in_time co cd i t es"
| "pings_in_time co cd i t (e # es) \<longleftrightarrow> pings_in_time co cd i t es"

definition ready_since :: "codec \<Rightarrow> instant \<Rightarrow> string \<Rightarrow> node \<Rightarrow> bool" where
  "ready_since cd t name n \<longleftrightarrow> node_name n = name \<and> last_heartbeat n = t \<and> node_stat n = Ready \<and> storable cd n"

lemma ping_ready:
  assumes "ready_since cd t name n" "real_ok cd" "hp_status p = ''ready''"
    "list_all (\<lambda>r. real_col cd (cpu_cores r) \<noteq> None \<and> real_col cd (cpu_available r) \<noteq> None)
       (case hp_resources p of None \<Rightarrow> [] | Some r \<Rightarrow> [r])"
  shows "ready_since cd now name (ping_node now p n)"
proof -
  have col: "real_col cd v \<noteq> None \<longleftrightarrow> real_col cd v = Some v" for v
    using assms(2) [unfolded real_ok_def, THEN spec, of v] by auto
  show ?thesis
  proof (cases "hp_resources p")
    case None
    then show ?thesis using assms(1,3) by (simp add: ready_since_def ping_node_def ping_status_def storable_def)
  next
    case (Some r)
    then have "real_col cd (cpu_cores r) = Some (cpu_cores r)" "real_col cd (cpu_available r) = Some (cpu_available r)"
      using assms(4) unfolding col by simp_all
    then show ?thesis using Some assms(1,3) by (simp add: ready_since_def ping_node_def ping_status_def storable_def)
  qed
qed

lemma effect_ready:
  assumes "m i = Some n" "ready_since cd t name n" "\<not> touches co i name e" "\<And>flt now. e = EvMonitor flt now \<Longrightarrow> now - t < secs 30"
  shows "\<exists>n'. effect co cd h e m i = Some n' \<and> ready_since cd t name n'"
  using assms
  by (cases e) (auto simp: ready_since_def Let_def monitor_node_def stale_def split: sum.splits option.splits)

lemma spec_run_ready:
  assumes "m i = Some n" "ready_since cd t name n" "real_ok cd" "pings_in_time co cd i t es"
    "list_all (\<lambda>e. \<not> (\<exists>flt. e = EvDrain flt name \<or> e = EvRemove flt name)) es"
  shows "\<exists>n' t'. fold (spec_step co cd h) es m i = Some n' \<and> ready_since cd t' name n'"
  using assms
proof (induction es arbitrary: m n t)
  case (Cons e es)
  have "\<exists>n1 t1. spec_step co cd h e m i = Some n1 \<and> ready_since cd t1 name n1 \<and> pings_in_time co cd i t1 es"
  proof (cases "fault_of e = None")
    case False
    then show ?thesis using Cons.prems by (cases e) (auto simp: spec_step_def)
  next
    case True
    show ?thesis
    proof (cases "touches co i name e")
      case False
      then show ?thesis
        using effect_ready [of m i n cd t name co e h] Cons.prems True by (cases e) (auto simp: spec_step_def)
    next
      case t: True
      then obtain now p where e: "e = EvPing None now p" "parse_uuid co (hp_node_id p) = Ok i"
        using Cons.prems(5) True by (cases e) auto
      have r: "ready_since cd now name (ping_node now p n)"
        using ping_ready [OF Cons.prems(2,3), of p now] Cons.prems(4) e by simp
      then have "storable cd (ping_node now p n)" by (simp add: ready_since_def)
      then show ?thesis using r e Cons.prems(1,4) by (auto simp: spec_step_def)
    qed
  qed
  then show ?case using Cons.IH [of "spec_step co cd h e m"] Cons.prems(3,5) by fastforce
qed auto

text \<open>Among ticks a monitor interval apart there is one in every window of that length.\<close>

lemma tick_in_window:
  assumes "t0 \<le> b" "b - a = d" "(0::int) < d"
  obtains k :: nat where "a \<le> t0 + int k * d" "t0 + int k * d \<le> b"
proof (cases "a \<le> t0")
  case True
  then show ?thesis using assms that [of 0] by simp
next
  case False
  let ?k = "nat ((b - t0) div d)"
  have "int ?k = (b - t0) div d" using assms(1,3) by (simp add: pos_imp_zdiv_nonneg_iff)
  moreover have "(b - t0) div d * d \<le> b - t0" "b - t0 < (b - t0) div d * d + d"
    using assms(3) by (simp_all add: pos_mod_bound minus_mod_eq_div_mult [symmetric])
  ultimately show ?thesis using assms(2) that [of ?k] by simp
qed

section \<open>Properties\<close>

text \<open>C1: the cluster state refines a map. Whatever sequence of registrations, heartbeats, drains,
  removals, token rotations and monitor passes runs on the store, with engine faults at any of them, the
  store stays well formed and its nodes are those of the specification: an accepted registration adds
  one node under a free name, a heartbeat rewrites the node that sent it, a drain marks a node, a removal
  deletes a drained node or a master, a monitor pass marks the workers silent for 30 s, a failed step
  changes nothing.\<close>

theorem cluster_refines_map:
  assumes "cl_inv cd s" "new_node_ok co" "cl_run co cd st h s es s'"
  shows "cl_inv cd s' \<and> nodes_of cd s' = fold (spec_step co cd h) es (nodes_of cd s)"
  using cl_run_refines [OF assms(3,1,2)] .

text \<open>C2: only holders of the token join. In any run, a node that is present at the end was already
  present at the beginning under the same id and name, or was accepted during the run by a
  registration under that name whose token has the SHA-256 digest of the cluster's token.\<close>

theorem only_token_holders_join:
  assumes "cl_inv cd s" "new_node_ok co" "hex_ok co" "cl_run co cd st (hash_token co token) s es s'"
    "nodes_of cd s' i = Some n"
  shows "(\<exists>n0. nodes_of cd s i = Some n0 \<and> node_name n0 = node_name n)
    \<or> (\<exists>req. EvRegister None req \<in> set es \<and> sha256 co (rq_token req) = sha256 co token \<and> rq_node_name req = node_name n)"
proof -
  have "fold (spec_step co cd (hash_token co token)) es (nodes_of cd s) i = Some n"
    using cl_run_refines [OF assms(4,1,2)] assms(5) by simp
  then show ?thesis
    using spec_run_origin [OF assms(2), of cd "hash_token co token" es "nodes_of cd s" i n] assms(3)
    by (auto simp: accepted_as_def hash_token_def hex_encode_inject)
qed

text \<open>C3: a silent worker is detected. Let the monitor's passes run every 10 s from \<open>t0\<close> on, at
  least until 40 s after a worker's last heartbeat; whatever else happens meanwhile, except a
  ping of this worker or a drain or removal of its name, the worker is \<open>NotReady\<close> at the end.\<close>

theorem silent_worker_detected:
  assumes "cl_inv cd s" "new_node_ok co" "cl_run co cd st h s es s'"
    "nodes_of cd s i = Some n" "node_role n \<noteq> Master" "list_all (\<lambda>e. \<not> touches co i (node_name n) e) es"
    "t0 \<le> last_heartbeat n + secs 40" "last_heartbeat n + secs 40 \<le> end_time"
    "\<And>k. t0 + int k * monitor_interval \<le> end_time \<Longrightarrow> EvMonitor None (t0 + int k * monitor_interval) \<in> set es"
  shows "\<exists>n'. nodes_of cd s' i = Some n' \<and> node_stat n' = NotReady \<and> last_heartbeat n' = last_heartbeat n"
proof -
  obtain k :: nat where k: "last_heartbeat n + secs 30 \<le> t0 + int k * monitor_interval"
    "t0 + int k * monitor_interval \<le> last_heartbeat n + secs 40"
    by (rule tick_in_window [OF assms(7), of "last_heartbeat n + secs 30" monitor_interval])
      (simp_all add: monitor_interval_def secs_def)
  then have "EvMonitor None (t0 + int k * monitor_interval) \<in> set es" using assms(8,9) by force
  moreover have "silent_since (last_heartbeat n) (node_name n) n" using assms(5) by (simp add: silent_since_def)
  ultimately show ?thesis
    using spec_run_silent [of "nodes_of cd s" i n "last_heartbeat n" "node_name n" co es cd h] assms(4,6) k(1) cl_run_refines [OF assms(3,1,2)]
    by (force simp: silent_since_def)
qed

text \<open>C15: a live worker stays ready. As long as a ready worker's pings reach the store often enough, that is, at
  every monitor pass the last one is less than 30 s old, it is \<open>Ready\<close> at the end of any run in which
  nobody drains or removes it, whatever the other nodes do and whichever other steps fail.\<close>

theorem live_worker_stays_ready:
  assumes "cl_inv cd s" "new_node_ok co" "cl_run co cd st h s es s'" "nodes_of cd s i = Some n" "node_stat n = Ready"
    "pings_in_time co cd i (last_heartbeat n) es"
    "list_all (\<lambda>e. \<not> (\<exists>flt. e = EvDrain flt (node_name n) \<or> e = EvRemove flt (node_name n))) es"
  shows "\<exists>n'. nodes_of cd s' i = Some n' \<and> node_stat n' = Ready \<and> node_name n' = node_name n"
proof -
  have "ready_since cd (last_heartbeat n) (node_name n) n"
    using stored_storable [OF assms(1,4)] assms(5) by (simp add: ready_since_def)
  moreover have "real_ok cd" using assms(1) by (simp add: cl_inv_def)
  ultimately obtain n' t' where "fold (spec_step co cd h) es (nodes_of cd s) i = Some n'" "ready_since cd t' (node_name n) n'"
    using spec_run_ready [of "nodes_of cd s" i n cd "last_heartbeat n" "node_name n" co es h] assms(4,6,7) by blast
  then show ?thesis using cl_run_refines [OF assms(3,1,2)] by (auto simp: ready_since_def)
qed

text \<open>A dead worker cannot be drained for long. Once a worker has been silent for 30 s, the next
  monitor pass after a drain replaces \<open>Draining\<close> by \<open>NotReady\<close>, and its removal is then refused with
  409 until it is drained again.\<close>

theorem monitor_undoes_drain:
  assumes "cl_inv cd s" "new_node_ok co" "nodes_of cd s i = Some n" "node_role n \<noteq> Master"
    "now - last_heartbeat n \<ge> secs 30" "cl_run co cd st h s [EvDrain None (node_name n), EvMonitor None now] s'"
  shows "nodes_of cd s' i = Some (n\<lparr>node_stat := NotReady\<rparr>)
    \<and> rsp_status (fst (remove_node co st (sqlite_store cd None) (node_name n) s')) = 409
    \<and> snd (remove_node co st (sqlite_store cd None) (node_name n) s') = s'"
proof -
  have r: "cl_inv cd s'" "nodes_of cd s' = fold (spec_step co cd h) [EvDrain None (node_name n), EvMonitor None now] (nodes_of cd s)"
    using cl_run_refines [OF assms(6,1,2)] by simp_all
  then have n': "nodes_of cd s' i = Some (n\<lparr>node_stat := NotReady\<rparr>)"
    using assms(3-5) by (simp add: spec_step_def monitor_node_def stale_def)
  obtain m where m: "get_node_by_name cd None (node_name n) s' = Ok (Some m)" "nodes_of cd s' (node_id m) = Some m" "i = node_id m"
  proof (cases rule: by_name_total [OF r(1), of "node_name n"])
    case (1 m)
    then show ?thesis using 1(4) [OF n'] by (intro that [of m]) auto
  next
    case 2
    then show ?thesis using n' by (force simp: name_used_def)
  qed
  then have "m = n\<lparr>node_stat := NotReady\<rparr>" using n' by simp
  then show ?thesis using n' m(1) assms(4) by (auto simp: remove_node_def sqlite_store_def)
qed

text \<open>A restarted worker is locked out. A worker that starts again under its host name with the right
  token is rejected as long as its old node is stored, and its start-up ends with that error;
  nothing is written.\<close>

theorem restarted_worker_refused:
  assumes "cl_inv cd s" "nodes_of cd s i = Some n" "hash_token co token = h"
  shows "worker_join co status_text (Ok (node_name n)) resources None
      (\<lambda>req. fst (server_register co (sqlite_store cd None) h req s)) token addr =
    Err (''master rejected registration: node '' @ [CHR 39] @ node_name n @ [CHR 39] @ '' already registered'')"
proof -
  obtain m where "get_node_by_name cd None (node_name n) s = Ok (Some m)"
    using assms(2) by (cases rule: by_name_total [OF assms(1), of "node_name n"]) (auto simp: name_used_def)
  then show ?thesis using assms(3)
    by (simp add: worker_join_def server_register_def hash_token_def sqlite_store_def rejected_def)
qed

section \<open>Inside a monitor pass\<close>

text \<open>
  A pass is not atomic: it lists the nodes once and then writes back, one by one, what it listed.
  The loop on a listing \<open>ns\<close> and a store that other operations have changed meanwhile writes exactly
  the listed nodes that are due, with the values of the listing.
\<close>

definition write_back :: "instant \<Rightarrow> node \<Rightarrow> node_map \<Rightarrow> node_map" where
  "write_back now n m =
     (if stale (secs 30) now n \<and> node_stat n \<noteq> NotReady then m(node_id n \<mapsto> n\<lparr>node_stat := NotReady\<rparr>) else m)"

definition still_known :: "codec \<Rightarrow> node_map \<Rightarrow> node \<Rightarrow> bool" where
  "still_known cd m n \<longleftrightarrow> storable cd n \<and> (\<exists>n'. m (node_id n) = Some n' \<and> node_name n' = node_name n \<and> joined_at n' = joined_at n)"

lemma mark_effect:
  assumes "cl_inv cd s" "still_known cd (nodes_of cd s) n"
  shows "nodes_of cd (snd (update_node cd None (n\<lparr>node_stat := NotReady\<rparr>) s)) = (nodes_of cd s)(node_id n \<mapsto> n\<lparr>node_stat := NotReady\<rparr>)"
proof -
  obtain n' where "nodes_of cd s (node_id n) = Some n'" "node_name n' = node_name n" "joined_at n' = joined_at n" "storable cd n"
    using assms(2) by (auto simp: still_known_def)
  then show ?thesis
    using update_effect [OF assms(1), of "n\<lparr>node_stat := NotReady\<rparr>" n'] by (simp add: storable_def)
qed

lemma loop_writes_back:
  assumes "cl_inv cd s" "distinct (map node_id ns)" "list_all (still_known cd (nodes_of cd s)) ns"
  shows "nodes_of cd (fst (snd (check_nodes_loop (sqlite_store cd None) now ns s))) = fold (write_back now) ns (nodes_of cd s)"
  using assms
proof (induction ns arbitrary: s)
  case (Cons n ns)
  let ?s1 = "if stale (secs 30) now n \<and> node_stat n \<noteq> NotReady then snd (update_node cd None (n\<lparr>node_stat := NotReady\<rparr>) s) else s"
  have inv1: "cl_inv cd ?s1" using Cons.prems(1) cl_inv_update by simp
  have eff: "nodes_of cd ?s1 = write_back now n (nodes_of cd s)"
    using mark_effect [OF Cons.prems(1), of n] Cons.prems(3) by (simp add: write_back_def)
  have "list_all (still_known cd (nodes_of cd ?s1)) ns"
    unfolding eff using Cons.prems(2,3) by (force simp: list_all_iff still_known_def write_back_def)
  with Cons.IH [OF inv1] Cons.prems(2) have
    "nodes_of cd (fst (snd (check_nodes_loop (sqlite_store cd None) now ns ?s1))) = fold (write_back now) (n # ns) (nodes_of cd s)"
    by (simp add: eff)
  moreover have "fst (snd (check_nodes_loop (sqlite_store cd None) now (n # ns) s)) =
      fst (snd (check_nodes_loop (sqlite_store cd None) now ns ?s1))"
  proof -
    have pods: "\<exists>ps. list_pods cd None None s' = Ok ps" if "cl_inv cd s'" for s' using that by (simp add: cl_inv_def)
    show ?thesis using pods [OF inv1] pods [OF Cons.prems(1)]
      by (auto simp: Let_def sqlite_store_def threshold_defs elapsed_iff split: prod.splits)
  qed
  ultimately show ?case by simp
qed simp

lemma write_backs_get:
  assumes "distinct (map node_id ns)" "n \<in> set ns" "stale (secs 30) now n" "node_stat n \<noteq> NotReady"
  shows "fold (write_back now) ns m (node_id n) = Some (n\<lparr>node_stat := NotReady\<rparr>)"
  using assms
proof (induction ns arbitrary: m)
  case (Cons x ns)
  have other: "fold (write_back now) ns m' j = m' j" if "j \<notin> node_id ` set ns" for m' j
    using that by (induction ns arbitrary: m') (auto simp: write_back_def)
  show ?case
  proof (cases "x = n")
    case True
    then show ?thesis using Cons.prems other [of "node_id n" "write_back now n m"]
      by (simp add: write_back_def [of now n m])
  next
    case False
    then show ?thesis using Cons by simp
  qed
qed simp

text \<open>A heartbeat during a monitor pass is lost. When a worker that was due in the listing of a pass
  pings before the pass reaches it, the pass overwrites what the ping stored: the worker is
  \<open>NotReady\<close> with its old heartbeat time and resources.\<close>

theorem monitor_overwrites_ping:
  assumes "cl_inv cd s" "list_nodes cd None s = Ok ns" "nodes_of cd s i = Some n" "node_stat n \<noteq> NotReady"
    "stale (secs 30) now n" "handle_ping co (sqlite_store cd None) t p s = (True, s1)"
    "check_nodes_loop (sqlite_store cd None) now ns s1 = (r, s2, log)"
  shows "nodes_of cd s2 i = Some (n\<lparr>node_stat := NotReady\<rparr>)"
proof -
  have inv: "sqlite_inv cd s" using assms(1) by (simp add: cl_inv_def)
  obtain ns' where ns': "list_nodes cd None s = Ok ns'" "list_all (storable cd) ns'"
    "\<And>i n. nodes_of cd s i = Some n \<longleftrightarrow> n \<in> set ns' \<and> node_id n = i"
    by (rule listing_total [OF assms(1)]) blast
  then have ns: "list_all (storable cd) ns" "\<And>i n. nodes_of cd s i = Some n \<longleftrightarrow> n \<in> set ns \<and> node_id n = i"
    using assms(2) by simp_all
  have dist: "distinct (map node_id ns)" using sqlite_list_nodes_distinct [OF inv assms(2)] .
  have s1: "cl_inv cd s1" "nodes_of cd s1 = effect co cd [] (EvPing None t p) (nodes_of cd s)"
    using ping_refines [OF assms(1,6)] by blast+
  have "still_known cd (nodes_of cd s1) m" if "m \<in> set ns" for m
  proof -
    have "nodes_of cd s (node_id m) = Some m" "storable cd m" using ns that by (auto simp: list_all_iff)
    then show ?thesis by (auto simp: still_known_def s1(2) split: sum.splits option.splits)
  qed
  then have "nodes_of cd s2 = fold (write_back now) ns (nodes_of cd s1)"
    using loop_writes_back [OF s1(1) dist, of now] assms(7) by (simp add: list_all_iff)
  then show ?thesis using write_backs_get [OF dist _ assms(5,4)] ns(2) [of i n] assms(3) by auto
qed

section \<open>Witnesses\<close>

lemma cl_step_total: "\<exists>s'. cl_step co cd st h s e s'"
proof (cases e)
  case (EvMonitor flt now)
  then show ?thesis using cl_step.monitor by (metis prod.collapse)
qed (metis cl_step.intros prod.collapse)+

lemma cl_run_total: "\<exists>s'. cl_run co cd st h s es s'"
proof (induction es arbitrary: s)
  case (Cons e es)
  then show ?case using cl_step_total cl_run.cons by metis
qed (auto intro: cl_run.nil)

lemma sample_cl_inv_empty: "cl_inv sample_codec db_empty"
  using sample_inv_empty by (simp add: cl_inv_def real_ok_def sample_codec_def db_empty_def list_pods_def fetch_def)

lemma sample_cl_inv: "cl_inv sample_codec sample_db"
  using cl_inv_insert [OF sample_cl_inv_empty, of None sample_node] sample_db_insert by simp

lemma sample_nodes_of: "nodes_of sample_codec sample_db 7 = Some sample_node"
  using sample_node_stored sample_cl_inv by (simp add: nodes_of_Some)

lemma sample_nodes_of_empty: "nodes_of sample_codec db_empty = Map.empty"
  by (simp add: fun_eq_iff nodes_of_def sample_empty_lookups)

lemma sample_joins:
  "fold (spec_step sample_core sample_codec (hash_token sample_core ''nxa_1'')) [EvRegister None sample_register] Map.empty 7
     = Some sample_node"
  by (simp add: spec_step_def Let_def sample_registered name_used_def sample_storable sample_node_def)
    (simp add: sample_register_def)

theorem cluster_refines_map_witness:
  "\<exists>s'. cl_run sample_core sample_codec (\<lambda>_. []) (hash_token sample_core ''nxa_1'') db_empty [EvRegister None sample_register] s'
     \<and> nodes_of sample_codec s' 7 = Some sample_node"
proof -
  obtain s' where r: "cl_run sample_core sample_codec (\<lambda>_. []) (hash_token sample_core ''nxa_1'') db_empty
      [EvRegister None sample_register] s'" using cl_run_total by blast
  show ?thesis using cluster_refines_map [OF sample_cl_inv_empty sample_core_ok(3) r] r sample_joins
    unfolding sample_nodes_of_empty by auto
qed

theorem only_token_holders_join_witness:
  "\<exists>s'. cl_run sample_core sample_codec (\<lambda>_. []) (hash_token sample_core ''nxa_1'') sample_db [EvRotate None ''a''] s'
     \<and> ((\<exists>n0. nodes_of sample_codec sample_db 7 = Some n0 \<and> node_name n0 = ''w1'')
       \<or> (\<exists>req. EvRegister None req \<in> set [EvRotate None ''a''] \<and> sha256 sample_core (rq_token req) = sha256 sample_core ''nxa_1''
            \<and> rq_node_name req = ''w1''))"
proof -
  obtain s' where r: "cl_run sample_core sample_codec (\<lambda>_. []) (hash_token sample_core ''nxa_1'') sample_db
      [EvRotate None ''a''] s'" using cl_run_total by blast
  have "nodes_of sample_codec s' 7 = Some sample_node"
    using cl_run_refines [OF r sample_cl_inv sample_core_ok(3)] sample_nodes_of by (simp add: spec_step_def)
  from only_token_holders_join [OF sample_cl_inv sample_core_ok(3,1) r this] show ?thesis
    using r by (auto simp: sample_node_def)
qed

theorem silent_worker_detected_witness:
  "\<exists>s' n'. cl_run sample_core sample_codec (\<lambda>_. []) [] sample_db
       (map (\<lambda>k. EvMonitor None (secs k)) [0, 10, 20, 30, 40]) s'
     \<and> nodes_of sample_codec s' 7 = Some n' \<and> node_stat n' = NotReady"
proof -
  let ?es = "map (\<lambda>k. EvMonitor None (secs k)) [0, 10, 20, 30, 40]"
  obtain s' where r: "cl_run sample_core sample_codec (\<lambda>_. []) [] sample_db ?es s'" using cl_run_total by blast
  have ticks: "EvMonitor None (0 + int k * monitor_interval) \<in> set ?es" if "0 + int k * monitor_interval \<le> secs 40" for k :: nat
  proof -
    have "k \<in> {0, 1, 2, 3, 4}" using that by (auto simp: monitor_interval_def secs_def)
    then show ?thesis by (auto simp: monitor_interval_def secs_def)
  qed
  have "node_role sample_node \<noteq> Master" "list_all (\<lambda>e. \<not> touches sample_core 7 (node_name sample_node) e) ?es"
    "(0::int) \<le> last_heartbeat sample_node + secs 40" "last_heartbeat sample_node + secs 40 \<le> secs 40"
    by (simp_all add: sample_node_def secs_def)
  from silent_worker_detected [OF sample_cl_inv sample_core_ok(3) r sample_nodes_of this ticks] show ?thesis
    using r by blast
qed

theorem live_worker_stays_ready_witness:
  "\<exists>s' n'. cl_run sample_core sample_codec (\<lambda>_. []) [] sample_db
       [EvMonitor None (secs 20), EvPing None (secs 21) sample_ping, EvMonitor (Some ''io'') (secs 55), EvMonitor None (secs 50)] s'
     \<and> nodes_of sample_codec s' 7 = Some n' \<and> node_stat n' = Ready"
proof -
  let ?es = "[EvMonitor None (secs 20), EvPing None (secs 21) sample_ping, EvMonitor (Some ''io'') (secs 55), EvMonitor None (secs 50)]"
  obtain s' where r: "cl_run sample_core sample_codec (\<lambda>_. []) [] sample_db ?es s'" using cl_run_total by blast
  have real: "real_col sample_codec v \<noteq> None" for v by (simp add: sample_codec_def)
  have "node_stat sample_node = Ready" "pings_in_time sample_core sample_codec 7 (last_heartbeat sample_node) ?es"
    "list_all (\<lambda>e. \<not> (\<exists>flt. e = EvDrain flt (node_name sample_node) \<or> e = EvRemove flt (node_name sample_node))) ?es"
    by (simp_all add: sample_ping_parses real) (simp_all add: sample_node_def secs_def sample_ping_def worker_ping_def)
  from live_worker_stays_ready [OF sample_cl_inv sample_core_ok(3) r sample_nodes_of this] show ?thesis using r by blast
qed

end
