(* ===== verification/Source_Tests.thy ===== *)
theory Source_Tests
  imports Containerd_Engine Dns_Server Proxy_Text
begin

text \<open>
  The unit tests of the sources, evaluated on the models. Each lemma takes the inputs and the expected values of
  the test functions in the \<open>tests\<close> module of the file it names; a definition that drifts from the code
  shows here before any property is looked at.
\<close>

section \<open>\<open>adapters/runtime/containerd.rs\<close>, \<open>adapters/runtime/detect.rs\<close>\<close>

lemma tests_normalize_image_ref:
  "normalize_image_ref ''nginx'' = ''docker.io/library/nginx:latest''"
  "normalize_image_ref ''nginx:1.25'' = ''docker.io/library/nginx:1.25''"
  "normalize_image_ref ''myorg/myimg:v1'' = ''docker.io/myorg/myimg:v1''"
  "normalize_image_ref ''ghcr.io/org/img:v1'' = ''ghcr.io/org/img:v1''"
  "normalize_image_ref ''docker.io/library/nginx:latest'' = ''docker.io/library/nginx:latest''"
  by code_simp+

lemma tests_runtime_kind:
  assumes "lower ''Docker'' = ''docker''" "lower ''CONTAINERD'' = ''containerd''" "lower ''podman'' = ''podman''" "lower [] = []"
  shows "runtime_kind_from_str lower ''Docker'' = Ok Docker" "runtime_kind_from_str lower ''CONTAINERD'' = Ok ContainerdKind"
    "\<exists>e. runtime_kind_from_str lower ''podman'' = Err e" "\<exists>e. runtime_kind_from_str lower [] = Err e"
  using assms by (simp_all add: runtime_kind_from_str_def)

lemma tests_runtime_kind_str:
  "map runtime_kind_str [Docker, ContainerdKind, Auto] = [''docker'', ''containerd'', ''auto'']"
  by (simp add: runtime_kind_str_def)

section \<open>\<open>adapters/network/subnet.rs\<close>, \<open>adapters/runtime/cni.rs\<close>\<close>

lemma tests_overlay_new:
  "map_option (\<lambda>al. (base_first al, base_second al)) (overlay_new ''172.20.0.0/16'') = Some (172, 20)"
  "overlay_new ''invalid'' = None" "overlay_new ''172.20.0.0/24'' = None" "overlay_new ''not.an.ip/16'' = None"
  by code_simp+

lemma tests_overlay_allocate:
  "map_option (overlay_run 3) (overlay_new ''172.20.0.0/16'') =
     Some [Some ''172.20.1.0/24'', Some ''172.20.2.0/24'', Some ''172.20.3.0/24'']"
  "map_option master_gateway (overlay_new ''172.20.0.0/16'') = Some (172, 20, 0, 1)"
  "map_option master_subnet (overlay_new ''172.20.0.0/16'') = Some ''172.20.0.0/24''"
  "map_option (overlay_run 1) (overlay_new ''10.99.0.0/16'') = Some [Some ''10.99.1.0/24'']"
  "map_option master_gateway (overlay_new ''10.99.0.0/16'') = Some (10, 99, 0, 1)"
  by code_simp+

lemma tests_cni_allocate:
  "fst (cni_allocate ''net-a'' cni_alloc_new) = Ok ''172.20.1.0/24''"
  "fst (cni_allocate ''net-b'' (snd (cni_allocate ''net-a'' cni_alloc_new))) = Ok ''172.20.2.0/24''"
  "fst (cni_allocate ''net-a'' (snd (cni_allocate ''net-a'' cni_alloc_new))) = Ok ''172.20.1.0/24''"
  "fst (cni_allocate ''net-a'' (cni_release ''net-a'' (snd (cni_allocate ''net-a'' cni_alloc_new)))) = Ok ''172.20.2.0/24''"
  by code_simp+

lemma tests_check_plugins:
  "check_plugins (cni_new ''/d'') [] = Inl (CniMsg ''CNI plugin not found: /d/cni/bin/bridge'')"
  "check_plugins (cni_new ''/d'') [(''/d/cni/bin/bridge'', ''fake''), (''/d/cni/bin/loopback'', ''fake'')] = Inr ()"
  by code_simp+

lemma tests_cni_networks:
  "(case ensure_network (\<lambda>c. Ok (cni_name c)) no_faults ''test-net'' (cni_new ''/d'') [] of
      (r, m, f) \<Rightarrow> r = Inr () \<and> hm_get f ''/d/cni/conf/test-net.conflist'' = Some ''test-net''
        \<and> ensure_network (\<lambda>c. Ok (cni_name c)) no_faults ''test-net'' m f = (Inr (), m, f)
        \<and> hm_get (snd (snd (remove_network no_faults ''test-net'' m f))) ''/d/cni/conf/test-net.conflist'' = None)"
  "fst (remove_network no_faults ''nonexistent'' (cni_new ''/d'') []) = Inr ()"
  by (simp_all add: ensure_network_def remove_network_def fs_exists_def no_faults_def fs_create_dir_all_def fs_write_def fs_remove_def
      cni_new_def cni_alloc_new_def cni_allocate_def cni_release_def network_config_def conf_path_def path_join_def
      suffix_to_prefix Let_def)

section \<open>\<open>adapters/dns/record_store.rs\<close>\<close>

definition two_apis :: dns_record_store where
  "two_apis = register (register dns_new ''ecommerce'' ''api'' (V4 10 0 0 1)) ''ecommerce'' ''api'' (V4 10 0 0 2)"

lemma tests_record_store:
  "lookup two_apis ''ecommerce'' ''api'' = [V4 10 0 0 1, V4 10 0 0 2]"
  "lookup (register two_apis ''ecommerce'' ''api'' (V4 10 0 0 1)) ''ecommerce'' ''api'' = [V4 10 0 0 1, V4 10 0 0 2]"
  "lookup (deregister two_apis ''ecommerce'' ''api'' (V4 10 0 0 1)) ''ecommerce'' ''api'' = [V4 10 0 0 2]"
  "entries (deregister (register dns_new ''app'' ''web'' (V4 10 0 0 1)) ''app'' ''web'' (V4 10 0 0 1)) = []"
  "deregister dns_new ''app'' ''web'' (V4 10 0 0 1) = dns_new"
  "lookup dns_new ''nonexistent'' ''api'' = []"
  by code_simp+

lemma tests_lookup_replica:
  "lookup_replica two_apis ''ecommerce'' ''api'' 0 = Some (V4 10 0 0 1)"
  "lookup_replica two_apis ''ecommerce'' ''api'' 1 = Some (V4 10 0 0 2)"
  "lookup_replica two_apis ''ecommerce'' ''api'' 5 = None"
  by code_simp+

lemma tests_resolve:
  "resolve two_apis ''api.ecommerce.internal'' = Some [V4 10 0 0 1, V4 10 0 0 2]"
  "resolve two_apis ''api.ecommerce.internal.'' = Some [V4 10 0 0 1, V4 10 0 0 2]"
  "resolve two_apis ''api.ecommerce.com'' = None"
  "resolve two_apis ''google.com'' = None"
  "resolve dns_new ''unknown.myapp.internal'' = None"
  by code_simp+

lemma tests_resolve_dash:
  "resolve two_apis ''api-1.ecommerce.internal'' = Some [V4 10 0 0 2]"
  "resolve (register dns_new ''ecommerce'' ''my-api'' (V4 10 0 0 1)) ''my-api.ecommerce.internal'' = Some [V4 10 0 0 1]"
proof -
  let ?s = "register dns_new ''ecommerce'' ''my-api'' (V4 10 0 0 1)"
  have "resolve_replica two_apis ''ecommerce'' (''api'' @ ''-'' @ show_nat 1) = Some (lookup two_apis ''ecommerce'' ''api'' ! 1)"
    by (rule resolve_replica_named) (simp_all add: tests_record_store(1) usize_max_def)
  moreover have "show_nat 1 = ''1''" by code_simp
  ultimately have "resolve_replica two_apis ''ecommerce'' ''api-1'' = Some (V4 10 0 0 2)"
    by (simp add: tests_record_store(1))
  moreover have "trim_end_matches (CHR ''.'') ''api-1.ecommerce.internal'' = ''api-1.ecommerce.internal''"
    "splitn 3 (CHR ''.'') ''api-1.ecommerce.internal'' = [''api-1'', ''ecommerce'', ''internal'']" by code_simp+
  ultimately show "resolve two_apis ''api-1.ecommerce.internal'' = Some [V4 10 0 0 2]" by (simp add: resolve_def)
  have "trim_end_matches (CHR ''.'') ''my-api.ecommerce.internal'' = ''my-api.ecommerce.internal''"
    "splitn 3 (CHR ''.'') ''my-api.ecommerce.internal'' = [''my-api'', ''ecommerce'', ''internal'']"
    "lookup ?s ''ecommerce'' ''my-api'' = [V4 10 0 0 1]" "rsplit_once (CHR ''-'') ''my-api'' = Some (''my'', ''api'')" by code_simp+
  moreover have "\<not> is_digit (CHR ''a'')" by code_simp
  ultimately show "resolve ?s ''my-api.ecommerce.internal'' = Some [V4 10 0 0 1]"
    by (simp add: resolve_def resolve_host_def resolve_replica_def parse_uint_def Let_def)
qed

section \<open>\<open>adapters/dns/hickory.rs\<close>\<close>

definition test_query :: "string list \<Rightarrow> u8 list" where
  "test_query labels = [0, 1, 1, 0, 0, 1, 0, 0, 0, 0, 0, 0] @ encode_question labels 1 1"

lemma tests_parse_question:
  "parse_question (test_query [''api'', ''ecommerce'', ''internal'']) 12 = Ret (Some (''api.ecommerce.internal'', 1, 40))"
  "(case parse_question (test_query [''www'', ''google'', ''com'']) 12 of
      Ret (Some (name, _)) \<Rightarrow> \<not> is_internal name | _ \<Rightarrow> False)"
  by code_simp+

lemma tests_build_response:
  "(case build_dns_response 66 (test_query [''api'', ''ecommerce'', ''internal'']) ''api.ecommerce.internal'' 40 1
       (Some [V4 10 0 0 1, V4 10 0 0 2]) of
      Panic \<Rightarrow> False | Ret r \<Rightarrow> take 8 r = [0, 66, 0x84, 0x80, 0, 1, 0, 2])"
  "(case build_dns_response 1 (test_query [''xxx'', ''yyy'', ''internal'']) ''xxx.yyy.internal'' 34 1 None of
      Panic \<Rightarrow> False | Ret r \<Rightarrow> take 8 r = [0, 1, 0x84, 0x83, 0, 1, 0, 0])"
  by (simp_all add: build_dns_response_def response_flags_def response_rcode_def slice_range_def test_query_def encode_question_def
      encode_label_def str_bytes_def u16_to_be_def qtype_matches_def answer_record_def Let_def)

section \<open>\<open>adapters/runtime/log_tailer.rs\<close>\<close>

definition still_file :: "nat \<Rightarrow> string list \<Rightarrow> followed_file" where
  "still_file n polls = \<lparr>ff_len = Inr n, ff_open_err = None, ff_seek_err = None, ff_polls = map Inr polls\<rparr>"

lemma tests_log_tail:
  "log_tail no_faults ''test.log'' (Some 100) (still_file 11 []) [(''test.log'', unlines [''alpha'', ''beta''])]
     = Ok [Ok ''alpha'', Ok ''beta'']"
  "log_tail no_faults ''test.log'' (Some 1) (still_file 11 []) [(''test.log'', unlines [''alpha'', ''beta''])] = Ok [Ok ''beta'']"
  "log_tail no_faults ''test.log'' (Some 10) (still_file 8 [unlines [''initial'', ''appended'']])
     [(''test.log'', unlines [''initial''])] = Ok [Ok ''initial'', Ok ''appended'']"
  by code_simp+

lemma tests_log_tail_missing: "\<exists>e. log_tail no_faults ''/tmp/nonexistent_nexad_test.log'' (Some 10) (still_file 0 []) [] = Err e"
  by (simp add: log_tail_def fs_exists_def)

section \<open>\<open>adapters/proxy/nginx.rs\<close>, \<open>adapters/proxy/caddy.rs\<close>\<close>

definition http_route :: route_config where
  "http_route = \<lparr>rc_domain = ''app.example.com'', rc_upstream = [\<lparr>up_address = ''10.0.0.1:8080'', up_weight = 1\<rparr>], rc_tls = NoTls\<rparr>"

definition auto_tls_route :: route_config where
  "auto_tls_route = \<lparr>rc_domain = ''secure.example.com'',
     rc_upstream = [\<lparr>up_address = ''10.0.0.1:8080'', up_weight = 3\<rparr>, \<lparr>up_address = ''10.0.0.2:8080'', up_weight = 1\<rparr>],
     rc_tls = AutoTls ''admin@example.com''\<rparr>"

definition manual_tls_route :: route_config where
  "manual_tls_route = \<lparr>rc_domain = ''custom.example.com'', rc_upstream = [\<lparr>up_address = ''10.0.0.5:443'', up_weight = 1\<rparr>],
     rc_tls = ManualTls ''/etc/certs/cert.pem'' ''/etc/certs/key.pem''\<rparr>"

lemma tests_nginx_render:
  "list_all (contains_str (nginx_render http_route))
     [''upstream app_example_com'', ''listen 80;'', ''server_name app.example.com;'', ''proxy_pass http://app_example_com;'']"
  "\<not> contains_str (nginx_render http_route) ''ssl''" "\<not> contains_str (nginx_render http_route) ''443''"
  by code_simp+

lemma tests_nginx_render_tls:
  "list_all (\<lambda>p. list_ex (\<lambda>l. contains_str l p) (nginx_lines auto_tls_route))
     [''weight=3'', ''return 301 https://'', ''/etc/letsencrypt/live/secure.example.com/fullchain.pem'']"
  "list_all (\<lambda>p. list_ex (\<lambda>l. contains_str l p) (nginx_lines manual_tls_route))
     [''return 301 https://'', ''ssl_certificate /etc/certs/cert.pem;'']"
  by code_simp+

lemma tests_nginx_files:
  "nginx_conf_path \<lparr>ng_conf_dir = ''/etc/nginx/conf.d'', ng_bin = ''nginx''\<rparr> ''api.example.com'' =
     ''/etc/nginx/conf.d/nexa-api.example.com.conf''"
  by code_simp

lemma tests_caddy_render:
  "(case render_caddyfile [auto_tls_route] of Panic \<Rightarrow> False
      | Ret s \<Rightarrow> list_all (contains_str s) [''secure.example.com {'', ''tls admin@example.com'',
          ''reverse_proxy 10.0.0.1:8080 10.0.0.2:8080 {'', ''lb_policy weighted_round_robin'', ''health_uri /health'', ''health_interval 10s'']
        \<and> \<not> contains_str s ''http://secure.example.com'')"
  "(case render_caddyfile [http_route] of Panic \<Rightarrow> False
      | Ret s \<Rightarrow> list_all (contains_str s) [''http://app.example.com {'', ''reverse_proxy 10.0.0.1:8080''] \<and> \<not> contains_str s ''tls '')"
  "(case render_caddyfile [manual_tls_route] of Panic \<Rightarrow> False
      | Ret s \<Rightarrow> list_all (contains_str s) [''custom.example.com {'', ''tls /etc/certs/cert.pem /etc/certs/key.pem'', ''reverse_proxy 10.0.0.5:443''])"
  by code_simp+

lemma tests_caddy_remove:
  "(case render_caddyfile [auto_tls_route, http_route] of Panic \<Rightarrow> False
      | Ret s \<Rightarrow> render_caddyfile [http_route] = Ret (tl (caddy_remove_text ''secure.example.com'' s)))"
  by code_simp

end
