(* ===== verification/Spec2Isabelle.thy ===== *)
theory Spec2Isabelle
  imports Rest_Server Daemon Health_Checker Cluster_System Source_Tests
begin

text \<open>
  Verification of nexad, the NexaNet daemon: a container orchestrator node that serves a REST API,
  keeps its state in SQLite, runs pods on Docker or containerd, answers DNS queries for them,
  configures a reverse proxy and forms a cluster of a master and workers over gRPC. The scheduling
  core (\<open>nexa-core\<close>) is another repository; the models below cover the daemon's own code under
  \<open>src/src\<close>.

  \<^bold>\<open>Parts and theories.\<close>

  \<^item> \<open>Nexa_Prelude\<close>, \<open>Rust_Str\<close>, \<open>File_System\<close>: what the sources use of the language and its
    standard library. Machine integers are words, \<open>Result\<close> is a sum with \<open>Err\<close> on the left,
    panics are the value \<open>Panic\<close> of \<open>outcome\<close>, a \<open>HashMap\<close> is an association list with the
    \<open>hm_\<close> operations, strings are lists of bytes, files a map from paths to contents with a
    fault argument per call.
  \<^item> \<open>Domain\<close>, \<open>Runtime_Port\<close>: the data of \<open>nexa-core\<close> by the fields the sources use, the
    ports as records of functions (\<open>state_store\<close>, \<open>runtime\<close>), the record \<open>core\<close> of other
    crates' functions (hash, hex, JSON, UUID) and the pod-to-container translation that
    \<open>cluster/server.rs\<close> and \<open>adapters/transport/local.rs\<close> share.
  \<^item> \<open>Dns_Records\<close> (\<open>adapters/dns/record_store.rs\<close>), \<open>Dns_Server\<close> (\<open>adapters/dns/hickory.rs\<close>,
    \<open>noop.rs\<close>): the record store, the wire format, query handling over UDP and TCP.
  \<^item> \<open>Sqlite_Store\<close> (\<open>adapters/state/sqlite.rs\<close> with the migrations): five tables with their keys,
    foreign keys and cascades, every query of the port, row decoding, engine faults.
  \<^item> \<open>Cluster_Token\<close>, \<open>Cluster_Server\<close> (\<open>cluster/token.rs\<close>, \<open>server.rs\<close>, \<open>heartbeat.rs\<close>,
    \<open>worker.rs\<close>): join tokens, the RPC handlers, the heartbeat stream and monitor, the worker's
    registration. \<open>Cluster_System\<close> composes them with the node handlers of the REST API.
  \<^item> \<open>Transport\<close> (\<open>adapters/transport/local.rs\<close>, \<open>grpc.rs\<close>), \<open>Docker_Runtime\<close>, \<open>Containerd\<close>,
    \<open>Subnets\<close> (\<open>adapters/runtime\<close>, \<open>adapters/network\<close>): node transports, both runtimes, log
    tailer, runtime detection, CNI and overlay subnets, WireGuard. \<open>Containerd_Engine\<close> puts the containerd
    operations behind the runtime port.
  \<^item> \<open>Route_Store\<close> (\<open>adapters/state/memory_route_store.rs\<close>, \<open>adapters/tls\<close>), \<open>Secrets\<close>
    (\<open>adapters/secrets/encrypted.rs\<close>, \<open>crypto/master_key.rs\<close>), \<open>Proxy_Text\<close> and \<open>Proxy_Config\<close>
    (\<open>adapters/proxy\<close>): routes and certificates, encrypted secrets, the four proxy backends.
  \<^item> \<open>Metrics\<close>, \<open>Event_Watcher\<close>, \<open>Health_Checker\<close> (\<open>adapters/metrics/prometheus.rs\<close>,
    \<open>adapters/event_watcher.rs\<close>, \<open>adapters/health/mod.rs\<close>): the background observers.
  \<^item> \<open>Rest_Api\<close>, \<open>Rest_Routes\<close>, \<open>Rest_Server\<close> (\<open>api/handlers.rs\<close>, \<open>routes.rs\<close>, \<open>mod.rs\<close>): every
    handler, the route table, one request through dispatch and middleware.
  \<^item> \<open>Daemon\<close> (\<open>main.rs\<close>): command line, choice of adapters, start of the three modes.
  \<^item> \<open>Source_Tests\<close>: the unit tests of the sources evaluated on the models.
  \<^item> This theory holds what spans several of them.

  \<^bold>\<open>How code becomes a definition.\<close> An operation is a function that takes the state and returns
  the result with the new state, one definition per function of the source and with its name where
  HOL allows it (\<open>dk_\<close>, \<open>ct_\<close>, \<open>api_\<close> and the like distinguish implementations of one name). An
  early return or \<open>?\<close> is a branch. A trait object is a record of functions. An \<open>await\<close> that
  depends on the outside (an engine, a socket, a clock, random bytes, a stream) is an argument: the
  value it yields, or the function that gives it. Endless loops are functions of the list of
  their rounds. Time is an integer number of nanoseconds.

  \<^bold>\<open>Interfaces.\<close> Each locale states what its clients rely on and is interpreted on the models:
  \<open>dns_port\<close> and \<open>dns_provider\<close> on the no-op and the embedded provider (\<open>noop\<close>, \<open>hickory\<close>),
  \<open>state_store_contract\<close> and its extension \<open>reliable_store\<close> on the SQLite store with and without
  faults (\<open>sq\<close>, \<open>sqr\<close>), \<open>secret_contract\<close> on the encrypted store (\<open>enc\<close>), \<open>cert_store\<close> on the
  in-memory store (\<open>mem\<close>), \<open>proxy_backend\<close> on nginx, nexa-proxy and Traefik (\<open>nginx\<close>, \<open>nexap\<close>,
  \<open>traefik\<close>), \<open>container_engine\<close> on the Docker and the containerd runtime (\<open>dk\<close>, \<open>ctd\<close>). The lemmas about registration,
  heartbeats, monitoring and pod assignment are proved once in these locales.

  \<^bold>\<open>Code of other repositories\<close> is a parameter with its documented behaviour as a named
  hypothesis: \<open>hex_ok\<close>, \<open>json_ok\<close>, \<open>uuid_text_ok\<close>, \<open>new_node_ok\<close> (functions of \<open>core\<close>), \<open>codec_ok\<close>
  and \<open>real_ok\<close> (text forms and \<open>REAL\<close> columns of the database), \<open>aead_ok\<close> (authenticated
  encryption), \<open>format_ok\<close> (JSON and YAML), \<open>engine_ok\<close> (Docker), \<open>ctr_documented\<close> (the \<open>ctr\<close> program), \<open>router_ok\<close> (axum), \<open>clock_ok\<close> and
  \<open>time_ok\<close> (clocks). Every one holds for a concrete instance in the witnesses.

  \<^bold>\<open>What is shown.\<close>

  \<^item> Cluster: the nodes table under any interleaving of registrations, heartbeats, drains, removals,
    rotations and monitor passes, with faults, refines a map from ids to nodes; only holders of the token
    join; a silent worker is \<open>NotReady\<close> at most 40 s after its last heartbeat; a worker whose pings
    arrive in time stays \<open>Ready\<close>; registration, monitor pass and drain-then-remove in detail.
  \<^item> Pods: the remote path of an assignment does what the local one does; on a documented Docker
    engine an assigned pod runs with the translated configuration and nothing else changes, and so does a pod
    assigned over gRPC to a containerd worker; its exit reaches the orchestrator under Docker; stopping a
    containerd container ends, with an error when a running one has a name that contains its own.
  \<^item> State: the database stays well formed under every history, failed writes change nothing,
    deleting a project deletes its deployments and pods, written rows are read back; the secret
    store refines a map; the master key and the join token survive a restart.
  \<^item> DNS: no traffic stops the server, questions and answers decode to what was
    encoded, names resolve only to registered addresses.
  \<^item> Proxy, routes, subnets: rendered configurations contain exactly the routes, removing a block of
    a Caddyfile by counting braces equals rendering without it, allocated subnets are distinct.
  \<^item> API: responses are well typed, an error leaves the store unchanged, every route reaches its
    handler, every metric update is accepted by the metrics library, health reports arrive in order when
    rounds are further apart than the time-outs.
  \<^item> Divergences found on the way are stated as theorems next to these (a restarted worker that is
    refused, a drain the monitor undoes, exits lost under containerd, a registry port taken for a
    tag, a master whose pods never leave it, and others).

  \<^bold>\<open>Bounds and fuel.\<close> Functions are total except for the wait of \<open>stop_container\<close> under
  containerd, which polls every half second until a deadline: with fuel \<open>2 * timeout + 1\<close> it
  returns. \<open>strip_rounds\<close> strips a string as often as it has characters. Recursions over
  byte offsets carry termination proofs. Counters and lengths keep their widths: the 8-bit overlay
  counter, the 16-bit TCP frame, 32-bit replica counts, 64-bit gauges.

  \<^bold>\<open>Not modelled.\<close> The orchestrator and scheduler of \<open>nexa-core\<close>; sockets, TLS, gRPC and HTTP
  framing (tokio, tonic, axum, reqwest); SQL text and the migration runner; the text encoding of the
  metrics; the cryptography of WireGuard, AES-GCM and SHA-256; logging. In the runs of
  \<open>Cluster_System\<close> an operation is one step; what a heartbeat between the listing and the writes of one
  monitor pass does is stated separately there (\<open>loop_writes_back\<close>, \<open>monitor_overwrites_ping\<close>).
\<close>

section \<open>From the container engine to the orchestrator\<close>

text \<open>
  What Docker documents for the exit of a pod's container: a \<open>die\<close> event whose actor carries the
  labels of the container and its exit code as attributes.
\<close>

definition exit_message :: "core \<Rightarrow> pod \<Rightarrow> deployment_spec \<Rightarrow> int \<Rightarrow> event_message \<Rightarrow> bool" where
  "exit_message co pod spec code ev \<longleftrightarrow>
     (\<exists>attrs. em_action ev = Some ''die'' \<and> em_actor ev = Some (Some attrs)
        \<and> hm_get attrs ''exitCode'' = Some (show_int code)
        \<and> (\<forall>labels k v. dc_labels (docker_config_of (pod_config co pod spec)) = Some labels \<and> hm_get labels k = Some v
              \<longrightarrow> hm_get attrs k = Some v))"

lemma exit_message_event:
  assumes "exit_message co pod spec code ev" "- (2 ^ 63) \<le> code" "code < 2 ^ 63"
  shows "event_of_message ev = Some (ContainerDied (uuid_text co (pod_id pod)) code)"
proof -
  obtain attrs where a: "em_action ev = Some ''die''" "em_actor ev = Some (Some attrs)"
    "hm_get attrs ''exitCode'' = Some (show_int code)"
    "\<And>k v. hm_get (pod_labels co pod spec) k = Some v \<Longrightarrow> hm_get attrs k = Some v"
    using assms(1) by (auto simp: exit_message_def docker_labels_kept)
  have "hm_get attrs ''nexa.pod-id'' = Some (uuid_text co (pod_id pod))" by (rule a(4)) (simp add: pod_labels_def)
  then show ?thesis using a(1-3) assms(2,3) by (simp add: event_of_message_def actor_attribute_def Let_def)
qed

text \<open>C4: the exit of a pod reaches the orchestrator. Under Docker, when the engine reports the exits of
  containers that were created for pods, the watcher sends for each of them, in order, the
  command with the id of the pod and the exit code, as long as the channel has room: the label
  that the transport wrote at creation is the id the watcher reads.\<close>

theorem docker_exits_reach_orchestrator:
  assumes "uuid_text_ok co"
    "list_all (\<lambda>(pod, spec, code, ev). exit_message co pod spec code ev \<and> - (2 ^ 63) \<le> code \<and> code < 2 ^ 63) xs"
    "bo_events bo event_filters w = map (\<lambda>(pod, spec, code, ev). Ok ev) xs" "length xs \<le> we_room we"
  shows "we_commands (handle_event_stream co (map (Pair now) (dk_events bo w)) we) =
    we_commands we @ map (\<lambda>(pod, spec, code, ev). ContainerExited (pod_id pod) code) xs"
proof -
  have ev: "dk_events bo w = map (\<lambda>(pod, spec, code, ev). ContainerDied (uuid_text co (pod_id pod)) code) xs"
    using assms(2) unfolding dk_events_def assms(3)
    by (induction xs) (auto simp: exit_message_event)
  have "List.map_filter (event_command co \<circ> snd) (map (Pair now) (dk_events bo w)) =
      map (\<lambda>(pod, spec, code, ev). ContainerExited (pod_id pod) code) xs"
    using assms(1) unfolding ev by (induction xs) (auto simp: event_command_def extract_pod_id_def uuid_text_ok_def)
  moreover have "length (map (Pair now) (dk_events bo w)) \<le> we_room we" using assms(4) by (simp add: ev)
  then obtain k where "handle_event_stream co (map (Pair now) (dk_events bo w)) we = watched co (map (Pair now) (dk_events bo w)) k we"
    using handle_event_stream_watched by blast
  ultimately show ?thesis by (simp add: watched_def)
qed

text \<open>With containerd no exit reaches the orchestrator: its events carry the container's name, and a
  name that is not a UUID yields no command.\<close>

theorem containerd_exit_lost:
  assumes "extract_container_id line = Some name" "parse_uuid co name = Err e"
  shows "List.map_filter (event_command co) (ct_events [Ok line]) = []"
  using assms
  by (auto simp: ct_events_def event_of_line_def event_command_def extract_pod_id_def List.map_filter_simps Let_def)

section \<open>Witnesses\<close>

definition sample_exit :: event_message where
  "sample_exit = \<lparr>em_action = Some ''die'',
     em_actor = Some (Some (hm_insert ''exitCode'' (show_int 1) (pod_labels sample_core sample_pod sample_spec)))\<rparr>"

lemma sample_exit_message: "exit_message sample_core sample_pod sample_spec 1 sample_exit"
  by (simp add: exit_message_def sample_exit_def docker_labels_kept) (simp add: pod_labels_def)

theorem docker_exits_reach_orchestrator_witness:
  "we_commands (handle_event_stream sample_core
       (map (Pair 0) (dk_events (sample_docker\<lparr>bo_events := \<lambda>_ _. [Ok sample_exit]\<rparr>) []))
       \<lparr>we_metrics = None, we_events = None, we_commands = [], we_room = 1\<rparr>) = [ContainerExited 11 1]"
  using docker_exits_reach_orchestrator [OF sample_core_ok(4), of "[(sample_pod, sample_spec, 1, sample_exit)]"
      "sample_docker\<lparr>bo_events := \<lambda>_ _. [Ok sample_exit]\<rparr>" "[]"
      "\<lparr>we_metrics = None, we_events = None, we_commands = [], we_room = 1\<rparr>" 0] sample_exit_message
  by (simp add: sample_pod_def)

end
